(* ===== verification/Prelude.thy ===== *)
theory Prelude
  imports Main "HOL-Library.Word" "HOL-Library.Sublist"
begin

text \<open>
  Shared vocabulary of the development.

  The backend is Python code that reads and writes a state (the control-plane database, the
  tenant cluster, object storage) and leaves a function either with a value or with an
  exception; what was written before the exception stays written unless a transaction rolls it
  back. A piece of code is therefore a function from a state to an outcome and the next state,
  the outcome being \<open>Inl\<close> of an exception or \<open>Inr\<close> of a value. The combinators below are the
  statements of that language: sequencing, raising, \<open>try\<close>/\<open>except\<close>, \<open>try\<close>/\<open>finally\<close>, the
  \<open>for\<close> loop. \<open>wp\<close> is the weakest precondition of such a program for a postcondition on
  normal return and one on exceptions, and \<open>keeps\<close> says that a program preserves a predicate
  on every outcome; both have one rule per combinator, collected in \<open>wp\<close> and \<open>keeps\<close>.
\<close>

named_theorems wp "weakest preconditions of the combinators and of the operations"
named_theorems keeps "preservation rules of the combinators and of the operations"

section \<open>Programs over a state with exceptions\<close>

type_synonym ('s, 'e, 'a) prog = "'s \<Rightarrow> ('e + 'a) \<times> 's"

definition ret :: "'a \<Rightarrow> ('s, 'e, 'a) prog" where
  "ret x = (\<lambda>s. (Inr x, s))"

definition raise :: "'e \<Rightarrow> ('s, 'e, 'a) prog" where
  "raise e = (\<lambda>s. (Inl e, s))"

definition bind :: "('s, 'e, 'a) prog \<Rightarrow> ('a \<Rightarrow> ('s, 'e, 'b) prog) \<Rightarrow> ('s, 'e, 'b) prog" where
  "bind m f = (\<lambda>s. case m s of (Inl e, s') \<Rightarrow> (Inl e, s') | (Inr x, s') \<Rightarrow> f x s')"

definition gets :: "('s \<Rightarrow> 'a) \<Rightarrow> ('s, 'e, 'a) prog" where
  "gets f = (\<lambda>s. (Inr (f s), s))"

definition modify :: "('s \<Rightarrow> 's) \<Rightarrow> ('s, 'e, unit) prog" where
  "modify f = (\<lambda>s. (Inr (), f s))"

text \<open>\<open>if not b: raise e\<close>.\<close>

definition ensure :: "bool \<Rightarrow> 'e \<Rightarrow> ('s, 'e, unit) prog" where
  "ensure b e = (if b then ret () else raise e)"

text \<open>
  \<open>try: m except ...: ...\<close>. The handler receives every exception; one that does not match
  re-raises it.
\<close>

definition catch :: "('s, 'e, 'a) prog \<Rightarrow> ('e \<Rightarrow> ('s, 'e, 'a) prog) \<Rightarrow> ('s, 'e, 'a) prog" where
  "catch m h = (\<lambda>s. case m s of (Inl e, s') \<Rightarrow> h e s' | (Inr x, s') \<Rightarrow> (Inr x, s'))"

text \<open>\<open>try: m except: ... else: ...\<close>: the outcome as a value.\<close>

definition attempt :: "('s, 'e, 'a) prog \<Rightarrow> ('s, 'e, 'e + 'a) prog" where
  "attempt m = (\<lambda>s. case m s of (r, s') \<Rightarrow> (Inr r, s'))"

text \<open>A call of pure code that may raise.\<close>

definition lift :: "'e + 'a \<Rightarrow> ('s, 'e, 'a) prog" where
  "lift r = (\<lambda>s. (r, s))"

text \<open>\<open>for x in xs: f(x)\<close>, and the list comprehension \<open>[f(x) for x in xs]\<close>.\<close>

fun for_each :: "('a \<Rightarrow> ('s, 'e, unit) prog) \<Rightarrow> 'a list \<Rightarrow> ('s, 'e, unit) prog" where
  "for_each f [] = ret ()"
| "for_each f (x # xs) = bind (f x) (\<lambda>_. for_each f xs)"

fun for_map :: "('a \<Rightarrow> ('s, 'e, 'b) prog) \<Rightarrow> 'a list \<Rightarrow> ('s, 'e, 'b list) prog" where
  "for_map f [] = ret []"
| "for_map f (x # xs) = bind (f x) (\<lambda>y. bind (for_map f xs) (\<lambda>ys. ret (y # ys)))"

text \<open>A loop that carries what it builds up, and one that also appends what it makes of each item.\<close>

fun fold_each :: "('a \<Rightarrow> 'x \<Rightarrow> ('s, 'e, 'a) prog) \<Rightarrow> 'a \<Rightarrow> 'x list \<Rightarrow> ('s, 'e, 'a) prog" where
  "fold_each f a [] = ret a"
| "fold_each f a (x # xs) = bind (f a x) (\<lambda>b. fold_each f b xs)"

fun collect :: "('a \<Rightarrow> 'x \<Rightarrow> ('s, 'e, 'a \<times> 'y) prog) \<Rightarrow> 'a \<Rightarrow> 'x list \<Rightarrow> ('s, 'e, 'a \<times> 'y list) prog" where
  "collect f a [] = ret (a, [])"
| "collect f a (x # xs) = bind (f a x) (\<lambda>(b, y). bind (collect f b xs) (\<lambda>(c, ys). ret (c, y # ys)))"

lemma for_each_append:
  "for_each f (xs @ ys) = bind (for_each f xs) (\<lambda>_. for_each f ys)"
  by (induction xs)
    (auto simp: bind_def ret_def fun_eq_iff split: prod.splits sum.splits)

lemma for_each_map: "for_each f (map g xs) = for_each (\<lambda>x. f (g x)) xs"
  by (induction xs) simp_all

text \<open>Two nested loops are one loop over the pairs.\<close>

lemma for_each_product:
  "for_each (\<lambda>x. for_each (f x) ys) xs = for_each (\<lambda>(x, y). f x y) (List.product xs ys)"
  by (induction xs) (simp_all add: for_each_append for_each_map)

lemmas prog_defs = ret_def raise_def bind_def gets_def modify_def ensure_def catch_def
  attempt_def lift_def

subsection \<open>Running the combinators\<close>

lemma ret_run [simp]: "ret x s = (Inr x, s)"
  by (simp add: ret_def)

lemma raise_run [simp]: "raise e s = (Inl e, s)"
  by (simp add: raise_def)

lemma gets_run [simp]: "gets f s = (Inr (f s), s)"
  by (simp add: gets_def)

lemma modify_run [simp]: "modify f s = (Inr (), f s)"
  by (simp add: modify_def)

lemma lift_run [simp]: "lift r s = (r, s)"
  by (simp add: lift_def)

lemma ensure_run [simp]: "ensure b e s = (if b then Inr () else Inl e, s)"
  by (simp add: ensure_def)

lemma bind_run_Inr [simp]: "m s = (Inr x, s') \<Longrightarrow> bind m f s = f x s'"
  by (simp add: bind_def)

lemma bind_run_Inl [simp]: "m s = (Inl e, s') \<Longrightarrow> bind m f s = (Inl e, s')"
  by (simp add: bind_def)

lemma catch_run_Inr [simp]: "m s = (Inr x, s') \<Longrightarrow> catch m h s = (Inr x, s')"
  by (simp add: catch_def)

lemma catch_run_Inl [simp]: "m s = (Inl e, s') \<Longrightarrow> catch m h s = h e s'"
  by (simp add: catch_def)

lemma attempt_run [simp]: "m s = (r, s') \<Longrightarrow> attempt m s = (Inr r, s')"
  by (simp add: attempt_def)

lemma bind_ret_left [simp]: "bind (ret x) f = f x"
  by (simp add: bind_def ret_def fun_eq_iff)

lemma bind_raise_left [simp]: "bind (raise e) f = raise e"
  by (simp add: bind_def raise_def fun_eq_iff)

lemma bind_if_left: "bind (if b then m else n) f = (if b then bind m f else bind n f)"
  by simp

lemma bind_assoc: "bind (bind m f) g = bind m (\<lambda>x. bind (f x) g)"
  by (auto simp: bind_def fun_eq_iff split: prod.splits sum.splits)

lemma bind_eq_Inr:
  "bind m f s = (Inr y, t) \<longleftrightarrow> (\<exists>x s'. m s = (Inr x, s') \<and> f x s' = (Inr y, t))"
  by (auto simp: bind_def split: prod.splits sum.splits)

lemma bind_eq_Inl:
  "bind m f s = (Inl e, t) \<longleftrightarrow>
     m s = (Inl e, t) \<or> (\<exists>x s'. m s = (Inr x, s') \<and> f x s' = (Inl e, t))"
  by (auto simp: bind_def split: prod.splits sum.splits)

section \<open>Weakest preconditions\<close>

definition wp ::
  "('s, 'e, 'a) prog \<Rightarrow> ('a \<Rightarrow> 's \<Rightarrow> bool) \<Rightarrow> ('e \<Rightarrow> 's \<Rightarrow> bool) \<Rightarrow> 's \<Rightarrow> bool" where
  "wp m Q E s = (case m s of (Inl e, s') \<Rightarrow> E e s' | (Inr x, s') \<Rightarrow> Q x s')"

lemma wp_ret [wp, simp]: "wp (ret x) Q E s = Q x s"
  by (simp add: wp_def)

lemma wp_raise [wp, simp]: "wp (raise e) Q E s = E e s"
  by (simp add: wp_def)

lemma wp_bind [wp, simp]: "wp (bind m f) Q E s = wp m (\<lambda>x. wp (f x) Q E) E s"
  by (simp add: wp_def bind_def split: prod.splits sum.splits)

lemma wp_gets [wp, simp]: "wp (gets f) Q E s = Q (f s) s"
  by (simp add: wp_def)

lemma wp_modify [wp, simp]: "wp (modify f) Q E s = Q () (f s)"
  by (simp add: wp_def)

lemma wp_ensure [wp, simp]: "wp (ensure b e) Q E s = (if b then Q () s else E e s)"
  by (simp add: ensure_def)

lemma wp_lift [wp, simp]:
  "wp (lift r) Q E s = (case r of Inl e \<Rightarrow> E e s | Inr x \<Rightarrow> Q x s)"
  by (simp add: wp_def split: sum.splits)

lemma wp_catch [wp, simp]: "wp (catch m h) Q E s = wp m Q (\<lambda>e. wp (h e) Q E) s"
  by (simp add: wp_def catch_def split: prod.splits sum.splits)

lemma wp_attempt [wp, simp]:
  "wp (attempt m) Q E s = wp m (\<lambda>x. Q (Inr x)) (\<lambda>e. Q (Inl e)) s"
  by (simp add: wp_def attempt_def split: prod.splits sum.splits)

lemma wp_if [wp, simp]: "wp (if b then m else n) Q E s = (if b then wp m Q E s else wp n Q E s)"
  by simp

lemma wp_mono:
  assumes "wp m Q E s" and "\<And>x t. Q x t \<Longrightarrow> Q' x t" and "\<And>e t. E e t \<Longrightarrow> E' e t"
  shows "wp m Q' E' s"
  using assms by (auto simp: wp_def split: prod.splits sum.splits)

lemma wp_Inr: "wp m Q E s \<Longrightarrow> m s = (Inr x, t) \<Longrightarrow> Q x t"
  by (simp add: wp_def)

lemma wp_Inl: "wp m Q E s \<Longrightarrow> m s = (Inl e, t) \<Longrightarrow> E e t"
  by (simp add: wp_def)

lemma wpI:
  assumes "\<And>x t. m s = (Inr x, t) \<Longrightarrow> Q x t" and "\<And>e t. m s = (Inl e, t) \<Longrightarrow> E e t"
  shows "wp m Q E s"
  using assms by (auto simp: wp_def split: prod.splits sum.splits)

section \<open>Preserved predicates\<close>

definition preserves :: "('s \<Rightarrow> bool) \<Rightarrow> ('s, 'e, 'a) prog \<Rightarrow> bool" where
  "preserves I m \<longleftrightarrow> (\<forall>s. I s \<longrightarrow> I (snd (m s)))"

lemma preservesI: "(\<And>s. I s \<Longrightarrow> I (snd (m s))) \<Longrightarrow> preserves I m"
  by (simp add: preserves_def)

lemma preservesD: "preserves I m \<Longrightarrow> I s \<Longrightarrow> m s = (r, t) \<Longrightarrow> I t"
  by (auto simp: preserves_def dest: spec [of _ s])

lemma preserves_ret [keeps]: "preserves I (ret x)"
  and preserves_raise [keeps]: "preserves I (raise e)"
  and preserves_gets [keeps]: "preserves I (gets f)"
  and preserves_lift [keeps]: "preserves I (lift r)"
  and preserves_ensure [keeps]: "preserves I (ensure b e)"
  by (simp_all add: preserves_def)

lemma preserves_bind [keeps]:
  "preserves I m \<Longrightarrow> (\<And>x. preserves I (f x)) \<Longrightarrow> preserves I (bind m f)"
  by (force simp: preserves_def bind_def split: prod.splits sum.splits)

lemma preserves_catch [keeps]:
  "preserves I m \<Longrightarrow> (\<And>e. preserves I (h e)) \<Longrightarrow> preserves I (catch m h)"
  by (force simp: preserves_def catch_def split: prod.splits sum.splits)

lemma preserves_attempt [keeps]: "preserves I m \<Longrightarrow> preserves I (attempt m)"
  by (force simp: preserves_def attempt_def split: prod.splits)

lemma preserves_modify: "(\<And>s. I s \<Longrightarrow> I (f s)) \<Longrightarrow> preserves I (modify f)"
  by (simp add: preserves_def)

lemma preserves_if [keeps]:
  "(b \<Longrightarrow> preserves I m) \<Longrightarrow> (\<not> b \<Longrightarrow> preserves I n) \<Longrightarrow> preserves I (if b then m else n)"
  by simp

lemma preserves_case_option [keeps]:
  "preserves I n \<Longrightarrow> (\<And>x. preserves I (m x)) \<Longrightarrow>
     preserves I (case opt of None \<Rightarrow> n | Some x \<Rightarrow> m x)"
  by (cases opt) simp_all

lemma preserves_case_sum [keeps]:
  "(\<And>e. preserves I (n e)) \<Longrightarrow> (\<And>x. preserves I (m x)) \<Longrightarrow>
     preserves I (case r of Inl e \<Rightarrow> n e | Inr x \<Rightarrow> m x)"
  by (cases r) simp_all

lemma preserves_case_prod [keeps]:
  "(\<And>x y. preserves I (m x y)) \<Longrightarrow> preserves I (case p of (x, y) \<Rightarrow> m x y)"
  by (cases p) simp

lemma preserves_for_each [keeps]:
  "(\<And>x. x \<in> set xs \<Longrightarrow> preserves I (f x)) \<Longrightarrow> preserves I (for_each f xs)"
  by (induction xs) (auto intro: keeps)

lemma preserves_for_map [keeps]:
  "(\<And>x. x \<in> set xs \<Longrightarrow> preserves I (f x)) \<Longrightarrow> preserves I (for_map f xs)"
  by (induction xs) (auto intro!: keeps)

lemma preserves_fold: "(\<And>s x. preserves I (f s x)) \<Longrightarrow> preserves I (fold_each f s xs)"
  by (induction xs arbitrary: s) (auto intro: keeps)

section \<open>Results\<close>

text \<open>Programs that keep \<open>I\<close> and whose result satisfies \<open>P\<close>.\<close>

definition gives :: "('s \<Rightarrow> bool) \<Rightarrow> ('a \<Rightarrow> bool) \<Rightarrow> ('s, 'e, 'a) prog \<Rightarrow> bool" where
  "gives I P m \<longleftrightarrow> (\<forall>s. I s \<longrightarrow> I (snd (m s)) \<and> (case fst (m s) of Inr x \<Rightarrow> P x | Inl e \<Rightarrow> True))"

named_theorems giving "rules for gives"

lemma gives_bind: "gives I P m \<Longrightarrow> (\<And>x. P x \<Longrightarrow> gives I Q (f x)) \<Longrightarrow> gives I Q (bind m f)"
  by (auto simp: gives_def bind_def split: prod.splits sum.splits) (metis fst_conv snd_conv sum.case(2))+

lemma gives_ret [giving]: "P x \<Longrightarrow> gives I P (ret x)"
  by (simp add: gives_def)

lemma gives_raise [giving]: "gives I P (raise e)"
  by (simp add: gives_def)

lemma gives_lift [giving]: "(\<And>x. r = Inr x \<Longrightarrow> P x) \<Longrightarrow> gives I P (lift r)"
  by (cases r) (simp_all add: gives_def)

lemma gives_if [giving]: "(b \<Longrightarrow> gives I P m) \<Longrightarrow> (\<not> b \<Longrightarrow> gives I P n) \<Longrightarrow> gives I P (if b then m else n)"
  by simp

lemma gives_case_prod [giving]: "(\<And>a b. p = (a, b) \<Longrightarrow> gives I P (f a b)) \<Longrightarrow> gives I P (case p of (a, b) \<Rightarrow> f a b)"
  by (cases p) simp

lemma gives_case_option [giving]:
  "(x = None \<Longrightarrow> gives I P n) \<Longrightarrow> (\<And>y. x = Some y \<Longrightarrow> gives I P (m y)) \<Longrightarrow>
     gives I P (case x of None \<Rightarrow> n | Some y \<Rightarrow> m y)"
  by (cases x) simp_all

lemma gives_case_sum [giving]:
  "(\<And>e. r = Inl e \<Longrightarrow> gives I P (n e)) \<Longrightarrow> (\<And>x. r = Inr x \<Longrightarrow> gives I P (m x)) \<Longrightarrow>
     gives I P (case r of Inl e \<Rightarrow> n e | Inr x \<Rightarrow> m x)"
  by (cases r) simp_all

lemma gives_fold: "(\<And>s x. P s \<Longrightarrow> gives I P (f s x)) \<Longrightarrow> P s \<Longrightarrow> gives I P (fold_each f s xs)"
  by (induction xs arbitrary: s) (auto intro: gives_ret gives_bind)

lemma gives_each: "(\<And>x. gives I (\<lambda>_. True) (f x)) \<Longrightarrow> gives I (\<lambda>_. True) (for_each f xs)"
  by (induction xs) (auto intro: gives_ret gives_bind)

lemma gives_case_list [giving]:
  "(xs = [] \<Longrightarrow> gives I P n) \<Longrightarrow> (\<And>y ys. xs = y # ys \<Longrightarrow> gives I P (m y ys)) \<Longrightarrow>
     gives I P (case xs of [] \<Rightarrow> n | y # ys \<Rightarrow> m y ys)"
  by (cases xs) simp_all

lemma gives_attempt: "gives I P m \<Longrightarrow> gives I (\<lambda>r. case r of Inr x \<Rightarrow> P x | Inl e \<Rightarrow> True) (attempt m)"
  by (auto simp: gives_def attempt_def split: prod.splits sum.splits)

lemma gives_keeps: "preserves I m \<Longrightarrow> gives I (\<lambda>_. True) m"
  by (simp add: gives_def preserves_def split: sum.split)

lemma gives_result:
  "preserves I m \<Longrightarrow> (\<And>s x t. I s \<Longrightarrow> m s = (Inr x, t) \<Longrightarrow> P x) \<Longrightarrow> gives I P m"
  by (auto simp: gives_def preserves_def split: sum.split) (metis prod.collapse)

lemma gives_weaken: "gives I P m \<Longrightarrow> (\<And>x. P x \<Longrightarrow> Q x) \<Longrightarrow> gives I Q m"
  by (auto simp: gives_def split: sum.splits)

lemma gives_collect:
  "(\<And>s x. P s \<Longrightarrow> gives I (\<lambda>(t, y). P t) (f s x)) \<Longrightarrow> P s \<Longrightarrow> gives I (\<lambda>(t, ys). P t) (collect f s xs)"
proof (induction xs arbitrary: s)
  case (Cons x xs)
  show ?case
    unfolding collect.simps
    by (rule gives_bind [OF Cons.prems(1) [OF Cons.prems(2)]], clarsimp,
        rule gives_bind [OF Cons.IH [OF Cons.prems(1)]], assumption+) (auto intro: gives_ret)
qed (simp add: gives_ret)

lemma gives_True: "gives I (\<lambda>_. True) m \<Longrightarrow> preserves I m"
  by (simp add: gives_def preserves_def)

lemma gives_bind_anything: "preserves I m \<Longrightarrow> (\<And>x. gives I P (f x)) \<Longrightarrow> gives I P (bind m f)"
  by (rule gives_bind [OF gives_keeps])

text \<open>What the operations return, whatever state they leave.\<close>

abbreviation returns :: "('a \<Rightarrow> bool) \<Rightarrow> ('s, 'e, 'a) prog \<Rightarrow> bool" where
  "returns \<equiv> gives (\<lambda>_. True)"

named_theorems returning "rules for returns"

lemma returns_iff: "returns P m \<longleftrightarrow> (\<forall>s x t. m s = (Inr x, t) \<longrightarrow> P x)"
proof -
  have "(case fst (m s) of Inl e \<Rightarrow> True | Inr x \<Rightarrow> P x) \<longleftrightarrow> (\<forall>x t. m s = (Inr x, t) \<longrightarrow> P x)" for s
    by (cases "m s") (simp split: sum.split)
  then show ?thesis by (simp add: gives_def)
qed

lemma gives_returns: "preserves I m \<Longrightarrow> returns P m \<Longrightarrow> gives I P m"
  by (simp add: gives_def preserves_def)

lemma returns_bind [returning]: "(\<And>x. returns P (f x)) \<Longrightarrow> returns P (bind m f)"
  by (auto simp: returns_iff bind_eq_Inr)

lemmas [returning] = gives_ret gives_raise gives_if gives_case_prod gives_case_option

lemma returns_catch [returning]: "returns P m \<Longrightarrow> (\<And>e. returns P (h e)) \<Longrightarrow> returns P (catch m h)"
  by (auto simp: returns_iff catch_def split: prod.splits sum.splits)

section \<open>Tables\<close>

text \<open>
  A database table is the list of its rows in insertion order. \<open>update_where\<close> is an
  \<open>UPDATE ... WHERE\<close>, \<open>delete_where\<close> a \<open>DELETE ... WHERE\<close>.
\<close>

definition update_where :: "('a \<Rightarrow> bool) \<Rightarrow> ('a \<Rightarrow> 'a) \<Rightarrow> 'a list \<Rightarrow> 'a list" where
  "update_where P f xs = map (\<lambda>x. if P x then f x else x) xs"

definition delete_where :: "('a \<Rightarrow> bool) \<Rightarrow> 'a list \<Rightarrow> 'a list" where
  "delete_where P xs = filter (\<lambda>x. \<not> P x) xs"

lemma set_update_where: "set (update_where P f xs) = (\<lambda>x. if P x then f x else x) ` set xs"
  by (simp add: update_where_def)

lemma update_where_Nil [simp]: "update_where P f [] = []"
  by (simp add: update_where_def)

lemma update_where_Cons [simp]:
  "update_where P f (x # xs) = (if P x then f x else x) # update_where P f xs"
  by (simp add: update_where_def)

lemma update_where_append [simp]:
  "update_where P f (xs @ ys) = update_where P f xs @ update_where P f ys"
  by (simp add: update_where_def)

lemma length_update_where [simp]: "length (update_where P f xs) = length xs"
  by (simp add: update_where_def)

lemma map_update_where: "(\<And>x. g (f x) = g x) \<Longrightarrow> map g (update_where P f xs) = map g xs"
  by (simp add: update_where_def)

lemma set_delete_where [simp]: "set (delete_where P xs) = {x \<in> set xs. \<not> P x}"
  by (auto simp: delete_where_def)

lemma list_ex_append_single [simp]: "list_ex P (xs @ [x]) \<longleftrightarrow> list_ex P xs \<or> P x"
  by auto

end
