(* ===== verification/Models.thy ===== *)
theory Models
  imports Prelude
begin

text \<open>
  The state of the backend.

  One record per Django model class of the modelled apps (its fields under their Python names,
  prefixed where two classes share one), the control-plane database \<open>control\<close> as one table (a
  list of rows) per class, the tenant cluster as the history of the statements committed on it,
  and the \<open>world\<close> that holds both, object storage, the task queue, the clock and the environment.
  Row fields that are timestamps nothing reads back (\<open>created_at\<close> of most classes) are left out.

  What is not the repository's code enters through \<open>env\<close>: the deployment settings, the random
  source of \<open>uuid.uuid4\<close>, the PostgreSQL server behind the tenant connection (any function from
  the call number, the committed history and the statement to an error or a result), object
  storage failures, the malware scanner, the hash functions and ciphers, the file formats of
  libraries (\<open>library\<close>), NumPy and SciPy (\<open>numerics\<close>) and the container a worker runs in
  (\<open>machine\<close>).
\<close>

section \<open>Values\<close>

type_synonym uuid = "128 word"
type_synonym byte = "8 word"
type_synonym bytes = "byte list"
type_synonym timestamp = int

text \<open>JSON values, and the values that travel to and from PostgreSQL. A float is kept as its
  \<open>repr\<close>, which determines it; \<open>VPyObject\<close> is a list or a dictionary handed to the driver as it is,
  \<open>VJsonb\<close> one wrapped in \<open>Jsonb\<close>.\<close>

datatype json =
    JNull
  | JBool bool
  | JInt int
  | JFloat string
  | JStr string
  | JList "json list"
  | JObj "(string \<times> json) list"

datatype pg_value =
    VNull
  | VBool bool
  | VInt int
  | VFloat string
  | VStr string
  | VDecimal string
  | VDate int int int
  | VDateTime int int int int int int
  | VJsonb json
  | VPyObject json

text \<open>The composable SQL objects of \<open>psycopg.sql\<close>: raw text, a quoted identifier, an embedded
  literal, a parameter placeholder, and their concatenation.\<close>

datatype composable =
    SQL string
  | Identifier string
  | Literal pg_value
  | Placeholder
  | Composed "composable list"

type_synonym stmt = "composable \<times> pg_value list"

record query_result =
  description :: "string list"
  fetched :: "pg_value list list"
  rowcount :: nat

subsection \<open>UUIDs as text\<close>

definition hexdigits :: string where
  "hexdigits = ''0123456789abcdef''"

definition hex_digit :: "nat \<Rightarrow> char" where
  "hex_digit n = hexdigits ! (n mod 16)"

definition uuid_hex :: "uuid \<Rightarrow> string" where
  "uuid_hex u = map (\<lambda>i. hex_digit (unat (drop_bit (4 * i) u) mod 16)) (rev [0..<32])"

definition uuid_str :: "uuid \<Rightarrow> string" where
  "uuid_str u = (let h = uuid_hex u in
     take 8 h @ ''-'' @ take 4 (drop 8 h) @ ''-'' @ take 4 (drop 12 h) @ ''-''
       @ take 4 (drop 16 h) @ ''-'' @ drop 20 h)"

section \<open>Exceptions\<close>

datatype db_error = OperationalError | InterfaceError | IntegrityError | ProgrammingError | DataError

datatype (plugins only: code size) exn =
    Http404
  | DoesNotExist
  | MultipleObjectsReturned
  | DbError db_error
  | PermissionRefused
  | SchemaPermissionDenied
  | SchemaValidationError
  | IdentifierError
  | DDLValidationError
  | RowValueError
  | RowNotFound
  | SharingPermissionDenied
  | SharingValidationError
  | ConnectionPermissionDenied
  | ConnectionValidationError
  | ConnectionFailed
  | UnsafeHost
  | CredentialDecryptionError
  | UploadTooLarge
  | ScanUnavailable
  | StorageError
  | MFAError
  | SecretDecryptionError
  | InvalidCredential
  | AuthenticationFailed
  | ImportPermissionDenied
  | ImportValidationError
  | AnalyticsPermissionDenied
  | AnalyticsValidationError
  | ExportPermissionDenied
  | RestoreValidationError
  | PassphraseTransitError
  | ContainerError
  | DecryptionFailed
  | ManifestError
  | PackageValidationError
  | RestoreError
  | BackupError
  | TenantRoleError
  | ValidationError
  | PermissionDenied
  | NotAuthenticated
  | ValueError
  | KeyError
  | TypeError
  | AttributeError
  | OSError
  | StructError
  | IndexError
  | BinasciiError
  | InspectionError
  | MaxRetriesExceeded
  | Retry
  | CsvError
  | LookupError
  | UnicodeError
  | JSONDecodeError
  | BadZipFile
  | ZlibError
  | TimeoutExpired
  | InvalidTag
  | OverflowError
  | TarError
  | CoreValidationError

section \<open>Accounts, organizations and permissions\<close>

record user =
  user_id :: uuid
  email :: string
  first_name :: string
  last_name :: string
  is_active :: bool
  mfa_enabled :: bool
  mfa_secret_encrypted :: "bytes option"
  mfa_confirmed_at :: "timestamp option"
  password :: "string option"

record permission =
  perm_code :: string
  perm_description :: string

record role =
  role_id :: uuid
  role_organization :: "uuid option"
  role_slug :: string
  role_name :: string
  role_is_system :: bool
  role_permissions :: "string list"

record role_assignment =
  ra_id :: uuid
  ra_user :: uuid
  ra_role :: uuid
  ra_organization :: "uuid option"
  ra_granted_by :: "uuid option"

record resource_grant =
  rg_id :: uuid
  rg_user :: uuid
  rg_permission :: string
  rg_organization :: uuid
  rg_resource_type :: string
  rg_resource_id :: uuid
  rg_granted_by :: "uuid option"
  rg_expires_at :: "timestamp option"

record organization =
  org_id :: uuid
  org_name :: string
  org_slug :: string
  external_sharing_enabled :: bool
  org_created_by :: uuid

record team =
  team_id :: uuid
  team_organization :: uuid
  team_name :: string

datatype membership_status = MInvited | MActive | MSuspended

record membership =
  mem_id :: uuid
  mem_user :: uuid
  mem_organization :: uuid
  mem_team :: "uuid option"
  mem_status :: membership_status
  mem_invited_by :: "uuid option"

record workspace =
  ws_id :: uuid
  ws_organization :: uuid
  ws_name :: string
  ws_created_by :: uuid

record project =
  proj_id :: uuid
  proj_workspace :: uuid
  proj_name :: string
  proj_created_by :: uuid

datatype audit_result = Success | Denied | Error

record audit_event =
  ae_id :: uuid
  ae_timestamp :: timestamp
  ae_actor :: "uuid option"
  ae_organization :: "uuid option"
  ae_action :: string
  ae_resource_type :: string
  ae_resource_id :: string
  ae_request_id :: string
  ae_result :: audit_result
  ae_context :: "(string \<times> json) list"

section \<open>Storage\<close>

record bucket =
  bkt_id :: uuid
  bkt_project :: uuid
  bkt_name :: string
  versioning_enabled :: bool
  bkt_created_by :: uuid

record folder =
  fld_id :: uuid
  fld_bucket :: uuid
  fld_parent :: "uuid option"
  fld_name :: string
  fld_created_by :: uuid

datatype file_status = FActive | FDeleted | FQuarantined

record file_object =
  file_id :: uuid
  file_bucket :: uuid
  file_folder :: "uuid option"
  object_key :: string
  original_filename :: string
  display_filename :: string
  mime_type :: string
  file_size :: nat
  checksum_sha256 :: string
  storage_backend :: string
  file_status :: file_status
  file_creator :: uuid

record file_version =
  fv_id :: uuid
  fv_file :: uuid
  fv_object_key :: string
  fv_size :: nat
  fv_checksum_sha256 :: string
  fv_created_by :: uuid

section \<open>Databases\<close>

record tenant_database =
  tdb_id :: uuid
  tdb_project :: uuid
  tdb_name :: string
  schema_name :: string
  tdb_created_by :: uuid

record db_table =
  tbl_id :: uuid
  tbl_database :: uuid
  tbl_name :: string
  tbl_created_by :: uuid

record db_column =
  col_id :: uuid
  col_table :: uuid
  col_name :: string
  data_type :: string
  max_length :: "int option"
  precision :: "int option"
  scale :: "int option"
  is_primary_key :: bool
  is_nullable :: bool
  is_unique :: bool
  default_value :: "json option"

record db_foreign_key =
  fk_id :: uuid
  fk_column :: uuid
  fk_references_table :: uuid
  fk_references_column :: uuid
  fk_on_delete :: string

record db_index =
  idx_id :: uuid
  idx_table :: uuid
  idx_name :: string
  idx_columns :: "uuid list"
  idx_is_unique :: bool

datatype connection_status = Untested | Connected | Unreachable

record connected_database =
  cdb_id :: uuid
  cdb_project :: uuid
  cdb_name :: string
  engine :: string
  host :: string
  port :: int
  database_name :: string
  username :: string
  encrypted_password :: bytes
  sslmode :: string
  cdb_status :: connection_status
  last_tested_at :: "timestamp option"
  last_test_error :: string
  cdb_created_by :: uuid

section \<open>Sharing, applications, imports\<close>

record share_grant =
  sg_id :: uuid
  sg_organization :: uuid
  sg_resource_type :: string
  sg_resource_id :: uuid
  sg_principal_type :: string
  sg_user :: "uuid option"
  sg_team :: "uuid option"
  sg_level :: string
  sg_expires_at :: "timestamp option"
  sg_revoked_at :: "timestamp option"
  sg_created_by :: "uuid option"

record application =
  app_id :: uuid
  app_organization :: uuid
  app_name :: string
  app_description :: string
  app_owner :: uuid

record service_account =
  sa_id :: uuid
  sa_application :: uuid
  sa_identity_user :: uuid

record application_credential =
  cred_id :: uuid
  cred_service_account :: uuid
  secret_hash :: string
  cred_created_by :: "uuid option"
  last_used_at :: "timestamp option"
  expires_at :: "timestamp option"
  revoked_at :: "timestamp option"

datatype job_status = Pending | Running | Completed | Failed

record column_mapping =
  csv_column :: string
  target_column :: string
  target_type :: string

record import_job =
  ij_id :: uuid
  ij_file :: uuid
  ij_table :: uuid
  ij_encoding :: string
  ij_delimiter :: string
  ij_column_mapping :: "column_mapping list"
  ij_status :: job_status
  total_rows :: "nat option"
  imported_rows :: nat
  rejected_rows :: nat
  last_processed_row :: nat
  ij_error_message :: string
  ij_created_by :: uuid
  ij_started_at :: "timestamp option"
  ij_completed_at :: "timestamp option"

text \<open>A value of a \<open>csv.DictReader\<close> row: a field, the \<open>None\<close> of a missing one, or the surplus fields,
  which are kept under the key \<open>None\<close>.\<close>

datatype csv_cell = Cell string | NoCell | Surplus "string list"

record import_job_error =
  ije_job :: uuid
  ije_row_number :: nat
  ije_message :: string
  ije_raw_row :: "(string option \<times> csv_cell) list"

section \<open>External databases\<close>

record connection_params =
  cp_host :: string
  cp_port :: int
  cp_database :: string
  cp_username :: string
  cp_password :: string
  cp_sslmode :: string

record column_info =
  ci_name :: string
  ci_data_type :: string
  ci_is_nullable :: bool

record table_info =
  ti_name :: string
  ti_columns :: "column_info list"

text \<open>\<open>ipaddress.ip_address\<close>: an IPv4 or an IPv6 address.\<close>

datatype ip_address = IPv4 "32 word" | IPv6 "128 word"

section \<open>Exports, dashboards, backups\<close>

record export_job =
  ej_id :: uuid
  ej_organization :: uuid
  ej_created_by :: uuid
  ej_status :: job_status
  ej_encrypted :: bool
  ej_object_key :: string
  ej_size_bytes :: "nat option"
  ej_checksum_sha256 :: string
  ej_error_message :: string
  ej_completed_at :: "timestamp option"

datatype restore_status = RPending | RValidating | RRestoring | RCompleted | RFailed

record restore_job =
  rj_id :: uuid
  rj_organization :: "uuid option"
  rj_created_by :: uuid
  rj_status :: restore_status
  rj_source_object_key :: string
  rj_report :: json
  rj_error_message :: string
  rj_completed_at :: "timestamp option"

record dashboard =
  dash_id :: uuid
  dash_database :: uuid
  dash_name :: string
  dash_widgets :: "json list"
  dash_created_by :: uuid

datatype backup_status = BRunning | BSuccess | BFailed

record backup_record =
  br_id :: uuid
  br_type :: string
  br_status :: backup_status
  br_file_path :: string
  br_size_bytes :: "nat option"
  br_error_message :: string
  br_started_at :: timestamp
  br_completed_at :: "timestamp option"
  br_verified_restorable :: bool
  br_verified_at :: "timestamp option"
  br_verification_error :: string

section \<open>The control-plane database\<close>

record control =
  users :: "user list"
  permissions :: "permission list"
  roles :: "role list"
  role_assignments :: "role_assignment list"
  resource_grants :: "resource_grant list"
  organizations :: "organization list"
  teams :: "team list"
  memberships :: "membership list"
  workspaces :: "workspace list"
  projects :: "project list"
  audit_events :: "audit_event list"
  buckets :: "bucket list"
  folders :: "folder list"
  files :: "file_object list"
  file_versions :: "file_version list"
  tenant_databases :: "tenant_database list"
  db_tables :: "db_table list"
  db_columns :: "db_column list"
  db_foreign_keys :: "db_foreign_key list"
  db_indexes :: "db_index list"
  connected_databases :: "connected_database list"
  share_grants :: "share_grant list"
  applications :: "application list"
  service_accounts :: "service_account list"
  credentials :: "application_credential list"
  import_jobs :: "import_job list"
  import_job_errors :: "import_job_error list"
  export_jobs :: "export_job list"
  restore_jobs :: "restore_job list"
  dashboards :: "dashboard list"
  backup_records :: "backup_record list"

section \<open>Responses\<close>

text \<open>A view answers with a status and a body: the row, or the rows, it hands to its serializer,
  which picks columns of it.\<close>

datatype (plugins only: size) payload =
    NoBody
  | Detail string
  | Data json
  | UserBody user
  | OrganizationBody organization
  | OrganizationsBody "organization list"
  | MembershipBody membership
  | MembershipsBody "membership list"
  | TeamBody team
  | TeamsBody "team list"
  | WorkspaceBody workspace
  | WorkspacesBody "workspace list"
  | ProjectBody project
  | ProjectsBody "project list"
  | AuditEventsBody "audit_event list"
  | BucketBody bucket
  | BucketsBody "bucket list"
  | FolderBody folder
  | FoldersBody "folder list"
  | FileBody file_object
  | FilesBody "file_object list"
  | FileVersionsBody "file_version list"
  | FileContent bytes string string
  | DatabaseBody tenant_database
  | DatabasesBody "tenant_database list"
  | TableBody db_table
  | TablesBody "db_table list"
  | ColumnBody db_column
  | ColumnsBody "db_column list"
  | ForeignKeyBody db_foreign_key
  | IndexBody db_index
  | IndexesBody "db_index list"
  | RowBody "(string \<times> pg_value) list"
  | PageBody pg_value int int "(string \<times> pg_value) list list"
  | CsvBody "string list list" string
  | SchemaBody "table_info list"
  | ConnectionBody connected_database
  | ConnectionsBody "connected_database list"
  | ShareBody share_grant
  | SharesBody "share_grant list"
  | ApplicationBody application
  | ApplicationsBody "application list"
  | CredentialBody application_credential string
  | CredentialsBody "application_credential list"
  | GrantBody resource_grant
  | GrantsBody "resource_grant list"
  | ImportJobBody import_job
  | ImportJobsBody "import_job list"
  | ImportErrorsBody "import_job_error list"
  | ExportJobBody export_job
  | ExportJobsBody "export_job list"
  | RestoreJobBody restore_job
  | DashboardBody dashboard
  | DashboardsBody "dashboard list"

datatype response = Response (status: nat) (body: payload)

section \<open>The environment and the world\<close>

datatype scan_reply = ScanOK | ScanFound string | ScanOther | ScanDown

datatype task =
    RunImportTask uuid
  | RunExportTask uuid "string option"
  | RunRestoreTask uuid "string option"

text \<open>The formats and primitives of libraries: the lines botocore yields of a stream, the codecs, the
  guess of \<open>csv.Sniffer\<close>, JSON text, ZIP and tar archives (the members in order; reading a member
  may fail), Argon2id and AES-256-GCM.\<close>

record library =
  stream_lines :: "bytes \<Rightarrow> bytes list"
  decode_replace :: "string \<Rightarrow> (bytes \<Rightarrow> string) option"
  decode_strict :: "string \<Rightarrow> bytes \<Rightarrow> string option"
  csv_sniff :: "string \<Rightarrow> char option"
  json_dumps_pretty :: "json \<Rightarrow> string"
  json_loads :: "bytes \<Rightarrow> exn + json"
  zip_pack :: "(string \<times> bytes) list \<Rightarrow> bytes"
  zip_open :: "bytes \<Rightarrow> (string \<Rightarrow> exn + bytes) option"
  tar_pack :: "(string \<times> bytes) list \<Rightarrow> bytes"
  tar_open :: "bytes \<Rightarrow> (string \<times> bytes option) list option"
  argon2id :: "bytes \<Rightarrow> bytes \<Rightarrow> json \<Rightarrow> json \<Rightarrow> json \<Rightarrow> exn + bytes"
  aesgcm_encrypt :: "bytes \<Rightarrow> bytes \<Rightarrow> bytes \<Rightarrow> bytes"
  aesgcm_decrypt :: "bytes \<Rightarrow> bytes \<Rightarrow> bytes \<Rightarrow> exn + bytes"

text \<open>NumPy and SciPy on floats, each kept as its \<open>repr\<close>.\<close>

record numerics =
  to_float :: "pg_value \<Rightarrow> exn + string"
  float_op :: "string \<Rightarrow> string \<Rightarrow> string \<Rightarrow> string"
  float_less :: "string \<Rightarrow> string \<Rightarrow> bool"
  float_int :: "string \<Rightarrow> exn + int"
  np_reduce :: "string \<Rightarrow> string list \<Rightarrow> string"
  np_percentile :: "string list \<Rightarrow> json list \<Rightarrow> exn + string list"
  np_moving_average :: "string list \<Rightarrow> int \<Rightarrow> exn + string list"
  sp_paired :: "string \<Rightarrow> string list \<Rightarrow> string list \<Rightarrow> exn + string list"
  sp_grouped :: "string \<Rightarrow> string list list \<Rightarrow> exn + (string \<times> string)"
  sp_chi2 :: "nat list list \<Rightarrow> exn + (string \<times> string \<times> int)"

text \<open>The container a worker runs in: its environment variables, the outcome of running a program
  (its exit status and standard error, or \<open>None\<close> for a timeout, and the files it leaves), failing
  file operations.\<close>

record machine =
  environ :: "string \<Rightarrow> string option"
  run_process :: "nat \<Rightarrow> string list \<Rightarrow> (string \<Rightarrow> bytes option) \<Rightarrow> (nat \<times> string) option \<times> (string \<Rightarrow> bytes option)"
  disk_fails :: "nat \<Rightarrow> bool"
  backup_encryption_key :: string
  backup_dir :: string
  db_settings :: "string \<Rightarrow> connection_params"
  strftime :: "timestamp \<Rightarrow> string"

record env =
  uuid_source :: "nat \<Rightarrow> uuid"
  pg :: "nat \<Rightarrow> stmt list \<Rightarrow> stmt \<Rightarrow> db_error + query_result"
  s3_fails :: "nat \<Rightarrow> bool"
  scanner :: "bytes \<Rightarrow> scan_reply"
  sha256 :: "bytes \<Rightarrow> string"
  exn_str :: "exn \<Rightarrow> string"
  internet_gateway :: bool
  external_sharing :: bool
  max_upload_size :: nat
  malware_scan :: bool
  slugify :: "string \<Rightarrow> string"
  pg_upper :: "string \<Rightarrow> string"
  collation :: "string \<Rightarrow> string \<Rightarrow> bool"
  token_source :: "nat \<Rightarrow> string"
  token_bytes :: "nat \<Rightarrow> nat \<Rightarrow> bytes"
  hmac_sha1 :: "bytes \<Rightarrow> bytes \<Rightarrow> bytes"
  fernet_encrypt :: "nat \<Rightarrow> string \<Rightarrow> bytes"
  fernet_decrypt :: "bytes \<Rightarrow> string option"
  make_password :: "nat \<Rightarrow> string \<Rightarrow> string"
  check_password :: "string \<Rightarrow> string \<Rightarrow> bool"
  password_ok :: "string \<Rightarrow> bool"
  getaddrinfo :: "nat \<Rightarrow> string \<Rightarrow> ip_address list option"
  block_private :: bool
  remote_connect :: "nat \<Rightarrow> connection_params \<Rightarrow> db_error option"
  remote_execute :: "nat \<Rightarrow> connection_params \<Rightarrow> stmt \<Rightarrow> db_error + query_result"
  stream_breaks :: "nat \<Rightarrow> nat option"
  s3_keys :: "(string \<Rightarrow> bytes option) \<Rightarrow> (string \<times> nat) list"
  retry_outcome :: "nat \<Rightarrow> nat \<Rightarrow> exn \<Rightarrow> exn"
  analytics_max_rows :: nat
  product_version :: string
  lib :: library
  np :: numerics
  worker :: machine

record world =
  ctl :: control
  tnt :: "stmt list"
  pg_calls :: nat
  objects :: "string \<Rightarrow> bytes option"
  s3_calls :: nat
  net_calls :: nat
  tasks :: "task list"
  rng :: nat
  clock :: timestamp
  disk :: "string \<Rightarrow> bytes option"
  disk_calls :: nat
  env :: env

type_synonym 'a app = "(world, exn, 'a) prog"

end
