(* ===== verification/Orm.thy ===== *)
theory Orm
  imports Models
begin

text \<open>
  Data access: the reading of the Django ORM calls the services make, one step of the world
  each. \<open>objects.create\<close> appends a row unless the table's declared unique constraints refuse it
  (\<open>IntegrityError\<close>); \<open>objects.get\<close> returns the single match or raises; \<open>transaction.atomic\<close>
  puts its database back when the block raises. The constraints themselves are the
  \<open>Meta.constraints\<close> and \<open>unique=True\<close> declarations of the model classes, one \<open>clash\<close> predicate
  per table, with SQL's rule that a NULL never equals anything, and the primary key: a draw of
  \<open>uuid4\<close> that is already an identifier of the table is refused too (the audit log alone is
  written without that check). A property that needs new identifiers to be new says so.
\<close>

section \<open>The random source, the clock\<close>

definition uuid4 :: "uuid app" where
  "uuid4 = (\<lambda>w. (Inr (uuid_source (env w) (rng w)), w\<lparr>rng := Suc (rng w)\<rparr>))"

definition now :: "timestamp app" where
  "now = gets clock"

lemma uuid4_run [simp]:
  "uuid4 w = (Inr (uuid_source (env w) (rng w)), w\<lparr>rng := Suc (rng w)\<rparr>)"
  by (simp add: uuid4_def)

lemma wp_uuid4 [wp, simp]:
  "wp uuid4 Q E w = Q (uuid_source (env w) (rng w)) (w\<lparr>rng := Suc (rng w)\<rparr>)"
  by (simp add: wp_def)

lemma now_run [simp]: "now w = (Inr (clock w), w)"
  by (simp add: now_def)

lemma wp_now [wp, simp]: "wp now Q E w = Q (clock w) w"
  by (simp add: wp_def)

text \<open>\<open>fresh_draws w k ids\<close>: the next \<open>k\<close> draws are distinct and none of them is in \<open>ids\<close>.\<close>

definition fresh_draws :: "world \<Rightarrow> nat \<Rightarrow> uuid set \<Rightarrow> bool" where
  "fresh_draws w k ids \<longleftrightarrow> inj_on (uuid_source (env w)) {rng w..<rng w + k}
     \<and> uuid_source (env w) ` {rng w..<rng w + k} \<inter> ids = {}"

lemma fresh_draws_next: "fresh_draws w (Suc k) ids \<Longrightarrow> uuid_source (env w) (rng w) \<notin> ids"
proof -
  assume fresh: "fresh_draws w (Suc k) ids"
  have "uuid_source (env w) (rng w) \<in> uuid_source (env w) ` {rng w..<rng w + Suc k}"
    by (rule imageI) simp
  with fresh show "uuid_source (env w) (rng w) \<notin> ids" unfolding fresh_draws_def by blast
qed

lemma disjoint_mono:
  "A' \<inter> D = {} \<Longrightarrow> A' \<subseteq> A \<Longrightarrow> R' \<subseteq> R \<union> D \<Longrightarrow> A \<inter> R = {} \<Longrightarrow> A' \<inter> R' = {}"
  by blast

lemma fresh_draws_step:
  assumes fresh: "fresh_draws w k ids"
    and env: "env w' = env w" and rng: "rng w \<le> rng w'" "rng w' \<le> rng w + j"
    and ids: "ids' \<subseteq> ids \<union> uuid_source (env w) ` {rng w..<rng w'}" and j: "j + k' \<le> k"
  shows "fresh_draws w' k' ids'"
proof -
  have inj: "inj_on (uuid_source (env w)) {rng w..<rng w + k}"
    and disj: "uuid_source (env w) ` {rng w..<rng w + k} \<inter> ids = {}"
    using fresh by (simp_all add: fresh_draws_def)
  have sub: "{rng w'..<rng w' + k'} \<subseteq> {rng w..<rng w + k}" using rng j by auto
  have "uuid_source (env w) ` {rng w'..<rng w' + k'} \<inter> uuid_source (env w) ` {rng w..<rng w'} = {}"
  proof -
    have False if "i \<in> {rng w'..<rng w' + k'}" "n \<in> {rng w..<rng w'}"
      "uuid_source (env w) i = uuid_source (env w) n" for i n
    proof -
      have "i = n" by (rule inj_onD [OF inj that(3)]) (use that rng j in auto)
      with that show False by simp
    qed
    then show ?thesis by blast
  qed
  moreover have "uuid_source (env w) ` {rng w'..<rng w' + k'}
      \<subseteq> uuid_source (env w) ` {rng w..<rng w + k}"
    by (rule image_mono [OF sub])
  ultimately have "uuid_source (env w) ` {rng w'..<rng w' + k'} \<inter> ids' = {}"
    using ids by (rule disjoint_mono) (rule disj)
  with inj_on_subset [OF inj sub] show ?thesis
    unfolding fresh_draws_def env by (rule conjI)
qed

lemma wp_step: "wp (\<lambda>w. (Inr x, g w)) Q E v = Q x (g v)" for v :: world
  by (simp add: wp_def)

section \<open>Rows\<close>

definition on_ctl :: "(control \<Rightarrow> control) \<Rightarrow> unit app" where
  "on_ctl f = modify (\<lambda>w. w\<lparr>ctl := f (ctl w)\<rparr>)"

definition query :: "(control \<Rightarrow> 'a) \<Rightarrow> 'a app" where
  "query f = gets (\<lambda>w. f (ctl w))"

definition get_one :: "(control \<Rightarrow> 'a list) \<Rightarrow> 'a app" where
  "get_one f = (\<lambda>w. case f (ctl w) of
       [] \<Rightarrow> (Inl DoesNotExist, w)
     | [x] \<Rightarrow> (Inr x, w)
     | _ \<Rightarrow> (Inl MultipleObjectsReturned, w))"

definition orm_create ::
  "(control \<Rightarrow> 'r list) \<Rightarrow> (('r list \<Rightarrow> 'r list) \<Rightarrow> control \<Rightarrow> control) \<Rightarrow> ('r \<Rightarrow> 'r \<Rightarrow> bool)
     \<Rightarrow> 'r \<Rightarrow> unit app" where
  "orm_create rows upd clash r = (\<lambda>w.
     if list_ex (clash r) (rows (ctl w)) then (Inl (DbError IntegrityError), w)
     else (Inr (), w\<lparr>ctl := upd (\<lambda>xs. xs @ [r]) (ctl w)\<rparr>))"

text \<open>\<open>instance.save(update_fields=...)\<close>: an UPDATE of the row with the instance's primary key,
  refused when the new row would clash with another one.\<close>

definition orm_update ::
  "(control \<Rightarrow> 'r list) \<Rightarrow> (('r list \<Rightarrow> 'r list) \<Rightarrow> control \<Rightarrow> control) \<Rightarrow> ('r \<Rightarrow> 'r \<Rightarrow> bool)
     \<Rightarrow> ('r \<Rightarrow> uuid) \<Rightarrow> uuid \<Rightarrow> ('r \<Rightarrow> 'r) \<Rightarrow> unit app" where
  "orm_update rows upd clash rid i f = (\<lambda>w.
     if list_ex (\<lambda>r. rid r = i \<and> list_ex (\<lambda>x. rid x \<noteq> i \<and> clash (f r) x) (rows (ctl w))) (rows (ctl w))
     then (Inl (DbError IntegrityError), w)
     else (Inr (), w\<lparr>ctl := upd (update_where (\<lambda>r. rid r = i) f) (ctl w)\<rparr>))"

text \<open>\<open>except Model.DoesNotExist as exc: raise Http404 from exc\<close>.\<close>

definition or_404 :: "'a app \<Rightarrow> 'a app" where
  "or_404 m = catch m (\<lambda>e. if e = DoesNotExist then raise Http404 else raise e)"

lemma on_ctl_run [simp]: "on_ctl f w = (Inr (), w\<lparr>ctl := f (ctl w)\<rparr>)"
  by (simp add: on_ctl_def)

lemma wp_on_ctl [wp, simp]: "wp (on_ctl f) Q E w = Q () (w\<lparr>ctl := f (ctl w)\<rparr>)"
  by (simp add: wp_def)

lemma query_run [simp]: "query f w = (Inr (f (ctl w)), w)"
  by (simp add: query_def)

lemma wp_query [wp, simp]: "wp (query f) Q E w = Q (f (ctl w)) w"
  by (simp add: wp_def)

lemma get_one_run: "get_one f w =
    (case f (ctl w) of [] \<Rightarrow> Inl DoesNotExist | [x] \<Rightarrow> Inr x | _ \<Rightarrow> Inl MultipleObjectsReturned, w)"
  by (auto simp: get_one_def split: list.splits)

lemma wp_get_one [wp]: "wp (get_one f) Q E w =
    (case f (ctl w) of [] \<Rightarrow> E DoesNotExist w | [x] \<Rightarrow> Q x w | _ \<Rightarrow> E MultipleObjectsReturned w)"
  by (auto simp: wp_def get_one_def split: list.splits)

lemma or_404_run: "or_404 m w = (case m w of
     (Inl e, w') \<Rightarrow> (Inl (if e = DoesNotExist then Http404 else e), w') | (Inr x, w') \<Rightarrow> (Inr x, w'))"
  by (auto simp: or_404_def catch_def split: prod.splits sum.splits)

lemma wp_or_404 [wp, simp]:
  "wp (or_404 m) Q E w = wp m Q (\<lambda>e. E (if e = DoesNotExist then Http404 else e)) w"
  by (auto simp: wp_def or_404_run split: prod.splits sum.splits)

lemma wp_orm_create [wp]: "wp (orm_create rows upd clash r) Q E w =
    (if list_ex (clash r) (rows (ctl w)) then E (DbError IntegrityError) w
     else Q () (w\<lparr>ctl := upd (\<lambda>xs. xs @ [r]) (ctl w)\<rparr>))"
  by (simp add: wp_def orm_create_def)

lemma wp_get_oneI:
  assumes "\<And>x. f (ctl w) = [x] \<Longrightarrow> Q x w" and "\<And>e. E e w"
  shows "wp (get_one f) Q E w"
  using assms by (auto simp: wp_get_one split: list.splits)

lemma get_one_eq_Inr: "get_one f w = (Inr x, t) \<longleftrightarrow> f (ctl w) = [x] \<and> t = w"
  by (auto simp: get_one_run split: list.splits)

lemma get_one_fails:
  assumes "\<nexists>x. f (ctl w) = [x]"
  shows "\<exists>e. get_one f w = (Inl e, w)"
  using assms by (auto simp: get_one_run split: list.splits)

lemma wp_orm_update [wp]: "wp (orm_update rows upd clash rid i f) Q E w =
    (if list_ex (\<lambda>r. rid r = i \<and> list_ex (\<lambda>x. rid x \<noteq> i \<and> clash (f r) x) (rows (ctl w))) (rows (ctl w))
     then E (DbError IntegrityError) w
     else Q () (w\<lparr>ctl := upd (update_where (\<lambda>r. rid r = i) f) (ctl w)\<rparr>))"
  by (simp add: wp_def orm_update_def)

text \<open>Object storage: a call may fail (\<open>s3_fails\<close> of the call's number), and then changes nothing.\<close>

definition s3_call :: "'a app \<Rightarrow> 'a app" where
  "s3_call m = (\<lambda>w. let w' = w\<lparr>s3_calls := Suc (s3_calls w)\<rparr> in
     if s3_fails (env w) (s3_calls w) then (Inl StorageError, w') else m w')"

definition s3_put :: "string \<Rightarrow> bytes \<Rightarrow> unit app" where
  "s3_put key content = s3_call (modify (\<lambda>w. w\<lparr>objects := (objects w)(key \<mapsto> content)\<rparr>))"

definition s3_get :: "string \<Rightarrow> bytes app" where
  "s3_get key = s3_call (\<lambda>w. case objects w key of
     None \<Rightarrow> (Inl StorageError, w) | Some b \<Rightarrow> (Inr b, w))"

definition s3_delete :: "string \<Rightarrow> unit app" where
  "s3_delete key = s3_call (modify (\<lambda>w. w\<lparr>objects := (objects w)(key := None)\<rparr>))"

lemma wp_s3_put [wp]: "wp (s3_put key content) Q E w =
    (if s3_fails (env w) (s3_calls w) then E StorageError (w\<lparr>s3_calls := Suc (s3_calls w)\<rparr>)
     else Q () (w\<lparr>s3_calls := Suc (s3_calls w), objects := (objects w)(key \<mapsto> content)\<rparr>))"
  by (simp add: wp_def s3_put_def s3_call_def Let_def)

lemma wp_s3_get [wp]: "wp (s3_get key) Q E w =
    (if s3_fails (env w) (s3_calls w) then E StorageError (w\<lparr>s3_calls := Suc (s3_calls w)\<rparr>)
     else case objects w key of None \<Rightarrow> E StorageError (w\<lparr>s3_calls := Suc (s3_calls w)\<rparr>)
          | Some b \<Rightarrow> Q b (w\<lparr>s3_calls := Suc (s3_calls w)\<rparr>))"
  by (simp add: wp_def s3_get_def s3_call_def Let_def split: option.splits)

lemma wp_s3_delete [wp]: "wp (s3_delete key) Q E w =
    (if s3_fails (env w) (s3_calls w) then E StorageError (w\<lparr>s3_calls := Suc (s3_calls w)\<rparr>)
     else Q () (w\<lparr>s3_calls := Suc (s3_calls w), objects := (objects w)(key := None)\<rparr>))"
  by (simp add: wp_def s3_delete_def s3_call_def Let_def)

lemma preserves_s3 [keeps]:
  "preserves (\<lambda>w::world. J (ctl w)) (s3_put key content)"
  "preserves (\<lambda>w::world. J (ctl w)) (s3_get key)"
  "preserves (\<lambda>w::world. J (ctl w)) (s3_delete key)"
  by (auto simp: preserves_def s3_put_def s3_get_def s3_delete_def s3_call_def Let_def
      split: option.splits)

lemma preserves_query [keeps]: "preserves I (query f)"
  and preserves_now [keeps]: "preserves I now"
  and preserves_get_one [keeps]: "preserves I (get_one g)"
  by (auto simp: preserves_def get_one_run)

lemma preserves_or_404 [keeps]: "preserves I m \<Longrightarrow> preserves I (or_404 m)"
  unfolding or_404_def by (intro keeps)

section \<open>Transactions\<close>

text \<open>\<open>with transaction.atomic(using="default")\<close> and \<open>using="tenant"\<close>. Nothing but the named
  database is put back: random draws, object storage and the task queue are not transactional.\<close>

definition atomic_default :: "'a app \<Rightarrow> 'a app" where
  "atomic_default m = (\<lambda>w. case m w of
     (Inl e, w') \<Rightarrow> (Inl e, w'\<lparr>ctl := ctl w\<rparr>) | (Inr x, w') \<Rightarrow> (Inr x, w'))"

definition atomic_tenant :: "'a app \<Rightarrow> 'a app" where
  "atomic_tenant m = (\<lambda>w. case m w of
     (Inl e, w') \<Rightarrow> (Inl e, w'\<lparr>tnt := tnt w\<rparr>) | (Inr x, w') \<Rightarrow> (Inr x, w'))"

lemma wp_atomic_default [wp, simp]:
  "wp (atomic_default m) Q E w = wp m Q (\<lambda>e t. E e (t\<lparr>ctl := ctl w\<rparr>)) w"
  by (simp add: wp_def atomic_default_def split: prod.splits sum.splits)

lemma wp_atomic_tenant [wp, simp]:
  "wp (atomic_tenant m) Q E w = wp m Q (\<lambda>e t. E e (t\<lparr>tnt := tnt w\<rparr>)) w"
  by (simp add: wp_def atomic_tenant_def split: prod.splits sum.splits)

lemma atomic_default_Inl: "atomic_default m w = (Inl e, t) \<Longrightarrow> ctl t = ctl w"
  by (auto simp: atomic_default_def split: prod.splits sum.splits)

lemma atomic_tenant_Inl: "atomic_tenant m w = (Inl e, t) \<Longrightarrow> tnt t = tnt w"
  by (auto simp: atomic_tenant_def split: prod.splits sum.splits)

lemma preserves_atomic_default [keeps]:
  assumes "preserves (\<lambda>w::world. J (ctl w)) m"
  shows "preserves (\<lambda>w::world. J (ctl w)) (atomic_default m)"
proof (rule preservesI)
  fix w :: world assume J: "J (ctl w)"
  obtain r t where m: "m w = (r, t)" by (cases "m w")
  with assms J have "J (ctl t)" by (auto dest: preservesD)
  with m J show "J (ctl (snd (atomic_default m w)))"
    by (cases r) (simp_all add: atomic_default_def)
qed

lemma preserves_ctl_atomic_tenant [keeps]:
  assumes "preserves (\<lambda>w::world. J (ctl w)) m"
  shows "preserves (\<lambda>w::world. J (ctl w)) (atomic_tenant m)"
proof (rule preservesI)
  fix w :: world assume J: "J (ctl w)"
  obtain r t where m: "m w = (r, t)" by (cases "m w")
  with assms J have "J (ctl t)" by (auto dest: preservesD)
  with m show "J (ctl (snd (atomic_tenant m w)))"
    by (cases r) (simp_all add: atomic_tenant_def)
qed

lemma preserves_ctl_uuid4 [keeps]: "preserves (\<lambda>w::world. J (ctl w)) uuid4"
  by (simp add: preserves_def)

section \<open>The tenant connection\<close>

text \<open>\<open>cursor.execute(q, params)\<close> on the tenant connection: a statement that succeeds is
  appended to the committed history (and taken out again if an enclosing transaction rolls back);
  \<open>tenant_select\<close> is the same call for a query, which changes nothing.\<close>

definition tenant_execute :: "composable \<Rightarrow> pg_value list \<Rightarrow> query_result app" where
  "tenant_execute q ps = (\<lambda>w.
     let w' = w\<lparr>pg_calls := Suc (pg_calls w)\<rparr> in
     case pg (env w) (pg_calls w) (tnt w) (q, ps) of
       Inl e \<Rightarrow> (Inl (DbError e), w')
     | Inr res \<Rightarrow> (Inr res, w'\<lparr>tnt := tnt w @ [(q, ps)]\<rparr>))"

definition tenant_select :: "composable \<Rightarrow> pg_value list \<Rightarrow> query_result app" where
  "tenant_select q ps = (\<lambda>w.
     let w' = w\<lparr>pg_calls := Suc (pg_calls w)\<rparr> in
     case pg (env w) (pg_calls w) (tnt w) (q, ps) of
       Inl e \<Rightarrow> (Inl (DbError e), w')
     | Inr res \<Rightarrow> (Inr res, w'))"

lemma wp_tenant_execute [wp]: "wp (tenant_execute q ps) Q E w =
    (case pg (env w) (pg_calls w) (tnt w) (q, ps) of
       Inl e \<Rightarrow> E (DbError e) (w\<lparr>pg_calls := Suc (pg_calls w)\<rparr>)
     | Inr res \<Rightarrow> Q res (w\<lparr>pg_calls := Suc (pg_calls w), tnt := tnt w @ [(q, ps)]\<rparr>))"
  by (simp add: wp_def tenant_execute_def split: sum.splits)

lemma wp_tenant_select [wp]: "wp (tenant_select q ps) Q E w =
    (case pg (env w) (pg_calls w) (tnt w) (q, ps) of
       Inl e \<Rightarrow> E (DbError e) (w\<lparr>pg_calls := Suc (pg_calls w)\<rparr>)
     | Inr res \<Rightarrow> Q res (w\<lparr>pg_calls := Suc (pg_calls w)\<rparr>))"
  by (simp add: wp_def tenant_select_def split: sum.splits)

lemma preserves_ctl_tenant [keeps]:
  "preserves (\<lambda>w::world. J (ctl w)) (tenant_execute q ps)"
  "preserves (\<lambda>w::world. J (ctl w)) (tenant_select q ps)"
  by (auto simp: preserves_def tenant_execute_def tenant_select_def Let_def split: sum.splits)

section \<open>The table interface\<close>

text \<open>What the services rely on when they create a row: the selector and updater of one table
  agree, and the declared constraints are symmetric. A table that grows only through
  \<open>orm_create\<close> never holds two rows its constraints forbid.\<close>

definition unique_rows :: "('r \<Rightarrow> 'r \<Rightarrow> bool) \<Rightarrow> 'r list \<Rightarrow> bool" where
  "unique_rows clash xs = sorted_wrt (\<lambda>x y. \<not> clash y x) xs"

lemma unique_rows_append:
  "unique_rows clash (xs @ [r]) \<longleftrightarrow> unique_rows clash xs \<and> \<not> list_ex (clash r) xs"
  by (auto simp: unique_rows_def sorted_wrt_append list_ex_iff)

lemma unique_rows_filter: "unique_rows clash xs \<Longrightarrow> unique_rows clash (filter P xs)"
  unfolding unique_rows_def by (rule sorted_wrt_filter)

lemma unique_rows_length_le_1:
  assumes "unique_rows clash xs" and "\<And>x y. x \<in> set xs \<Longrightarrow> y \<in> set xs \<Longrightarrow> clash y x"
  shows "length xs \<le> 1"
proof (cases xs)
  case (Cons x ys)
  then show ?thesis
    using assms by (cases ys) (auto simp: unique_rows_def)
qed simp

lemma unique_rows_filter_le_1:
  assumes "unique_rows clash xs" and "\<And>x y. P x \<Longrightarrow> P y \<Longrightarrow> clash y x"
  shows "length (filter P xs) \<le> 1"
  using unique_rows_filter [OF assms(1), of P] by (rule unique_rows_length_le_1) (auto intro: assms(2))

lemma unique_rows_filter_eq:
  assumes "unique_rows clash xs" and "\<And>x y. P x \<Longrightarrow> P y \<Longrightarrow> clash y x" and "x \<in> set xs" and "P x"
  shows "filter P xs = [x]"
proof -
  have "x \<in> set (filter P xs)" using assms(3,4) by simp
  moreover have "length (filter P xs) \<le> 1" using assms(1,2) by (rule unique_rows_filter_le_1)
  ultimately show ?thesis by (cases "filter P xs") auto
qed

lemma unique_rows_distinct:
  assumes "unique_rows clash xs" and "\<And>x y. k x = k y \<Longrightarrow> clash y x"
  shows "distinct (map k xs)"
  using assms by (induction xs) (auto simp: unique_rows_def)

locale orm_table =
  fixes rows :: "control \<Rightarrow> 'r list"
    and upd :: "('r list \<Rightarrow> 'r list) \<Rightarrow> control \<Rightarrow> control"
    and clash :: "'r \<Rightarrow> 'r \<Rightarrow> bool"
  assumes rows_upd: "rows (upd f c) = f (rows c)"
    and clash_sym: "clash x y = clash y x"
begin

lemma create_Inr:
  assumes "orm_create rows upd clash r w = (Inr u, t)"
  shows "rows (ctl t) = rows (ctl w) @ [r]" and "\<not> list_ex (clash r) (rows (ctl w))"
  using assms by (auto simp: orm_create_def rows_upd split: if_splits)

lemma create_clash:
  "x \<in> set (rows (ctl w)) \<Longrightarrow> clash x r \<Longrightarrow>
     orm_create rows upd clash r w = (Inl (DbError IntegrityError), w)"
  by (auto simp: orm_create_def list_ex_iff clash_sym)

lemma create_unique:
  "preserves (\<lambda>w. unique_rows clash (rows (ctl w))) (orm_create rows upd clash r)"
  by (auto simp: preserves_def orm_create_def rows_upd unique_rows_append)

lemma unique_eq:
  assumes "unique_rows clash (rows c)" "x \<in> set (rows c)" "y \<in> set (rows c)" "clash x y"
  shows "x = y"
proof (rule ccontr)
  assume "x \<noteq> y"
  from assms(2,3) obtain i j where ij: "i < length (rows c)" "j < length (rows c)"
    "x = rows c ! i" "y = rows c ! j" by (auto simp: in_set_conv_nth)
  with \<open>x \<noteq> y\<close> have "i < j \<or> j < i" by (metis nat_neq_iff)
  moreover from assms(4) have "clash y x" using clash_sym by blast
  ultimately show False using ij assms(1,4)
    by (auto simp: unique_rows_def sorted_wrt_iff_nth_less)
qed

end

section \<open>The constraints of the tables\<close>

definition user_clash :: "user \<Rightarrow> user \<Rightarrow> bool" where
  "user_clash r x \<longleftrightarrow> user_id x = user_id r \<or> email x = email r"

definition permission_clash :: "permission \<Rightarrow> permission \<Rightarrow> bool" where
  "permission_clash r x \<longleftrightarrow> perm_code x = perm_code r"

definition role_clash :: "role \<Rightarrow> role \<Rightarrow> bool" where
  "role_clash r x \<longleftrightarrow> role_id x = role_id r
     \<or> (role_slug x = role_slug r \<and> role_organization x = role_organization r)"

definition role_assignment_clash :: "role_assignment \<Rightarrow> role_assignment \<Rightarrow> bool" where
  "role_assignment_clash r x \<longleftrightarrow> ra_id x = ra_id r
     \<or> (ra_user x = ra_user r \<and> ra_role x = ra_role r
         \<and> ra_organization x = ra_organization r \<and> ra_organization r \<noteq> None)"

definition resource_grant_clash :: "resource_grant \<Rightarrow> resource_grant \<Rightarrow> bool" where
  "resource_grant_clash r x \<longleftrightarrow> rg_id x = rg_id r
     \<or> (rg_user x = rg_user r \<and> rg_permission x = rg_permission r
         \<and> rg_resource_type x = rg_resource_type r \<and> rg_resource_id x = rg_resource_id r)"

definition organization_clash :: "organization \<Rightarrow> organization \<Rightarrow> bool" where
  "organization_clash r x \<longleftrightarrow> org_id x = org_id r \<or> org_slug x = org_slug r"

definition team_clash :: "team \<Rightarrow> team \<Rightarrow> bool" where
  "team_clash r x \<longleftrightarrow> team_id x = team_id r
     \<or> (team_organization x = team_organization r \<and> team_name x = team_name r)"

definition membership_clash :: "membership \<Rightarrow> membership \<Rightarrow> bool" where
  "membership_clash r x \<longleftrightarrow> mem_id x = mem_id r
     \<or> (mem_user x = mem_user r \<and> mem_organization x = mem_organization r)"

definition workspace_clash :: "workspace \<Rightarrow> workspace \<Rightarrow> bool" where
  "workspace_clash r x \<longleftrightarrow> ws_id x = ws_id r
     \<or> (ws_organization x = ws_organization r \<and> ws_name x = ws_name r)"

definition project_clash :: "project \<Rightarrow> project \<Rightarrow> bool" where
  "project_clash r x \<longleftrightarrow> proj_id x = proj_id r
     \<or> (proj_workspace x = proj_workspace r \<and> proj_name x = proj_name r)"

definition bucket_clash :: "bucket \<Rightarrow> bucket \<Rightarrow> bool" where
  "bucket_clash r x \<longleftrightarrow> bkt_id x = bkt_id r
     \<or> (bkt_project x = bkt_project r \<and> bkt_name x = bkt_name r)"

definition folder_clash :: "folder \<Rightarrow> folder \<Rightarrow> bool" where
  "folder_clash r x \<longleftrightarrow> fld_id x = fld_id r
     \<or> (fld_bucket x = fld_bucket r \<and> fld_parent x = fld_parent r
         \<and> fld_parent r \<noteq> None \<and> fld_name x = fld_name r)"

definition file_clash :: "file_object \<Rightarrow> file_object \<Rightarrow> bool" where
  "file_clash r x \<longleftrightarrow> file_id x = file_id r \<or> object_key x = object_key r
     \<or> (file_bucket x = file_bucket r \<and> file_folder x = file_folder r \<and> file_folder r \<noteq> None
        \<and> display_filename x = display_filename r
        \<and> file_status x = FActive \<and> file_status r = FActive)"

definition file_version_clash :: "file_version \<Rightarrow> file_version \<Rightarrow> bool" where
  "file_version_clash r x \<longleftrightarrow> fv_id x = fv_id r \<or> fv_object_key x = fv_object_key r"

definition tenant_database_clash :: "tenant_database \<Rightarrow> tenant_database \<Rightarrow> bool" where
  "tenant_database_clash r x \<longleftrightarrow> tdb_id x = tdb_id r \<or> schema_name x = schema_name r
     \<or> (tdb_project x = tdb_project r \<and> tdb_name x = tdb_name r)"

definition db_table_clash :: "db_table \<Rightarrow> db_table \<Rightarrow> bool" where
  "db_table_clash r x \<longleftrightarrow> tbl_id x = tbl_id r
     \<or> (tbl_database x = tbl_database r \<and> tbl_name x = tbl_name r)"

definition db_column_clash :: "db_column \<Rightarrow> db_column \<Rightarrow> bool" where
  "db_column_clash r x \<longleftrightarrow> col_id x = col_id r
     \<or> (col_table x = col_table r \<and> col_name x = col_name r)"

definition db_foreign_key_clash :: "db_foreign_key \<Rightarrow> db_foreign_key \<Rightarrow> bool" where
  "db_foreign_key_clash r x \<longleftrightarrow> fk_id x = fk_id r \<or> fk_column x = fk_column r"

definition db_index_clash :: "db_index \<Rightarrow> db_index \<Rightarrow> bool" where
  "db_index_clash r x \<longleftrightarrow> idx_id x = idx_id r \<or> idx_name x = idx_name r"

definition connected_database_clash :: "connected_database \<Rightarrow> connected_database \<Rightarrow> bool" where
  "connected_database_clash r x \<longleftrightarrow> cdb_id x = cdb_id r
     \<or> (cdb_project x = cdb_project r \<and> cdb_name x = cdb_name r)"

definition application_clash :: "application \<Rightarrow> application \<Rightarrow> bool" where
  "application_clash r x \<longleftrightarrow> app_id x = app_id r
     \<or> (app_organization x = app_organization r \<and> app_name x = app_name r)"

definition service_account_clash :: "service_account \<Rightarrow> service_account \<Rightarrow> bool" where
  "service_account_clash r x \<longleftrightarrow> sa_id x = sa_id r \<or> sa_application x = sa_application r
     \<or> sa_identity_user x = sa_identity_user r"

definition credential_clash :: "application_credential \<Rightarrow> application_credential \<Rightarrow> bool" where
  "credential_clash r x \<longleftrightarrow> cred_id x = cred_id r \<or> secret_hash x = secret_hash r"

definition share_grant_clash :: "share_grant \<Rightarrow> share_grant \<Rightarrow> bool" where
  "share_grant_clash r x \<longleftrightarrow> sg_id x = sg_id r"

definition import_job_clash :: "import_job \<Rightarrow> import_job \<Rightarrow> bool" where
  "import_job_clash r x \<longleftrightarrow> ij_id x = ij_id r"

lemmas clash_defs = user_clash_def permission_clash_def role_clash_def role_assignment_clash_def
  resource_grant_clash_def organization_clash_def team_clash_def membership_clash_def
  workspace_clash_def project_clash_def bucket_clash_def folder_clash_def file_clash_def
  file_version_clash_def tenant_database_clash_def db_table_clash_def db_column_clash_def
  db_foreign_key_clash_def db_index_clash_def connected_database_clash_def
  application_clash_def service_account_clash_def credential_clash_def share_grant_clash_def
  import_job_clash_def

text \<open>\<open>no_clash\<close>: a table written without a check.\<close>

definition no_clash :: "'r \<Rightarrow> 'r \<Rightarrow> bool" where
  "no_clash r x = False"

interpretation user_table: orm_table users users_update user_clash
  by unfold_locales (auto simp: clash_defs)

interpretation role_table: orm_table roles roles_update role_clash
  by unfold_locales (auto simp: clash_defs)

interpretation membership_table: orm_table memberships memberships_update membership_clash
  by unfold_locales (auto simp: clash_defs)

interpretation role_assignment_table: orm_table role_assignments role_assignments_update role_assignment_clash
  by unfold_locales (auto simp: clash_defs)

interpretation resource_grant_table: orm_table resource_grants resource_grants_update resource_grant_clash
  by unfold_locales (auto simp: clash_defs)

interpretation organization_table: orm_table organizations organizations_update organization_clash
  by unfold_locales (auto simp: clash_defs)

interpretation team_table: orm_table teams teams_update team_clash
  by unfold_locales (auto simp: clash_defs)

interpretation workspace_table: orm_table workspaces workspaces_update workspace_clash
  by unfold_locales (auto simp: clash_defs)

interpretation project_table: orm_table projects projects_update project_clash
  by unfold_locales (auto simp: clash_defs)

interpretation bucket_table: orm_table buckets buckets_update bucket_clash
  by unfold_locales (auto simp: clash_defs)

interpretation folder_table: orm_table folders folders_update folder_clash
  by unfold_locales (auto simp: clash_defs)

interpretation file_table: orm_table files files_update file_clash
  by unfold_locales (auto simp: clash_defs)

interpretation tenant_database_table: orm_table tenant_databases tenant_databases_update tenant_database_clash
  by unfold_locales (auto simp: clash_defs)

interpretation db_table_table: orm_table db_tables db_tables_update db_table_clash
  by unfold_locales (auto simp: clash_defs)

interpretation db_column_table: orm_table db_columns db_columns_update db_column_clash
  by unfold_locales (auto simp: clash_defs)

interpretation connected_database_table: orm_table connected_databases connected_databases_update connected_database_clash
  by unfold_locales (auto simp: clash_defs)

interpretation share_grant_table: orm_table share_grants share_grants_update share_grant_clash
  by unfold_locales (auto simp: clash_defs)

interpretation application_table: orm_table applications applications_update application_clash
  by unfold_locales (auto simp: clash_defs)

interpretation credential_table: orm_table credentials credentials_update credential_clash
  by unfold_locales (auto simp: clash_defs)

interpretation import_job_table: orm_table import_jobs import_jobs_update import_job_clash
  by unfold_locales (auto simp: clash_defs)

end
