(* ===== verification/AuditLog.thy ===== *)
theory AuditLog
  imports Orm
begin

text \<open>
  The audit log (\<open>audit/services.py\<close>, \<open>audit/models.py\<close>): \<open>record\<close>, the one way an event is
  written, and the overrides that close the ORM's modify and delete paths. The log of a world is
  \<open>audit_events\<close> in writing order; \<open>logs\<close> says that a program only ever appends to it.
\<close>

section \<open>Writing events\<close>

definition audit_record ::
  "user option \<Rightarrow> uuid option \<Rightarrow> string \<Rightarrow> string \<Rightarrow> string \<Rightarrow> string \<Rightarrow> audit_result
     \<Rightarrow> (string \<times> json) list \<Rightarrow> unit app" where
  "audit_record actor organization action resource_type resource_id request_id result context =
     bind uuid4 (\<lambda>i. bind now (\<lambda>t.
     orm_create audit_events audit_events_update no_clash
       \<lparr>ae_id = i, ae_timestamp = t, ae_actor = map_option user_id actor,
        ae_organization = organization, ae_action = action, ae_resource_type = resource_type,
        ae_resource_id = resource_id, ae_request_id = request_id, ae_result = result,
        ae_context = context\<rparr>))"

definition audit_row ::
  "world \<Rightarrow> user option \<Rightarrow> uuid option \<Rightarrow> string \<Rightarrow> string \<Rightarrow> string \<Rightarrow> string \<Rightarrow> audit_result
     \<Rightarrow> (string \<times> json) list \<Rightarrow> audit_event" where
  "audit_row w actor organization action resource_type resource_id request_id result context =
     \<lparr>ae_id = uuid_source (env w) (rng w), ae_timestamp = clock w,
      ae_actor = map_option user_id actor,
      ae_organization = organization, ae_action = action, ae_resource_type = resource_type,
      ae_resource_id = resource_id, ae_request_id = request_id, ae_result = result,
      ae_context = context\<rparr>"

definition log_event :: "audit_event \<Rightarrow> world \<Rightarrow> world" where
  "log_event e w = w\<lparr>rng := Suc (rng w), ctl := audit_events_update (\<lambda>xs. xs @ [e]) (ctl w)\<rparr>"

lemma audit_record_run [simp]:
  "audit_record actor org action rt rid req res ctx w =
     (Inr (), log_event (audit_row w actor org action rt rid req res ctx) w)"
  by (simp add: audit_record_def orm_create_def no_clash_def audit_row_def log_event_def bind_def
      list_ex_iff)

lemma wp_audit_record [wp, simp]:
  "wp (audit_record actor org action rt rid req res ctx) Q E w =
     Q () (log_event (audit_row w actor org action rt rid req res ctx) w)"
  by (simp add: wp_def)

lemma log_event_simps [simp]:
  "ctl (log_event e w) = audit_events_update (\<lambda>xs. xs @ [e]) (ctl w)"
  "tnt (log_event e w) = tnt w"
  "pg_calls (log_event e w) = pg_calls w"
  "objects (log_event e w) = objects w"
  "s3_calls (log_event e w) = s3_calls w"
  "net_calls (log_event e w) = net_calls w"
  "tasks (log_event e w) = tasks w"
  "rng (log_event e w) = Suc (rng w)"
  "clock (log_event e w) = clock w"
  "env (log_event e w) = env w"
  by (simp_all add: log_event_def)

lemma audit_row_simps [simp]:
  "ae_result (audit_row w actor org action rt rid req res ctx) = res"
  "ae_action (audit_row w actor org action rt rid req res ctx) = action"
  "ae_organization (audit_row w actor org action rt rid req res ctx) = org"
  "ae_actor (audit_row w actor org action rt rid req res ctx) = map_option user_id actor"
  "ae_resource_type (audit_row w actor org action rt rid req res ctx) = rt"
  "ae_resource_id (audit_row w actor org action rt rid req res ctx) = rid"
  "ae_context (audit_row w actor org action rt rid req res ctx) = ctx"
  by (simp_all add: audit_row_def)

text \<open>A predicate on the control database that does not look at the log survives a record.\<close>

definition ignores_audit :: "(control \<Rightarrow> bool) \<Rightarrow> bool" where
  "ignores_audit J \<longleftrightarrow> (\<forall>f c. J (audit_events_update f c) = J c)"

lemma preserves_audit_record [keeps]:
  "ignores_audit J \<Longrightarrow>
     preserves (\<lambda>w::world. J (ctl w)) (audit_record actor org action rt rid req res ctx)"
  by (simp add: preserves_def ignores_audit_def)

section \<open>The ORM overrides\<close>

text \<open>\<open>AuditEvent.save\<close>: \<open>adding\<close> is \<open>self._state.adding\<close>, true until the instance is stored.\<close>

definition AuditEvent_save :: "bool \<Rightarrow> audit_event \<Rightarrow> unit app" where
  "AuditEvent_save adding e =
     (if \<not> adding then raise ValueError
      else orm_create audit_events audit_events_update no_clash e)"

definition AuditEvent_delete :: "audit_event \<Rightarrow> unit app" where
  "AuditEvent_delete e = raise ValueError"

text \<open>\<open>AuditEvent.objects.filter(P).delete()\<close>: the \<open>pre_delete\<close> receiver runs for each selected
  row before the SQL DELETE, in the one transaction \<open>delete()\<close> opens.\<close>

definition forbid_audit_event_deletion :: "audit_event \<Rightarrow> unit app" where
  "forbid_audit_event_deletion e = raise ValueError"

definition AuditEvent_filter_delete :: "(audit_event \<Rightarrow> bool) \<Rightarrow> unit app" where
  "AuditEvent_filter_delete P = atomic_default (
     bind (query (\<lambda>c. filter P (audit_events c))) (\<lambda>es.
     bind (for_each forbid_audit_event_deletion es) (\<lambda>_.
     on_ctl (audit_events_update (delete_where P)))))"

section \<open>Append-only programs\<close>

text \<open>\<open>logs m\<close>: whatever \<open>m\<close> does, on normal return and on an exception, the log before is a
  prefix of the log after.\<close>

definition logs :: "'a app \<Rightarrow> bool" where
  "logs m \<longleftrightarrow> (\<forall>w. prefix (audit_events (ctl w)) (audit_events (ctl (snd (m w)))))"

named_theorems logs "programs that only append to the audit log"

lemma logsI: "(\<And>w. prefix (audit_events (ctl w)) (audit_events (ctl (snd (m w))))) \<Longrightarrow> logs m"
  by (simp add: logs_def)

lemma logsD: "logs m \<Longrightarrow> m w = (r, t) \<Longrightarrow> prefix (audit_events (ctl w)) (audit_events (ctl t))"
  by (metis logs_def snd_conv)

lemma logs_ret [logs]: "logs (ret x)"
  and logs_raise [logs]: "logs (raise e)"
  and logs_gets [logs]: "logs (gets f)"
  and logs_lift [logs]: "logs (lift r)"
  and logs_ensure [logs]: "logs (ensure b e)"
  and logs_query [logs]: "logs (query g)"
  and logs_now [logs]: "logs now"
  and logs_uuid4 [logs]: "logs uuid4"
  and logs_get_one [logs]: "logs (get_one h)"
  and logs_audit_record [logs]: "logs (audit_record actor org action rt rid req res ctx)"
  by (simp_all add: logs_def get_one_run)

lemma logs_bind [logs]:
  assumes "logs m" and "\<And>x. logs (f x)"
  shows "logs (bind m f)"
proof (rule logsI)
  fix w
  obtain r t where m: "m w = (r, t)" by (cases "m w")
  with assms(1) have 1: "prefix (audit_events (ctl w)) (audit_events (ctl t))" by (rule logsD)
  show "prefix (audit_events (ctl w)) (audit_events (ctl (snd (bind m f w))))"
  proof (cases r)
    case (Inr x)
    obtain r' t' where f: "f x t = (r', t')" by (cases "f x t")
    with assms(2) have "prefix (audit_events (ctl t)) (audit_events (ctl t'))" by (rule logsD)
    with 1 m f Inr show ?thesis by (auto intro: prefix_order.trans)
  qed (use 1 m in simp)
qed

lemma logs_catch [logs]:
  assumes "logs m" and "\<And>e. logs (h e)"
  shows "logs (catch m h)"
proof (rule logsI)
  fix w
  obtain r t where m: "m w = (r, t)" by (cases "m w")
  with assms(1) have 1: "prefix (audit_events (ctl w)) (audit_events (ctl t))" by (rule logsD)
  show "prefix (audit_events (ctl w)) (audit_events (ctl (snd (catch m h w))))"
  proof (cases r)
    case (Inl e)
    obtain r' t' where f: "h e t = (r', t')" by (cases "h e t")
    with assms(2) have "prefix (audit_events (ctl t)) (audit_events (ctl t'))" by (rule logsD)
    with 1 m f Inl show ?thesis by (auto intro: prefix_order.trans)
  qed (use 1 m in simp)
qed

lemma logs_run:
  assumes "logs m"
    and "\<And>w r t. m w = (r, t) \<Longrightarrow> audit_events (ctl (snd (n w))) = audit_events (ctl t)
           \<or> audit_events (ctl (snd (n w))) = audit_events (ctl w)"
  shows "logs n"
proof (rule logsI)
  fix w
  obtain r t where m: "m w = (r, t)" by (cases "m w")
  with assms(1) have "prefix (audit_events (ctl w)) (audit_events (ctl t))" by (rule logsD)
  with assms(2) [OF m] show "prefix (audit_events (ctl w)) (audit_events (ctl (snd (n w))))"
    by auto
qed

lemma logs_attempt [logs]: "logs m \<Longrightarrow> logs (attempt m)"
  by (erule logs_run) (simp add: attempt_def)

lemma logs_or_404 [logs]: "logs m \<Longrightarrow> logs (or_404 m)"
  unfolding or_404_def by (intro logs conjI impI) (auto intro: logs)

lemma logs_if [logs]: "(b \<Longrightarrow> logs m) \<Longrightarrow> (\<not> b \<Longrightarrow> logs n) \<Longrightarrow> logs (if b then m else n)"
  by simp

lemma logs_case_option [logs]:
  "logs n \<Longrightarrow> (\<And>x. logs (m x)) \<Longrightarrow> logs (case opt of None \<Rightarrow> n | Some x \<Rightarrow> m x)"
  by (cases opt) simp_all

lemma logs_case_sum [logs]:
  "(\<And>e. logs (n e)) \<Longrightarrow> (\<And>x. logs (m x)) \<Longrightarrow> logs (case r of Inl e \<Rightarrow> n e | Inr x \<Rightarrow> m x)"
  by (cases r) simp_all

lemma logs_case_prod [logs]: "(\<And>x y. logs (m x y)) \<Longrightarrow> logs (case p of (x, y) \<Rightarrow> m x y)"
  by (cases p) simp

lemma logs_for_each [logs]: "(\<And>x. x \<in> set xs \<Longrightarrow> logs (f x)) \<Longrightarrow> logs (for_each f xs)"
  by (induction xs) (auto intro: logs)

lemma logs_for_map [logs]: "(\<And>x. x \<in> set xs \<Longrightarrow> logs (f x)) \<Longrightarrow> logs (for_map f xs)"
  by (induction xs) (auto intro!: logs)

lemma logs_atomic_default [logs]: "logs m \<Longrightarrow> logs (atomic_default m)"
  by (erule logs_run) (auto simp: atomic_default_def split: sum.splits)

lemma logs_atomic_tenant [logs]: "logs m \<Longrightarrow> logs (atomic_tenant m)"
  by (erule logs_run) (auto simp: atomic_tenant_def split: sum.splits)

lemma logs_tenant [logs]: "logs (tenant_execute q ps)" "logs (tenant_select q ps)"
  by (auto simp: logs_def tenant_execute_def tenant_select_def Let_def split: sum.splits)

lemma logs_on_ctl [logs]:
  "(\<And>c. prefix (audit_events c) (audit_events (f c))) \<Longrightarrow> logs (on_ctl f)"
  by (simp add: logs_def)

lemma logs_orm_create [logs]:
  "(\<And>c. prefix (audit_events c) (audit_events (upd (\<lambda>xs. xs @ [r]) c))) \<Longrightarrow>
     logs (orm_create rows upd clash r)"
  by (simp add: logs_def orm_create_def)

lemma logs_orm_update [logs]:
  "(\<And>c. prefix (audit_events c) (audit_events (upd (update_where (\<lambda>r. rid r = i) f) c))) \<Longrightarrow>
     logs (orm_update rows upd clash rid i f)"
  by (simp add: logs_def orm_update_def)

lemma logs_s3 [logs]: "logs (s3_put key content)" "logs (s3_get key)" "logs (s3_delete key)"
  by (auto simp: logs_def s3_put_def s3_get_def s3_delete_def s3_call_def Let_def
      split: option.splits)

lemma logs_modify [logs]:
  "(\<And>w. prefix (audit_events (ctl w)) (audit_events (ctl (f w)))) \<Longrightarrow> logs (modify f)"
  by (simp add: logs_def)

lemma logs_overrides [logs]:
  "logs (AuditEvent_save adding e)" "logs (AuditEvent_delete e)"
  unfolding AuditEvent_save_def AuditEvent_delete_def by (intro logs; simp)+

lemma filter_delete_run:
  "AuditEvent_filter_delete P w =
     (if \<exists>e \<in> set (audit_events (ctl w)). P e then (Inl ValueError, w) else (Inr (), w))"
proof (cases "filter P (audit_events (ctl w))")
  case Nil
  then have no: "\<forall>e \<in> set (audit_events (ctl w)). \<not> P e" by (simp add: filter_empty_conv)
  then have "delete_where P (audit_events (ctl w)) = audit_events (ctl w)"
    by (simp add: delete_where_def)
  then show ?thesis
    using no Nil by (simp add: AuditEvent_filter_delete_def atomic_default_def bind_def)
next
  case (Cons e es)
  then have "e \<in> set (filter P (audit_events (ctl w)))" by simp
  then have "\<exists>e \<in> set (audit_events (ctl w)). P e" by auto
  then show ?thesis
    using Cons by (simp add: AuditEvent_filter_delete_def atomic_default_def bind_def
        forbid_audit_event_deletion_def)
qed

end
