(* ===== verification/Http.thy ===== *)
theory Http
  imports AuditLog
begin

text \<open>
  What the views share: the response they return, the input their serializers validate, and
  \<open>permission_classes = [IsAuthenticated]\<close>. A serializer's own field checks are Django REST
  framework code, so a view receives the validated data, or \<open>None\<close> when \<open>is_valid\<close> rejects the
  request; an exception that leaves a view is turned into a status by the framework's handler.
  A body is the row (or the rows) the view hands to its serializer, which picks columns of it.
\<close>

definition respond :: "nat \<Rightarrow> payload \<Rightarrow> response app" where
  "respond st b = ret (Response st b)"

lemma respond_run [simp]: "respond st b w = (Inr (Response st b), w)"
  by (simp add: respond_def)

lemma wp_respond [wp, simp]: "wp (respond st b) Q E w = Q (Response st b) w"
  by (simp add: wp_def)

lemma preserves_respond [keeps]: "preserves I (respond st b)"
  by (simp add: preserves_def)

lemma logs_respond [logs]: "logs (respond st b)"
  by (simp add: logs_def)

text \<open>\<open>serializer.is_valid(raise_exception=True)\<close> and the read of \<open>validated_data\<close>.\<close>

definition validated :: "'d option \<Rightarrow> 'd app" where
  "validated data = (case data of None \<Rightarrow> raise ValidationError | Some d \<Rightarrow> ret d)"

lemma validated_simps [simp]:
  "validated None = raise ValidationError"
  "validated (Some d) = ret d"
  by (simp_all add: validated_def)

lemma wp_validated [wp]:
  "wp (validated data) Q E w = (case data of None \<Rightarrow> E ValidationError w | Some d \<Rightarrow> Q d w)"
  by (cases data) simp_all

lemma preserves_validated [keeps]: "preserves I (validated data)"
  by (cases data) (auto intro: keeps)

lemma logs_validated [logs]: "logs (validated data)"
  by (cases data) (auto intro: logs)

text \<open>\<open>IsAuthenticated\<close>: an anonymous request never reaches the method.\<close>

definition authenticated :: "user option \<Rightarrow> (user \<Rightarrow> response app) \<Rightarrow> response app" where
  "authenticated u view = (case u of None \<Rightarrow> raise NotAuthenticated | Some v \<Rightarrow> view v)"

lemma authenticated_simps [simp]:
  "authenticated None view = raise NotAuthenticated"
  "authenticated (Some v) view = view v"
  by (simp_all add: authenticated_def)

end
