(* ===== verification/Fixtures.thy ===== *)
theory Fixtures
  imports Http
begin

text \<open>
  A concrete environment and an empty world, the inputs at which the witnesses of the properties
  evaluate the model: identifiers counted up from 1000, a PostgreSQL server that accepts every
  statement and returns no rows, storage that never fails, a scanner that finds nothing.
\<close>

definition base_library :: library where
  "base_library = \<lparr>stream_lines = (\<lambda>b. [b]),
     decode_replace = (\<lambda>e. Some (map (\<lambda>x. char_of (unat x)))), decode_strict = (\<lambda>e b. Some (map (\<lambda>x. char_of (unat x)) b)),
     csv_sniff = (\<lambda>s. None), json_dumps_pretty = (\<lambda>j. ''{}''), json_loads = (\<lambda>b. Inr (JObj [])),
     zip_pack = (\<lambda>m. []), zip_open = (\<lambda>b. Some (\<lambda>k. Inl KeyError)), tar_pack = (\<lambda>m. []), tar_open = (\<lambda>b. Some []),
     argon2id = (\<lambda>p s t m k. Inr p), aesgcm_encrypt = (\<lambda>k n b. b), aesgcm_decrypt = (\<lambda>k n b. Inr b)\<rparr>"

definition base_numerics :: numerics where
  "base_numerics = \<lparr>to_float = (\<lambda>v. Inr ''0.0''), float_op = (\<lambda>f x y. x), float_less = (\<lambda>x y. False), float_int = (\<lambda>x. Inr 0),
     np_reduce = (\<lambda>f xs. ''0.0''), np_percentile = (\<lambda>xs ps. Inr []), np_moving_average = (\<lambda>xs n. Inr []),
     sp_paired = (\<lambda>f xs ys. Inr []), sp_grouped = (\<lambda>f gs. Inr (''0.0'', ''1.0'')), sp_chi2 = (\<lambda>t. Inr (''0.0'', ''1.0'', 1))\<rparr>"

definition base_machine :: machine where
  "base_machine = \<lparr>environ = (\<lambda>k. None), run_process = (\<lambda>n c f. (Some (0, ''''), f)), disk_fails = (\<lambda>n. False),
     backup_encryption_key = '''', backup_dir = ''/backups'',
     db_settings = (\<lambda>a. \<lparr>cp_host = ''db'', cp_port = 5432, cp_database = a, cp_username = ''u'', cp_password = ''p'', cp_sslmode = ''''\<rparr>),
     strftime = (\<lambda>t. '''')\<rparr>"

definition base_env :: env where
  "base_env = \<lparr>uuid_source = (\<lambda>n. word_of_nat (1000 + n)),
     pg = (\<lambda>n h s. Inr \<lparr>description = [], fetched = [], rowcount = 0\<rparr>),
     s3_fails = (\<lambda>n. False), scanner = (\<lambda>b. ScanOK), sha256 = (\<lambda>b. ''''),
     exn_str = (\<lambda>e. ''''), internet_gateway = False, external_sharing = False,
     max_upload_size = 100, malware_scan = False, slugify = (\<lambda>s. s), pg_upper = (\<lambda>s. s), collation = (\<lambda>s t. True),
     token_source = (\<lambda>n. replicate (Suc n) CHR ''t''), token_bytes = (\<lambda>n k. replicate k 7),
     hmac_sha1 = (\<lambda>k m. replicate 20 9), fernet_encrypt = (\<lambda>n s. 0 # map (\<lambda>c. word_of_nat (of_char c)) s),
     fernet_decrypt = (\<lambda>b. case b of [] \<Rightarrow> None | v # xs \<Rightarrow> Some (map (\<lambda>x. char_of (unat x)) xs)),
     make_password = (\<lambda>n s. s), check_password = (\<lambda>s h. s = h), password_ok = (\<lambda>s. True),
     getaddrinfo = (\<lambda>n h. Some []), block_private = False,
     remote_connect = (\<lambda>n p. None),
     remote_execute = (\<lambda>n p s. Inr \<lparr>description = [], fetched = [], rowcount = 0\<rparr>),
     stream_breaks = (\<lambda>n. None), s3_keys = (\<lambda>f. []), retry_outcome = (\<lambda>n m e. if n < m then Retry else e),
     analytics_max_rows = 100, product_version = ''1'', lib = base_library, np = base_numerics,
     worker = base_machine\<rparr>"

definition no_rows :: control where
  "no_rows = \<lparr>users = [], permissions = [], roles = [], role_assignments = [],
     resource_grants = [], organizations = [], teams = [], memberships = [], workspaces = [],
     projects = [], audit_events = [], buckets = [], folders = [], files = [],
     file_versions = [], tenant_databases = [], db_tables = [], db_columns = [],
     db_foreign_keys = [], db_indexes = [], connected_databases = [], share_grants = [],
     applications = [], service_accounts = [], credentials = [], import_jobs = [],
     import_job_errors = [], export_jobs = [], restore_jobs = [], dashboards = [], backup_records = []\<rparr>"

definition world_of :: "control \<Rightarrow> world" where
  "world_of c = \<lparr>ctl = c, tnt = [], pg_calls = 0, objects = (\<lambda>k. None), s3_calls = 0, net_calls = 0,
     tasks = [], rng = 0, clock = 50, disk = (\<lambda>k. None), disk_calls = 0, env = base_env\<rparr>"

lemma base_env_simps [simp]:
  "uuid_source base_env n = word_of_nat (1000 + n)"
  "pg base_env k h s = Inr \<lparr>description = [], fetched = [], rowcount = 0\<rparr>"
  "s3_fails base_env n = False" "scanner base_env b = ScanOK" "sha256 base_env b = ''''"
  "internet_gateway base_env = False" "external_sharing base_env = False"
  "max_upload_size base_env = 100" "malware_scan base_env = False"
  "token_source base_env n = replicate (Suc n) CHR ''t''" "token_bytes base_env n k = replicate k 7"
  "hmac_sha1 base_env key m = replicate 20 9" "fernet_decrypt base_env b = (case b of [] \<Rightarrow> None | v # xs \<Rightarrow> Some (map (\<lambda>x. char_of (unat x)) xs))"
  "fernet_encrypt base_env n x = 0 # map (\<lambda>c. word_of_nat (of_char c)) x"
  "make_password base_env n x = x" "check_password base_env x y \<longleftrightarrow> x = y" "password_ok base_env x = True"
  "getaddrinfo base_env n x = Some []" "block_private base_env = False" "remote_connect base_env n cp = None"
  "remote_execute base_env n cp st = Inr \<lparr>description = [], fetched = [], rowcount = 0\<rparr>"
  "slugify base_env x = x" "pg_upper base_env x = x" "collation base_env x y"
  "stream_breaks base_env n = None" "s3_keys base_env objs = []" "retry_outcome base_env n n2 e = (if n < n2 then Retry else e)"
  "analytics_max_rows base_env = 100" "lib base_env = base_library" "np base_env = base_numerics"
  "worker base_env = base_machine"
  by (simp_all add: base_env_def)

lemma world_of_simps [simp]:
  "ctl (world_of c) = c" "tnt (world_of c) = []" "pg_calls (world_of c) = 0"
  "objects (world_of c) = (\<lambda>k. None)" "s3_calls (world_of c) = 0" "net_calls (world_of c) = 0" "tasks (world_of c) = []"
  "rng (world_of c) = 0" "clock (world_of c) = 50" "disk (world_of c) = (\<lambda>k. None)"
  "disk_calls (world_of c) = 0" "env (world_of c) = base_env"
  by (simp_all add: world_of_def)

definition alice :: user where
  "alice = \<lparr>user_id = 1, email = ''alice'', first_name = '''', last_name = '''', is_active = True,
     mfa_enabled = False, mfa_secret_encrypted = None, mfa_confirmed_at = None, password = None\<rparr>"

definition bob :: user where
  "bob = alice\<lparr>user_id := 2, email := ''bob''\<rparr>"

lemma people_simps [simp]:
  "user_id alice = 1" "email alice = ''alice''" "mfa_enabled alice = False" "is_active alice = True"
  "mfa_secret_encrypted alice = None"
  "user_id bob = 2" "email bob = ''bob''" "mfa_enabled bob = False" "is_active bob = True"
  by (simp_all add: alice_def bob_def)

lemma word_of_nat_draw:
  assumes "m < 2 ^ 64"
  shows "unat (word_of_nat (1000 + m) :: uuid) = 1000 + m"
  using assms by (simp add: unsigned_of_nat take_bit_nat_eq_self del: of_nat_add)

lemma fresh_draws_world_of:
  assumes "k \<le> 1000" and "ids \<subseteq> {i. unat i < 1000}"
  shows "fresh_draws (world_of c) k ids"
proof -
  have draw: "unat (uuid_source (env (world_of c)) n) = 1000 + n" if "n < 1000" for n
    using word_of_nat_draw [of n] that by simp
  let ?f = "uuid_source (env (world_of c))"
  have "inj_on (unat \<circ> ?f) {0..<k}"
  proof (rule inj_onI)
    fix m n assume "m \<in> {0..<k}" "n \<in> {0..<k}" and eq: "(unat \<circ> ?f) m = (unat \<circ> ?f) n"
    then have "m < 1000" "n < 1000" using assms(1) by simp_all
    with eq show "m = n" using draw [of m] draw [of n] by simp
  qed
  then have "inj_on ?f {0..<k}" by (rule inj_on_imageI2)
  moreover have "?f n \<notin> ids" if "n \<in> {0..<k}" for n
  proof
    assume "?f n \<in> ids"
    with assms(2) have "unat (?f n) < 1000" by blast
    moreover have "unat (?f n) = 1000 + n" using that assms(1) by (intro draw) simp
    ultimately show False by simp
  qed
  then have "?f ` {0..<k} \<inter> ids = {}" by blast
  ultimately show ?thesis by (simp add: fresh_draws_def)
qed

end
