(* ===== verification/Permissions.thy ===== *)
theory Permissions
  imports Fixtures
begin

text \<open>
  The authorization service (\<open>permissions/catalog.py\<close>, \<open>permissions/services.py\<close>, the
  \<open>seed_permissions\<close> command): the permission catalog and the system roles, the decision
  \<open>has_permission\<close> every view and service asks, and the two ways authority is handed out,
  \<open>assign_role\<close> and \<open>grant_resource_permission\<close>. \<open>permitted\<close> is the decision as a function of
  the stored rows and the clock; the lemmas say what each operation does to it.
\<close>

section \<open>The catalog\<close>

definition PERMISSIONS :: "(string \<times> string) list" where
  "PERMISSIONS = [
     (''storage.read'', ''View/download files and folders''),
     (''storage.write'', ''Upload, create folders, rename, move''),
     (''storage.delete'', ''Delete/restore files and folders''),
     (''storage.share'', ''Create share grants for storage resources''),
     (''storage.manage'', ''Bucket-level configuration (quotas, versioning, retention)''),
     (''database.create'', ''Create a new TenantDatabase within a Project''),
     (''database.read'', ''Query/browse data in a database the actor can reach''),
     (''database.write'', ''Insert/update/delete rows''),
     (''database.schema.manage'', ''Create/alter tables, columns, constraints, relationships''),
     (''database.delete'', ''Drop a database/schema''),
     (''dataset.import'', ''Run CSV import jobs''),
     (''dataset.export'', ''Export data (CSV, API)''),
     (''dataset.analyze'', ''Create/edit saved analytics dashboards (ad-hoc analysis only needs database.read)''),
     (''application.create'', ''Register a new Application''),
     (''application.credentials.manage'', ''Issue/rotate/revoke Application credentials''),
     (''permissions.manage'', ''Create/edit Roles, assign Roles, create Resource Grants''),
     (''users.manage'', ''Invite/remove/suspend users, manage Team membership''),
     (''audit.read'', ''View audit logs''),
     (''backup.manage'', ''Trigger/inspect backup and restore operations''),
     (''export.manage'', ''Create and download portable (.icp) exports of an organization''),
     (''connection.manage'', ''Create/edit ConnectedDatabase configurations''),
     (''sharing.manage'', ''Create/revoke ShareGrants (internal/external)''),
     (''system.admin'', ''Platform-wide administrative operations (Super Administrator only)'')]"

definition ALL_PERMISSIONS :: "string list" where
  "ALL_PERMISSIONS = map fst PERMISSIONS"

definition STORAGE_RW :: "string list" where
  "STORAGE_RW = [''storage.read'', ''storage.write'']"

definition DATABASE_RW :: "string list" where
  "DATABASE_RW = [''database.read'', ''database.write'']"

definition SYSTEM_ROLES :: "(string \<times> string \<times> string list) list" where
  "SYSTEM_ROLES = [
     (''super-administrator'', ''Super Administrator'', ALL_PERMISSIONS),
     (''organization-administrator'', ''Organization Administrator'',
        filter (\<lambda>p. p \<noteq> ''system.admin'') ALL_PERMISSIONS),
     (''storage-administrator'', ''Storage Administrator'',
        [''storage.read'', ''storage.write'', ''storage.delete'', ''storage.share'',
         ''storage.manage'']),
     (''database-administrator'', ''Database Administrator'',
        [''database.create'', ''database.read'', ''database.write'', ''database.schema.manage'',
         ''database.delete'', ''dataset.import'', ''dataset.export'', ''dataset.analyze'',
         ''connection.manage'']),
     (''developer'', ''Developer'',
        [''application.create'', ''application.credentials.manage'', ''database.read'',
         ''database.write'', ''dataset.import'', ''dataset.export'', ''dataset.analyze'']),
     (''editor'', ''Editor'', STORAGE_RW @ DATABASE_RW @ [''dataset.import'']),
     (''viewer'', ''Viewer'', [''storage.read'', ''database.read'']),
     (''auditor'', ''Auditor'', [''audit.read'']),
     (''guest'', ''Guest'', []),
     (''service-account'', ''Service Account'', [])]"

definition PLATFORM_WIDE_ROLE_SLUG :: string where
  "PLATFORM_WIDE_ROLE_SLUG = ''super-administrator''"

definition ADMIN_PERMISSION_CODES :: "string list" where
  "ADMIN_PERMISSION_CODES = [''permissions.manage'', ''system.admin'']"

section \<open>The decision\<close>

definition has_role_permission :: "user option \<Rightarrow> string \<Rightarrow> uuid option \<Rightarrow> bool app" where
  "has_role_permission user code organization_id = (case user of
       None \<Rightarrow> ret False
     | Some u \<Rightarrow> query (\<lambda>c. list_ex (\<lambda>a.
         (ra_organization a = organization_id \<or> ra_organization a = None)
         \<and> ra_user a = user_id u
         \<and> list_ex (\<lambda>r. role_id r = ra_role a \<and> code \<in> set (role_permissions r)) (roles c))
         (role_assignments c)))"

definition has_resource_permission ::
  "user option \<Rightarrow> string \<Rightarrow> uuid option \<Rightarrow> string \<Rightarrow> uuid \<Rightarrow> bool app" where
  "has_resource_permission user code organization_id resource_type resource_id = (case user of
       None \<Rightarrow> ret False
     | Some u \<Rightarrow> bind now (\<lambda>t. query (\<lambda>c. list_ex (\<lambda>g.
         (rg_expires_at g = None \<or> (\<exists>x \<in> set_option (rg_expires_at g). x > t))
         \<and> rg_user g = user_id u
         \<and> Some (rg_organization g) = organization_id
         \<and> rg_permission g = code
         \<and> rg_resource_type g = resource_type
         \<and> rg_resource_id g = resource_id) (resource_grants c))))"

definition has_permission ::
  "user option \<Rightarrow> string \<Rightarrow> uuid option \<Rightarrow> (string \<times> uuid) option \<Rightarrow> bool app" where
  "has_permission user code organization_id resource =
     bind (has_role_permission user code organization_id) (\<lambda>allowed.
     if allowed then ret True
     else (case resource of
         None \<Rightarrow> ret False
       | Some (resource_type, resource_id) \<Rightarrow>
           has_resource_permission user code organization_id resource_type resource_id))"

definition get_user_organization_ids :: "user option \<Rightarrow> uuid set app" where
  "get_user_organization_ids user = (case user of
       None \<Rightarrow> ret {}
     | Some u \<Rightarrow> query (\<lambda>c. set (List.map_filter
         (\<lambda>a. if ra_user a = user_id u then ra_organization a else None) (role_assignments c))))"

subsection \<open>The decision as a function of the rows\<close>

definition role_allows :: "control \<Rightarrow> uuid \<Rightarrow> string \<Rightarrow> uuid option \<Rightarrow> bool" where
  "role_allows c u code org \<longleftrightarrow>
     (\<exists>a \<in> set (role_assignments c). \<exists>r \<in> set (roles c).
        ra_user a = u \<and> (ra_organization a = org \<or> ra_organization a = None)
        \<and> role_id r = ra_role a \<and> code \<in> set (role_permissions r))"

definition live_at :: "timestamp \<Rightarrow> timestamp option \<Rightarrow> bool" where
  "live_at t expiry \<longleftrightarrow> (case expiry of None \<Rightarrow> True | Some x \<Rightarrow> x > t)"

definition grant_allows ::
  "control \<Rightarrow> timestamp \<Rightarrow> uuid \<Rightarrow> string \<Rightarrow> uuid option \<Rightarrow> string \<Rightarrow> uuid \<Rightarrow> bool" where
  "grant_allows c t u code org rtype rid \<longleftrightarrow>
     (\<exists>g \<in> set (resource_grants c). live_at t (rg_expires_at g) \<and> rg_user g = u
        \<and> Some (rg_organization g) = org \<and> rg_permission g = code
        \<and> rg_resource_type g = rtype \<and> rg_resource_id g = rid)"

definition permitted ::
  "world \<Rightarrow> uuid \<Rightarrow> string \<Rightarrow> uuid option \<Rightarrow> (string \<times> uuid) option \<Rightarrow> bool" where
  "permitted w u code org resource \<longleftrightarrow> role_allows (ctl w) u code org
     \<or> (case resource of None \<Rightarrow> False
        | Some (rtype, rid) \<Rightarrow> grant_allows (ctl w) (clock w) u code org rtype rid)"

lemma live_at_iff: "live_at t e \<longleftrightarrow> e = None \<or> (\<exists>x \<in> set_option e. x > t)"
  by (cases e) (auto simp: live_at_def)

lemma has_role_permission_run:
  "has_role_permission user code org w =
     (Inr (case user of None \<Rightarrow> False | Some u \<Rightarrow> role_allows (ctl w) (user_id u) code org), w)"
  by (auto simp: has_role_permission_def role_allows_def list_ex_iff split: option.splits)

lemma has_resource_permission_run:
  "has_resource_permission user code org rtype rid w =
     (Inr (case user of None \<Rightarrow> False
           | Some u \<Rightarrow> grant_allows (ctl w) (clock w) (user_id u) code org rtype rid), w)"
  by (auto simp: has_resource_permission_def grant_allows_def list_ex_iff live_at_iff bind_def
      split: option.splits)

lemma has_permission_run [simp]:
  "has_permission (Some u) code org resource w = (Inr (permitted w (user_id u) code org resource), w)"
  "has_permission None code org resource w = (Inr False, w)"
  by (auto simp: has_permission_def bind_def has_role_permission_run has_resource_permission_run
      permitted_def split: option.splits)

lemma wp_has_permission [wp, simp]:
  "wp (has_permission (Some u) code org resource) Q E w =
     Q (permitted w (user_id u) code org resource) w"
  by (simp add: wp_def)

lemma has_permission_world: "has_permission user code org resource w = (r, t) \<Longrightarrow> t = w"
  by (cases user) auto

lemma preserves_has_permission [keeps]: "preserves I (has_permission user code org resource)"
  by (cases user) (simp_all add: preserves_def)

lemma logs_has_permission [logs]: "logs (has_permission user code org resource)"
  by (cases user) (simp_all add: logs_def)

text \<open>The decision reads three tables and the clock, nothing else.\<close>

lemma role_allows_cong:
  "role_assignments c = role_assignments d \<Longrightarrow> roles c = roles d \<Longrightarrow>
     role_allows c u code org = role_allows d u code org"
  by (simp add: role_allows_def)

lemma grant_allows_cong:
  "resource_grants c = resource_grants d \<Longrightarrow>
     grant_allows c t u code org rtype rid = grant_allows d t u code org rtype rid"
  by (simp add: grant_allows_def)

lemma permitted_cong:
  "role_assignments (ctl w) = role_assignments (ctl v) \<Longrightarrow> roles (ctl w) = roles (ctl v) \<Longrightarrow>
     resource_grants (ctl w) = resource_grants (ctl v) \<Longrightarrow> clock w = clock v \<Longrightarrow>
     permitted w u code org resource = permitted v u code org resource"
  by (simp add: permitted_def role_allows_def grant_allows_def split: option.splits)

lemma permitted_log_event [simp]:
  "permitted (log_event e w) u code org resource = permitted w u code org resource"
  by (rule permitted_cong) simp_all

lemma permitted_rng [simp]:
  "permitted (w\<lparr>rng := n\<rparr>) u code org resource = permitted w u code org resource"
  by (rule permitted_cong) simp_all

section \<open>Handing out authority\<close>

definition get_role :: "string \<Rightarrow> role app" where
  "get_role slug = get_one (\<lambda>c.
     filter (\<lambda>r. role_slug r = slug \<and> role_organization r = None) (roles c))"

definition permission_exists :: "string \<Rightarrow> bool app" where
  "permission_exists code = query (\<lambda>c. list_ex (\<lambda>p. perm_code p = code) (permissions c))"

definition assign_role ::
  "user \<Rightarrow> string \<Rightarrow> uuid option \<Rightarrow> user option \<Rightarrow> role_assignment app" where
  "assign_role user slug organization granted_by =
     bind (get_one (\<lambda>c.
       filter (\<lambda>r. role_slug r = slug \<and> role_organization r = None) (roles c))) (\<lambda>role.
     bind (ensure (\<not> (organization = None \<and> role_slug role \<noteq> PLATFORM_WIDE_ROLE_SLUG))
       PermissionRefused) (\<lambda>_.
     bind (gets (\<lambda>w. internet_gateway (env w))) (\<lambda>gateway.
     bind (ensure (\<not> (gateway
         \<and> (case granted_by of None \<Rightarrow> False | Some g \<Rightarrow> user_id g \<noteq> user_id user)
         \<and> \<not> mfa_enabled user
         \<and> list_ex (\<lambda>p. p \<in> set ADMIN_PERMISSION_CODES) (role_permissions role)))
       PermissionRefused) (\<lambda>_.
     bind uuid4 (\<lambda>i.
     let assignment = \<lparr>ra_id = i, ra_user = user_id user, ra_role = role_id role,
           ra_organization = organization, ra_granted_by = map_option user_id granted_by\<rparr> in
     bind (orm_create role_assignments role_assignments_update role_assignment_clash assignment)
       (\<lambda>_.
     bind (audit_record granted_by organization ''permissions.role.assign'' ''user''
       (uuid_str (user_id user)) '''' Success [(''role'', JStr slug)]) (\<lambda>_.
     ret assignment)))))))"

definition grant_resource_permission ::
  "user \<Rightarrow> string \<Rightarrow> uuid \<Rightarrow> string \<Rightarrow> uuid \<Rightarrow> user option \<Rightarrow> timestamp option
     \<Rightarrow> resource_grant app" where
  "grant_resource_permission user code organization_id resource_type resource_id granted_by
       expires =
     bind (permission_exists code) (\<lambda>known.
     bind (ensure known PermissionRefused) (\<lambda>_.
     bind uuid4 (\<lambda>i.
     let grant = \<lparr>rg_id = i, rg_user = user_id user, rg_permission = code,
           rg_organization = organization_id, rg_resource_type = resource_type,
           rg_resource_id = resource_id, rg_granted_by = map_option user_id granted_by,
           rg_expires_at = expires\<rparr> in
     bind (orm_create resource_grants resource_grants_update resource_grant_clash grant) (\<lambda>_.
     bind (audit_record granted_by (Some organization_id) ''permissions.resource_grant.create''
       resource_type (uuid_str resource_id) '''' Success
       [(''permission'', JStr code), (''granted_to'', JStr (uuid_str (user_id user)))]) (\<lambda>_.
     ret grant)))))"

section \<open>Seeding\<close>

text \<open>\<open>update_or_create\<close>: the row the lookup finds gets the defaults, or a new row is created
  from lookup and defaults.\<close>

definition seed_permission :: "string \<times> string \<Rightarrow> unit app" where
  "seed_permission entry = (case entry of (code, desc) \<Rightarrow>
     on_ctl (\<lambda>c. permissions_update (\<lambda>ps.
       if list_ex (\<lambda>p. perm_code p = code) ps
       then update_where (\<lambda>p. perm_code p = code) (\<lambda>p. p\<lparr>perm_description := desc\<rparr>) ps
       else ps @ [\<lparr>perm_code = code, perm_description = desc\<rparr>]) c))"

definition update_or_create_role :: "string \<Rightarrow> string \<Rightarrow> unit app" where
  "update_or_create_role slug name =
     bind (attempt (get_role slug)) (\<lambda>found. case found of
       Inr role \<Rightarrow> on_ctl (roles_update (update_where (\<lambda>r. role_id r = role_id role)
         (\<lambda>r. r\<lparr>role_name := name, role_is_system := True\<rparr>)))
     | Inl DoesNotExist \<Rightarrow> bind uuid4 (\<lambda>i.
         orm_create roles roles_update role_clash
           \<lparr>role_id = i, role_organization = None, role_slug = slug, role_name = name,
            role_is_system = True, role_permissions = []\<rparr>)
     | Inl e \<Rightarrow> raise e)"

definition seed_role :: "string \<times> string \<times> string list \<Rightarrow> unit app" where
  "seed_role entry = (case entry of (slug, name, codes) \<Rightarrow>
     bind (update_or_create_role slug name) (\<lambda>_.
     bind (get_role slug) (\<lambda>role.
     on_ctl (\<lambda>c. roles_update (update_where (\<lambda>r. role_id r = role_id role)
       (\<lambda>r. r\<lparr>role_permissions :=
          filter (\<lambda>p. p \<in> set codes) (map perm_code (permissions c))\<rparr>)) c))))"

definition seed_permissions :: "unit app" where
  "seed_permissions = atomic_default (
     bind (for_each seed_permission PERMISSIONS) (\<lambda>_. for_each seed_role SYSTEM_ROLES))"

section \<open>What the operations do to the decision\<close>

definition admin_gate :: "env \<Rightarrow> user \<Rightarrow> user option \<Rightarrow> role \<Rightarrow> bool" where
  "admin_gate ev user granted_by role \<longleftrightarrow> internet_gateway ev
     \<and> (case granted_by of None \<Rightarrow> False | Some g \<Rightarrow> user_id g \<noteq> user_id user)
     \<and> set (role_permissions role) \<inter> set ADMIN_PERMISSION_CODES \<noteq> {}
     \<and> \<not> mfa_enabled user"

definition system_roles :: "control \<Rightarrow> string \<Rightarrow> role list" where
  "system_roles c slug =
     filter (\<lambda>r. role_slug r = slug \<and> role_organization r = None) (roles c)"

definition new_assignment :: "world \<Rightarrow> user \<Rightarrow> role \<Rightarrow> uuid option \<Rightarrow> user option \<Rightarrow> role_assignment"
  where
  "new_assignment w user role org granted_by =
     \<lparr>ra_id = uuid_source (env w) (rng w), ra_user = user_id user, ra_role = role_id role,
      ra_organization = org, ra_granted_by = map_option user_id granted_by\<rparr>"

definition assigned :: "world \<Rightarrow> string \<Rightarrow> role_assignment \<Rightarrow> user option \<Rightarrow> world" where
  "assigned w slug a granted_by =
     (let w1 = w\<lparr>rng := Suc (rng w), ctl := role_assignments_update (\<lambda>xs. xs @ [a]) (ctl w)\<rparr>
      in log_event (audit_row w1 granted_by (ra_organization a) ''permissions.role.assign'' ''user''
           (uuid_str (ra_user a)) '''' Success [(''role'', JStr slug)]) w1)"

lemma admin_gate_iff:
  "admin_gate ev user granted_by role \<longleftrightarrow> internet_gateway ev
     \<and> (case granted_by of None \<Rightarrow> False | Some g \<Rightarrow> user_id g \<noteq> user_id user)
     \<and> \<not> mfa_enabled user
     \<and> list_ex (\<lambda>p. p \<in> set ADMIN_PERMISSION_CODES) (role_permissions role)"
  by (auto simp: admin_gate_def list_ex_iff)

lemma system_roles_slug: "system_roles c slug = [role] \<Longrightarrow> role_slug role = slug"
proof -
  assume "system_roles c slug = [role]"
  then have "role \<in> set (system_roles c slug)" by simp
  then show ?thesis by (simp add: system_roles_def)
qed

lemma assign_role_run:
  assumes "system_roles (ctl w) slug = [role]"
  shows "assign_role user slug org granted_by w =
    (if org = None \<and> slug \<noteq> PLATFORM_WIDE_ROLE_SLUG \<or> admin_gate (env w) user granted_by role
     then (Inl PermissionRefused, w)
     else let a = new_assignment w user role org granted_by in
       if list_ex (role_assignment_clash a) (role_assignments (ctl w))
       then (Inl (DbError IntegrityError), w\<lparr>rng := Suc (rng w)\<rparr>)
       else (Inr a, assigned w slug a granted_by))"
  using assms system_roles_slug [OF assms]
  by (simp add: assign_role_def get_one_run bind_def system_roles_def admin_gate_iff Let_def
      orm_create_def new_assignment_def assigned_def)

lemma assign_role_no_role:
  assumes "\<nexists>role. system_roles (ctl w) slug = [role]"
  obtains e where "assign_role user slug org granted_by w = (Inl e, w)"
proof -
  from assms obtain e where "get_one (\<lambda>c. filter (\<lambda>r. role_slug r = slug
      \<and> role_organization r = None) (roles c)) w = (Inl e, w)"
    using get_one_fails [of "\<lambda>c. system_roles c slug" w] unfolding system_roles_def by auto
  then show thesis by (intro that) (simp add: assign_role_def)
qed

lemma assign_role_Inr:
  assumes "assign_role user slug org granted_by w = (Inr a, w')"
  obtains role where "system_roles (ctl w) slug = [role]"
    and "org = None \<longrightarrow> slug = PLATFORM_WIDE_ROLE_SLUG"
    and "\<not> admin_gate (env w) user granted_by role"
    and "a = new_assignment w user role org granted_by"
    and "\<not> list_ex (role_assignment_clash a) (role_assignments (ctl w))"
    and "w' = assigned w slug a granted_by"
proof -
  obtain role where role: "system_roles (ctl w) slug = [role]"
    using assms by (metis assign_role_no_role Inl_Inr_False prod.inject)
  show thesis
    using assms that [OF role] unfolding assign_role_run [OF role]
    by (auto simp: Let_def split: if_splits)
qed

lemma assign_role_Inl:
  assumes "assign_role user slug org granted_by w = (Inl e, w')"
  shows "w' = w\<lparr>rng := rng w'\<rparr>"
proof (cases "\<exists>role. system_roles (ctl w) slug = [role]")
  case True
  then obtain role where "system_roles (ctl w) slug = [role]" ..
  from assms [unfolded assign_role_run [OF this]] show ?thesis
    by (auto simp: Let_def split: if_splits)
next
  case False
  then obtain e' where "assign_role user slug org granted_by w = (Inl e', w)"
    by (rule assign_role_no_role)
  with assms show ?thesis by simp
qed

lemma assign_role_Inl_ctl: "assign_role user slug org granted_by w = (Inl e, w') \<Longrightarrow> ctl w' = ctl w"
  by (drule assign_role_Inl) (erule ssubst, simp)

lemma assigned_simps [simp]:
  "role_assignments (ctl (assigned w slug a g)) = role_assignments (ctl w) @ [a]"
  "roles (ctl (assigned w slug a g)) = roles (ctl w)"
  "resource_grants (ctl (assigned w slug a g)) = resource_grants (ctl w)"
  "clock (assigned w slug a g) = clock w"
  "env (assigned w slug a g) = env w"
  by (simp_all add: assigned_def Let_def)

text \<open>C2. Assigning a role changes authority by exactly the role: after a successful
  \<open>assign_role\<close> a user is permitted what was permitted before, plus, for the assignee and within
  the organization of the assignment (everywhere when it is platform-wide), the permissions of
  the system role with that slug. No other user, organization or resource is affected.\<close>

theorem assign_role_exact:
  assumes run: "assign_role user slug org granted_by w = (Inr a, w')"
    and uniq: "unique_rows role_clash (roles (ctl w))"
  shows "permitted w' v code o' resource \<longleftrightarrow> permitted w v code o' resource
     \<or> v = user_id user \<and> (org = None \<or> o' = org)
       \<and> (\<exists>r \<in> set (roles (ctl w)). role_slug r = slug \<and> role_organization r = None
            \<and> code \<in> set (role_permissions r))"
proof -
  from run obtain role where role: "system_roles (ctl w) slug = [role]"
    and a: "a = new_assignment w user role org granted_by"
    and w': "w' = assigned w slug a granted_by" by (rule assign_role_Inr)
  have in_roles: "r \<in> set (roles (ctl w)) \<and> role_slug r = slug \<and> role_organization r = None
      \<longleftrightarrow> r = role" for r
  proof -
    have "r \<in> set (system_roles (ctl w) slug) \<longleftrightarrow> r = role" using role by simp
    then show ?thesis by (auto simp: system_roles_def)
  qed
  then have "role \<in> set (roles (ctl w))" by blast
  then have same: "r = role" if "r \<in> set (roles (ctl w))" "role_id r = role_id role" for r
    using role_table.unique_eq [OF uniq that(1)] that(2) by (simp add: role_clash_def)
  have "role_allows (ctl w') v code o' \<longleftrightarrow> role_allows (ctl w) v code o'
      \<or> (\<exists>r \<in> set (roles (ctl w)). user_id user = v \<and> (org = o' \<or> org = None)
           \<and> role_id r = role_id role \<and> code \<in> set (role_permissions r))"
    by (simp add: role_allows_def w' a new_assignment_def disj_commute)
  also have "\<dots> \<longleftrightarrow> role_allows (ctl w) v code o'
      \<or> v = user_id user \<and> (org = None \<or> o' = org) \<and> code \<in> set (role_permissions role)"
    using same \<open>role \<in> set (roles (ctl w))\<close> by blast
  finally have decision: "role_allows (ctl w') v code o' \<longleftrightarrow> \<dots>" .
  have "(\<exists>r \<in> set (roles (ctl w)). role_slug r = slug \<and> role_organization r = None
      \<and> code \<in> set (role_permissions r)) \<longleftrightarrow> code \<in> set (role_permissions role)"
    using in_roles by metis
  moreover have "grant_allows (ctl w') (clock w') v code o' t i
      = grant_allows (ctl w) (clock w) v code o' t i" for t i
    by (simp add: w' grant_allows_def)
  ultimately show ?thesis
    by (cases resource) (auto simp: permitted_def decision)
qed

subsection \<open>Platform-wide assignments\<close>

definition platform_wide_ok :: "control \<Rightarrow> bool" where
  "platform_wide_ok c \<longleftrightarrow> (\<forall>a \<in> set (role_assignments c). ra_organization a = None \<longrightarrow>
     (\<exists>r \<in> set (roles c). role_id r = ra_role a \<and> role_slug r = PLATFORM_WIDE_ROLE_SLUG
        \<and> role_organization r = None))"

lemma ignores_audit_platform_wide [simp]: "ignores_audit platform_wide_ok"
  by (simp add: ignores_audit_def platform_wide_ok_def)

lemma system_roles_mem:
  "r \<in> set (system_roles c slug) \<longleftrightarrow>
     r \<in> set (roles c) \<and> role_slug r = slug \<and> role_organization r = None"
  by (auto simp: system_roles_def)

lemma preserves_assign_role [keeps]:
  "preserves (\<lambda>w::world. platform_wide_ok (ctl w)) (assign_role user slug org granted_by)"
proof (rule preservesI)
  fix w :: world assume ok: "platform_wide_ok (ctl w)"
  obtain r w' where run: "assign_role user slug org granted_by w = (r, w')"
    by (cases "assign_role user slug org granted_by w")
  show "platform_wide_ok (ctl (snd (assign_role user slug org granted_by w)))"
  proof (cases r)
    case (Inl e)
    with run have "ctl w' = ctl w"
      by (auto dest: assign_role_Inl_ctl)
    with run ok show ?thesis by simp
  next
    case (Inr a)
    with run obtain role where role: "system_roles (ctl w) slug = [role]"
      and org: "org = None \<longrightarrow> slug = PLATFORM_WIDE_ROLE_SLUG"
      and a: "a = new_assignment w user role org granted_by"
      and w': "w' = assigned w slug a granted_by" by (auto elim: assign_role_Inr)
    have "role \<in> set (system_roles (ctl w) slug)" using role by simp
    then have "role \<in> set (roles (ctl w)) \<and> role_slug role = slug \<and> role_organization role = None"
      by (simp add: system_roles_mem)
    with ok org have "platform_wide_ok (ctl w')"
      by (auto simp: platform_wide_ok_def w' a new_assignment_def)
    with run show ?thesis by simp
  qed
qed


subsection \<open>Resource grants\<close>

definition new_grant ::
  "world \<Rightarrow> user \<Rightarrow> string \<Rightarrow> uuid \<Rightarrow> string \<Rightarrow> uuid \<Rightarrow> user option \<Rightarrow> timestamp option
     \<Rightarrow> resource_grant" where
  "new_grant w user code org rtype rid granted_by expires =
     \<lparr>rg_id = uuid_source (env w) (rng w), rg_user = user_id user, rg_permission = code,
      rg_organization = org, rg_resource_type = rtype, rg_resource_id = rid,
      rg_granted_by = map_option user_id granted_by, rg_expires_at = expires\<rparr>"

definition granted :: "world \<Rightarrow> resource_grant \<Rightarrow> user option \<Rightarrow> world" where
  "granted w g granted_by =
     (let w1 = w\<lparr>rng := Suc (rng w), ctl := resource_grants_update (\<lambda>xs. xs @ [g]) (ctl w)\<rparr>
      in log_event (audit_row w1 granted_by (Some (rg_organization g))
           ''permissions.resource_grant.create'' (rg_resource_type g) (uuid_str (rg_resource_id g))
           '''' Success [(''permission'', JStr (rg_permission g)),
                         (''granted_to'', JStr (uuid_str (rg_user g)))]) w1)"

lemma granted_simps [simp]:
  "resource_grants (ctl (granted w g by)) = resource_grants (ctl w) @ [g]"
  "role_assignments (ctl (granted w g by)) = role_assignments (ctl w)"
  "roles (ctl (granted w g by)) = roles (ctl w)"
  "permissions (ctl (granted w g by)) = permissions (ctl w)"
  "clock (granted w g by) = clock w" "env (granted w g by) = env w"
  "rng (granted w g by) = Suc (Suc (rng w))"
  by (simp_all add: granted_def Let_def)

lemma grant_resource_permission_run:
  "grant_resource_permission user code org rtype rid granted_by expires w =
     (if code \<notin> perm_code ` set (permissions (ctl w)) then (Inl PermissionRefused, w)
      else let g = new_grant w user code org rtype rid granted_by expires in
        if list_ex (resource_grant_clash g) (resource_grants (ctl w))
        then (Inl (DbError IntegrityError), w\<lparr>rng := Suc (rng w)\<rparr>)
        else (Inr g, granted w g granted_by))"
proof -
  have "list_ex (\<lambda>p. perm_code p = code) (permissions (ctl w))
      \<longleftrightarrow> code \<in> perm_code ` set (permissions (ctl w))"
    by (auto simp: list_ex_iff)
  then show ?thesis
    by (simp add: grant_resource_permission_def permission_exists_def bind_def Let_def
        orm_create_def new_grant_def granted_def)
qed

text \<open>A resource grant gives exactly one permission on exactly one resource: after a
  successful \<open>grant_resource_permission\<close> the only decision that can change is the one for that
  user, permission, organization and resource, which becomes positive while the grant has not
  expired.\<close>

theorem grant_resource_permission_exact:
  assumes "grant_resource_permission user code org rtype rid granted_by expires w = (Inr g, w')"
  shows "permitted w' v code' o' resource \<longleftrightarrow> permitted w v code' o' resource
     \<or> v = user_id user \<and> code' = code \<and> o' = Some org \<and> resource = Some (rtype, rid)
       \<and> live_at (clock w) expires"
proof -
  from assms have g: "g = new_grant w user code org rtype rid granted_by expires"
    and w': "w' = granted w g granted_by"
    by (auto simp: grant_resource_permission_run Let_def split: if_splits)
  have "role_allows (ctl w') v code' o' = role_allows (ctl w) v code' o'"
    by (simp add: role_allows_def w')
  moreover have "grant_allows (ctl w') (clock w') v code' o' t i \<longleftrightarrow>
      grant_allows (ctl w) (clock w) v code' o' t i
      \<or> v = user_id user \<and> code' = code \<and> o' = Some org \<and> t = rtype \<and> i = rid
        \<and> live_at (clock w) expires" for t i
    by (auto simp: grant_allows_def w' g new_grant_def)
  ultimately show ?thesis
    by (cases resource) (auto simp: permitted_def)
qed

section \<open>What seeding leaves behind\<close>

definition permission_seeded :: "permission list \<Rightarrow> string \<times> string \<Rightarrow> bool" where
  "permission_seeded ps entry \<longleftrightarrow>
     (\<exists>p \<in> set ps. perm_code p = fst entry)
     \<and> (\<forall>p \<in> set ps. perm_code p = fst entry \<longrightarrow> perm_description p = snd entry)"

definition role_seeded :: "control \<Rightarrow> string \<times> string \<times> string list \<Rightarrow> bool" where
  "role_seeded c entry = (case entry of (slug, name, codes) \<Rightarrow>
     \<exists>r. system_roles c slug = [r] \<and> role_name r = name \<and> role_is_system r
       \<and> role_permissions r = filter (\<lambda>p. p \<in> set codes) (map perm_code (permissions c)))"

definition seeded :: "control \<Rightarrow> bool" where
  "seeded c \<longleftrightarrow> (\<forall>entry \<in> set PERMISSIONS. permission_seeded (permissions c) entry)
     \<and> (\<forall>entry \<in> set SYSTEM_ROLES. role_seeded c entry)"

subsection \<open>The permission rows\<close>

definition upsert_permission :: "string \<times> string \<Rightarrow> permission list \<Rightarrow> permission list" where
  "upsert_permission entry ps = (case entry of (code, desc) \<Rightarrow>
     if list_ex (\<lambda>p. perm_code p = code) ps
     then update_where (\<lambda>p. perm_code p = code) (\<lambda>p. p\<lparr>perm_description := desc\<rparr>) ps
     else ps @ [\<lparr>perm_code = code, perm_description = desc\<rparr>])"

lemma seed_permission_run:
  "seed_permission entry w =
     (Inr (), w\<lparr>ctl := permissions_update (upsert_permission entry) (ctl w)\<rparr>)"
  by (simp add: seed_permission_def upsert_permission_def [abs_def] split: prod.split)

lemma seed_permissions_run:
  "for_each seed_permission entries w =
     (Inr (), w\<lparr>ctl := permissions_update (fold upsert_permission entries) (ctl w)\<rparr>)"
  by (induction entries arbitrary: w) (simp_all add: seed_permission_run o_def id_def)

lemma permission_seeded_upsert: "permission_seeded (upsert_permission entry ps) entry"
proof (cases "\<exists>p \<in> set ps. perm_code p = fst entry")
  case True
  then obtain p where p: "p \<in> set ps" "perm_code p = fst entry" by blast
  then have "p\<lparr>perm_description := snd entry\<rparr> \<in> set (upsert_permission entry ps)"
    by (cases entry) (auto simp: upsert_permission_def set_update_where list_ex_iff)
  then show ?thesis
    using p by (cases entry)
      (auto simp: permission_seeded_def upsert_permission_def set_update_where list_ex_iff
        intro!: bexI [of _ "p\<lparr>perm_description := snd entry\<rparr>"])
next
  case False
  then show ?thesis
    by (cases entry) (auto simp: permission_seeded_def upsert_permission_def list_ex_iff)
qed

lemma permission_seeded_upsert_other:
  assumes "permission_seeded ps entry" and "fst entry \<noteq> fst other"
  shows "permission_seeded (upsert_permission other ps) entry"
proof -
  from assms(1) obtain p where p: "p \<in> set ps" "perm_code p = fst entry"
    by (auto simp: permission_seeded_def)
  with assms(2) have "p \<in> set (upsert_permission other ps)"
    by (cases other) (auto simp: upsert_permission_def set_update_where)
  with p assms show ?thesis
    by (cases other)
      (auto simp: permission_seeded_def upsert_permission_def set_update_where split: if_splits)
qed

lemma permission_seeded_fold_other:
  "permission_seeded ps entry \<Longrightarrow> fst entry \<notin> fst ` set others \<Longrightarrow>
     permission_seeded (fold upsert_permission others ps) entry"
  by (induction others arbitrary: ps) (simp_all add: permission_seeded_upsert_other)

lemma permission_seeded_fold:
  "distinct (map fst entries) \<Longrightarrow> entry \<in> set entries \<Longrightarrow>
     permission_seeded (fold upsert_permission entries ps) entry"
  by (induction entries arbitrary: ps)
    (auto intro: permission_seeded_upsert permission_seeded_fold_other simp: rev_image_eqI)

lemma upsert_seeded: "permission_seeded ps entry \<Longrightarrow> upsert_permission entry ps = ps"
  by (auto simp: permission_seeded_def upsert_permission_def list_ex_iff update_where_def
      intro!: map_idI split: prod.split)

lemma fold_upsert_seeded:
  "\<forall>entry \<in> set entries. permission_seeded ps entry \<Longrightarrow> fold upsert_permission entries ps = ps"
  by (induction entries) (simp_all add: upsert_seeded)

lemma distinct_PERMISSIONS: "distinct (map fst PERMISSIONS)"
  by (simp add: PERMISSIONS_def)

lemma distinct_SYSTEM_ROLES: "distinct (map fst SYSTEM_ROLES)"
  by (simp add: SYSTEM_ROLES_def)

lemma system_role_codes: "(slug, name, codes) \<in> set SYSTEM_ROLES \<Longrightarrow> set codes \<subseteq> fst ` set PERMISSIONS"
  by (auto simp: SYSTEM_ROLES_def ALL_PERMISSIONS_def STORAGE_RW_def DATABASE_RW_def PERMISSIONS_def)

subsection \<open>The role rows\<close>

definition set_system_role :: "string \<Rightarrow> (role \<Rightarrow> role) \<Rightarrow> role list \<Rightarrow> role list" where
  "set_system_role slug f =
     update_where (\<lambda>r. role_slug r = slug \<and> role_organization r = None) f"

text \<open>Under the role table's constraints the row with the id of the found role is the row with
  its slug.\<close>

lemma update_found_role:
  assumes uniq: "unique_rows role_clash (roles c)" and found: "system_roles c slug = [role]"
  shows "update_where (\<lambda>r. role_id r = role_id role) f (roles c) = set_system_role slug f (roles c)"
proof -
  have role: "role \<in> set (system_roles c slug)" using found by simp
  have "role_id r = role_id role \<longleftrightarrow> role_slug r = slug \<and> role_organization r = None"
    if r: "r \<in> set (roles c)" for r
  proof
    assume "role_id r = role_id role"
    then have "r = role"
      using role_table.unique_eq [OF uniq r] role by (simp add: role_clash_def system_roles_mem)
    then show "role_slug r = slug \<and> role_organization r = None" using role
      by (simp add: system_roles_mem)
  next
    assume "role_slug r = slug \<and> role_organization r = None"
    with r have "r \<in> set (system_roles c slug)" by (simp add: system_roles_mem)
    with found show "role_id r = role_id role" by simp
  qed
  then show ?thesis by (simp add: set_system_role_def update_where_def)
qed

definition keeps_keys :: "(role \<Rightarrow> role) \<Rightarrow> bool" where
  "keeps_keys f \<longleftrightarrow> (\<forall>r. role_id (f r) = role_id r \<and> role_slug (f r) = role_slug r
     \<and> role_organization (f r) = role_organization r)"

lemma unique_set_system_role:
  assumes "keeps_keys f" and "unique_rows role_clash rs"
  shows "unique_rows role_clash (set_system_role slug f rs)"
proof -
  let ?g = "\<lambda>r. if role_slug r = slug \<and> role_organization r = None then f r else r"
  have "role_clash (?g x) (?g y) = role_clash x y" for x y
    using assms(1) by (simp add: role_clash_def keeps_keys_def)
  with assms(2) show ?thesis
    unfolding unique_rows_def set_system_role_def update_where_def sorted_wrt_map by (simp only:)
qed

lemma filter_set_system_role:
  assumes "keeps_keys f"
  shows "filter (\<lambda>r. role_slug r = slug' \<and> role_organization r = None) (set_system_role slug f rs) =
     (if slug' = slug then map f (filter (\<lambda>r. role_slug r = slug \<and> role_organization r = None) rs)
      else filter (\<lambda>r. role_slug r = slug' \<and> role_organization r = None) rs)"
proof -
  let ?g = "\<lambda>r. if role_slug r = slug \<and> role_organization r = None then f r else r"
  let ?Q = "\<lambda>s r. role_slug r = s \<and> role_organization r = None"
  have "?Q slug' (?g r) = ?Q slug' r" for r using assms by (simp add: keeps_keys_def)
  then have "filter (?Q slug') (map ?g rs) = map ?g (filter (?Q slug') rs)"
    by (simp only: filter_map o_def)
  also have "\<dots> = (if slug' = slug then map f (filter (?Q slug) rs) else filter (?Q slug') rs)"
    by (auto intro!: map_idI)
  finally show ?thesis by (simp only: set_system_role_def update_where_def)
qed

lemma system_roles_set_system_role:
  "keeps_keys f \<Longrightarrow> system_roles (roles_update (set_system_role slug f) c) slug' =
     (if slug' = slug then map f (system_roles c slug) else system_roles c slug')"
  by (simp add: system_roles_def filter_set_system_role)

lemma role_ids_set_system_role:
  assumes "keeps_keys f"
  shows "role_id ` set (set_system_role slug f rs) = role_id ` set rs"
proof -
  let ?g = "\<lambda>r. if role_slug r = slug \<and> role_organization r = None then f r else r"
  have "role_id (?g r) = role_id r" for r using assms by (simp add: keeps_keys_def)
  then show ?thesis
    unfolding set_system_role_def update_where_def set_map image_image by (simp only:)
qed

text \<open>One pass of the role loop.\<close>

definition role_ids :: "control \<Rightarrow> uuid set" where
  "role_ids c = role_id ` set (roles c)"

definition role_step :: "world \<Rightarrow> world \<Rightarrow> bool" where
  "role_step w w' \<longleftrightarrow> permissions (ctl w') = permissions (ctl w) \<and> env w' = env w
     \<and> rng w \<le> rng w' \<and> rng w' \<le> Suc (rng w)
     \<and> role_ids (ctl w') \<subseteq> role_ids (ctl w) \<union> uuid_source (env w) ` {rng w..<rng w'}"

lemma new_ids_step:
  "fresh_draws w (Suc k) (role_ids (ctl w)) \<Longrightarrow> role_step w w' \<Longrightarrow>
     fresh_draws w' k (role_ids (ctl w'))"
  unfolding role_step_def by (rule fresh_draws_step [where j = 1]) auto

lemma update_or_create_role_run:
  assumes uniq: "unique_rows role_clash (roles (ctl w))"
    and fresh: "uuid_source (env w) (rng w) \<notin> role_ids (ctl w)"
  obtains w' role where "update_or_create_role slug name w = (Inr (), w')"
    and "system_roles (ctl w') slug = [role]" and "role_name role = name" and "role_is_system role"
    and "\<And>s. s \<noteq> slug \<Longrightarrow> system_roles (ctl w') s = system_roles (ctl w) s"
    and "unique_rows role_clash (roles (ctl w'))" and "role_step w w'"
proof (cases "system_roles (ctl w) slug")
  case Nil
  let ?r = "\<lparr>role_id = uuid_source (env w) (rng w), role_organization = None, role_slug = slug,
     role_name = name, role_is_system = True, role_permissions = []\<rparr>"
  have no_clash: "\<not> list_ex (role_clash ?r) (roles (ctl w))"
    using Nil fresh
    by (force simp: list_ex_iff role_clash_def system_roles_def filter_empty_conv image_iff role_ids_def)
  let ?w = "w\<lparr>rng := Suc (rng w), ctl := roles_update (\<lambda>xs. xs @ [?r]) (ctl w)\<rparr>"
  show thesis
  proof (rule that [of ?w ?r])
    show "update_or_create_role slug name w = (Inr (), ?w)"
      using Nil no_clash
      by (simp add: update_or_create_role_def get_role_def system_roles_def get_one_run attempt_def
          bind_def orm_create_def)
    show "system_roles (ctl ?w) slug = [?r]" using Nil by (simp add: system_roles_def)
    show "unique_rows role_clash (roles (ctl ?w))" using uniq no_clash
      by (simp add: unique_rows_append)
    show "system_roles (ctl ?w) s = system_roles (ctl w) s" if "s \<noteq> slug" for s
      using that by (simp add: system_roles_def)
  qed (simp_all add: role_step_def role_ids_def)
next
  case (Cons role rest)
  have "length (system_roles (ctl w) slug) \<le> 1" unfolding system_roles_def
    by (rule unique_rows_filter_le_1 [OF uniq]) (simp add: role_clash_def)
  with Cons have found: "system_roles (ctl w) slug = [role]" by simp
  let ?f = "\<lambda>r::role. r\<lparr>role_name := name, role_is_system := True\<rparr>"
  have keys: "keeps_keys ?f" by (simp add: keeps_keys_def)
  let ?c = "roles_update (set_system_role slug ?f) (ctl w)"
  show thesis
  proof (rule that [of "w\<lparr>ctl := ?c\<rparr>" "?f role"])
    have "roles_update (update_where (\<lambda>r. role_id r = role_id role) ?f) (ctl w) = ?c"
      using update_found_role [OF uniq found, of ?f] by simp
    then show "update_or_create_role slug name w = (Inr (), w\<lparr>ctl := ?c\<rparr>)"
      using found by (simp add: update_or_create_role_def get_role_def system_roles_def get_one_run
          attempt_def bind_def)
    show "unique_rows role_clash (roles (ctl (w\<lparr>ctl := ?c\<rparr>)))"
      using unique_set_system_role [OF keys uniq] by simp
    show "role_step w (w\<lparr>ctl := ?c\<rparr>)"
      by (simp add: role_step_def role_ids_def role_ids_set_system_role [OF keys])
  qed (simp_all add: system_roles_set_system_role [OF keys] found)
qed

lemma seed_role_run:
  assumes uniq: "unique_rows role_clash (roles (ctl w))"
    and fresh: "uuid_source (env w) (rng w) \<notin> role_ids (ctl w)"
  obtains w' where "seed_role entry w = (Inr (), w')" and "role_seeded (ctl w') entry"
    and "\<And>s. s \<noteq> fst entry \<Longrightarrow> system_roles (ctl w') s = system_roles (ctl w) s"
    and "unique_rows role_clash (roles (ctl w'))" and "role_step w w'"
proof -
  obtain slug name codes where entry: "entry = (slug, name, codes)" by (cases entry)
  obtain w1 role where w1: "update_or_create_role slug name w = (Inr (), w1)"
    and found: "system_roles (ctl w1) slug = [role]" and role: "role_name role = name" "role_is_system role"
    and others: "\<And>s. s \<noteq> slug \<Longrightarrow> system_roles (ctl w1) s = system_roles (ctl w) s"
    and uniq1: "unique_rows role_clash (roles (ctl w1))" and step: "role_step w w1"
    by (rule update_or_create_role_run [OF uniq fresh, of slug name]) blast
  let ?f = "\<lambda>r::role. r\<lparr>role_permissions :=
     filter (\<lambda>p. p \<in> set codes) (map perm_code (permissions (ctl w1)))\<rparr>"
  have keys: "keeps_keys ?f" by (simp add: keeps_keys_def)
  let ?w = "w1\<lparr>ctl := roles_update (set_system_role slug ?f) (ctl w1)\<rparr>"
  show thesis
  proof (rule that [of ?w])
    have "roles_update (update_where (\<lambda>r. role_id r = role_id role) ?f) (ctl w1)
        = roles_update (set_system_role slug ?f) (ctl w1)"
      using update_found_role [OF uniq1 found, of ?f] by simp
    then show "seed_role entry w = (Inr (), ?w)"
      using w1 found by (simp add: entry seed_role_def get_role_def system_roles_def get_one_run bind_def)
    show "role_seeded (ctl ?w) entry"
      by (simp add: entry role_seeded_def system_roles_set_system_role [OF keys] found role)
    show "system_roles (ctl ?w) s = system_roles (ctl w) s" if "s \<noteq> fst entry" for s
      using that others by (simp add: entry system_roles_set_system_role [OF keys])
    show "unique_rows role_clash (roles (ctl ?w))"
      using unique_set_system_role [OF keys uniq1] by simp
    have "role_ids (ctl ?w) = role_ids (ctl w1)"
      using role_ids_set_system_role [OF keys] by (simp add: role_ids_def)
    then show "role_step w ?w" using step by (simp add: role_step_def)
  qed
qed

lemma role_seeded_cong:
  "permissions c = permissions d \<Longrightarrow> system_roles c (fst entry) = system_roles d (fst entry) \<Longrightarrow>
     role_seeded c entry = role_seeded d entry"
  by (cases entry) (simp add: role_seeded_def)

lemma seed_roles_run:
  assumes "unique_rows role_clash (roles (ctl w))" and "fresh_draws w (length entries) (role_ids (ctl w))"
    and "distinct (map fst entries)"
  obtains w' where "for_each seed_role entries w = (Inr (), w')"
    and "\<And>entry. entry \<in> set entries \<Longrightarrow> role_seeded (ctl w') entry"
    and "\<And>s. s \<notin> fst ` set entries \<Longrightarrow> system_roles (ctl w') s = system_roles (ctl w) s"
    and "permissions (ctl w') = permissions (ctl w)" and "unique_rows role_clash (roles (ctl w'))"
  using assms
proof (induction entries arbitrary: w thesis)
  case Nil
  then show ?case by simp
next
  case (Cons entry entries)
  have "uuid_source (env w) (rng w) \<notin> role_ids (ctl w)"
    using Cons.prems(3) by (simp add: fresh_draws_next)
  with Cons.prems(2) obtain w1 where w1: "seed_role entry w = (Inr (), w1)"
    and seeded: "role_seeded (ctl w1) entry"
    and others: "\<And>s. s \<noteq> fst entry \<Longrightarrow> system_roles (ctl w1) s = system_roles (ctl w) s"
    and uniq: "unique_rows role_clash (roles (ctl w1))" and step: "role_step w w1"
    by (rule seed_role_run [of w entry]) blast
  have "fresh_draws w1 (length entries) (role_ids (ctl w1))"
    using new_ids_step [OF _ step] Cons.prems(3) by simp
  with uniq Cons.prems(4) obtain w' where w': "for_each seed_role entries w1 = (Inr (), w')"
    and seeded': "\<And>entry. entry \<in> set entries \<Longrightarrow> role_seeded (ctl w') entry"
    and others': "\<And>s. s \<notin> fst ` set entries \<Longrightarrow> system_roles (ctl w') s = system_roles (ctl w1) s"
    and perms': "permissions (ctl w') = permissions (ctl w1)"
    and uniq': "unique_rows role_clash (roles (ctl w'))"
    by (auto elim: Cons.IH [rotated])
  have fst: "fst entry \<notin> fst ` set entries" using Cons.prems(4) by simp
  have "role_seeded (ctl w') entry"
    using role_seeded_cong [OF perms' others' [OF fst]] seeded by simp
  moreover have "permissions (ctl w1) = permissions (ctl w)" using step by (simp add: role_step_def)
  ultimately show ?case
    using w1 w' seeded' others others' perms' uniq' by (intro Cons.prems(1) [of w']) auto
qed

lemma seeded_role_run:
  assumes "unique_rows role_clash (roles (ctl w))" and "role_seeded (ctl w) entry"
  shows "seed_role entry w = (Inr (), w)"
proof -
  obtain slug name codes where entry: "entry = (slug, name, codes)" by (cases entry)
  with assms(2) obtain role where found: "system_roles (ctl w) slug = [role]"
    and role: "role_name role = name" "role_is_system role"
    "role_permissions role = filter (\<lambda>p. p \<in> set codes) (map perm_code (permissions (ctl w)))"
    by (auto simp: role_seeded_def)
  have mem: "role \<in> set (system_roles (ctl w) slug)" using found by simp
  have same: "r = role" if "r \<in> set (roles (ctl w))" "role_id r = role_id role" for r
    using role_table.unique_eq [OF assms(1) that(1)] mem that(2)
    by (simp add: role_clash_def system_roles_mem)
  have id: "update_where (\<lambda>r. role_id r = role_id role) f (roles (ctl w)) = roles (ctl w)"
    if "f role = role" for f
    unfolding update_where_def by (rule map_idI) (use same that in auto)
  have upd: "roles_update (update_where (\<lambda>r. role_id r = role_id role) f) (ctl w) = ctl w"
    if "f role = role" for f
    using id [of f] that by simp
  have "role\<lparr>role_name := name, role_is_system := True\<rparr> = role"
    and "role\<lparr>role_permissions :=
      filter (\<lambda>p. p \<in> set codes) (map perm_code (permissions (ctl w)))\<rparr> = role"
    using role by simp_all
  with upd show ?thesis
    using found by (simp add: entry seed_role_def update_or_create_role_def get_role_def
        system_roles_def get_one_run attempt_def bind_def)
qed

lemma seeded_roles_run:
  "unique_rows role_clash (roles (ctl w)) \<Longrightarrow> \<forall>entry \<in> set entries. role_seeded (ctl w) entry \<Longrightarrow>
     for_each seed_role entries w = (Inr (), w)"
  by (induction entries) (simp_all add: seeded_role_run)

text \<open>Seeding is total, correct and idempotent: from any database whose roles respect their
  constraints (and with ten new identifiers), \<open>seed_permissions\<close> returns, after which every catalog
  permission has a row, every system role exists exactly once and carries exactly the catalog's
  permissions for it, and running it again changes nothing at all.\<close>

theorem seed_permissions_correct:
  assumes uniq: "unique_rows role_clash (roles (ctl w))" and new: "fresh_draws w (length SYSTEM_ROLES) (role_ids (ctl w))"
  shows "\<exists>w'. seed_permissions w = (Inr (), w') \<and> seeded (ctl w')
    \<and> (\<forall>(slug, name, codes) \<in> set SYSTEM_ROLES. \<exists>role.
          system_roles (ctl w') slug = [role] \<and> set (role_permissions role) = set codes)
    \<and> seed_permissions w' = (Inr (), w')"
proof -
  let ?w1 = "w\<lparr>ctl := permissions_update (fold upsert_permission PERMISSIONS) (ctl w)\<rparr>"
  have w1: "for_each seed_permission PERMISSIONS w = (Inr (), ?w1)" by (rule seed_permissions_run)
  have "unique_rows role_clash (roles (ctl ?w1))" "fresh_draws ?w1 (length SYSTEM_ROLES) (role_ids (ctl ?w1))"
    using uniq new by (simp_all add: fresh_draws_def role_ids_def)
  then obtain w' where w': "for_each seed_role SYSTEM_ROLES ?w1 = (Inr (), w')"
    and roles: "\<And>entry. entry \<in> set SYSTEM_ROLES \<Longrightarrow> role_seeded (ctl w') entry"
    and perms: "permissions (ctl w') = permissions (ctl ?w1)"
    and uniq': "unique_rows role_clash (roles (ctl w'))"
    using seed_roles_run [OF _ _ distinct_SYSTEM_ROLES, of ?w1] by metis
  have ps: "\<forall>entry \<in> set PERMISSIONS. permission_seeded (permissions (ctl w')) entry"
    unfolding perms by (auto intro: permission_seeded_fold [OF distinct_PERMISSIONS])
  have run: "seed_permissions w = (Inr (), w')"
    using w1 w' by (simp add: seed_permissions_def atomic_default_def)
  have "permissions_update (fold upsert_permission PERMISSIONS) (ctl w') = ctl w'"
    using fold_upsert_seeded [OF ps] by simp
  then have again: "seed_permissions w' = (Inr (), w')"
    using seeded_roles_run [OF uniq', of SYSTEM_ROLES] roles seed_permissions_run [of PERMISSIONS w']
    by (simp add: seed_permissions_def atomic_default_def)
  have "\<exists>role. system_roles (ctl w') slug = [role] \<and> set (role_permissions role) = set codes"
    if entry: "(slug, name, codes) \<in> set SYSTEM_ROLES" for slug name codes
  proof -
    obtain role where role: "system_roles (ctl w') slug = [role]"
      "role_permissions role = filter (\<lambda>p. p \<in> set codes) (map perm_code (permissions (ctl w')))"
      using roles [OF entry] by (auto simp: role_seeded_def)
    have "set codes \<subseteq> perm_code ` set (permissions (ctl w'))"
    proof
      fix code assume "code \<in> set codes"
      then obtain entry where "entry \<in> set PERMISSIONS" "fst entry = code"
        using system_role_codes [OF entry] by force
      with ps have "\<exists>p \<in> set (permissions (ctl w')). perm_code p = code"
        by (auto simp: permission_seeded_def)
      then show "code \<in> perm_code ` set (permissions (ctl w'))" by blast
    qed
    with role show ?thesis by auto
  qed
  with run again roles ps show ?thesis by (auto simp: seeded_def)
qed

section \<open>Witnesses\<close>

definition viewer_role :: role where
  "viewer_role = \<lparr>role_id = 40, role_organization = None, role_slug = ''viewer'',
     role_name = ''Viewer'', role_is_system = True,
     role_permissions = [''storage.read'', ''database.read'']\<rparr>"

definition administrator_role :: role where
  "administrator_role = \<lparr>role_id = 41, role_organization = None,
     role_slug = ''organization-administrator'', role_name = ''Organization Administrator'',
     role_is_system = True, role_permissions = filter (\<lambda>p. p \<noteq> ''system.admin'') ALL_PERMISSIONS\<rparr>"

definition two_roles :: control where
  "two_roles = no_rows\<lparr>roles := [viewer_role, administrator_role],
     permissions := map (\<lambda>e. \<lparr>perm_code = fst e, perm_description = snd e\<rparr>) PERMISSIONS\<rparr>"

lemma two_roles_simps [simp]:
  "roles two_roles = [viewer_role, administrator_role]" "role_assignments two_roles = []"
  "resource_grants two_roles = []" "memberships two_roles = []" "organizations two_roles = []"
  "perm_code ` set (permissions two_roles) = fst ` set PERMISSIONS" "users two_roles = []"
  "workspaces two_roles = []" "projects two_roles = []" "teams two_roles = []"
  "audit_events two_roles = []"
  by (simp_all add: two_roles_def no_rows_def image_image)

lemma roles_witness_simps [simp]:
  "role_slug viewer_role = ''viewer''" "role_organization viewer_role = None"
  "role_permissions viewer_role = [''storage.read'', ''database.read'']"
  "role_id viewer_role = 40"
  "role_slug administrator_role = ''organization-administrator''"
  "role_organization administrator_role = None" "role_id administrator_role = 41"
  by (simp_all add: viewer_role_def administrator_role_def)

lemma system_roles_two_roles [simp]:
  "system_roles two_roles ''viewer'' = [viewer_role]"
  "system_roles two_roles ''organization-administrator'' = [administrator_role]"
  by (simp_all add: system_roles_def)

lemma unique_two_roles: "unique_rows role_clash (roles two_roles)"
  by (simp add: unique_rows_def role_clash_def)

theorem seed_permissions_correct_witness:
  "\<exists>w'. seed_permissions (world_of no_rows) = (Inr (), w') \<and> seeded (ctl w')
     \<and> seed_permissions w' = (Inr (), w')"
proof -
  have "unique_rows role_clash (roles (ctl (world_of no_rows)))"
    by (simp add: no_rows_def unique_rows_def)
  moreover have "fresh_draws (world_of no_rows) (length SYSTEM_ROLES) (role_ids (ctl (world_of no_rows)))"
    by (rule fresh_draws_world_of) (simp_all add: no_rows_def SYSTEM_ROLES_def role_ids_def)
  ultimately show ?thesis using seed_permissions_correct [of "world_of no_rows"] by blast
qed

lemma assign_viewer:
  "assign_role bob ''viewer'' (Some 7) None (world_of two_roles) =
     (Inr (new_assignment (world_of two_roles) bob viewer_role (Some 7) None),
      assigned (world_of two_roles) ''viewer''
        (new_assignment (world_of two_roles) bob viewer_role (Some 7) None) None)"
  by (simp add: assign_role_run admin_gate_def Let_def)

theorem assign_role_exact_witness:
  "permitted (snd (assign_role bob ''viewer'' (Some 7) None (world_of two_roles))) 2
     ''storage.read'' (Some 7) None
   \<and> \<not> permitted (snd (assign_role bob ''viewer'' (Some 7) None (world_of two_roles))) 2
     ''storage.read'' (Some 8) None"
proof -
  let ?w = "world_of two_roles"
  have "unique_rows role_clash (roles (ctl ?w))" using unique_two_roles by simp
  note exact = assign_role_exact [OF assign_viewer this, of 2 "''storage.read''" _ None]
  show ?thesis
    using exact [of "Some 7"] exact [of "Some 8"]
    by (simp add: assign_viewer permitted_def role_allows_def)
qed

definition gated_world :: world where
  "gated_world = (world_of two_roles)\<lparr>env := base_env\<lparr>internet_gateway := True\<rparr>\<rparr>"


lemma grant_read:
  "grant_resource_permission bob ''storage.read'' 7 ''bucket'' 9 None None (world_of two_roles) =
     (Inr (new_grant (world_of two_roles) bob ''storage.read'' 7 ''bucket'' 9 None None),
      granted (world_of two_roles)
        (new_grant (world_of two_roles) bob ''storage.read'' 7 ''bucket'' 9 None None) None)"
proof -
  have "''storage.read'' \<in> fst ` set PERMISSIONS" by (simp add: PERMISSIONS_def)
  then show ?thesis by (simp add: grant_resource_permission_run Let_def)
qed

theorem grant_resource_permission_exact_witness:
  "permitted (snd (grant_resource_permission bob ''storage.read'' 7 ''bucket'' 9 None None
       (world_of two_roles))) 2 ''storage.read'' (Some 7) (Some (''bucket'', 9))
   \<and> \<not> permitted (snd (grant_resource_permission bob ''storage.read'' 7 ''bucket'' 9 None None
       (world_of two_roles))) 2 ''storage.read'' (Some 7) (Some (''bucket'', 10))"
  using grant_resource_permission_exact [OF grant_read, of 2 "''storage.read''" "Some 7"
      "Some (''bucket'', 9)"]
    grant_resource_permission_exact [OF grant_read, of 2 "''storage.read''" "Some 7"
      "Some (''bucket'', 10)"]
  by (simp add: grant_read live_at_def permitted_def role_allows_def grant_allows_def)

end
