(* ===== verification/Organizations.thy ===== *)
theory Organizations
  imports Permissions
begin

text \<open>
  Organizations, memberships and teams (\<open>organizations/services.py\<close>, \<open>organizations/views.py\<close>).
  The query every organization-scoped endpoint starts with is a contract of its own, the locale
  \<open>member_lookup\<close>: a row is found only for an active member of the organization that owns it, and
  for anyone else the answer is the same 404 a missing row gives. \<open>get_member_organization\<close> and
  \<open>get_member_team\<close> are its first two instances.
\<close>

section \<open>Looking rows up as a member\<close>

definition active_member :: "control \<Rightarrow> uuid \<Rightarrow> uuid \<Rightarrow> bool" where
  "active_member c u org \<longleftrightarrow>
     (\<exists>m \<in> set (memberships c). mem_user m = u \<and> mem_organization m = org \<and> mem_status m = MActive)"

lemma ignores_audit_active_member [simp]: "ignores_audit (\<lambda>c. active_member c u org)"
  by (simp add: ignores_audit_def active_member_def)

text \<open>The rows of a join with the active memberships of one user.\<close>

definition member_rows ::
  "(control \<Rightarrow> 'r list) \<Rightarrow> ('r \<Rightarrow> uuid) \<Rightarrow> (control \<Rightarrow> 'r \<Rightarrow> uuid list) \<Rightarrow> uuid \<Rightarrow> uuid \<Rightarrow> control
     \<Rightarrow> 'r list" where
  "member_rows rows rid owners u i c =
     [x. x \<leftarrow> rows c, rid x = i, org \<leftarrow> owners c x, m \<leftarrow> memberships c,
         mem_organization m = org, mem_user m = u, mem_status m = MActive]"

lemma member_rows_mem:
  "x \<in> set (member_rows rows rid owners u i c) \<longleftrightarrow>
     x \<in> set (rows c) \<and> rid x = i \<and> (\<exists>org \<in> set (owners c x). active_member c u org)"
  by (auto simp: member_rows_def active_member_def)

lemma member_rows_run:
  "or_404 (get_one (member_rows rows rid owners u i)) w =
     (case member_rows rows rid owners u i (ctl w) of [] \<Rightarrow> (Inl Http404, w)
      | [x] \<Rightarrow> (Inr x, w) | _ \<Rightarrow> (Inl MultipleObjectsReturned, w))"
  by (simp add: or_404_def catch_def get_one_run split: list.splits)

locale member_lookup =
  fixes lookup :: "user \<Rightarrow> uuid \<Rightarrow> 'r app"
    and rows :: "control \<Rightarrow> 'r list"
    and rid :: "'r \<Rightarrow> uuid"
    and owners :: "control \<Rightarrow> 'r \<Rightarrow> uuid list"
  assumes lookup_keeps: "snd (lookup u i w) = w"
    and lookup_found: "fst (lookup u i w) = Inr x \<Longrightarrow>
          x \<in> set (rows (ctl w)) \<and> rid x = i
          \<and> (\<exists>org \<in> set (owners (ctl w) x). active_member (ctl w) (user_id u) org)"
    and lookup_hidden: "(\<nexists>x org. x \<in> set (rows (ctl w)) \<and> rid x = i \<and> org \<in> set (owners (ctl w) x)
          \<and> active_member (ctl w) (user_id u) org) \<Longrightarrow> fst (lookup u i w) = Inl Http404"
begin

definition visible :: "control \<Rightarrow> user \<Rightarrow> uuid \<Rightarrow> bool" where
  "visible c u i \<longleftrightarrow> (\<exists>x \<in> set (rows c). rid x = i
     \<and> (\<exists>org \<in> set (owners c x). active_member c (user_id u) org))"

lemma lookup_Inr:
  assumes "lookup u i w = (Inr x, t)"
  shows "t = w" and "x \<in> set (rows (ctl w))" and "rid x = i"
    and "\<exists>org \<in> set (owners (ctl w) x). active_member (ctl w) (user_id u) org"
  using assms lookup_keeps [of u i w] lookup_found [of u i w x] by simp_all

lemma lookup_stranger: "\<not> visible (ctl w) u i \<Longrightarrow> lookup u i w = (Inl Http404, w)"
  using lookup_keeps [of u i w] lookup_hidden [of w i u]
  by (cases "lookup u i w") (auto simp: visible_def)

text \<open>Whatever a view does after the lookup, a stranger gets the 404 and changes nothing.\<close>

lemma stranger_404: "\<not> visible (ctl w) u i \<Longrightarrow> bind (lookup u i) view w = (Inl Http404, w)"
  by (simp add: bind_def lookup_stranger)

lemma wp_lookup:
  assumes "\<And>x. x \<in> set (rows (ctl w)) \<Longrightarrow> rid x = i \<Longrightarrow>
      \<exists>org \<in> set (owners (ctl w) x). active_member (ctl w) (user_id u) org \<Longrightarrow> Q x w"
    and "\<And>e. E e w"
  shows "wp (lookup u i) Q E w"
proof (rule wpI)
  fix x t assume "lookup u i w = (Inr x, t)"
  then show "Q x t" using assms(1) [of x] lookup_Inr [of u i w x t] by simp
next
  fix e t assume "lookup u i w = (Inl e, t)"
  then show "E e t" using assms(2) lookup_keeps [of u i w] by simp
qed

lemma preserves_lookup: "preserves I (lookup u i)"
  by (simp add: preserves_def lookup_keeps)

lemma logs_lookup: "logs (lookup u i)"
  by (simp add: logs_def lookup_keeps)

end

text \<open>Every lookup of the code is such a join; the laws hold of all of them at once.\<close>

lemma member_lookup_join:
  assumes "\<And>u i. lookup u i = or_404 (get_one (member_rows rows rid owners (user_id u) i))"
  shows "member_lookup lookup rows rid owners"
proof
  fix u :: user and i and w :: world
  show "snd (lookup u i w) = w"
    by (simp add: assms member_rows_run split: list.splits)
next
  fix u :: user and i x and w :: world
  assume "fst (lookup u i w) = Inr x"
  then have "x \<in> set (member_rows rows rid owners (user_id u) i (ctl w))"
    by (auto simp: assms member_rows_run split: list.splits)
  then show "x \<in> set (rows (ctl w)) \<and> rid x = i
      \<and> (\<exists>org \<in> set (owners (ctl w) x). active_member (ctl w) (user_id u) org)"
    by (simp add: member_rows_mem)
next
  fix u :: user and i and w :: world
  assume "\<nexists>x org. x \<in> set (rows (ctl w)) \<and> rid x = i \<and> org \<in> set (owners (ctl w) x)
    \<and> active_member (ctl w) (user_id u) org"
  then have "x \<notin> set (member_rows rows rid owners (user_id u) i (ctl w))" for x
    by (auto simp: member_rows_mem)
  then have "member_rows rows rid owners (user_id u) i (ctl w) = []"
    by (cases "member_rows rows rid owners (user_id u) i (ctl w)") auto
  then show "fst (lookup u i w) = Inl Http404"
    by (simp add: assms member_rows_run)
qed

text \<open>Under the constraints of the tables a member does find the row: one membership per
  organization, one row per id, one owner.\<close>

lemma concat_map_single:
  assumes "distinct xs" and "x \<in> set xs" and "\<And>y. y \<in> set xs \<Longrightarrow> f y = (if y = x then [x] else [])"
  shows "concat (map f xs) = [x]"
  using assms
proof (induction xs)
  case (Cons a xs)
  show ?case
  proof (cases "a = x")
    case True
    with Cons.prems have "\<forall>y \<in> set xs. f y = []" by auto
    then have "concat (map f xs) = []" by auto
    with True Cons.prems show ?thesis by simp
  qed (use Cons in auto)
qed simp

lemma member_rows_single:
  fixes x :: 'r
  assumes uniq: "unique_rows membership_clash (memberships c)" and ids: "distinct (map rid (rows c))"
    and x: "x \<in> set (rows c)" "owners c x = [org]" and member: "active_member c u org"
  shows "member_rows rows rid owners u (rid x) c = [x]"
proof -
  let ?P = "\<lambda>m. mem_organization m = org \<and> mem_user m = u \<and> mem_status m = MActive"
  from member obtain m where m: "m \<in> set (memberships c)" "?P m" by (auto simp: active_member_def)
  have one: "filter ?P (memberships c) = [m]"
    by (rule unique_rows_filter_eq [OF uniq]) (use m in \<open>auto simp: membership_clash_def\<close>)
  have "concat (map (\<lambda>m. if mem_organization m = org then if mem_user m = u
      then if mem_status m = MActive then [y] else [] else [] else []) ms)
    = map (\<lambda>_. y) (filter ?P ms)" for y :: 'r and ms
    by (induction ms) auto
  from this [of x "memberships c"] one
  have row: "concat (map (\<lambda>m. if mem_organization m = org then if mem_user m = u
      then if mem_status m = MActive then [x] else [] else [] else []) (memberships c)) = [x]"
    by simp
  have "rid y = rid x \<longleftrightarrow> y = x" if "y \<in> set (rows c)" for y
    using ids that x(1) by (auto simp: distinct_map inj_on_def)
  moreover have "distinct (rows c)" using ids by (simp add: distinct_map)
  ultimately show ?thesis
    unfolding member_rows_def using row x by (intro concat_map_single) auto
qed

section \<open>Services\<close>

definition get_member_organization :: "user \<Rightarrow> uuid \<Rightarrow> organization app" where
  "get_member_organization user organization_id = or_404 (get_one (
     member_rows organizations org_id (\<lambda>c g. [org_id g]) (user_id user) organization_id))"

definition get_member_team :: "user \<Rightarrow> uuid \<Rightarrow> team app" where
  "get_member_team user team_id' = or_404 (get_one (
     member_rows teams team_id (\<lambda>c t. [team_organization t]) (user_id user) team_id'))"

interpretation organization_lookup:
  member_lookup get_member_organization organizations org_id "\<lambda>c g. [org_id g]"
  by (rule member_lookup_join) (rule get_member_organization_def)

interpretation team_lookup:
  member_lookup get_member_team teams team_id "\<lambda>c t. [team_organization t]"
  by (rule member_lookup_join) (rule get_member_team_def)

lemmas member_lookup_keeps [keeps] =
  organization_lookup.preserves_lookup team_lookup.preserves_lookup

lemmas member_lookup_logs [logs] = organization_lookup.logs_lookup team_lookup.logs_lookup

text \<open>\<open>slug or slugify(name)\<close>.\<close>

definition wanted_slug :: "world \<Rightarrow> string \<Rightarrow> string option \<Rightarrow> string" where
  "wanted_slug w name slug = (case slug of None \<Rightarrow> slugify (env w) name
     | Some s \<Rightarrow> if s = '''' then slugify (env w) name else s)"

definition create_organization :: "string \<Rightarrow> user \<Rightarrow> string option \<Rightarrow> organization app" where
  "create_organization name created_by slug =
     bind (gets (\<lambda>w. wanted_slug w name slug)) (\<lambda>slug'.
     bind (atomic_default (
       bind uuid4 (\<lambda>i.
       let org = \<lparr>org_id = i, org_name = name, org_slug = slug',
             external_sharing_enabled = False, org_created_by = user_id created_by\<rparr> in
       bind (orm_create organizations organizations_update organization_clash org) (\<lambda>_.
       bind uuid4 (\<lambda>j.
       bind (orm_create memberships memberships_update membership_clash
         \<lparr>mem_id = j, mem_user = user_id created_by, mem_organization = i, mem_team = None,
          mem_status = MActive, mem_invited_by = None\<rparr>) (\<lambda>_.
       bind (assign_role created_by ''organization-administrator'' (Some i) (Some created_by)) (\<lambda>_.
       ret org))))))) (\<lambda>org.
     bind (audit_record (Some created_by) (Some (org_id org)) ''organization.create'' ''organization''
       (uuid_str (org_id org)) '''' Success [(''name'', JStr name)]) (\<lambda>_.
     ret org)))"

definition add_team_member :: "team \<Rightarrow> user \<Rightarrow> user \<Rightarrow> membership app" where
  "add_team_member team user actor =
     bind (or_404 (get_one (\<lambda>c. filter (\<lambda>m. mem_user m = user_id user
       \<and> mem_organization m = team_organization team) (memberships c)))) (\<lambda>membership.
     let membership' = membership\<lparr>mem_team := Some (team_id team)\<rparr> in
     bind (on_ctl (memberships_update (update_where (\<lambda>m. mem_id m = mem_id membership)
       (\<lambda>m. m\<lparr>mem_team := Some (team_id team)\<rparr>)))) (\<lambda>_.
     bind (audit_record (Some actor) (Some (team_organization team)) ''organization.team.member_add''
       ''team'' (uuid_str (team_id team)) '''' Success
       [(''user'', JStr (uuid_str (user_id user)))]) (\<lambda>_.
     ret membership')))"

definition remove_team_member :: "team \<Rightarrow> user \<Rightarrow> user \<Rightarrow> membership app" where
  "remove_team_member team user actor =
     bind (or_404 (get_one (\<lambda>c. filter (\<lambda>m. mem_user m = user_id user
       \<and> mem_organization m = team_organization team \<and> mem_team m = Some (team_id team))
       (memberships c)))) (\<lambda>membership.
     let membership' = membership\<lparr>mem_team := None\<rparr> in
     bind (on_ctl (memberships_update (update_where (\<lambda>m. mem_id m = mem_id membership)
       (\<lambda>m. m\<lparr>mem_team := None\<rparr>)))) (\<lambda>_.
     bind (audit_record (Some actor) (Some (team_organization team))
       ''organization.team.member_remove'' ''team'' (uuid_str (team_id team)) '''' Success
       [(''user'', JStr (uuid_str (user_id user)))]) (\<lambda>_.
     ret membership')))"

section \<open>Views\<close>

definition OrganizationList_get :: "user \<Rightarrow> response app" where
  "OrganizationList_get user =
     bind (query (\<lambda>c. remdups [g. g \<leftarrow> organizations c, m \<leftarrow> memberships c,
       mem_organization m = org_id g, mem_user m = user_id user, mem_status m = MActive])) (\<lambda>orgs.
     respond 200 (OrganizationsBody orgs))"

definition OrganizationList_post :: "user \<Rightarrow> string option \<Rightarrow> response app" where
  "OrganizationList_post user data =
     bind (validated data) (\<lambda>name.
     bind (create_organization name user None) (\<lambda>org.
     respond 201 (OrganizationBody org)))"

definition OrganizationDetail_get :: "user \<Rightarrow> uuid \<Rightarrow> response app" where
  "OrganizationDetail_get user organization_id =
     bind (get_member_organization user organization_id) (\<lambda>org.
     respond 200 (OrganizationBody org))"

definition MembershipList_get :: "user \<Rightarrow> uuid \<Rightarrow> response app" where
  "MembershipList_get user organization_id =
     bind (get_member_organization user organization_id) (\<lambda>org.
     bind (query (\<lambda>c. filter (\<lambda>m. mem_organization m = org_id org) (memberships c))) (\<lambda>ms.
     respond 200 (MembershipsBody ms)))"

text \<open>\<open>Membership.objects.get_or_create(user, organization, defaults)\<close>.\<close>

definition membership_get_or_create :: "uuid \<Rightarrow> uuid \<Rightarrow> uuid \<Rightarrow> (membership \<times> bool) app" where
  "membership_get_or_create user organization invited_by =
     bind (attempt (get_one (\<lambda>c. filter (\<lambda>m. mem_user m = user
       \<and> mem_organization m = organization) (memberships c)))) (\<lambda>found. case found of
       Inr m \<Rightarrow> ret (m, False)
     | Inl DoesNotExist \<Rightarrow> bind uuid4 (\<lambda>i.
         let m = \<lparr>mem_id = i, mem_user = user, mem_organization = organization, mem_team = None,
               mem_status = MActive, mem_invited_by = Some invited_by\<rparr> in
         bind (orm_create memberships memberships_update membership_clash m) (\<lambda>_. ret (m, True)))
     | Inl e \<Rightarrow> raise e)"

definition MembershipList_post :: "user \<Rightarrow> uuid \<Rightarrow> string option \<Rightarrow> response app" where
  "MembershipList_post user organization_id data =
     bind (get_member_organization user organization_id) (\<lambda>org.
     bind (has_permission (Some user) ''users.manage'' (Some (org_id org)) None) (\<lambda>allowed.
     if \<not> allowed then respond 403 NoBody
     else bind (validated data) (\<lambda>address.
     bind (gets (\<lambda>w. pg_upper (env w))) (\<lambda>upper.
     bind (attempt (get_one (\<lambda>c.
       filter (\<lambda>v. upper (email v) = upper address) (users c)))) (\<lambda>found. case found of
       Inl DoesNotExist \<Rightarrow> respond 404 (Detail ''No user with that email exists yet.'')
     | Inl e \<Rightarrow> raise e
     | Inr target_user \<Rightarrow>
         bind (membership_get_or_create (user_id target_user) (org_id org) (user_id user))
           (\<lambda>(membership, created).
         if \<not> created then respond 409 (Detail ''This user is already a member.'')
         else bind (audit_record (Some user) (Some (org_id org)) ''organization.member.add'' ''user''
                (uuid_str (user_id target_user)) '''' Success []) (\<lambda>_.
              respond 201 (MembershipBody membership))))))))"

definition MembershipRoleAssign_post :: "user \<Rightarrow> uuid \<Rightarrow> uuid \<Rightarrow> string option \<Rightarrow> response app" where
  "MembershipRoleAssign_post user organization_id membership_id data =
     bind (get_member_organization user organization_id) (\<lambda>org.
     bind (has_permission (Some user) ''permissions.manage'' (Some (org_id org)) None) (\<lambda>allowed.
     if \<not> allowed then respond 403 NoBody
     else bind (or_404 (get_one (\<lambda>c. filter (\<lambda>m. mem_id m = membership_id
       \<and> mem_organization m = org_id org) (memberships c)))) (\<lambda>membership.
     bind (validated data) (\<lambda>slug.
     if slug \<notin> fst ` set SYSTEM_ROLES then respond 400 (Detail ''Unknown role.'')
     else bind (get_one (\<lambda>c. filter (\<lambda>v. user_id v = mem_user membership) (users c))) (\<lambda>target.
     bind (assign_role target slug (Some (org_id org)) (Some user)) (\<lambda>assignment.
     respond 201 (Data (JObj [(''id'', JStr (uuid_str (ra_id assignment))),
       (''role'', JStr slug)]))))))))"

definition TeamList_get :: "user \<Rightarrow> uuid \<Rightarrow> response app" where
  "TeamList_get user organization_id =
     bind (get_member_organization user organization_id) (\<lambda>org.
     bind (query (\<lambda>c. filter (\<lambda>t. team_organization t = org_id org) (teams c))) (\<lambda>ts.
     respond 200 (TeamsBody ts)))"

definition TeamList_post :: "user \<Rightarrow> uuid \<Rightarrow> string option \<Rightarrow> response app" where
  "TeamList_post user organization_id data =
     bind (get_member_organization user organization_id) (\<lambda>org.
     bind (has_permission (Some user) ''users.manage'' (Some (org_id org)) None) (\<lambda>allowed.
     if \<not> allowed then respond 403 NoBody
     else bind (validated data) (\<lambda>name.
     bind (query (\<lambda>c. list_ex (\<lambda>t. team_organization t = org_id org \<and> team_name t = name)
       (teams c))) (\<lambda>taken.
     if taken then respond 409 (Detail ''A team with this name already exists.'')
     else bind uuid4 (\<lambda>i.
     let team = \<lparr>team_id = i, team_organization = org_id org, team_name = name\<rparr> in
     bind (orm_create teams teams_update team_clash team) (\<lambda>_.
     bind (audit_record (Some user) (Some (org_id org)) ''organization.team.create'' ''team''
       (uuid_str i) '''' Success [(''name'', JStr name)]) (\<lambda>_.
     respond 201 (TeamBody team))))))))"

definition TeamMemberList_post :: "user \<Rightarrow> uuid \<Rightarrow> uuid option \<Rightarrow> response app" where
  "TeamMemberList_post user team_id' data =
     bind (get_member_team user team_id') (\<lambda>team.
     bind (has_permission (Some user) ''users.manage'' (Some (team_organization team)) None)
       (\<lambda>allowed.
     if \<not> allowed then respond 403 NoBody
     else bind (validated data) (\<lambda>uid.
     bind (or_404 (get_one (\<lambda>c. filter (\<lambda>v. user_id v = uid) (users c)))) (\<lambda>target_user.
     bind (add_team_member team target_user user) (\<lambda>membership.
     respond 201 (MembershipBody membership))))))"

definition TeamMemberDetail_delete :: "user \<Rightarrow> uuid \<Rightarrow> uuid \<Rightarrow> response app" where
  "TeamMemberDetail_delete user team_id' uid =
     bind (get_member_team user team_id') (\<lambda>team.
     bind (has_permission (Some user) ''users.manage'' (Some (team_organization team)) None)
       (\<lambda>allowed.
     if \<not> allowed then respond 403 NoBody
     else bind (or_404 (get_one (\<lambda>c. filter (\<lambda>v. user_id v = uid) (users c)))) (\<lambda>target_user.
     bind (remove_team_member team target_user user) (\<lambda>_.
     respond 204 NoBody))))"

section \<open>The audit view\<close>

text \<open>\<open>AuditEventListView.get_queryset\<close>: a filter narrows the queryset when its parameter is
  given and not empty. \<open>since\<close> and \<open>until\<close> arrive parsed.\<close>

record audit_filters =
  af_action :: string
  af_actor :: "uuid option"
  af_resource_type :: string
  af_result :: "audit_result option"
  af_since :: "timestamp option"
  af_until :: "timestamp option"

definition AuditEventList_get_queryset :: "user \<Rightarrow> uuid \<Rightarrow> audit_filters \<Rightarrow> audit_event list app" where
  "AuditEventList_get_queryset user organization_id params =
     bind (get_member_organization user organization_id) (\<lambda>org.
     bind (has_permission (Some user) ''audit.read'' (Some (org_id org)) None) (\<lambda>allowed.
     bind (ensure allowed PermissionDenied) (\<lambda>_.
     query (\<lambda>c. filter (\<lambda>e. ae_organization e = Some (org_id org)
         \<and> (af_action params = '''' \<or> ae_action e = af_action params)
         \<and> (af_actor params = None \<or> ae_actor e = af_actor params)
         \<and> (af_resource_type params = '''' \<or> ae_resource_type e = af_resource_type params)
         \<and> (case af_result params of None \<Rightarrow> True | Some r \<Rightarrow> ae_result e = r)
         \<and> (case af_since params of None \<Rightarrow> True | Some t \<Rightarrow> ae_timestamp e \<ge> t)
         \<and> (case af_until params of None \<Rightarrow> True | Some t \<Rightarrow> ae_timestamp e \<le> t))
       (audit_events c)))))"

section \<open>Creating an organization\<close>

definition new_organization :: "world \<Rightarrow> string \<Rightarrow> user \<Rightarrow> string option \<Rightarrow> organization" where
  "new_organization w name created_by slug =
     \<lparr>org_id = uuid_source (env w) (rng w), org_name = name, org_slug = wanted_slug w name slug,
      external_sharing_enabled = False, org_created_by = user_id created_by\<rparr>"

definition founder :: "world \<Rightarrow> user \<Rightarrow> membership" where
  "founder w created_by =
     \<lparr>mem_id = uuid_source (env w) (Suc (rng w)), mem_user = user_id created_by,
      mem_organization = uuid_source (env w) (rng w), mem_team = None, mem_status = MActive,
      mem_invited_by = None\<rparr>"

definition founded :: "world \<Rightarrow> string \<Rightarrow> user \<Rightarrow> string option \<Rightarrow> world" where
  "founded w name created_by slug = w\<lparr>rng := Suc (Suc (rng w)),
     ctl := memberships_update (\<lambda>xs. xs @ [founder w created_by])
       (organizations_update (\<lambda>xs. xs @ [new_organization w name created_by slug]) (ctl w))\<rparr>"

lemma founded_simps [simp]:
  "organizations (ctl (founded w name u slug)) = organizations (ctl w) @ [new_organization w name u slug]"
  "memberships (ctl (founded w name u slug)) = memberships (ctl w) @ [founder w u]"
  "roles (ctl (founded w name u slug)) = roles (ctl w)"
  "role_assignments (ctl (founded w name u slug)) = role_assignments (ctl w)"
  "resource_grants (ctl (founded w name u slug)) = resource_grants (ctl w)"
  "system_roles (ctl (founded w name u slug)) s = system_roles (ctl w) s"
  "env (founded w name u slug) = env w" "clock (founded w name u slug) = clock w"
  "rng (founded w name u slug) = Suc (Suc (rng w))"
  by (simp_all add: founded_def system_roles_def)

lemma create_organization_run:
  "create_organization name u slug w =
    (let org = new_organization w name u slug in
     if list_ex (organization_clash org) (organizations (ctl w))
     then (Inl (DbError IntegrityError), w\<lparr>rng := Suc (rng w)\<rparr>)
     else if list_ex (membership_clash (founder w u)) (memberships (ctl w))
     then (Inl (DbError IntegrityError), w\<lparr>rng := Suc (Suc (rng w))\<rparr>)
     else case assign_role u ''organization-administrator'' (Some (org_id org)) (Some u)
              (founded w name u slug) of
         (Inl e, t) \<Rightarrow> (Inl e, t\<lparr>ctl := ctl w\<rparr>)
       | (Inr a, t) \<Rightarrow> (Inr org, log_event (audit_row t (Some u) (Some (org_id org))
           ''organization.create'' ''organization'' (uuid_str (org_id org)) '''' Success
           [(''name'', JStr name)]) t))"
  by (simp add: create_organization_def bind_def atomic_default_def Let_def orm_create_def
      new_organization_def founder_def founded_def split: prod.splits sum.splits)

definition created :: "world \<Rightarrow> string \<Rightarrow> user \<Rightarrow> string option \<Rightarrow> role_assignment \<Rightarrow> world" where
  "created w name u slug a =
    (let t = assigned (founded w name u slug) ''organization-administrator'' a (Some u);
         i = org_id (new_organization w name u slug)
     in log_event (audit_row t (Some u) (Some i) ''organization.create'' ''organization''
          (uuid_str i) '''' Success [(''name'', JStr name)]) t)"

lemma create_organization_Inr:
  assumes "create_organization name u slug w = (Inr org, w')"
  obtains a role where "org = new_organization w name u slug"
    and "\<not> list_ex (organization_clash org) (organizations (ctl w))"
    and "\<not> list_ex (membership_clash (founder w u)) (memberships (ctl w))"
    and "assign_role u ''organization-administrator'' (Some (org_id org)) (Some u)
           (founded w name u slug) = (Inr a, assigned (founded w name u slug)
             ''organization-administrator'' a (Some u))"
    and "system_roles (ctl w) ''organization-administrator'' = [role]"
    and "a = new_assignment (founded w name u slug) u role (Some (org_id org)) (Some u)"
    and "w' = created w name u slug a"
proof -
  let ?o = "new_organization w name u slug"
  let ?m = "assign_role u ''organization-administrator'' (Some (org_id ?o)) (Some u)
      (founded w name u slug)"
  have clash: "\<not> list_ex (organization_clash ?o) (organizations (ctl w))"
    "\<not> list_ex (membership_clash (founder w u)) (memberships (ctl w))"
    using assms by (auto simp: create_organization_run Let_def split: if_splits)
  obtain r t where m: "?m = (r, t)" by (cases ?m)
  with assms clash obtain a where r: "r = Inr a"
    by (cases r) (simp_all add: create_organization_run Let_def)
  with m have ok: "?m = (Inr a, t)" by simp
  from ok obtain role where role: "system_roles (ctl (founded w name u slug)) ''organization-administrator'' = [role]"
    and a: "a = new_assignment (founded w name u slug) u role (Some (org_id ?o)) (Some u)"
    and t: "t = assigned (founded w name u slug) ''organization-administrator'' a (Some u)"
    by (rule assign_role_Inr)
  have "org = ?o" "w' = created w name u slug a"
    using assms clash ok by (auto simp: create_organization_run Let_def created_def t)
  with that clash ok role a t show thesis by simp
qed

lemma create_organization_Inl:
  assumes "create_organization name u slug w = (Inl e, w')"
  shows "ctl w' = ctl w"
  using assms by (auto simp: create_organization_run Let_def split: if_splits prod.splits sum.splits)

lemma assigned_tables [simp]:
  "organizations (ctl (assigned w slug a g)) = organizations (ctl w)"
  "memberships (ctl (assigned w slug a g)) = memberships (ctl w)"
  by (simp_all add: assigned_def Let_def)

lemma created_simps [simp]:
  "organizations (ctl (created w name u slug a)) =
     organizations (ctl w) @ [new_organization w name u slug]"
  "memberships (ctl (created w name u slug a)) = memberships (ctl w) @ [founder w u]"
  by (simp_all add: created_def Let_def)

lemma permitted_created:
  "permitted (created w name u slug a) v code o' resource = permitted (assigned (founded w name u slug)
     ''organization-administrator'' a (Some u)) v code o' resource"
  by (simp add: created_def Let_def)

lemma permitted_founded:
  "permitted (founded w name u slug) v code o' resource = permitted w v code o' resource"
  by (rule permitted_cong) simp_all

text \<open>C4. Creating an organization is all or nothing, and never leaves one without an owner: if it
  returns, the new organization is stored and visible to its creator, who is its one active member
  and from then on permitted there exactly what the organization administrator role carries, while
  nobody's authority anywhere else has changed; if it raises, the database, audit log included, is
  as it was.\<close>

theorem create_organization_atomic:
  assumes roles: "unique_rows role_clash (roles (ctl w))"
    and orgs: "unique_rows organization_clash (organizations (ctl w))"
    and mems: "unique_rows membership_clash (memberships (ctl w))"
  shows "wp (create_organization name u slug)
    (\<lambda>org w'. organizations (ctl w') = organizations (ctl w) @ [org]
       \<and> memberships (ctl w') = memberships (ctl w) @ [founder w u]
       \<and> get_member_organization u (org_id org) w' = (Inr org, w')
       \<and> (\<exists>role. system_roles (ctl w) ''organization-administrator'' = [role]
            \<and> (\<forall>v code o' resource. permitted w' v code o' resource \<longleftrightarrow> permitted w v code o' resource
                 \<or> v = user_id u \<and> o' = Some (org_id org) \<and> code \<in> set (role_permissions role))))
    (\<lambda>e w'. ctl w' = ctl w) w"
proof (rule wpI)
  fix org w' assume "create_organization name u slug w = (Inr org, w')"
  then obtain a role where org: "org = new_organization w name u slug"
    and new: "\<not> list_ex (organization_clash org) (organizations (ctl w))"
      "\<not> list_ex (membership_clash (founder w u)) (memberships (ctl w))"
    and assign: "assign_role u ''organization-administrator'' (Some (org_id org)) (Some u)
           (founded w name u slug) = (Inr a, assigned (founded w name u slug)
             ''organization-administrator'' a (Some u))"
    and role: "system_roles (ctl w) ''organization-administrator'' = [role]"
    and w': "w' = created w name u slug a"
    by (rule create_organization_Inr)
  have rows: "organizations (ctl w') = organizations (ctl w) @ [org]"
    "memberships (ctl w') = memberships (ctl w) @ [founder w u]"
    by (simp_all add: w' org)
  have "unique_rows organization_clash (organizations (ctl w'))"
    and mems': "unique_rows membership_clash (memberships (ctl w'))"
    using orgs mems new by (simp_all add: rows unique_rows_append)
  then have ids: "distinct (map org_id (organizations (ctl w')))"
    by (auto intro: unique_rows_distinct simp: organization_clash_def)
  have "active_member (ctl w') (user_id u) (org_id org)"
    by (simp add: active_member_def rows founder_def org new_organization_def)
  then have "member_rows organizations org_id (\<lambda>c g. [org_id g]) (user_id u) (org_id org) (ctl w') = [org]"
    by (intro member_rows_single mems' ids) (simp_all add: rows)
  then have lookup: "get_member_organization u (org_id org) w' = (Inr org, w')"
    by (simp add: get_member_organization_def member_rows_run)
  have "(\<exists>r \<in> set (roles (ctl w)). role_slug r = ''organization-administrator''
      \<and> role_organization r = None \<and> code \<in> set (role_permissions r))
    \<longleftrightarrow> (\<exists>r \<in> set (system_roles (ctl w) ''organization-administrator''). code \<in> set (role_permissions r))"
    for code by (auto simp: system_roles_mem)
  then have "permitted w' v code o' resource \<longleftrightarrow> permitted w v code o' resource
      \<or> v = user_id u \<and> o' = Some (org_id org) \<and> code \<in> set (role_permissions role)"
    for v code o' resource
    using assign_role_exact [OF assign] roles role
    by (simp add: w' permitted_created permitted_founded)
  with rows lookup role show "organizations (ctl w') = organizations (ctl w) @ [org]
       \<and> memberships (ctl w') = memberships (ctl w) @ [founder w u]
       \<and> get_member_organization u (org_id org) w' = (Inr org, w')
       \<and> (\<exists>role. system_roles (ctl w) ''organization-administrator'' = [role]
            \<and> (\<forall>v code o' resource. permitted w' v code o' resource \<longleftrightarrow> permitted w v code o' resource
                 \<or> v = user_id u \<and> o' = Some (org_id org) \<and> code \<in> set (role_permissions role)))"
    by blast
next
  fix e w' assume "create_organization name u slug w = (Inl e, w')"
  then show "ctl w' = ctl w" by (rule create_organization_Inl)
qed

section \<open>Teams\<close>

lemma update_membership_by_id:
  assumes uniq: "unique_rows membership_clash xs" and m: "m \<in> set xs"
  shows "update_where (\<lambda>x. mem_id x = mem_id m) f xs = map (\<lambda>x. if x = m then f x else x) xs"
proof -
  have "distinct (map mem_id xs)"
    by (rule unique_rows_distinct [OF uniq]) (simp add: membership_clash_def)
  then have "mem_id x = mem_id m \<longleftrightarrow> x = m" if "x \<in> set xs" for x
    using that m by (auto simp: distinct_map inj_on_def)
  then show ?thesis by (simp add: update_where_def)
qed

definition in_team :: "uuid option \<Rightarrow> membership \<Rightarrow> membership" where
  "in_team t m = m\<lparr>mem_team := t\<rparr>"

lemma in_team_simps [simp]:
  "mem_id (in_team t m) = mem_id m" "mem_user (in_team t m) = mem_user m"
  "mem_organization (in_team t m) = mem_organization m" "mem_team (in_team t m) = t"
  "mem_status (in_team t m) = mem_status m" "in_team s (in_team t m) = in_team s m"
  "mem_team m = t \<Longrightarrow> in_team t m = m"
  by (simp_all add: in_team_def)

lemma unique_memberships_in_team:
  assumes "unique_rows membership_clash xs"
  shows "unique_rows membership_clash (map (\<lambda>x. if x = m then in_team t x else x) xs)"
proof -
  have "membership_clash (if x = m then in_team t x else x) (if y = m then in_team t y else y)
      = membership_clash x y" for x y
    by (simp add: membership_clash_def)
  with assms show ?thesis unfolding unique_rows_def sorted_wrt_map by (simp only:)
qed

lemma add_team_member_run:
  assumes uniq: "unique_rows membership_clash (memberships (ctl w))"
    and m: "m \<in> set (memberships (ctl w))" "mem_user m = user_id user"
      "mem_organization m = team_organization team"
  obtains w' where "add_team_member team user actor w = (Inr (in_team (Some (team_id team)) m), w')"
    and "memberships (ctl w') =
      map (\<lambda>x. if x = m then in_team (Some (team_id team)) x else x) (memberships (ctl w))"
proof -
  have one: "filter (\<lambda>m. mem_user m = user_id user \<and> mem_organization m = team_organization team)
      (memberships (ctl w)) = [m]"
    by (rule unique_rows_filter_eq [OF uniq]) (use m in \<open>auto simp: membership_clash_def\<close>)
  show thesis
    by (rule that) ((use one update_membership_by_id [OF uniq m(1), of "in_team (Some (team_id team))"]
      in \<open>simp add: add_team_member_def or_404_def catch_def get_one_run bind_def Let_def
          in_team_def [abs_def]\<close>)+)
qed

lemma remove_team_member_run:
  assumes uniq: "unique_rows membership_clash (memberships (ctl w))"
    and m: "m \<in> set (memberships (ctl w))" "mem_user m = user_id user"
      "mem_organization m = team_organization team" "mem_team m = Some (team_id team)"
  obtains w' where "remove_team_member team user actor w = (Inr (in_team None m), w')"
    and "memberships (ctl w') = map (\<lambda>x. if x = m then in_team None x else x) (memberships (ctl w))"
proof -
  have one: "filter (\<lambda>m. mem_user m = user_id user \<and> mem_organization m = team_organization team
      \<and> mem_team m = Some (team_id team)) (memberships (ctl w)) = [m]"
    by (rule unique_rows_filter_eq [OF uniq]) (use m in \<open>auto simp: membership_clash_def\<close>)
  show thesis
    by (rule that) ((use one update_membership_by_id [OF uniq m(1), of "in_team None"]
      in \<open>simp add: remove_team_member_def or_404_def catch_def get_one_run bind_def Let_def
          in_team_def [abs_def]\<close>)+)
qed

text \<open>Adding a member to a team changes the team of that one membership and no other row of the
  table, and removing the member afterwards undoes it: a membership that had no team is back as it
  was, and so is the whole table.\<close>

theorem team_member_roundtrip:
  assumes uniq: "unique_rows membership_clash (memberships (ctl w))"
    and m: "m \<in> set (memberships (ctl w))" "mem_user m = user_id user"
      "mem_organization m = team_organization team" "mem_team m = None"
  shows "\<exists>w' w''. add_team_member team user actor w = (Inr (m\<lparr>mem_team := Some (team_id team)\<rparr>), w')
     \<and> memberships (ctl w') = map (\<lambda>x. if x = m then x\<lparr>mem_team := Some (team_id team)\<rparr> else x)
          (memberships (ctl w))
     \<and> remove_team_member team user actor w' = (Inr m, w'')
     \<and> memberships (ctl w'') = memberships (ctl w)"
proof -
  let ?t = "Some (team_id team)"
  from uniq m(1-3) obtain w' where w': "add_team_member team user actor w = (Inr (in_team ?t m), w')"
    and ms: "memberships (ctl w') = map (\<lambda>x. if x = m then in_team ?t x else x) (memberships (ctl w))"
    by (rule add_team_member_run)
  have "unique_rows membership_clash (memberships (ctl w'))"
    unfolding ms by (rule unique_memberships_in_team [OF uniq])
  moreover have "in_team ?t m \<in> set (memberships (ctl w'))" using m(1) by (auto simp: ms)
  moreover have "mem_user (in_team ?t m) = user_id user"
    "mem_organization (in_team ?t m) = team_organization team"
    "mem_team (in_team ?t m) = Some (team_id team)" using m by simp_all
  ultimately obtain w'' where w'': "remove_team_member team user actor w' =
      (Inr (in_team None (in_team ?t m)), w'')"
    and ms': "memberships (ctl w'') =
      map (\<lambda>x. if x = in_team ?t m then in_team None x else x) (memberships (ctl w'))"
    by (rule remove_team_member_run)
  have ids: "distinct (map mem_id (memberships (ctl w)))"
    by (rule unique_rows_distinct [OF uniq]) (simp add: membership_clash_def)
  have "x \<noteq> in_team ?t m" if "x \<in> set (memberships (ctl w))" "x \<noteq> m" for x
    using ids that m(1) by (metis distinct_map inj_onD in_team_simps(1))
  then have "memberships (ctl w'') = memberships (ctl w)"
    using m(4) unfolding ms' ms by (auto intro!: map_idI)
  with w' ms w'' m(4) show ?thesis by (auto simp: in_team_def [symmetric])
qed

text \<open>Members are added only by someone permitted to: \<open>POST .../members\<close> answers 201 exactly when
  it stores one new active membership of the organization, which needs the requester's active
  membership and \<open>users.manage\<close> there; with any other answer, or an exception, the membership table
  is unchanged.\<close>

theorem membership_post_guarded:
  "wp (MembershipList_post u org data)
     (\<lambda>r w'. if status r = 201
        then active_member (ctl w) (user_id u) org
           \<and> permitted w (user_id u) ''users.manage'' (Some org) None
           \<and> (\<exists>m. memberships (ctl w') = memberships (ctl w) @ [m] \<and> mem_organization m = org
                \<and> mem_status m = MActive \<and> mem_invited_by m = Some (user_id u)
                \<and> \<not> list_ex (membership_clash m) (memberships (ctl w)))
        else memberships (ctl w') = memberships (ctl w))
     (\<lambda>e w'. memberships (ctl w') = memberships (ctl w)) w"
  unfolding MembershipList_post_def wp_bind
proof (rule organization_lookup.wp_lookup, goal_cases)
  case (1 g)
  then have g: "org_id g = org" "active_member (ctl w) (user_id u) org" by auto
  show ?case
    by (auto simp: g membership_get_or_create_def wp_validated wp_orm_create Let_def wp_get_one
        split: option.splits sum.splits exn.splits list.splits if_splits)
qed simp

section \<open>Witnesses\<close>

lemma create_acme:
  "\<exists>w'. create_organization ''acme'' alice None (world_of two_roles) =
     (Inr (new_organization (world_of two_roles) ''acme'' alice None), w')"
  by (simp add: create_organization_run Let_def assign_role_run admin_gate_def)

theorem create_organization_atomic_witness:
  "\<exists>org w'. create_organization ''acme'' alice None (world_of two_roles) = (Inr org, w')
     \<and> organizations (ctl w') = [org]
     \<and> get_member_organization alice (org_id org) w' = (Inr org, w')"
proof -
  let ?w = "world_of two_roles"
  obtain w' where run: "create_organization ''acme'' alice None ?w =
      (Inr (new_organization ?w ''acme'' alice None), w')" using create_acme by blast
  have "unique_rows role_clash (roles (ctl ?w))"
    "unique_rows organization_clash (organizations (ctl ?w))"
    "unique_rows membership_clash (memberships (ctl ?w))"
    using unique_two_roles by (simp_all add: unique_rows_def)
  from wp_Inr [OF create_organization_atomic [OF this] run] run show ?thesis by auto
qed

definition membership_of :: "uuid \<Rightarrow> uuid \<Rightarrow> uuid \<Rightarrow> membership" where
  "membership_of i u org = \<lparr>mem_id = i, mem_user = u, mem_organization = org, mem_team = None,
     mem_status = MActive, mem_invited_by = None\<rparr>"

lemma membership_of_simps [simp]:
  "mem_id (membership_of i u org) = i" "mem_user (membership_of i u org) = u"
  "mem_organization (membership_of i u org) = org" "mem_team (membership_of i u org) = None"
  "mem_status (membership_of i u org) = MActive"
  by (simp_all add: membership_of_def)

theorem team_member_roundtrip_witness:
  "\<exists>w' w''. add_team_member \<lparr>team_id = 5, team_organization = 7, team_name = ''t''\<rparr> bob alice
       (world_of (no_rows\<lparr>memberships := [membership_of 1 2 7]\<rparr>)) =
       (Inr ((membership_of 1 2 7)\<lparr>mem_team := Some 5\<rparr>), w')
     \<and> remove_team_member \<lparr>team_id = 5, team_organization = 7, team_name = ''t''\<rparr> bob alice w' =
       (Inr (membership_of 1 2 7), w'')
     \<and> memberships (ctl w'') = [membership_of 1 2 7]"
  using team_member_roundtrip [of "world_of (no_rows\<lparr>memberships := [membership_of 1 2 7]\<rparr>)"
      "membership_of 1 2 7" bob "\<lparr>team_id = 5, team_organization = 7, team_name = ''t''\<rparr>" alice]
  by (auto simp: unique_rows_def)

end
