(* ===== verification/Workspaces.thy ===== *)
theory Workspaces
  imports Organizations
begin

text \<open>
  Workspaces and projects (\<open>workspaces/views.py\<close>): two more instances of the member lookup, their
  owner reached through one and two foreign keys, and the list, create and detail views. Every
  resource of the storage, database, connection and import components hangs off a project.
\<close>

definition get_member_workspace :: "user \<Rightarrow> uuid \<Rightarrow> workspace app" where
  "get_member_workspace user workspace_id = or_404 (get_one (
     member_rows workspaces ws_id (\<lambda>c s. [ws_organization s]) (user_id user) workspace_id))"

text \<open>The organizations a project belongs to: the join \<open>workspace__organization\<close>.\<close>

definition project_organizations :: "control \<Rightarrow> uuid \<Rightarrow> uuid list" where
  "project_organizations c p =
     [ws_organization s. j \<leftarrow> projects c, proj_id j = p, s \<leftarrow> workspaces c, ws_id s = proj_workspace j]"

definition workspace_organizations :: "control \<Rightarrow> project \<Rightarrow> uuid list" where
  "workspace_organizations c p = [ws_organization s. s \<leftarrow> workspaces c, ws_id s = proj_workspace p]"

definition get_member_project :: "user \<Rightarrow> uuid \<Rightarrow> project app" where
  "get_member_project user project_id = or_404 (get_one (
     member_rows projects proj_id workspace_organizations (user_id user) project_id))"

interpretation workspace_lookup:
  member_lookup get_member_workspace workspaces ws_id "\<lambda>c s. [ws_organization s]"
  by (rule member_lookup_join) (rule get_member_workspace_def)

interpretation project_lookup:
  member_lookup get_member_project projects proj_id workspace_organizations
  by (rule member_lookup_join) (rule get_member_project_def)

text \<open>\<open>Project.organization_id\<close>: the property follows the workspace foreign key.\<close>

definition Project_organization_id :: "project \<Rightarrow> uuid app" where
  "Project_organization_id p =
     bind (get_one (\<lambda>c. filter (\<lambda>s. ws_id s = proj_workspace p) (workspaces c))) (\<lambda>s.
     ret (ws_organization s))"

lemma preserves_Project_organization_id [keeps]: "preserves I (Project_organization_id p)"
  unfolding Project_organization_id_def by (intro keeps)

lemma logs_Project_organization_id [logs]: "logs (Project_organization_id p)"
  unfolding Project_organization_id_def by (intro logs)

definition WorkspaceList_get :: "user \<Rightarrow> uuid \<Rightarrow> response app" where
  "WorkspaceList_get user organization_id =
     bind (get_member_organization user organization_id) (\<lambda>org.
     bind (query (\<lambda>c. filter (\<lambda>s. ws_organization s = org_id org) (workspaces c))) (\<lambda>ss.
     respond 200 (WorkspacesBody ss)))"

definition WorkspaceList_post :: "user \<Rightarrow> uuid \<Rightarrow> string option \<Rightarrow> response app" where
  "WorkspaceList_post user organization_id data =
     bind (get_member_organization user organization_id) (\<lambda>org.
     bind (validated data) (\<lambda>name.
     bind uuid4 (\<lambda>i.
     let workspace = \<lparr>ws_id = i, ws_organization = org_id org, ws_name = name,
           ws_created_by = user_id user\<rparr> in
     bind (orm_create workspaces workspaces_update workspace_clash workspace) (\<lambda>_.
     respond 201 (WorkspaceBody workspace)))))"

definition WorkspaceDetail_get :: "user \<Rightarrow> uuid \<Rightarrow> response app" where
  "WorkspaceDetail_get user workspace_id =
     bind (get_member_workspace user workspace_id) (\<lambda>s. respond 200 (WorkspaceBody s))"

definition ProjectList_get :: "user \<Rightarrow> uuid \<Rightarrow> response app" where
  "ProjectList_get user workspace_id =
     bind (get_member_workspace user workspace_id) (\<lambda>s.
     bind (query (\<lambda>c. filter (\<lambda>p. proj_workspace p = ws_id s) (projects c))) (\<lambda>ps.
     respond 200 (ProjectsBody ps)))"

definition ProjectList_post :: "user \<Rightarrow> uuid \<Rightarrow> string option \<Rightarrow> response app" where
  "ProjectList_post user workspace_id data =
     bind (get_member_workspace user workspace_id) (\<lambda>s.
     bind (validated data) (\<lambda>name.
     bind uuid4 (\<lambda>i.
     let project = \<lparr>proj_id = i, proj_workspace = ws_id s, proj_name = name,
           proj_created_by = user_id user\<rparr> in
     bind (orm_create projects projects_update project_clash project) (\<lambda>_.
     respond 201 (ProjectBody project)))))"

definition ProjectDetail_get :: "user \<Rightarrow> uuid \<Rightarrow> response app" where
  "ProjectDetail_get user project_id =
     bind (get_member_project user project_id) (\<lambda>p. respond 200 (ProjectBody p))"

end
