(* ===== verification/Guards.thy ===== *)
theory Guards
  imports Workspaces
begin

text \<open>
  The service-layer guard. Every service module opens its operations with the same step: ask
  \<open>has_permission\<close>; if the answer is no, record one denied event and raise the module's
  permission error. \<open>require\<close> is that step, and the locale \<open>guarded_service\<close> the contract an
  operation built on it gives its callers.
\<close>

definition require ::
  "user \<Rightarrow> string \<Rightarrow> uuid \<Rightarrow> (string \<times> uuid) option \<Rightarrow> string \<Rightarrow> string \<Rightarrow> string \<Rightarrow> string
     \<Rightarrow> exn \<Rightarrow> unit app" where
  "require actor code org resource action rtype rid request_id err =
     bind (has_permission (Some actor) code (Some org) resource) (\<lambda>allowed.
     if \<not> allowed
     then bind (audit_record (Some actor) (Some org) action rtype rid request_id Denied []) (\<lambda>_.
          raise err)
     else ret ())"

definition denied_row ::
  "world \<Rightarrow> user \<Rightarrow> uuid \<Rightarrow> string \<Rightarrow> string \<Rightarrow> string \<Rightarrow> string \<Rightarrow> audit_event" where
  "denied_row w actor org action rtype rid request_id =
     audit_row w (Some actor) (Some org) action rtype rid request_id Denied []"

lemma denied_row_simps [simp]:
  "ae_result (denied_row w actor org action rtype rid request_id) = Denied"
  "ae_actor (denied_row w actor org action rtype rid request_id) = Some (user_id actor)"
  "ae_organization (denied_row w actor org action rtype rid request_id) = Some org"
  "ae_action (denied_row w actor org action rtype rid request_id) = action"
  by (simp_all add: denied_row_def)

lemma require_run:
  "require actor code org resource action rtype rid request_id err w =
     (if permitted w (user_id actor) code (Some org) resource then (Inr (), w)
      else (Inl err, log_event (denied_row w actor org action rtype rid request_id) w))"
  by (simp add: require_def bind_def denied_row_def)

lemma wp_require [wp, simp]:
  "wp (require actor code org resource action rtype rid request_id err) Q E w =
     (if permitted w (user_id actor) code (Some org) resource then Q () w
      else E err (log_event (denied_row w actor org action rtype rid request_id) w))"
  by (simp add: wp_def require_run)

lemma preserves_require [keeps]:
  "ignores_audit J \<Longrightarrow> preserves (\<lambda>w::world. J (ctl w))
     (require actor code org resource action rtype rid request_id err)"
  unfolding require_def by (intro keeps)

lemma logs_require [logs]:
  "logs (require actor code org resource action rtype rid request_id err)"
  unfolding require_def by (intro logs)

text \<open>\<open>op\<close> is a service operation with its arguments bundled in \<open>'x\<close>; \<open>scope\<close> is the organization
  it acts in, \<open>allowed\<close> the permission it asks for, \<open>err\<close> what it raises without it.\<close>

locale guarded_service =
  fixes op :: "user \<Rightarrow> 'x \<Rightarrow> 'a app"
    and allowed :: "world \<Rightarrow> user \<Rightarrow> 'x \<Rightarrow> bool"
    and scope :: "'x \<Rightarrow> uuid"
    and action :: string
    and err :: exn
  assumes op_denied: "\<not> allowed w u x \<Longrightarrow>
      \<exists>e. op u x w = (Inl err, log_event e w) \<and> ae_result e = Denied
        \<and> ae_actor e = Some (user_id u) \<and> ae_organization e = Some (scope x) \<and> ae_action e = action"
begin

text \<open>Nothing gets past the guard.\<close>

lemma success_allowed: "op u x w = (Inr y, t) \<Longrightarrow> allowed w u x"
  using op_denied [of w u x] by force

text \<open>A denied call leaves one event, and otherwise the world it found: same tenant databases, same
  objects, same tasks, and every table but the log.\<close>

lemma denied_effect:
  assumes "\<not> allowed w u x"
  shows "\<exists>e. op u x w = (Inl err, log_event e w) \<and> ae_result e = Denied
    \<and> ae_actor e = Some (user_id u) \<and> ae_organization e = Some (scope x) \<and> ae_action e = action
    \<and> audit_events (ctl (snd (op u x w))) = audit_events (ctl w) @ [e]
    \<and> tnt (snd (op u x w)) = tnt w \<and> objects (snd (op u x w)) = objects w
    \<and> tasks (snd (op u x w)) = tasks w"
proof -
  obtain e where e: "op u x w = (Inl err, log_event e w)" "ae_result e = Denied"
    "ae_actor e = Some (user_id u)" "ae_organization e = Some (scope x)" "ae_action e = action"
    using op_denied [OF assms] by blast
  then show ?thesis by simp
qed

lemma denied_preserves:
  "\<not> allowed w u x \<Longrightarrow> ignores_audit J \<Longrightarrow> J (ctl w) \<Longrightarrow> J (ctl (snd (op u x w)))"
  using op_denied [of w u x] by (force simp: ignores_audit_def)

end

lemma guarded_by_require:
  assumes "\<And>u x. op u x = bind (require u (code x) (scope x) (resource x) action (rtype x) (rid x)
      (request_id x) err) (\<lambda>_. rest u x)"
  shows "guarded_service op
    (\<lambda>w u x. permitted w (user_id u) (code x) (Some (scope x)) (resource x)) scope action err"
  by unfold_locales (auto simp: assms bind_def require_run)

section \<open>The organization of a resource\<close>

text \<open>\<open>self.project.workspace.organization_id\<close>: the property every resource under a project has.\<close>

definition organization_of_project :: "uuid \<Rightarrow> uuid app" where
  "organization_of_project p =
     bind (get_one (\<lambda>c. filter (\<lambda>j. proj_id j = p) (projects c))) Project_organization_id"

lemma wp_Project_organization_id [wp]:
  "wp (Project_organization_id p) Q E w =
     (case filter (\<lambda>s. ws_id s = proj_workspace p) (workspaces (ctl w)) of
        [] \<Rightarrow> E DoesNotExist w | [s] \<Rightarrow> Q (ws_organization s) w | _ \<Rightarrow> E MultipleObjectsReturned w)"
  by (simp add: Project_organization_id_def wp_get_one split: list.splits)

lemma Project_organization_id_world: "Project_organization_id p w = (r, t) \<Longrightarrow> t = w"
  by (auto simp: Project_organization_id_def bind_def get_one_run split: list.splits)

lemma organization_of_project_world: "organization_of_project p w = (r, t) \<Longrightarrow> t = w"
  by (auto simp: organization_of_project_def bind_def get_one_run split: list.splits
      dest: Project_organization_id_world)

text \<open>What the foreign keys give is what the joins of the lookups see.\<close>

lemma concat_map_if: "concat (map (\<lambda>x. if P x then g x else []) xs) = concat (map g (filter P xs))"
  by (induction xs) auto

lemma Project_organization_id_Inr:
  "Project_organization_id p w = (Inr org, t) \<Longrightarrow> workspace_organizations (ctl w) p = [org]"
  by (auto simp: Project_organization_id_def bind_def get_one_run workspace_organizations_def
      concat_map_if split: list.splits)

lemma organization_of_project_Inr:
  assumes "organization_of_project p w = (Inr org, t)"
  shows "project_organizations (ctl w) p = [org]"
proof -
  obtain j where j: "filter (\<lambda>j. proj_id j = p) (projects (ctl w)) = [j]"
    and org: "Project_organization_id j w = (Inr org, t)"
    using assms by (auto simp: organization_of_project_def bind_def get_one_run split: list.splits)
  have "project_organizations (ctl w) p = workspace_organizations (ctl w) j"
    using j by (simp add: project_organizations_def workspace_organizations_def concat_map_if)
  with Project_organization_id_Inr [OF org] show ?thesis by simp
qed

lemma wp_organization_of_project:
  assumes "\<And>org. project_organizations (ctl w) p = [org] \<Longrightarrow> Q org w" and "\<And>e. E e w"
  shows "wp (organization_of_project p) Q E w"
  by (rule wpI) (metis assms organization_of_project_Inr organization_of_project_world)+

lemma preserves_organization_of_project [keeps]: "preserves I (organization_of_project p)"
  unfolding organization_of_project_def by (intro keeps)

section \<open>Resource types\<close>

text \<open>The labels under which a resource grant or a share names a resource.\<close>

definition RESOURCE_TYPE_BUCKET :: string where
  "RESOURCE_TYPE_BUCKET = ''storage.bucket''"

definition RESOURCE_TYPE_TENANT_DATABASE :: string where
  "RESOURCE_TYPE_TENANT_DATABASE = ''databases.tenant_database''"

definition RESOURCE_TYPE_CONNECTED_DATABASE :: string where
  "RESOURCE_TYPE_CONNECTED_DATABASE = ''databases.connected_database''"

section \<open>A small tenant\<close>

text \<open>The control database of the witnesses: organization 7 with an administrator (user 1) and a
  member without a role (user 2), one workspace, one project and one bucket.\<close>

definition shop :: control where
  "shop = two_roles\<lparr>users := [alice, bob],
     organizations := [\<lparr>org_id = 7, org_name = ''shop'', org_slug = ''shop'',
       external_sharing_enabled = False, org_created_by = 1\<rparr>],
     memberships := [membership_of 1 1 7, membership_of 2 2 7],
     workspaces := [\<lparr>ws_id = 20, ws_organization = 7, ws_name = ''w'', ws_created_by = 1\<rparr>],
     projects := [\<lparr>proj_id = 21, proj_workspace = 20, proj_name = ''p'', proj_created_by = 1\<rparr>],
     buckets := [\<lparr>bkt_id = 9, bkt_project = 21, bkt_name = ''b'', versioning_enabled = False,
       bkt_created_by = 1\<rparr>],
     role_assignments := [\<lparr>ra_id = 30, ra_user = 1, ra_role = 41, ra_organization = Some 7,
       ra_granted_by = None\<rparr>]\<rparr>"

lemma shop_simps [simp]:
  "users shop = [alice, bob]" "roles shop = [viewer_role, administrator_role]"
  "memberships shop = [membership_of 1 1 7, membership_of 2 2 7]"
  "resource_grants shop = []" "share_grants shop = []" "teams shop = []"
  "perm_code ` set (permissions shop) = fst ` set PERMISSIONS"
  "organizations shop = [\<lparr>org_id = 7, org_name = ''shop'', org_slug = ''shop'',
       external_sharing_enabled = False, org_created_by = 1\<rparr>]"
  "workspaces shop = [\<lparr>ws_id = 20, ws_organization = 7, ws_name = ''w'', ws_created_by = 1\<rparr>]"
  "projects shop = [\<lparr>proj_id = 21, proj_workspace = 20, proj_name = ''p'', proj_created_by = 1\<rparr>]"
  "buckets shop = [\<lparr>bkt_id = 9, bkt_project = 21, bkt_name = ''b'', versioning_enabled = False,
       bkt_created_by = 1\<rparr>]"
  "role_assignments shop = [\<lparr>ra_id = 30, ra_user = 1, ra_role = 41, ra_organization = Some 7,
       ra_granted_by = None\<rparr>]"
  "files shop = []" "folders shop = []" "file_versions shop = []" "tenant_databases shop = []"
  "db_tables shop = []" "db_columns shop = []" "db_indexes shop = []" "db_foreign_keys shop = []"
  "connected_databases shop = []" "applications shop = []" "import_jobs shop = []"
  "audit_events shop = []"
  by (simp_all add: shop_def two_roles_def no_rows_def image_image)

lemma role_allows_shop [simp]:
  "role_allows shop u code org \<longleftrightarrow> u = 1 \<and> org = Some 7 \<and> code \<in> set (role_permissions administrator_role)"
  by (auto simp: role_allows_def)

lemma administrator_codes [simp]:
  "code \<in> set (role_permissions administrator_role)
     \<longleftrightarrow> code \<in> fst ` set PERMISSIONS \<and> code \<noteq> ''system.admin''"
  by (auto simp: administrator_role_def ALL_PERMISSIONS_def)

lemma project_organizations_shop [simp]: "project_organizations shop p = (if p = 21 then [7] else [])"
  by (simp add: project_organizations_def)

end
