(* ===== verification/Sharing.thy ===== *)
theory Sharing
  imports Guards
begin

text \<open>
  Internal sharing (\<open>sharing/services.py\<close>, \<open>sharing/views.py\<close>): a share of one resource with a
  user, a team or the whole organization is a record plus the resource grants it materializes,
  one per current active member and permission of the level; revoking deletes the grants again.
\<close>

section \<open>Levels and principals\<close>

definition LEVEL_PERMISSIONS :: "string \<Rightarrow> (string \<Rightarrow> string list option) option" where
  "LEVEL_PERMISSIONS = [
     RESOURCE_TYPE_BUCKET \<mapsto> [
       ''read'' \<mapsto> [''storage.read''],
       ''write'' \<mapsto> [''storage.read'', ''storage.write''],
       ''admin'' \<mapsto> [''storage.read'', ''storage.write'', ''storage.delete'', ''storage.share'',
                  ''storage.manage'']],
     RESOURCE_TYPE_TENANT_DATABASE \<mapsto> [
       ''read'' \<mapsto> [''database.read''],
       ''write'' \<mapsto> [''database.read'', ''database.write''],
       ''admin'' \<mapsto> [''database.read'', ''database.write'', ''dataset.export'']],
     RESOURCE_TYPE_CONNECTED_DATABASE \<mapsto> [
       ''read'' \<mapsto> [''database.read'']]]"

text \<open>\<open>_RESOURCE_ORG_FILTERS\<close>: the resource exists in a project of the organization.\<close>

definition resource_in_organization :: "control \<Rightarrow> string \<Rightarrow> uuid \<Rightarrow> uuid \<Rightarrow> bool" where
  "resource_in_organization c resource_type resource_id org =
     (if resource_type = RESOURCE_TYPE_BUCKET
      then list_ex (\<lambda>b. bkt_id b = resource_id \<and> org \<in> set (project_organizations c (bkt_project b)))
        (buckets c)
      else if resource_type = RESOURCE_TYPE_TENANT_DATABASE
      then list_ex (\<lambda>d. tdb_id d = resource_id \<and> org \<in> set (project_organizations c (tdb_project d)))
        (tenant_databases c)
      else if resource_type = RESOURCE_TYPE_CONNECTED_DATABASE
      then list_ex (\<lambda>d. cdb_id d = resource_id \<and> org \<in> set (project_organizations c (cdb_project d)))
        (connected_databases c)
      else False)"

definition get_member_share :: "user \<Rightarrow> uuid \<Rightarrow> share_grant app" where
  "get_member_share user share_id = or_404 (get_one (
     member_rows share_grants sg_id (\<lambda>c s. [sg_organization s]) (user_id user) share_id))"

interpretation share_lookup:
  member_lookup get_member_share share_grants sg_id "\<lambda>c s. [sg_organization s]"
  by (rule member_lookup_join) (rule get_member_share_def)

definition principal_user_ids :: "string \<Rightarrow> uuid option \<Rightarrow> uuid option \<Rightarrow> uuid \<Rightarrow> uuid list app" where
  "principal_user_ids principal_type user team org =
     (if principal_type = ''user'' then (case user of None \<Rightarrow> raise AttributeError | Some u \<Rightarrow> ret [u])
      else if principal_type = ''team''
      then query (\<lambda>c. map mem_user (filter (\<lambda>m. mem_team m = team \<and> mem_status m = MActive)
        (memberships c)))
      else if principal_type = ''organization''
      then query (\<lambda>c. map mem_user (filter (\<lambda>m. mem_organization m = org \<and> mem_status m = MActive)
        (memberships c)))
      else raise SharingValidationError)"

section \<open>Services\<close>

record share_request =
  sr_organization :: uuid
  sr_resource_type :: string
  sr_resource_id :: uuid
  sr_principal_type :: string
  sr_level :: string
  sr_user :: "user option"
  sr_team :: "team option"
  sr_expires_at :: "timestamp option"
  sr_request_id :: string

definition sharing_require :: "user \<Rightarrow> uuid \<Rightarrow> string \<Rightarrow> string \<Rightarrow> string \<Rightarrow> unit app" where
  "sharing_require actor org action rid request_id =
     require actor ''sharing.manage'' org None action ''share_grant'' rid request_id
       SharingPermissionDenied"

definition check_principal :: "share_request \<Rightarrow> unit app" where
  "check_principal x =
     (if sr_principal_type x = ''user'' then (case sr_user x of
        None \<Rightarrow> raise SharingValidationError
      | Some u \<Rightarrow> bind (query (\<lambda>c. list_ex (\<lambda>m. mem_user m = user_id u
            \<and> mem_organization m = sr_organization x \<and> mem_status m = MActive) (memberships c)))
          (\<lambda>member. ensure member SharingValidationError))
      else if sr_principal_type x = ''team''
      then ensure (case sr_team x of None \<Rightarrow> False
        | Some t \<Rightarrow> team_organization t = sr_organization x) SharingValidationError
      else if sr_principal_type x = ''organization'' then ret ()
      else raise SharingValidationError)"

definition share_one :: "user \<Rightarrow> share_request \<Rightarrow> string \<Rightarrow> user \<Rightarrow> unit app" where
  "share_one actor x code target_user =
     catch (bind (atomic_default (grant_resource_permission target_user code (sr_organization x)
         (sr_resource_type x) (sr_resource_id x) (Some actor) (sr_expires_at x))) (\<lambda>_. ret ()))
       (\<lambda>e. if e = DbError IntegrityError then ret ()
            else if e = PermissionRefused then raise SharingValidationError else raise e)"

definition create_share_grant :: "user \<Rightarrow> share_request \<Rightarrow> share_grant app" where
  "create_share_grant actor x =
     bind (sharing_require actor (sr_organization x) ''sharing.create''
       (uuid_str (sr_resource_id x)) (sr_request_id x)) (\<lambda>_.
     bind (case LEVEL_PERMISSIONS (sr_resource_type x) of
         None \<Rightarrow> raise SharingValidationError | Some levels \<Rightarrow> ret levels) (\<lambda>levels.
     bind (case levels (sr_level x) of
         None \<Rightarrow> raise SharingValidationError | Some codes \<Rightarrow> ret codes) (\<lambda>codes.
     bind (query (\<lambda>c. resource_in_organization c (sr_resource_type x) (sr_resource_id x)
       (sr_organization x))) (\<lambda>found.
     bind (ensure found SharingValidationError) (\<lambda>_.
     bind (check_principal x) (\<lambda>_.
     bind (principal_user_ids (sr_principal_type x) (map_option user_id (sr_user x))
       (map_option team_id (sr_team x)) (sr_organization x)) (\<lambda>ids.
     bind (query (\<lambda>c. filter (\<lambda>v. user_id v \<in> set ids) (users c))) (\<lambda>target_users.
     bind (atomic_default (
       bind uuid4 (\<lambda>i.
       let share = \<lparr>sg_id = i, sg_organization = sr_organization x,
             sg_resource_type = sr_resource_type x, sg_resource_id = sr_resource_id x,
             sg_principal_type = sr_principal_type x, sg_user = map_option user_id (sr_user x),
             sg_team = map_option team_id (sr_team x), sg_level = sr_level x,
             sg_expires_at = sr_expires_at x, sg_revoked_at = None,
             sg_created_by = Some (user_id actor)\<rparr> in
       bind (orm_create share_grants share_grants_update share_grant_clash share) (\<lambda>_.
       bind (for_each (\<lambda>code. for_each (share_one actor x code) target_users) codes) (\<lambda>_.
       ret share))))) (\<lambda>share.
     bind (audit_record (Some actor) (Some (sr_organization x)) ''sharing.create'' ''share_grant''
       (uuid_str (sg_id share)) (sr_request_id x) Success
       [(''resource_type'', JStr (sr_resource_type x)),
        (''resource_id'', JStr (uuid_str (sr_resource_id x))),
        (''principal_type'', JStr (sr_principal_type x)), (''level'', JStr (sr_level x))]) (\<lambda>_.
     ret share))))))))))"

definition revoke_share_grant :: "user \<Rightarrow> share_grant \<times> string \<Rightarrow> unit app" where
  "revoke_share_grant actor x = (case x of (share, request_id) \<Rightarrow>
     bind (sharing_require actor (sg_organization share) ''sharing.revoke''
       (uuid_str (sg_resource_id share)) request_id) (\<lambda>_.
     bind (principal_user_ids (sg_principal_type share) (sg_user share) (sg_team share)
       (sg_organization share)) (\<lambda>ids.
     bind (case Option.bind (LEVEL_PERMISSIONS (sg_resource_type share)) (\<lambda>l. l (sg_level share)) of
         None \<Rightarrow> raise KeyError | Some codes \<Rightarrow> ret codes) (\<lambda>codes.
     bind (on_ctl (resource_grants_update (delete_where (\<lambda>g. rg_user g \<in> set ids
         \<and> rg_permission g \<in> set codes \<and> rg_organization g = sg_organization share
         \<and> rg_resource_type g = sg_resource_type share \<and> rg_resource_id g = sg_resource_id share))))
       (\<lambda>_.
     bind now (\<lambda>t.
     bind (on_ctl (share_grants_update (update_where (\<lambda>s. sg_id s = sg_id share)
       (\<lambda>s. s\<lparr>sg_revoked_at := Some t\<rparr>)))) (\<lambda>_.
     audit_record (Some actor) (Some (sg_organization share)) ''sharing.revoke'' ''share_grant''
       (uuid_str (sg_id share)) request_id Success [])))))))"

definition set_external_sharing_enabled ::
  "user \<Rightarrow> organization \<times> bool \<times> string \<Rightarrow> organization app" where
  "set_external_sharing_enabled actor x = (case x of (org, enabled, request_id) \<Rightarrow>
     bind (sharing_require actor (org_id org) ''sharing.external.toggle'' '''' request_id) (\<lambda>_.
     bind (gets (\<lambda>w. external_sharing (env w))) (\<lambda>deployment.
     bind (ensure (\<not> (enabled \<and> \<not> deployment)) SharingValidationError) (\<lambda>_.
     bind (on_ctl (organizations_update (update_where (\<lambda>g. org_id g = org_id org)
       (\<lambda>g. g\<lparr>external_sharing_enabled := enabled\<rparr>)))) (\<lambda>_.
     bind (audit_record (Some actor) (Some (org_id org))
       (if enabled then ''sharing.external.enable'' else ''sharing.external.disable'')
       ''organization'' (uuid_str (org_id org)) request_id Success []) (\<lambda>_.
     ret (org\<lparr>external_sharing_enabled := enabled\<rparr>)))))))"

section \<open>Views\<close>

text \<open>\<open>_handle\<close>: the module's two exceptions become 403 and 400.\<close>

definition sharing_handle :: "response app \<Rightarrow> response app" where
  "sharing_handle m = catch m (\<lambda>e.
     if e = SharingPermissionDenied then respond 403 NoBody
     else if e = SharingValidationError
     then bind (gets (\<lambda>w. exn_str (env w) e)) (\<lambda>text. respond 400 (Detail text))
     else raise e)"

definition ShareGrantList_get :: "user \<Rightarrow> uuid \<Rightarrow> response app" where
  "ShareGrantList_get user organization_id =
     bind (get_member_organization user organization_id) (\<lambda>org.
     bind (has_permission (Some user) ''sharing.manage'' (Some (org_id org)) None) (\<lambda>allowed.
     if \<not> allowed then respond 403 NoBody
     else bind (query (\<lambda>c. filter (\<lambda>s. sg_organization s = org_id org) (share_grants c))) (\<lambda>ss.
          respond 200 (SharesBody ss))))"

text \<open>The validated body of a share request, with \<open>ShareGrantCreateSerializer.validate\<close>.\<close>

record share_data =
  sd_resource_type :: string
  sd_resource_id :: uuid
  sd_principal_type :: string
  sd_level :: string
  sd_user_id :: "uuid option"
  sd_team_id :: "uuid option"
  sd_expires_at :: "timestamp option"

definition ShareGrantCreateSerializer_validate :: "share_data \<Rightarrow> share_data option" where
  "ShareGrantCreateSerializer_validate d =
     (if sd_principal_type d = ''user'' \<and> sd_user_id d = None then None
      else if sd_principal_type d = ''team'' \<and> sd_team_id d = None then None
      else Some d)"

definition ShareGrantList_post :: "user \<Rightarrow> uuid \<Rightarrow> share_data option \<Rightarrow> string \<Rightarrow> response app" where
  "ShareGrantList_post user organization_id data request_id =
     bind (get_member_organization user organization_id) (\<lambda>org.
     bind (validated (Option.bind data ShareGrantCreateSerializer_validate)) (\<lambda>d.
     bind (case sd_user_id d of None \<Rightarrow> ret None
       | Some i \<Rightarrow> bind (or_404 (get_one (\<lambda>c. filter (\<lambda>v. user_id v = i) (users c)))) (\<lambda>v.
           ret (Some v))) (\<lambda>target_user.
     bind (case sd_team_id d of None \<Rightarrow> ret None
       | Some i \<Rightarrow> bind (get_member_team user i) (\<lambda>t.
           bind (ensure (team_organization t = org_id org) Http404) (\<lambda>_. ret (Some t))))
       (\<lambda>target_team.
     sharing_handle (bind (create_share_grant user
         \<lparr>sr_organization = org_id org, sr_resource_type = sd_resource_type d,
          sr_resource_id = sd_resource_id d, sr_principal_type = sd_principal_type d,
          sr_level = sd_level d, sr_user = target_user, sr_team = target_team,
          sr_expires_at = sd_expires_at d, sr_request_id = request_id\<rparr>) (\<lambda>share.
       respond 201 (ShareBody share)))))))"

definition ShareGrantDetail_get :: "user \<Rightarrow> uuid \<Rightarrow> response app" where
  "ShareGrantDetail_get user share_id =
     bind (get_member_share user share_id) (\<lambda>share.
     bind (has_permission (Some user) ''sharing.manage'' (Some (sg_organization share)) None)
       (\<lambda>allowed.
     if \<not> allowed then respond 403 NoBody else respond 200 (ShareBody share)))"

definition ShareGrantDetail_delete :: "user \<Rightarrow> uuid \<Rightarrow> string \<Rightarrow> response app" where
  "ShareGrantDetail_delete user share_id request_id =
     bind (get_member_share user share_id) (\<lambda>share.
     sharing_handle (bind (revoke_share_grant user (share, request_id)) (\<lambda>_.
       respond 204 NoBody)))"

definition ExternalSharingSetting_patch :: "user \<Rightarrow> uuid \<Rightarrow> bool option \<Rightarrow> string \<Rightarrow> response app" where
  "ExternalSharingSetting_patch user organization_id data request_id =
     bind (get_member_organization user organization_id) (\<lambda>org.
     bind (validated data) (\<lambda>enabled.
     sharing_handle (bind (set_external_sharing_enabled user (org, enabled, request_id)) (\<lambda>result.
       respond 200 (Data (JObj [(''external_sharing_enabled'',
         JBool (external_sharing_enabled result))]))))))"

section \<open>The guards\<close>

interpretation create_share_guard: guarded_service create_share_grant
  "\<lambda>w u x. permitted w (user_id u) ''sharing.manage'' (Some (sr_organization x)) None"
  sr_organization "''sharing.create''" SharingPermissionDenied
  unfolding create_share_grant_def [abs_def] sharing_require_def
  by (rule guarded_by_require) (rule refl)

interpretation revoke_share_guard: guarded_service revoke_share_grant
  "\<lambda>w u x. permitted w (user_id u) ''sharing.manage'' (Some (sg_organization (fst x))) None"
  "\<lambda>x. sg_organization (fst x)" "''sharing.revoke''" SharingPermissionDenied
  unfolding revoke_share_grant_def [abs_def] sharing_require_def case_prod_beta
  by (rule guarded_by_require) (rule refl)

interpretation external_sharing_guard: guarded_service set_external_sharing_enabled
  "\<lambda>w u x. permitted w (user_id u) ''sharing.manage'' (Some (org_id (fst x))) None"
  "\<lambda>x. org_id (fst x)" "''sharing.external.toggle''" SharingPermissionDenied
  unfolding set_external_sharing_enabled_def [abs_def] sharing_require_def case_prod_beta
  by (rule guarded_by_require) (rule refl)

section \<open>What sharing grants\<close>

definition grant_ids :: "control \<Rightarrow> uuid set" where
  "grant_ids c = rg_id ` set (resource_grants c)"

text \<open>A grant row exists for the user and permission on the shared resource, live or not.\<close>

definition has_grant_row :: "control \<Rightarrow> share_request \<Rightarrow> uuid \<Rightarrow> string \<Rightarrow> bool" where
  "has_grant_row c x v code \<longleftrightarrow> (\<exists>g \<in> set (resource_grants c). rg_user g = v
     \<and> rg_permission g = code \<and> rg_resource_type g = sr_resource_type x
     \<and> rg_resource_id g = sr_resource_id x)"

definition materializes :: "share_request \<Rightarrow> resource_grant \<Rightarrow> bool" where
  "materializes x g \<longleftrightarrow> rg_organization g = sr_organization x
     \<and> rg_resource_type g = sr_resource_type x \<and> rg_resource_id g = sr_resource_id x
     \<and> rg_expires_at g = sr_expires_at x"

text \<open>\<open>shared x S w w'\<close>: \<open>w'\<close> is \<open>w\<close> after the grants for the pairs in \<open>S\<close> were materialized.\<close>

definition shared :: "share_request \<Rightarrow> (uuid \<times> string) set \<Rightarrow> world \<Rightarrow> world \<Rightarrow> bool" where
  "shared x S w w' \<longleftrightarrow>
     (\<exists>new. resource_grants (ctl w') = resource_grants (ctl w) @ new
        \<and> (\<forall>g \<in> set new. materializes x g \<and> (rg_user g, rg_permission g) \<in> S
              \<and> \<not> has_grant_row (ctl w) x (rg_user g) (rg_permission g)))
     \<and> (\<forall>(v, code) \<in> S. has_grant_row (ctl w') x v code)
     \<and> roles (ctl w') = roles (ctl w) \<and> role_assignments (ctl w') = role_assignments (ctl w)
     \<and> share_grants (ctl w') = share_grants (ctl w) \<and> memberships (ctl w') = memberships (ctl w)
     \<and> clock w' = clock w \<and> env w' = env w \<and> rng w \<le> rng w'
     \<and> grant_ids (ctl w') \<subseteq> grant_ids (ctl w) \<union> uuid_source (env w) ` {rng w..<rng w'}"

lemma has_grant_row_append:
  "resource_grants c' = resource_grants c @ new \<Longrightarrow> has_grant_row c x v code \<Longrightarrow> has_grant_row c' x v code"
  by (auto simp: has_grant_row_def)

lemma shared_rows:
  assumes "shared x S w w'"
  obtains new where "resource_grants (ctl w') = resource_grants (ctl w) @ new"
    and "\<And>g. g \<in> set new \<Longrightarrow> materializes x g \<and> (rg_user g, rg_permission g) \<in> S
      \<and> \<not> has_grant_row (ctl w) x (rg_user g) (rg_permission g)"
  using assms unfolding shared_def by blast

lemma shared_held: "shared x S w w' \<Longrightarrow> (v, code) \<in> S \<Longrightarrow> has_grant_row (ctl w') x v code"
  unfolding shared_def by blast

lemma shared_frame:
  assumes "shared x S w w'"
  shows "roles (ctl w') = roles (ctl w)" and "role_assignments (ctl w') = role_assignments (ctl w)"
    and "clock w' = clock w"
  using assms by (simp_all add: shared_def)

lemma shared_refl: "shared x {} w w"
  by (simp add: shared_def)

lemma shared_trans:
  assumes 1: "shared x S w w1" and 2: "shared x T w1 w2"
  shows "shared x (S \<union> T) w w2"
proof -
  from 1 obtain new1 where new1: "resource_grants (ctl w1) = resource_grants (ctl w) @ new1"
    "\<forall>g \<in> set new1. materializes x g \<and> (rg_user g, rg_permission g) \<in> S
       \<and> \<not> has_grant_row (ctl w) x (rg_user g) (rg_permission g)" by (auto simp: shared_def)
  from 2 obtain new2 where new2: "resource_grants (ctl w2) = resource_grants (ctl w1) @ new2"
    "\<forall>g \<in> set new2. materializes x g \<and> (rg_user g, rg_permission g) \<in> T
       \<and> \<not> has_grant_row (ctl w1) x (rg_user g) (rg_permission g)" by (auto simp: shared_def)
  have rows: "resource_grants (ctl w2) = resource_grants (ctl w) @ new1 @ new2"
    using new1(1) new2(1) by simp
  have fresh: "\<forall>g \<in> set (new1 @ new2). materializes x g \<and> (rg_user g, rg_permission g) \<in> S \<union> T
       \<and> \<not> has_grant_row (ctl w) x (rg_user g) (rg_permission g)"
    using new1(2) new2(2) has_grant_row_append [OF new1(1)] by auto
  have held: "\<forall>(v, code) \<in> S \<union> T. has_grant_row (ctl w2) x v code"
    using 1 2 has_grant_row_append [OF new2(1)] by (auto simp: shared_def)
  have ids: "grant_ids (ctl w2) \<subseteq> grant_ids (ctl w) \<union> uuid_source (env w) ` {rng w..<rng w2}"
  proof -
    have "{rng w..<rng w2} = {rng w..<rng w1} \<union> {rng w1..<rng w2}"
      using 1 2 by (auto simp: shared_def)
    moreover have "env w1 = env w"
      "grant_ids (ctl w1) \<subseteq> grant_ids (ctl w) \<union> uuid_source (env w) ` {rng w..<rng w1}"
      "grant_ids (ctl w2) \<subseteq> grant_ids (ctl w1) \<union> uuid_source (env w1) ` {rng w1..<rng w2}"
      using 1 2 by (simp_all add: shared_def)
    ultimately show ?thesis unfolding image_Un by auto
  qed
  show ?thesis
    unfolding shared_def using rows fresh held ids 1 2 by (auto simp: shared_def)
qed

lemma share_one_Inr:
  assumes run: "share_one actor x code v w = (Inr (), w')"
    and fresh: "uuid_source (env w) (rng w) \<notin> grant_ids (ctl w)"
  shows "shared x {(user_id v, code)} w w'" and "rng w' \<le> rng w + 2"
proof -
  let ?g = "new_grant w v code (sr_organization x) (sr_resource_type x) (sr_resource_id x)
      (Some actor) (sr_expires_at x)"
  have clash: "list_ex (resource_grant_clash ?g) (resource_grants (ctl w))
      \<longleftrightarrow> has_grant_row (ctl w) x (user_id v) code"
  proof -
    have "\<forall>g \<in> set (resource_grants (ctl w)). rg_id g \<noteq> uuid_source (env w) (rng w)"
      using fresh unfolding grant_ids_def by (metis imageI)
    then show ?thesis
      by (auto simp: list_ex_iff resource_grant_clash_def has_grant_row_def new_grant_def)
  qed
  have known: "code \<in> perm_code ` set (permissions (ctl w))"
    using run by (auto simp: share_one_def catch_def bind_def atomic_default_def
        grant_resource_permission_run split: if_splits)
  show "shared x {(user_id v, code)} w w'"
  proof (cases "has_grant_row (ctl w) x (user_id v) code")
    case True
    with known clash run have "w' = w\<lparr>rng := Suc (rng w)\<rparr>"
      by (auto simp: share_one_def catch_def bind_def atomic_default_def
          grant_resource_permission_run Let_def)
    with True show ?thesis by (auto simp: shared_def grant_ids_def has_grant_row_def)
  next
    case False
    with known clash run have w': "w' = granted w ?g (Some actor)"
      by (auto simp: share_one_def catch_def bind_def atomic_default_def
          grant_resource_permission_run Let_def)
    have "materializes x ?g \<and> rg_user ?g = user_id v \<and> rg_permission ?g = code
        \<and> rg_id ?g = uuid_source (env w) (rng w)"
      by (simp add: materializes_def new_grant_def)
    with False show ?thesis
      by (auto simp: shared_def w' has_grant_row_def grant_ids_def materializes_def granted_def
          Let_def image_iff)
  qed
  show "rng w' \<le> rng w + 2"
    using run known clash
    by (auto simp: share_one_def catch_def bind_def atomic_default_def
        grant_resource_permission_run Let_def split: if_splits)
qed

lemma share_all_Inr:
  assumes "for_each (\<lambda>(code, v). share_one actor x code v) ps w = (Inr (), w')"
    and "fresh_draws w (2 * length ps) (grant_ids (ctl w))"
  shows "shared x ((\<lambda>(code, v). (user_id v, code)) ` set ps) w w'"
  using assms
proof (induction ps arbitrary: w)
  case Nil
  then show ?case by (simp add: shared_refl)
next
  case (Cons p ps)
  obtain code v where p: "p = (code, v)" by (cases p)
  from Cons.prems(1) obtain w1 where one: "share_one actor x code v w = (Inr (), w1)"
    and rest: "for_each (\<lambda>(code, v). share_one actor x code v) ps w1 = (Inr (), w')"
    by (auto simp: p bind_eq_Inr)
  have "fresh_draws w (Suc (Suc (2 * length ps))) (grant_ids (ctl w))" using Cons.prems(2) by simp
  then have "uuid_source (env w) (rng w) \<notin> grant_ids (ctl w)" by (rule fresh_draws_next)
  note step = share_one_Inr [OF one this]
  have "fresh_draws w1 (2 * length ps) (grant_ids (ctl w1))"
    by (rule fresh_draws_step [OF Cons.prems(2), where j = 2])
      (use step in \<open>auto simp: shared_def\<close>)
  from shared_trans [OF step(1) Cons.IH [OF rest this]] show ?case by (simp add: p)
qed

section \<open>The whole operation\<close>

definition principals :: "control \<Rightarrow> share_request \<Rightarrow> uuid set" where
  "principals c x = {v \<in> user_id ` set (users c).
     if sr_principal_type x = ''user'' then map_option user_id (sr_user x) = Some v
     else \<exists>m \<in> set (memberships c). mem_user m = v \<and> mem_status m = MActive
       \<and> (if sr_principal_type x = ''team'' then mem_team m = map_option team_id (sr_team x)
          else mem_organization m = sr_organization x)}"

definition level_codes :: "string \<Rightarrow> string \<Rightarrow> string list option" where
  "level_codes rtype level = Option.bind (LEVEL_PERMISSIONS rtype) (\<lambda>levels. levels level)"

lemma principal_user_ids_Inr:
  assumes "principal_user_ids (sr_principal_type x) (map_option user_id (sr_user x))
      (map_option team_id (sr_team x)) (sr_organization x) w = (Inr ids, t)"
  shows "t = w" and "user_id ` {v \<in> set (users (ctl w)). user_id v \<in> set ids} = principals (ctl w) x"
proof -
  show "t = w" using assms by (auto simp: principal_user_ids_def split: if_splits option.splits)
  have "v \<in> set ids \<longleftrightarrow> (if sr_principal_type x = ''user'' then map_option user_id (sr_user x) = Some v
     else \<exists>m \<in> set (memberships (ctl w)). mem_user m = v \<and> mem_status m = MActive
       \<and> (if sr_principal_type x = ''team'' then mem_team m = map_option team_id (sr_team x)
          else mem_organization m = sr_organization x))" for v
    using assms by (auto simp: principal_user_ids_def split: if_splits option.splits)
  then show "user_id ` {v \<in> set (users (ctl w)). user_id v \<in> set ids} = principals (ctl w) x"
    unfolding principals_def by auto
qed

lemma check_principal_world: "check_principal x w = (r, t) \<Longrightarrow> t = w"
  by (auto simp: check_principal_def bind_def split: if_splits option.splits)

lemma create_share_grant_Inr:
  assumes run: "create_share_grant actor x w = (Inr share, w')"
  obtains codes vs w0 w1 e where
    "permitted w (user_id actor) ''sharing.manage'' (Some (sr_organization x)) None"
    and "level_codes (sr_resource_type x) (sr_level x) = Some codes"
    and "resource_in_organization (ctl w) (sr_resource_type x) (sr_resource_id x) (sr_organization x)"
    and "user_id ` set vs = principals (ctl w) x" and "length vs \<le> length (users (ctl w))"
    and "w0 = w\<lparr>rng := Suc (rng w), ctl := share_grants_update (\<lambda>xs. xs @ [share]) (ctl w)\<rparr>"
    and "for_each (\<lambda>(code, v). share_one actor x code v) (List.product codes vs) w0 = (Inr (), w1)"
    and "w' = log_event e w1"
proof -
  from run obtain levels codes where p:
    "permitted w (user_id actor) ''sharing.manage'' (Some (sr_organization x)) None"
    and levels: "LEVEL_PERMISSIONS (sr_resource_type x) = Some levels" "levels (sr_level x) = Some codes"
    and found: "resource_in_organization (ctl w) (sr_resource_type x) (sr_resource_id x) (sr_organization x)"
    by (auto simp: create_share_grant_def bind_def sharing_require_def require_run
        split: if_splits option.splits)
  obtain r t where check: "check_principal x w = (r, t)" by (cases "check_principal x w")
  note t = check_principal_world [OF check]
  obtain u where check': "check_principal x w = (Inr u, w)"
    using run p levels found check t
    by (cases r) (auto simp: create_share_grant_def bind_def sharing_require_def require_run)
  let ?ids = "principal_user_ids (sr_principal_type x) (map_option user_id (sr_user x))
      (map_option team_id (sr_team x)) (sr_organization x)"
  obtain r2 t2 where ids: "?ids w = (r2, t2)" by (cases "?ids w")
  then obtain uids where ids': "?ids w = (Inr uids, w)"
    using run p levels found check' principal_user_ids_Inr(1) [of x w _ t2]
    by (cases r2) (auto simp: create_share_grant_def bind_def sharing_require_def require_run)
  let ?vs = "filter (\<lambda>v. user_id v \<in> set uids) (users (ctl w))"
  let ?share = "\<lparr>sg_id = uuid_source (env w) (rng w), sg_organization = sr_organization x,
             sg_resource_type = sr_resource_type x, sg_resource_id = sr_resource_id x,
             sg_principal_type = sr_principal_type x, sg_user = map_option user_id (sr_user x),
             sg_team = map_option team_id (sr_team x), sg_level = sr_level x,
             sg_expires_at = sr_expires_at x, sg_revoked_at = None,
             sg_created_by = Some (user_id actor)\<rparr>"
  let ?w0 = "w\<lparr>rng := Suc (rng w), ctl := share_grants_update (\<lambda>xs. xs @ [?share]) (ctl w)\<rparr>"
  let ?loop = "for_each (\<lambda>(code, v). share_one actor x code v) (List.product codes ?vs)"
  obtain r3 w1 where loop: "?loop ?w0 = (r3, w1)" by (cases "?loop ?w0")
  have result: "r3 = Inr () \<and> share = ?share \<and> (\<exists>e. w' = log_event e w1)"
    using run p levels found check' ids' loop
    by (cases r3) (auto simp: create_share_grant_def bind_def sharing_require_def require_run
        atomic_default_def orm_create_def for_each_product Let_def split: if_splits)
  then obtain e where "w' = log_event e w1" by blast
  moreover have "user_id ` set ?vs = principals (ctl w) x"
    using principal_user_ids_Inr(2) [OF ids'] by simp
  ultimately show thesis
    using that [of codes ?vs ?w0 w1 e] p levels found loop result
    by (simp add: level_codes_def)
qed


section \<open>Revoking\<close>

definition addressees :: "control \<Rightarrow> share_grant \<Rightarrow> uuid set" where
  "addressees c share =
     (if sg_principal_type share = ''user'' then set_option (sg_user share)
      else {mem_user m | m. m \<in> set (memberships c) \<and> mem_status m = MActive
        \<and> (if sg_principal_type share = ''team'' then mem_team m = sg_team share
           else mem_organization m = sg_organization share)})"

definition revoked :: "control \<Rightarrow> share_grant \<Rightarrow> string list \<Rightarrow> resource_grant \<Rightarrow> bool" where
  "revoked c share codes g \<longleftrightarrow> rg_user g \<in> addressees c share \<and> rg_permission g \<in> set codes
     \<and> rg_organization g = sg_organization share \<and> rg_resource_type g = sg_resource_type share
     \<and> rg_resource_id g = sg_resource_id share"

lemma addressees_run:
  assumes "principal_user_ids (sg_principal_type share) (sg_user share) (sg_team share)
      (sg_organization share) w = (Inr ids, t)"
  shows "t = w" and "set ids = addressees (ctl w) share"
  using assms by (auto simp: principal_user_ids_def addressees_def split: if_splits option.splits)

lemma revoke_share_grant_Inr:
  assumes run: "revoke_share_grant actor (share, request_id) w = (Inr (), w')"
  obtains codes where "level_codes (sg_resource_type share) (sg_level share) = Some codes"
    and "resource_grants (ctl w') = filter (\<lambda>g. \<not> revoked (ctl w) share codes g) (resource_grants (ctl w))"
    and "roles (ctl w') = roles (ctl w)" and "role_assignments (ctl w') = role_assignments (ctl w)"
    and "clock w' = clock w"
    and "share_grants (ctl w') = update_where (\<lambda>s. sg_id s = sg_id share)
           (\<lambda>s. s\<lparr>sg_revoked_at := Some (clock w)\<rparr>) (share_grants (ctl w))"
proof -
  let ?ids = "principal_user_ids (sg_principal_type share) (sg_user share) (sg_team share)
      (sg_organization share)"
  have p: "permitted w (user_id actor) ''sharing.manage'' (Some (sg_organization share)) None"
    using run by (auto simp: revoke_share_grant_def bind_def sharing_require_def require_run
        split: if_splits)
  obtain r t where ids: "?ids w = (r, t)" by (cases "?ids w")
  obtain uids where ids': "?ids w = (Inr uids, w)"
    using run p ids addressees_run(1) [of share w _ t]
    by (cases r) (auto simp: revoke_share_grant_def bind_def sharing_require_def require_run)
  note set_ids = addressees_run(2) [OF ids']
  obtain codes where codes: "level_codes (sg_resource_type share) (sg_level share) = Some codes"
    using run p ids' by (cases "level_codes (sg_resource_type share) (sg_level share)")
      (auto simp: revoke_share_grant_def bind_def sharing_require_def require_run level_codes_def)
  show thesis
    by (rule that [OF codes]) (use run p ids' codes set_ids in
      \<open>auto simp: revoke_share_grant_def bind_def sharing_require_def require_run level_codes_def
        revoked_def delete_where_def\<close>)
qed


section \<open>Witnesses\<close>

definition read_bucket_for_bob :: share_request where
  "read_bucket_for_bob = \<lparr>sr_organization = 7, sr_resource_type = RESOURCE_TYPE_BUCKET,
     sr_resource_id = 9, sr_principal_type = ''user'', sr_level = ''read'', sr_user = Some bob,
     sr_team = None, sr_expires_at = None, sr_request_id = ''''\<rparr>"

lemma read_bucket_for_bob_simps [simp]:
  "sr_organization read_bucket_for_bob = 7"
  "sr_resource_type read_bucket_for_bob = RESOURCE_TYPE_BUCKET"
  "sr_resource_id read_bucket_for_bob = 9" "sr_principal_type read_bucket_for_bob = ''user''"
  "sr_level read_bucket_for_bob = ''read''" "sr_user read_bucket_for_bob = Some bob"
  "sr_team read_bucket_for_bob = None" "sr_expires_at read_bucket_for_bob = None"
  by (simp_all add: read_bucket_for_bob_def)

lemma levels_bucket [simp]:
  "LEVEL_PERMISSIONS RESOURCE_TYPE_BUCKET = Some [
       ''read'' \<mapsto> [''storage.read''],
       ''write'' \<mapsto> [''storage.read'', ''storage.write''],
       ''admin'' \<mapsto> [''storage.read'', ''storage.write'', ''storage.delete'', ''storage.share'',
                  ''storage.manage'']]"
  by (simp add: LEVEL_PERMISSIONS_def RESOURCE_TYPE_BUCKET_def RESOURCE_TYPE_TENANT_DATABASE_def
      RESOURCE_TYPE_CONNECTED_DATABASE_def)

lemma known_codes [simp]:
  "''sharing.manage'' \<in> fst ` set PERMISSIONS" "''storage.read'' \<in> fst ` set PERMISSIONS"
  by (simp_all add: PERMISSIONS_def)

lemma share_with_bob:
  "\<exists>share w'. create_share_grant alice read_bucket_for_bob (world_of shop) = (Inr share, w')"
  by (simp add: create_share_grant_def bind_def sharing_require_def require_run permitted_def
      resource_in_organization_def check_principal_def principal_user_ids_def Let_def
      orm_create_def atomic_default_def share_one_def catch_def grant_resource_permission_run
      new_grant_def)


definition bobs_share :: share_grant where
  "bobs_share = \<lparr>sg_id = 60, sg_organization = 7, sg_resource_type = RESOURCE_TYPE_BUCKET,
     sg_resource_id = 9, sg_principal_type = ''user'', sg_user = Some 2, sg_team = None,
     sg_level = ''read'', sg_expires_at = None, sg_revoked_at = None, sg_created_by = Some 1\<rparr>"

definition write_share :: share_grant where
  "write_share = bobs_share\<lparr>sg_id := 61, sg_level := ''write''\<rparr>"

definition bobs_grant :: "string \<Rightarrow> uuid \<Rightarrow> resource_grant" where
  "bobs_grant code i = \<lparr>rg_id = i, rg_user = 2, rg_permission = code, rg_organization = 7,
     rg_resource_type = RESOURCE_TYPE_BUCKET, rg_resource_id = 9, rg_granted_by = Some 1,
     rg_expires_at = None\<rparr>"

text \<open>Two shares of the same bucket with the same user, read and write, both in force: the second
  found the read grant of the first in place and added only the write grant.\<close>

definition overlapping :: control where
  "overlapping = shop\<lparr>share_grants := [bobs_share, write_share],
     resource_grants := [bobs_grant ''storage.read'' 62, bobs_grant ''storage.write'' 63]\<rparr>"

lemma revoke_overlapping:
  "\<exists>w'. revoke_share_grant alice (bobs_share, '''') (world_of overlapping) = (Inr (), w')"
proof -
  have "role_allows overlapping = role_allows shop"
    by (simp add: fun_eq_iff role_allows_def overlapping_def)
  then show ?thesis
    by (simp add: revoke_share_grant_def bind_def sharing_require_def require_run permitted_def
        principal_user_ids_def bobs_share_def)
qed


end
