(* ===== verification/Storage.thy ===== *)
theory Storage
  imports Guards
begin

text \<open>
  File storage (\<open>storage/backends.py\<close>, \<open>scanning.py\<close>, \<open>services.py\<close>, \<open>views.py\<close>): hashing and
  type sniffing in one chunked pass, the malware scan, uploads and new versions over object
  storage, soft deletion, restore, download. A file's content is the byte list stored under its
  object key; SHA-256, the ClamAV daemon and the S3 service are parameters of the environment.
  The order in which a list view returns its rows is not modelled.
\<close>

section \<open>Content: sniffing, the disposition header\<close>

definition MAGIC_SIGNATURES :: "(bytes \<times> string) list" where
  "MAGIC_SIGNATURES = [
     ([0x89, 0x50, 0x4E, 0x47, 0x0D, 0x0A, 0x1A, 0x0A], ''image/png''),
     ([0xFF, 0xD8, 0xFF], ''image/jpeg''),
     ([0x47, 0x49, 0x46, 0x38, 0x37, 0x61], ''image/gif''),
     ([0x47, 0x49, 0x46, 0x38, 0x39, 0x61], ''image/gif''),
     ([0x25, 0x50, 0x44, 0x46, 0x2D], ''application/pdf''),
     ([0x50, 0x4B, 0x03, 0x04], ''application/zip''),
     ([0x1F, 0x8B], ''application/gzip'')]"

text \<open>\<open>bytes.decode("utf-8")\<close> succeeds: the strict decoder of Python.\<close>

definition continuation :: "byte \<Rightarrow> bool" where
  "continuation b \<longleftrightarrow> 0x80 \<le> b \<and> b \<le> 0xBF"

fun utf8_valid :: "bytes \<Rightarrow> bool" where
  "utf8_valid [] = True"
| "utf8_valid (b # bs) =
    (if b < 0x80 then utf8_valid bs
     else if 0xC2 \<le> b \<and> b \<le> 0xDF then
       (case bs of c # r \<Rightarrow> continuation c \<and> utf8_valid r | _ \<Rightarrow> False)
     else if 0xE0 \<le> b \<and> b \<le> 0xEF then
       (case bs of c # d # r \<Rightarrow> continuation c \<and> continuation d
          \<and> (b = 0xE0 \<longrightarrow> 0xA0 \<le> c) \<and> (b = 0xED \<longrightarrow> c \<le> 0x9F) \<and> utf8_valid r | _ \<Rightarrow> False)
     else if 0xF0 \<le> b \<and> b \<le> 0xF4 then
       (case bs of c # d # e # r \<Rightarrow> continuation c \<and> continuation d \<and> continuation e
          \<and> (b = 0xF0 \<longrightarrow> 0x90 \<le> c) \<and> (b = 0xF4 \<longrightarrow> c \<le> 0x8F) \<and> utf8_valid r | _ \<Rightarrow> False)
     else False)"

definition sniff_mime_type :: "bytes \<Rightarrow> string" where
  "sniff_mime_type head = (case find (\<lambda>(signature, _). prefix signature head) MAGIC_SIGNATURES of
       Some (_, mime) \<Rightarrow> mime
     | None \<Rightarrow> if utf8_valid head then ''text/plain'' else ''application/octet-stream'')"

definition unsafe_disposition_char :: "char \<Rightarrow> bool" where
  "unsafe_disposition_char c \<longleftrightarrow> c \<in> {CHR 0x0D, CHR 0x0A, CHR 0x22}"

definition safe_content_disposition :: "string \<Rightarrow> string" where
  "safe_content_disposition filename =
     (let cleaned = filter (\<lambda>c. \<not> unsafe_disposition_char c) filename;
          cleaned = (if cleaned = '''' then ''download'' else cleaned)
      in ''attachment; filename='' @ [CHR 0x22] @ cleaned @ [CHR 0x22])"

section \<open>The upload pass\<close>

definition CHUNK_SIZE :: nat where
  "CHUNK_SIZE = 1024 * 1024"

lemma CHUNK_SIZE_pos: "0 < CHUNK_SIZE" and head_in_chunk: "4096 \<le> CHUNK_SIZE"
  by (simp_all add: CHUNK_SIZE_def)

text \<open>\<open>iter(lambda: fileobj.read(CHUNK_SIZE), b"")\<close>.\<close>

function read_chunks :: "bytes \<Rightarrow> bytes list" where
  "read_chunks content =
     (if content = [] then [] else take CHUNK_SIZE content # read_chunks (drop CHUNK_SIZE content))"
  by pat_completeness auto

termination
  by (relation "measure length") (auto simp: CHUNK_SIZE_pos)

declare read_chunks.simps [simp del]

text \<open>The loop of \<open>_hash_and_sniff\<close>: what the hasher has been fed, the size so far, the head.\<close>

fun hash_loop :: "nat \<Rightarrow> bytes list \<Rightarrow> bytes \<Rightarrow> nat \<Rightarrow> bytes \<Rightarrow> exn + bytes \<times> nat \<times> bytes" where
  "hash_loop limit [] hashed count head = Inr (hashed, count, head)"
| "hash_loop limit (chunk # chunks) hashed count head =
    (let head' = (if head = [] then take 4096 chunk else head);
         count' = count + length chunk
     in if count' > limit then Inl UploadTooLarge
        else hash_loop limit chunks (hashed @ chunk) count' head')"

definition hash_and_sniff :: "bytes \<Rightarrow> (string \<times> nat \<times> string) app" where
  "hash_and_sniff content =
     bind (gets env) (\<lambda>ev.
     bind (lift (hash_loop (max_upload_size ev) (read_chunks content) [] 0 [])) (\<lambda>(hashed, count, head).
     ret (sha256 ev hashed, count, sniff_mime_type head)))"

definition scan_stream :: "bytes \<Rightarrow> (bool \<times> string) app" where
  "scan_stream content = bind (gets (\<lambda>w. scanner (env w) content)) (\<lambda>reply. case reply of
       ScanDown \<Rightarrow> raise ScanUnavailable
     | ScanOther \<Rightarrow> raise ScanUnavailable
     | ScanOK \<Rightarrow> ret (True, '''')
     | ScanFound signature \<Rightarrow> ret (False, signature))"

definition scan_for_malware :: "bytes \<Rightarrow> bool app" where
  "scan_for_malware content = bind (gets (\<lambda>w. malware_scan (env w))) (\<lambda>enabled.
     if \<not> enabled then ret True
     else catch (bind (scan_stream content) (\<lambda>(clean, _). ret clean))
       (\<lambda>e. if e = ScanUnavailable then ret False else raise e))"

section \<open>Lookups\<close>

definition bucket_organizations :: "control \<Rightarrow> bucket \<Rightarrow> uuid list" where
  "bucket_organizations c b = project_organizations c (bkt_project b)"

definition file_organizations :: "control \<Rightarrow> file_object \<Rightarrow> uuid list" where
  "file_organizations c f = [org. b \<leftarrow> buckets c, bkt_id b = file_bucket f,
     org \<leftarrow> bucket_organizations c b]"

definition get_member_bucket :: "user \<Rightarrow> uuid \<Rightarrow> bucket app" where
  "get_member_bucket user bucket_id = or_404 (get_one (
     member_rows buckets bkt_id bucket_organizations (user_id user) bucket_id))"

definition get_member_file :: "user \<Rightarrow> uuid \<Rightarrow> file_object app" where
  "get_member_file user fid = or_404 (get_one (
     member_rows files file_id file_organizations (user_id user) fid))"

interpretation bucket_lookup: member_lookup get_member_bucket buckets bkt_id bucket_organizations
  by (rule member_lookup_join) (rule get_member_bucket_def)

interpretation file_lookup: member_lookup get_member_file files file_id file_organizations
  by (rule member_lookup_join) (rule get_member_file_def)

text \<open>\<open>Bucket.organization_id\<close> and \<open>FileObject.organization_id\<close> follow the foreign keys.\<close>

definition Bucket_organization_id :: "bucket \<Rightarrow> uuid app" where
  "Bucket_organization_id b = organization_of_project (bkt_project b)"

definition file_bucket_row :: "file_object \<Rightarrow> bucket app" where
  "file_bucket_row f = get_one (\<lambda>c. filter (\<lambda>b. bkt_id b = file_bucket f) (buckets c))"

definition File_organization_id :: "file_object \<Rightarrow> uuid app" where
  "File_organization_id f = bind (file_bucket_row f) Bucket_organization_id"

section \<open>Services\<close>

record upload =
  up_name :: string
  up_content :: bytes

definition new_object_key :: "uuid \<Rightarrow> uuid \<Rightarrow> uuid \<Rightarrow> uuid \<Rightarrow> string app" where
  "new_object_key org proj bkt fid = bind uuid4 (\<lambda>i.
     ret (uuid_str org @ ''/'' @ uuid_str proj @ ''/'' @ uuid_str bkt @ ''/'' @ uuid_str fid
       @ ''/'' @ uuid_str i))"

text \<open>\<open>Status.ACTIVE if is_clean else Status.QUARANTINED\<close>, and the audit result that goes with it.\<close>

definition uploaded_status :: "bool \<Rightarrow> file_status" where
  "uploaded_status is_clean = (if is_clean then FActive else FQuarantined)"

definition uploaded_result :: "bool \<Rightarrow> audit_result" where
  "uploaded_result is_clean = (if is_clean then Success else Denied)"

definition upload_file :: "bucket \<Rightarrow> folder option \<Rightarrow> upload \<Rightarrow> string \<Rightarrow> user \<Rightarrow> file_object app" where
  "upload_file bucket folder uploaded display creator =
     bind (hash_and_sniff (up_content uploaded)) (\<lambda>(checksum, count, mime).
     bind (scan_for_malware (up_content uploaded)) (\<lambda>is_clean.
     bind uuid4 (\<lambda>fid.
     bind (Bucket_organization_id bucket) (\<lambda>org.
     bind (new_object_key org (bkt_project bucket) (bkt_id bucket) fid) (\<lambda>key.
     bind (s3_put key (up_content uploaded)) (\<lambda>_.
     let f = \<lparr>file_id = fid, file_bucket = bkt_id bucket, file_folder = map_option fld_id folder,
           object_key = key, original_filename = up_name uploaded, display_filename = display,
           mime_type = mime, file_size = count, checksum_sha256 = checksum, storage_backend = ''s3'',
           file_status = uploaded_status is_clean,
           file_creator = user_id creator\<rparr> in
     bind (orm_create files files_update file_clash f) (\<lambda>_.
     bind (audit_record (Some creator) (Some org) ''storage.file.upload'' ''file_object''
       (uuid_str fid) '''' (uploaded_result is_clean)
       [(''display_filename'', JStr display), (''size'', JInt (int count)),
        (''quarantined'', JBool (\<not> is_clean))]) (\<lambda>_.
     ret f))))))))"

definition upload_new_version :: "file_object \<Rightarrow> upload \<Rightarrow> user \<Rightarrow> file_object app" where
  "upload_new_version f uploaded creator =
     bind (hash_and_sniff (up_content uploaded)) (\<lambda>(checksum, count, mime).
     bind (scan_for_malware (up_content uploaded)) (\<lambda>is_clean.
     bind (File_organization_id f) (\<lambda>org.
     bind (file_bucket_row f) (\<lambda>bucket.
     bind (new_object_key org (bkt_project bucket) (file_bucket f) (file_id f)) (\<lambda>new_key.
     bind (s3_put new_key (up_content uploaded)) (\<lambda>_.
     let change = (\<lambda>r. r\<lparr>object_key := new_key, file_size := count, checksum_sha256 := checksum,
           mime_type := mime, file_status := uploaded_status is_clean\<rparr>) in
     bind (atomic_default (
       bind (if versioning_enabled bucket
         then bind uuid4 (\<lambda>i. orm_create file_versions file_versions_update file_version_clash
           \<lparr>fv_id = i, fv_file = file_id f, fv_object_key = object_key f, fv_size = file_size f,
            fv_checksum_sha256 = checksum_sha256 f, fv_created_by = user_id creator\<rparr>)
         else ret ()) (\<lambda>_.
       orm_update files files_update file_clash file_id (file_id f) change))) (\<lambda>_.
     bind (if \<not> versioning_enabled bucket then s3_delete (object_key f) else ret ()) (\<lambda>_.
     bind (audit_record (Some creator) (Some org) ''storage.file.upload_version'' ''file_object''
       (uuid_str (file_id f)) '''' (uploaded_result is_clean)
       [(''size'', JInt (int count)), (''quarantined'', JBool (\<not> is_clean))]) (\<lambda>_.
     ret (change f))))))))))"

definition set_file_status :: "file_object \<Rightarrow> file_status \<Rightarrow> unit app" where
  "set_file_status f st = orm_update files files_update file_clash file_id (file_id f)
     (\<lambda>r. r\<lparr>file_status := st\<rparr>)"

definition delete_file :: "file_object \<Rightarrow> user \<Rightarrow> unit app" where
  "delete_file f actor =
     bind (set_file_status f FDeleted) (\<lambda>_.
     bind (File_organization_id f) (\<lambda>org.
     audit_record (Some actor) (Some org) ''storage.file.delete'' ''file_object''
       (uuid_str (file_id f)) '''' Success []))"

definition restore_file :: "file_object \<Rightarrow> user \<Rightarrow> unit app" where
  "restore_file f actor =
     bind (set_file_status f FActive) (\<lambda>_.
     bind (File_organization_id f) (\<lambda>org.
     audit_record (Some actor) (Some org) ''storage.file.restore'' ''file_object''
       (uuid_str (file_id f)) '''' Success []))"

definition record_download :: "file_object \<Rightarrow> user \<Rightarrow> unit app" where
  "record_download f actor =
     bind (File_organization_id f) (\<lambda>org.
     audit_record (Some actor) (Some org) ''storage.file.download'' ''file_object''
       (uuid_str (file_id f)) '''' Success [])"

section \<open>Views\<close>

definition storage_require :: "user \<Rightarrow> string \<Rightarrow> uuid \<Rightarrow> uuid option \<Rightarrow> bool app" where
  "storage_require user code org bucket_id = has_permission (Some user) code (Some org)
     (map_option (\<lambda>b. (RESOURCE_TYPE_BUCKET, b)) bucket_id)"

definition BucketList_get :: "user \<Rightarrow> uuid \<Rightarrow> response app" where
  "BucketList_get user project_id =
     bind (get_member_project user project_id) (\<lambda>p.
     bind (query (\<lambda>c. filter (\<lambda>b. bkt_project b = proj_id p) (buckets c))) (\<lambda>bs.
     respond 200 (BucketsBody bs)))"

definition BucketList_post :: "user \<Rightarrow> uuid \<Rightarrow> (string \<times> bool) option \<Rightarrow> response app" where
  "BucketList_post user project_id data =
     bind (get_member_project user project_id) (\<lambda>p.
     bind (Project_organization_id p) (\<lambda>org.
     bind (storage_require user ''storage.manage'' org None) (\<lambda>allowed.
     if \<not> allowed then respond 403 NoBody
     else bind (validated data) (\<lambda>(name, versioning).
     bind uuid4 (\<lambda>i.
     let b = \<lparr>bkt_id = i, bkt_project = proj_id p, bkt_name = name, versioning_enabled = versioning,
           bkt_created_by = user_id user\<rparr> in
     bind (orm_create buckets buckets_update bucket_clash b) (\<lambda>_.
     respond 201 (BucketBody b)))))))"

definition FolderList_get :: "user \<Rightarrow> uuid \<Rightarrow> uuid option \<Rightarrow> response app" where
  "FolderList_get user bucket_id parent_id =
     bind (get_member_bucket user bucket_id) (\<lambda>b.
     bind (query (\<lambda>c. filter (\<lambda>d. fld_bucket d = bkt_id b \<and> fld_parent d = parent_id) (folders c)))
       (\<lambda>ds. respond 200 (FoldersBody ds)))"

definition folder_in_bucket :: "uuid \<Rightarrow> uuid \<Rightarrow> folder app" where
  "folder_in_bucket i b =
     or_404 (get_one (\<lambda>c. filter (\<lambda>d. fld_id d = i \<and> fld_bucket d = b) (folders c)))"

definition FolderList_post :: "user \<Rightarrow> uuid \<Rightarrow> (string \<times> uuid option) option \<Rightarrow> response app" where
  "FolderList_post user bucket_id data =
     bind (get_member_bucket user bucket_id) (\<lambda>b.
     bind (Bucket_organization_id b) (\<lambda>org.
     bind (storage_require user ''storage.write'' org (Some (bkt_id b))) (\<lambda>allowed.
     if \<not> allowed then respond 403 NoBody
     else bind (validated data) (\<lambda>(name, parent_id).
     bind (case parent_id of None \<Rightarrow> ret None
       | Some i \<Rightarrow> bind (folder_in_bucket i (bkt_id b)) (\<lambda>d. ret (Some (fld_id d)))) (\<lambda>parent.
     bind uuid4 (\<lambda>i.
     let d = \<lparr>fld_id = i, fld_bucket = bkt_id b, fld_parent = parent, fld_name = name,
           fld_created_by = user_id user\<rparr> in
     bind (orm_create folders folders_update folder_clash d) (\<lambda>_.
     respond 201 (FolderBody d))))))))"

text \<open>\<open>display_filename__icontains\<close>: a case-insensitive substring test by the database.\<close>

definition contains :: "string \<Rightarrow> string \<Rightarrow> bool" where
  "contains needle hay \<longleftrightarrow> list_ex (\<lambda>n. prefix needle (drop n hay)) [0..<Suc (length hay)]"

definition FileList_get :: "user \<Rightarrow> uuid \<Rightarrow> uuid option \<Rightarrow> string \<Rightarrow> response app" where
  "FileList_get user bucket_id folder_id search =
     bind (get_member_bucket user bucket_id) (\<lambda>b.
     bind (Bucket_organization_id b) (\<lambda>org.
     bind (storage_require user ''storage.read'' org (Some (bkt_id b))) (\<lambda>allowed.
     if \<not> allowed then respond 403 NoBody
     else bind (gets (\<lambda>w. pg_upper (env w))) (\<lambda>upper.
     bind (query (\<lambda>c. filter (\<lambda>f. file_bucket f = bkt_id b \<and> file_status f = FActive
         \<and> file_folder f = folder_id
         \<and> (search = '''' \<or> contains (upper search) (upper (display_filename f)))) (files c))) (\<lambda>fs.
     respond 200 (FilesBody fs))))))"

definition handle_too_large :: "response app \<Rightarrow> response app" where
  "handle_too_large m = catch m (\<lambda>e.
     if e = UploadTooLarge
     then bind (gets (\<lambda>w. exn_str (env w) e)) (\<lambda>text. respond 413 (Detail text))
     else raise e)"

definition FileList_post ::
  "user \<Rightarrow> uuid \<Rightarrow> upload option \<Rightarrow> uuid option \<Rightarrow> string option \<Rightarrow> response app" where
  "FileList_post user bucket_id uploaded folder_id display =
     bind (get_member_bucket user bucket_id) (\<lambda>b.
     bind (Bucket_organization_id b) (\<lambda>org.
     bind (storage_require user ''storage.write'' org (Some (bkt_id b))) (\<lambda>allowed.
     if \<not> allowed then respond 403 NoBody
     else case uploaded of None \<Rightarrow> respond 400 (Detail ''No file provided.'')
     | Some u \<Rightarrow>
         bind (case folder_id of None \<Rightarrow> ret None
           | Some i \<Rightarrow> bind (folder_in_bucket i (bkt_id b)) (\<lambda>d. ret (Some d))) (\<lambda>folder.
         handle_too_large (
           bind (upload_file b folder u
             (if display = None \<or> display = Some '''' then up_name u else the display) user) (\<lambda>f.
           respond 201 (FileBody f)))))))"

definition FileDetail_get :: "user \<Rightarrow> uuid \<Rightarrow> response app" where
  "FileDetail_get user fid =
     bind (get_member_file user fid) (\<lambda>f.
     bind (File_organization_id f) (\<lambda>org.
     bind (storage_require user ''storage.read'' org (Some (file_bucket f))) (\<lambda>allowed.
     if \<not> allowed then respond 403 NoBody else respond 200 (FileBody f))))"

text \<open>The validated body of a file update: the fields present in it. \<open>Some None\<close> moves the file to
  the bucket's root.\<close>

record file_update =
  fu_folder :: "uuid option option"
  fu_display_filename :: "string option"

definition FileDetail_patch :: "user \<Rightarrow> uuid \<Rightarrow> file_update option \<Rightarrow> response app" where
  "FileDetail_patch user fid data =
     bind (get_member_file user fid) (\<lambda>f.
     bind (File_organization_id f) (\<lambda>org.
     bind (storage_require user ''storage.write'' org (Some (file_bucket f))) (\<lambda>allowed.
     if \<not> allowed then respond 403 NoBody
     else bind (validated data) (\<lambda>d.
     bind (case fu_folder d of None \<Rightarrow> ret (file_folder f)
       | Some None \<Rightarrow> ret None
       | Some (Some i) \<Rightarrow> bind (folder_in_bucket i (file_bucket f)) (\<lambda>e. ret (Some (fld_id e))))
       (\<lambda>folder.
     let f' = f\<lparr>file_folder := folder, display_filename :=
           (case fu_display_filename d of None \<Rightarrow> display_filename f | Some n \<Rightarrow> n)\<rparr> in
     bind (orm_update files files_update file_clash file_id (file_id f) (\<lambda>_. f')) (\<lambda>_.
     respond 200 (FileBody f')))))))"

definition FileDetail_delete :: "user \<Rightarrow> uuid \<Rightarrow> response app" where
  "FileDetail_delete user fid =
     bind (get_member_file user fid) (\<lambda>f.
     bind (File_organization_id f) (\<lambda>org.
     bind (storage_require user ''storage.delete'' org (Some (file_bucket f))) (\<lambda>allowed.
     if \<not> allowed then respond 403 NoBody
     else bind (delete_file f user) (\<lambda>_. respond 204 NoBody))))"

definition FileRestore_post :: "user \<Rightarrow> uuid \<Rightarrow> response app" where
  "FileRestore_post user fid =
     bind (get_member_file user fid) (\<lambda>f.
     bind (File_organization_id f) (\<lambda>org.
     bind (storage_require user ''storage.delete'' org (Some (file_bucket f))) (\<lambda>allowed.
     if \<not> allowed then respond 403 NoBody
     else bind (restore_file f user) (\<lambda>_.
          respond 200 (FileBody (f\<lparr>file_status := FActive\<rparr>))))))"

definition FileVersionUpload_post :: "user \<Rightarrow> uuid \<Rightarrow> upload option \<Rightarrow> response app" where
  "FileVersionUpload_post user fid uploaded =
     bind (get_member_file user fid) (\<lambda>f.
     bind (File_organization_id f) (\<lambda>org.
     bind (storage_require user ''storage.write'' org (Some (file_bucket f))) (\<lambda>allowed.
     if \<not> allowed then respond 403 NoBody
     else case uploaded of None \<Rightarrow> respond 400 (Detail ''No file provided.'')
     | Some u \<Rightarrow> handle_too_large (
         bind (upload_new_version f u user) (\<lambda>f'. respond 201 (FileBody f'))))))"

definition FileDownload_get :: "user \<Rightarrow> uuid \<Rightarrow> response app" where
  "FileDownload_get user fid =
     bind (get_member_file user fid) (\<lambda>f.
     bind (File_organization_id f) (\<lambda>org.
     bind (storage_require user ''storage.read'' org (Some (file_bucket f))) (\<lambda>allowed.
     if \<not> allowed then respond 403 NoBody
     else if file_status f = FQuarantined then respond 403 (Detail
       ''This file was quarantined by malware scanning and cannot be downloaded.'')
     else bind (record_download f user) (\<lambda>_.
     bind (s3_get (object_key f)) (\<lambda>content.
     respond 200 (FileContent content (mime_type f)
       (safe_content_disposition (display_filename f))))))))"

section \<open>One pass is enough\<close>

lemma concat_read_chunks: "concat (read_chunks content) = content"
proof (induction content rule: read_chunks.induct)
  case (1 content)
  show ?case
    using 1 by (cases "content = []")
      (simp_all add: read_chunks.simps [of content] read_chunks.simps [of "[]"])
qed

lemma read_chunks_Cons:
  "content \<noteq> [] \<Longrightarrow> \<exists>rest. read_chunks content = take CHUNK_SIZE content # rest"
  by (simp add: read_chunks.simps [of content])

lemma hash_loop_run:
  "count \<le> limit \<Longrightarrow> head \<noteq> [] \<Longrightarrow> hash_loop limit chunks hashed count head =
     (if count + length (concat chunks) > limit then Inl UploadTooLarge
      else Inr (hashed @ concat chunks, count + length (concat chunks), head))"
  by (induction chunks arbitrary: hashed count) (auto simp: Let_def)

lemma hash_and_sniff_run:
  "hash_and_sniff content w =
     (if length content > max_upload_size (env w) then (Inl UploadTooLarge, w)
      else (Inr (sha256 (env w) content, length content, sniff_mime_type (take 4096 content)), w))"
proof (cases "content = []")
  case True
  then show ?thesis by (simp add: hash_and_sniff_def bind_def read_chunks.simps [of "[]"])
next
  case False
  let ?limit = "max_upload_size (env w)"
  obtain rest where "read_chunks content = take CHUNK_SIZE content # rest"
    using read_chunks_Cons [OF False] by blast
  moreover have "take 4096 (take CHUNK_SIZE content) = take 4096 content"
    using head_in_chunk by (simp add: min_def)
  ultimately obtain chunk where chunks: "read_chunks content = chunk # rest"
    and head: "take 4096 chunk = take 4096 content" by blast
  have all: "chunk @ concat rest = content"
    using concat_read_chunks [of content] by (simp add: chunks)
  have len: "length chunk + length (concat rest) = length content"
    using arg_cong [OF all, of length] by simp
  have "take 4096 content \<noteq> []" using False by simp
  then have "hash_loop ?limit (read_chunks content) [] 0 [] =
    (if length content > ?limit then Inl UploadTooLarge
     else Inr (content, length content, take 4096 content))"
    using hash_loop_run [of "length chunk" ?limit "take 4096 content" rest chunk] len all
    by (auto simp: chunks Let_def head simp del: length_concat)
  then show ?thesis by (simp add: hash_and_sniff_def bind_def)
qed

section \<open>Uploads\<close>

definition scanned_clean :: "env \<Rightarrow> bytes \<Rightarrow> bool" where
  "scanned_clean ev content \<longleftrightarrow> \<not> malware_scan ev \<or> scanner ev content = ScanOK"

lemma scan_for_malware_run [simp]:
  "scan_for_malware content w = (Inr (scanned_clean (env w) content), w)"
  by (simp add: scan_for_malware_def scan_stream_def bind_def catch_def scanned_clean_def
      split: scan_reply.splits)

lemma wp_scan_for_malware [wp, simp]:
  "wp (scan_for_malware content) Q E w = Q (scanned_clean (env w) content) w"
  by (simp add: wp_def)

lemma wp_hash_and_sniff [wp]:
  "wp (hash_and_sniff content) Q E w =
     (if length content > max_upload_size (env w) then E UploadTooLarge w
      else Q (sha256 (env w) content, length content, sniff_mime_type (take 4096 content)) w)"
  by (simp add: wp_def hash_and_sniff_run)

text \<open>The chunked pass over an upload computes what reading the whole file would: the SHA-256 of
  the content, its size, and the type its first 4096 bytes show; and it refuses exactly the files
  larger than the configured cap, wherever the boundaries between the chunks fall.\<close>

theorem hash_and_sniff_correct:
  "hash_and_sniff content w =
     (if length content > max_upload_size (env w) then (Inl UploadTooLarge, w)
      else (Inr (sha256 (env w) content, length content, sniff_mime_type (take 4096 content)), w))"
  by (rule hash_and_sniff_run)

lemma Bucket_organization_id_world: "Bucket_organization_id b w = (r, t) \<Longrightarrow> t = w"
  by (simp add: Bucket_organization_id_def organization_of_project_world)

lemma File_organization_id_world: "File_organization_id f w = (r, t) \<Longrightarrow> t = w"
  by (auto simp: File_organization_id_def file_bucket_row_def bind_def get_one_run split: list.splits
      dest: Bucket_organization_id_world)

text \<open>What the foreign keys give is what the joins of the lookups see.\<close>

lemma Bucket_organization_id_Inr:
  "Bucket_organization_id b w = (Inr org, t) \<Longrightarrow> bucket_organizations (ctl w) b = [org]"
  by (simp add: Bucket_organization_id_def bucket_organizations_def organization_of_project_Inr)

lemma File_organization_id_Inr:
  assumes "File_organization_id f w = (Inr org, t)"
  shows "file_organizations (ctl w) f = [org]"
proof -
  obtain b where b: "filter (\<lambda>b. bkt_id b = file_bucket f) (buckets (ctl w)) = [b]"
    and org: "Bucket_organization_id b w = (Inr org, t)"
    using assms by (auto simp: File_organization_id_def file_bucket_row_def bind_def get_one_run
        split: list.splits)
  from b Bucket_organization_id_Inr [OF org] show ?thesis
    by (simp add: file_organizations_def concat_map_if)
qed

lemma wp_Bucket_organization_id:
  assumes "\<And>org. bucket_organizations (ctl w) b = [org] \<Longrightarrow> Q org w" and "\<And>e. E e w"
  shows "wp (Bucket_organization_id b) Q E w"
  by (rule wpI) (metis assms Bucket_organization_id_Inr Bucket_organization_id_world)+

lemma wp_File_organization_id:
  assumes "\<And>org. file_organizations (ctl w) f = [org] \<Longrightarrow> Q org w" and "\<And>e. E e w"
  shows "wp (File_organization_id f) Q E w"
  by (rule wpI) (metis assms File_organization_id_Inr File_organization_id_world)+

text \<open>C7. Uploads fail closed: a new file is active only if scanning is switched off or the scanner
  said OK, and quarantined otherwise, scanner failures included, with an audit event that says so.
  Its row carries the size, the checksum and the sniffed type of the content that is stored under
  its key. An upload that raises leaves no file row.\<close>

theorem upload_file_fails_closed:
  "wp (upload_file b folder u display creator)
     (\<lambda>f w'. files (ctl w') = files (ctl w) @ [f]
        \<and> file_status f = (if scanned_clean (env w) (up_content u) then FActive else FQuarantined)
        \<and> objects w' = (objects w)(object_key f \<mapsto> up_content u)
        \<and> file_size f = length (up_content u) \<and> file_size f \<le> max_upload_size (env w)
        \<and> checksum_sha256 f = sha256 (env w) (up_content u)
        \<and> mime_type f = sniff_mime_type (take 4096 (up_content u))
        \<and> file_bucket f = bkt_id b \<and> file_creator f = user_id creator
        \<and> (\<exists>e. audit_events (ctl w') = audit_events (ctl w) @ [e]
             \<and> ae_result e = (if scanned_clean (env w) (up_content u) then Success else Denied)))
     (\<lambda>e w'. ctl w' = ctl w) w"
  unfolding upload_file_def wp_bind
  by (auto simp: wp_hash_and_sniff new_object_key_def wp_s3_put wp_orm_create Let_def
      uploaded_status_def uploaded_result_def
      intro!: wp_Bucket_organization_id)

section \<open>Downloads\<close>

text \<open>C8. Nothing leaves without authority: when a download answers with content, the requester is an
  active member of the organization that owns the file and permitted \<open>storage.read\<close> on its bucket,
  the file is not quarantined, the content is what object storage holds under the file's key, and
  the download is in the audit log.\<close>

theorem download_guarded:
  "wp (FileDownload_get user fid)
     (\<lambda>r w'. case body r of
        FileContent content mime disposition \<Rightarrow>
          (\<exists>f org. f \<in> set (files (ctl w)) \<and> file_id f = fid \<and> file_status f \<noteq> FQuarantined
             \<and> file_organizations (ctl w) f = [org] \<and> active_member (ctl w) (user_id user) org
             \<and> permitted w (user_id user) ''storage.read'' (Some org)
                 (Some (RESOURCE_TYPE_BUCKET, file_bucket f))
             \<and> objects w (object_key f) = Some content \<and> mime = mime_type f
             \<and> disposition = safe_content_disposition (display_filename f)
             \<and> (\<exists>e. audit_events (ctl w') = audit_events (ctl w) @ [e]
                  \<and> ae_action e = ''storage.file.download'' \<and> ae_actor e = Some (user_id user)))
      | _ \<Rightarrow> w' = w)
     (\<lambda>e w'. files (ctl w') = files (ctl w) \<and> objects w' = objects w) w"
  unfolding FileDownload_get_def wp_bind
proof (rule file_lookup.wp_lookup, goal_cases)
  case (1 f)
  show ?case
    using 1 by (auto simp: storage_require_def record_download_def wp_s3_get
        intro!: wp_File_organization_id exI [of _ f] split: option.splits if_splits)
qed simp

text \<open>A file's row as its bucket and the foreign keys see it.\<close>

definition reachable_file :: "world \<Rightarrow> user \<Rightarrow> file_object \<Rightarrow> uuid \<Rightarrow> bool" where
  "reachable_file w user f org \<longleftrightarrow> unique_rows membership_clash (memberships (ctl w))
     \<and> unique_rows file_clash (files (ctl w)) \<and> f \<in> set (files (ctl w))
     \<and> File_organization_id f w = (Inr org, w) \<and> active_member (ctl w) (user_id user) org"

lemma get_member_file_run:
  assumes "reachable_file w user f org"
  shows "get_member_file user (file_id f) w = (Inr f, w)"
proof -
  have "distinct (map file_id (files (ctl w)))"
    using assms by (auto intro: unique_rows_distinct simp: reachable_file_def file_clash_def)
  moreover have "file_organizations (ctl w) f = [org]"
    using assms by (auto simp: reachable_file_def intro: File_organization_id_Inr)
  ultimately have "member_rows files file_id file_organizations (user_id user) (file_id f) (ctl w) = [f]"
    using assms by (intro member_rows_single) (auto simp: reachable_file_def)
  then show ?thesis by (simp add: get_member_file_def member_rows_run)
qed

lemma download_run:
  assumes f: "reachable_file w user f org"
    and read: "permitted w (user_id user) ''storage.read'' (Some org) (Some (RESOURCE_TYPE_BUCKET, file_bucket f))"
    and status: "file_status f \<noteq> FQuarantined" and content: "objects w (object_key f) = Some content"
    and up: "\<not> s3_fails (env w) (s3_calls w)"
  shows "\<exists>w'. FileDownload_get user (file_id f) w =
    (Inr (Response 200 (FileContent content (mime_type f)
       (safe_content_disposition (display_filename f)))), w')"
proof -
  have org: "File_organization_id f w = (Inr org, w)" using f by (simp add: reachable_file_def)
  show ?thesis
    using read status content up
    by (simp add: FileDownload_get_def bind_def get_member_file_run [OF f] org storage_require_def
        record_download_def s3_get_def s3_call_def Let_def)
qed

lemma File_organization_id_cong:
  assumes "buckets (ctl w) = buckets (ctl v)" "projects (ctl w) = projects (ctl v)"
    "workspaces (ctl w) = workspaces (ctl v)" and "File_organization_id f v = (Inr org, v)"
    and "file_bucket f = file_bucket g"
  shows "File_organization_id g w = (Inr org, w)"
  using assms by (auto simp: File_organization_id_def file_bucket_row_def Bucket_organization_id_def
      organization_of_project_def Project_organization_id_def bind_def get_one_run split: list.splits)

lemma upload_file_Inr:
  assumes run: "upload_file b folder u display creator w = (Inr f, w')"
  obtains org where "Bucket_organization_id b w = (Inr org, w)"
    and "files (ctl w') = files (ctl w) @ [f]" and "\<not> list_ex (file_clash f) (files (ctl w))"
    and "file_bucket f = bkt_id b" and "display_filename f = display"
    and "objects w' (object_key f) = Some (up_content u)"
    and "file_status f = uploaded_status (scanned_clean (env w) (up_content u))"
    and "mime_type f = sniff_mime_type (take 4096 (up_content u))"
    and "ctl w' = audit_events_update (\<lambda>_. audit_events (ctl w')) (files_update (\<lambda>_. files (ctl w')) (ctl w))"
    and "env w' = env w" and "clock w' = clock w" and "s3_calls w' = Suc (s3_calls w)"
proof -
  have "length (up_content u) \<le> max_upload_size (env w)"
    using run by (auto simp: upload_file_def bind_def hash_and_sniff_run split: if_splits)
  moreover obtain r t where org: "Bucket_organization_id b (w\<lparr>rng := Suc (rng w)\<rparr>) = (r, t)"
    by (cases "Bucket_organization_id b (w\<lparr>rng := Suc (rng w)\<rparr>)")
  moreover note t = Bucket_organization_id_world [OF org]
  ultimately obtain org' where r: "r = Inr org'"
    using run by (cases r) (auto simp: upload_file_def bind_def hash_and_sniff_run)
  have "Bucket_organization_id b w = (Inr org', w)"
    using org t unfolding r by (auto simp: Bucket_organization_id_def organization_of_project_def Project_organization_id_def
        bind_def get_one_run split: list.splits)
  then show thesis
    by (rule that) (use run org t r \<open>length (up_content u) \<le> max_upload_size (env w)\<close> in
      \<open>auto simp: upload_file_def bind_def hash_and_sniff_run new_object_key_def s3_put_def s3_call_def
        orm_create_def Let_def split: if_splits\<close>)
qed

text \<open>C9. What goes in comes out: a file that was uploaded and is not in quarantine is answered, byte
  for byte, to a member with read permission on its bucket, with the sniffed type and the
  sanitized name.\<close>

theorem upload_download_roundtrip:
  assumes run: "upload_file b folder u display creator w = (Inr f, w')"
    and clean: "scanned_clean (env w) (up_content u)"
    and bucket: "filter (\<lambda>x. bkt_id x = bkt_id b) (buckets (ctl w)) = [b]"
    and mems: "unique_rows membership_clash (memberships (ctl w))"
    and fs: "unique_rows file_clash (files (ctl w))"
    and org: "bucket_organizations (ctl w) b = [org]"
    and member: "active_member (ctl w) (user_id user) org"
    and read: "permitted w (user_id user) ''storage.read'' (Some org) (Some (RESOURCE_TYPE_BUCKET, bkt_id b))"
    and up: "\<not> s3_fails (env w) (Suc (s3_calls w))"
  shows "\<exists>w''. FileDownload_get user (file_id f) w' =
    (Inr (Response 200 (FileContent (up_content u) (sniff_mime_type (take 4096 (up_content u)))
       (safe_content_disposition display))), w'')"
proof -
  from run obtain org' where o': "Bucket_organization_id b w = (Inr org', w)"
    and rows: "files (ctl w') = files (ctl w) @ [f]" "\<not> list_ex (file_clash f) (files (ctl w))"
    and f: "file_bucket f = bkt_id b" "display_filename f = display"
    "objects w' (object_key f) = Some (up_content u)"
    "file_status f = uploaded_status (scanned_clean (env w) (up_content u))"
    "mime_type f = sniff_mime_type (take 4096 (up_content u))"
    and ctl: "ctl w' = audit_events_update (\<lambda>_. audit_events (ctl w')) (files_update (\<lambda>_. files (ctl w')) (ctl w))"
    and same: "env w' = env w" "clock w' = clock w" "s3_calls w' = Suc (s3_calls w)"
    by (rule upload_file_Inr)
  have tables: "buckets (ctl w') = buckets (ctl w)" "projects (ctl w') = projects (ctl w)"
    "workspaces (ctl w') = workspaces (ctl w)" "memberships (ctl w') = memberships (ctl w)"
    "roles (ctl w') = roles (ctl w)" "role_assignments (ctl w') = role_assignments (ctl w)"
    "resource_grants (ctl w') = resource_grants (ctl w)"
    by (subst ctl, simp)+
  have "org' = org" using Bucket_organization_id_Inr [OF o'] org by simp
  then have "File_organization_id f w = (Inr org, w)"
    using bucket o' f(1) by (simp add: File_organization_id_def file_bucket_row_def bind_def get_one_run)
  then have "File_organization_id f w' = (Inr org, w')"
    by (intro File_organization_id_cong [OF tables(1-3)]) simp_all
  then have "reachable_file w' user f org"
    using mems fs rows member by (simp add: reachable_file_def tables unique_rows_append active_member_def)
  moreover have "permitted w' (user_id user) ''storage.read'' (Some org) (Some (RESOURCE_TYPE_BUCKET, file_bucket f))"
    using read permitted_cong [of w' w] tables same f(1) by simp
  ultimately show ?thesis
    using download_run [of w' user f org "up_content u"] f clean up same by (simp add: uploaded_status_def)
qed

section \<open>Restoring\<close>

lemma update_file_row:
  assumes "unique_rows file_clash xs" and "f \<in> set xs"
  obtains ys zs where "xs = ys @ f # zs" and "update_where (\<lambda>r. file_id r = file_id f) g xs = ys @ g f # zs"
proof -
  obtain ys zs where xs: "xs = ys @ f # zs" using assms(2) by (meson split_list)
  have "distinct (map file_id xs)"
    by (rule unique_rows_distinct [OF assms(1)]) (simp add: file_clash_def)
  then have "file_id f \<notin> file_id ` set ys" "file_id f \<notin> file_id ` set zs" by (simp_all add: xs)
  then have ids: "\<forall>r \<in> set ys. file_id r \<noteq> file_id f" "\<forall>r \<in> set zs. file_id r \<noteq> file_id f"
    by (metis imageI)+
  have same: "update_where (\<lambda>r. file_id r = file_id f) g rs = rs"
    if "\<forall>r \<in> set rs. file_id r \<noteq> file_id f" for rs
    unfolding update_where_def by (rule map_idI) (use that in simp)
  show thesis
    by (rule that [OF xs]) (simp add: xs same [OF ids(1)] same [OF ids(2)])
qed

definition name_taken :: "control \<Rightarrow> file_object \<Rightarrow> bool" where
  "name_taken c f \<longleftrightarrow> file_folder f \<noteq> None \<and> (\<exists>g \<in> set (files c). file_id g \<noteq> file_id f
     \<and> file_bucket g = file_bucket f \<and> file_folder g = file_folder f
     \<and> display_filename g = display_filename f \<and> file_status g = FActive)"

lemma set_file_status_run:
  assumes uniq: "unique_rows file_clash (files (ctl w))" and f: "f \<in> set (files (ctl w))"
  shows "set_file_status f FActive w =
     (if name_taken (ctl w) f then (Inl (DbError IntegrityError), w)
      else (Inr (), w\<lparr>ctl := files_update (update_where (\<lambda>r. file_id r = file_id f)
              (\<lambda>r. r\<lparr>file_status := FActive\<rparr>)) (ctl w)\<rparr>))"
proof -
  have same: "r = f" if "r \<in> set (files (ctl w))" "file_id r = file_id f" for r
    using file_table.unique_eq [OF uniq that(1) f] that(2) by (simp add: file_clash_def)
  have keys: "object_key x \<noteq> object_key f" if "x \<in> set (files (ctl w))" "file_id x \<noteq> file_id f" for x
    using file_table.unique_eq [OF uniq that(1) f] that(2) by (auto simp: file_clash_def)
  have "list_ex (\<lambda>r. file_id r = file_id f \<and> list_ex (\<lambda>x. file_id x \<noteq> file_id f
        \<and> file_clash (r\<lparr>file_status := FActive\<rparr>) x) (files (ctl w))) (files (ctl w))
      \<longleftrightarrow> (\<exists>x \<in> set (files (ctl w)). file_id x \<noteq> file_id f \<and> file_clash (f\<lparr>file_status := FActive\<rparr>) x)"
    using same f by (auto simp: list_ex_iff)
  also have "\<dots> \<longleftrightarrow> name_taken (ctl w) f"
    using keys by (auto simp: name_taken_def file_clash_def)
  finally show ?thesis by (simp add: set_file_status_def orm_update_def)
qed

text \<open>Restoring does not ask why a file is unavailable: a member who may delete and read files of
  the bucket can restore a quarantined file, and the very next download answers its content, although
  no scan has ever found it clean.\<close>

theorem restore_releases_quarantine:
  assumes f: "reachable_file w user f org" and quarantined: "file_status f = FQuarantined"
    and free: "\<not> name_taken (ctl w) f"
    and del: "permitted w (user_id user) ''storage.delete'' (Some org) (Some (RESOURCE_TYPE_BUCKET, file_bucket f))"
    and read: "permitted w (user_id user) ''storage.read'' (Some org) (Some (RESOURCE_TYPE_BUCKET, file_bucket f))"
    and content: "objects w (object_key f) = Some content" and up: "\<not> s3_fails (env w) (s3_calls w)"
  shows "\<exists>w' w''. FileDownload_get user (file_id f) w = (Inr (Response 403 (Detail
        ''This file was quarantined by malware scanning and cannot be downloaded.'')), w)
     \<and> FileRestore_post user (file_id f) w = (Inr (Response 200 (FileBody (f\<lparr>file_status := FActive\<rparr>))), w')
     \<and> FileDownload_get user (file_id f) w' = (Inr (Response 200 (FileContent content (mime_type f)
          (safe_content_disposition (display_filename f)))), w'')"
proof -
  have org: "File_organization_id f w = (Inr org, w)" and uniq: "unique_rows file_clash (files (ctl w))"
    and mem: "f \<in> set (files (ctl w))" using f by (simp_all add: reachable_file_def)
  let ?f = "f\<lparr>file_status := FActive\<rparr>"
  let ?w1 = "w\<lparr>ctl := files_update (update_where (\<lambda>r. file_id r = file_id f)
      (\<lambda>r. r\<lparr>file_status := FActive\<rparr>)) (ctl w)\<rparr>"
  have org1: "File_organization_id f ?w1 = (Inr org, ?w1)"
    by (rule File_organization_id_cong [OF _ _ _ org]) simp_all
  obtain w' where w': "FileRestore_post user (file_id f) w = (Inr (Response 200 (FileBody ?f)), w')"
    and e: "\<exists>e. w' = log_event e ?w1"
    using del free
    by (auto simp: FileRestore_post_def bind_def get_member_file_run [OF f] org storage_require_def
        restore_file_def set_file_status_run [OF uniq mem] org1)
  then obtain e where w'_eq: "w' = log_event e ?w1" by blast
  have rows: "files (ctl w') = update_where (\<lambda>r. file_id r = file_id f) (\<lambda>r. r\<lparr>file_status := FActive\<rparr>)
      (files (ctl w))" by (simp add: w'_eq)
  obtain ys zs where split: "files (ctl w) = ys @ f # zs" "files (ctl w') = ys @ ?f # zs"
    unfolding rows by (rule update_file_row [OF uniq mem])
  have "unique_rows file_clash (files (ctl w'))"
  proof -
    have clash: "\<not> file_clash x ?f \<and> \<not> file_clash ?f x"
      if "x \<in> set ys \<or> x \<in> set zs" for x
    proof -
      have "\<not> file_clash x f \<and> file_id x \<noteq> file_id f"
        using uniq that by (auto simp: split(1) unique_rows_def sorted_wrt_append file_clash_def)
      then show ?thesis using that free
        by (auto simp: split(1) name_taken_def file_clash_def)
    qed
    show ?thesis using uniq clash
      by (auto simp: split unique_rows_def sorted_wrt_append)
  qed
  moreover have "?f \<in> set (files (ctl w'))" by (simp add: split(2))
  moreover have "File_organization_id ?f w' = (Inr org, w')"
    by (rule File_organization_id_cong [OF _ _ _ org]) (simp_all add: w'_eq)
  ultimately have "reachable_file w' user ?f org"
    using f by (simp add: reachable_file_def w'_eq active_member_def)
  moreover have "permitted w' (user_id user) ''storage.read'' (Some org) (Some (RESOURCE_TYPE_BUCKET, file_bucket ?f))"
    using read permitted_cong [of w' w] by (simp add: w'_eq)
  ultimately obtain w'' where "FileDownload_get user (file_id ?f) w' =
      (Inr (Response 200 (FileContent content (mime_type ?f) (safe_content_disposition (display_filename ?f)))), w'')"
    using download_run [of w' user ?f org content] content up by (auto simp: w'_eq)
  moreover have "FileDownload_get user (file_id f) w = (Inr (Response 403 (Detail
        ''This file was quarantined by malware scanning and cannot be downloaded.'')), w)"
    using read quarantined
    by (simp add: FileDownload_get_def bind_def get_member_file_run [OF f] org storage_require_def)
  ultimately show ?thesis using w' by auto
qed

section \<open>The disposition header\<close>

text \<open>A file name cannot break out of the header: whatever the name, the disposition is one quoted,
  non-empty file name without a quote or a line break, and a name that needed no cleaning is sent as
  it is.\<close>

theorem disposition_safe:
  "\<exists>name. safe_content_disposition filename = ''attachment; filename='' @ [CHR 0x22] @ name @ [CHR 0x22]
     \<and> name \<noteq> '''' \<and> set name \<inter> {CHR 0x0D, CHR 0x0A, CHR 0x22} = {}
     \<and> (if filename \<noteq> '''' \<and> set filename \<inter> {CHR 0x0D, CHR 0x0A, CHR 0x22} = {}
        then name = filename else True)"
proof -
  have clean: "set filename \<inter> {CHR 0x0D, CHR 0x0A, CHR 0x22} \<noteq> {}"
    if "filter (\<lambda>c. \<not> unsafe_disposition_char c) filename \<noteq> filename"
    using that by (auto simp: filter_id_conv unsafe_disposition_char_def)
  show ?thesis
    by (cases "filter (\<lambda>c. \<not> unsafe_disposition_char c) filename = ''''")
      (use clean in \<open>auto simp: safe_content_disposition_def unsafe_disposition_char_def Let_def\<close>)
qed

section \<open>The head of a file\<close>

lemma utf8_valid_ascii: "utf8_valid (replicate n 0x61 @ bs) = utf8_valid bs"
  by (induction n) simp_all

definition boundary_text :: bytes where
  "boundary_text = replicate 4095 0x61 @ [0xC3, 0xA9]"

lemma take_boundary_text: "take 4096 boundary_text = replicate 4095 0x61 @ [0xC3]"
  by (simp add: boundary_text_def)

text \<open>A text whose 4096th byte is in the middle of a character is not recognized as text: the head
  is cut at a byte, so a valid UTF-8 file of 4095 letters and one accented letter is stored as
  \<open>application/octet-stream\<close>, and the same file with one letter less as \<open>text/plain\<close>.\<close>

theorem sniff_splits_a_character:
  "utf8_valid boundary_text
     \<and> sniff_mime_type (take 4096 boundary_text) = ''application/octet-stream''
     \<and> sniff_mime_type (take 4096 (tl boundary_text)) = ''text/plain''"
proof -
  have head: "sniff_mime_type (replicate (Suc n) 0x61 @ bs)
      = (if utf8_valid bs then ''text/plain'' else ''application/octet-stream'')" for n bs
    by (simp add: sniff_mime_type_def MAGIC_SIGNATURES_def utf8_valid_ascii)
  have tail: "take 4096 (tl boundary_text) = replicate 4094 0x61 @ [0xC3, 0xA9]"
    by (simp add: boundary_text_def)
  show ?thesis
    using head [of 4094 "[0xC3]"] head [of 4093 "[0xC3, 0xA9]"]
    by (simp add: take_boundary_text tail boundary_text_def utf8_valid_ascii continuation_def)
qed

section \<open>Concrete runs\<close>

definition shop_bucket :: bucket where
  "shop_bucket = \<lparr>bkt_id = 9, bkt_project = 21, bkt_name = ''b'', versioning_enabled = False,
     bkt_created_by = 1\<rparr>"

definition hello :: upload where
  "hello = \<lparr>up_name = ''a.txt'', up_content = [72, 105]\<rparr>"

lemma hello_sniffed [simp]: "sniff_mime_type (take 4096 (up_content hello)) = ''text/plain''"
  by (simp add: sniff_mime_type_def MAGIC_SIGNATURES_def hello_def)

lemma hello_simps [simp]: "length (up_content hello) = 2"
  by (simp add: hello_def)

lemma shop_bucket_organization:
  "ctl w = shop\<lparr>files := fs, file_versions := vs\<rparr> \<Longrightarrow> Bucket_organization_id shop_bucket w = (Inr 7, w)"
  by (simp add: Bucket_organization_id_def organization_of_project_def Project_organization_id_def bind_def get_one_run shop_bucket_def)

lemma upload_hello:
  "\<exists>f w'. upload_file shop_bucket None hello ''a'' alice (world_of shop) = (Inr f, w')"
proof -
  have org: "Bucket_organization_id shop_bucket ((world_of shop)\<lparr>rng := n\<rparr>) = (Inr 7, (world_of shop)\<lparr>rng := n\<rparr>)" for n
    by (rule shop_bucket_organization [where fs = "[]" and vs = "[]"]) simp
  show ?thesis
    by (simp add: upload_file_def bind_def hash_and_sniff_run org new_object_key_def s3_put_def
        s3_call_def Let_def orm_create_def)
qed

lemma alice_reads_shop:
  "permitted (world_of shop) 1 ''storage.read'' (Some 7) (Some (RESOURCE_TYPE_BUCKET, 9))"
  "permitted (world_of shop) 1 ''storage.delete'' (Some 7) (Some (RESOURCE_TYPE_BUCKET, 9))"
  by (simp_all add: permitted_def PERMISSIONS_def)

lemma alice_in_shop: "active_member shop 1 7"
  by (simp add: active_member_def membership_of_def)

theorem upload_download_roundtrip_witness:
  "\<exists>f w' w''. upload_file shop_bucket None hello ''a'' alice (world_of shop) = (Inr f, w')
     \<and> FileDownload_get alice (file_id f) w' = (Inr (Response 200 (FileContent [72, 105] ''text/plain''
         (safe_content_disposition ''a''))), w'')"
proof -
  obtain f w' where run: "upload_file shop_bucket None hello ''a'' alice (world_of shop) = (Inr f, w')"
    using upload_hello by blast
  have "\<exists>w''. FileDownload_get alice (file_id f) w' =
      (Inr (Response 200 (FileContent (up_content hello) (sniff_mime_type (take 4096 (up_content hello)))
        (safe_content_disposition ''a''))), w'')"
    by (rule upload_download_roundtrip [OF run, where org = 7])
      (use alice_reads_shop alice_in_shop in \<open>auto simp: scanned_clean_def shop_bucket_def
        bucket_organizations_def unique_rows_def membership_clash_def membership_of_def\<close>)
  with run show ?thesis by (simp add: hello_def sniff_mime_type_def MAGIC_SIGNATURES_def)
qed

definition quarantined_file :: file_object where
  "quarantined_file = \<lparr>file_id = 50, file_bucket = 9, file_folder = None, object_key = ''k'',
     original_filename = ''x'', display_filename = ''x'', mime_type = ''text/plain'', file_size = 2,
     checksum_sha256 = '''', storage_backend = ''s3'', file_status = FQuarantined, file_creator = 1\<rparr>"

definition quarantine_world :: world where
  "quarantine_world = (world_of (shop\<lparr>files := [quarantined_file]\<rparr>))\<lparr>objects := [''k'' \<mapsto> [72, 105]]\<rparr>"

lemma quarantine_world_simps [simp]:
  "ctl quarantine_world = shop\<lparr>files := [quarantined_file]\<rparr>"
  "objects quarantine_world = [''k'' \<mapsto> [72, 105]]" "env quarantine_world = base_env"
  "s3_calls quarantine_world = 0" "rng quarantine_world = 0" "clock quarantine_world = 50"
  by (simp_all add: quarantine_world_def)

lemma quarantined_file_simps [simp]:
  "file_id quarantined_file = 50" "file_bucket quarantined_file = 9" "file_folder quarantined_file = None"
  "object_key quarantined_file = ''k''" "file_status quarantined_file = FQuarantined"
  by (simp_all add: quarantined_file_def)

lemma quarantined_file_organization:
  "File_organization_id quarantined_file quarantine_world = (Inr 7, quarantine_world)"
proof -
  have "Bucket_organization_id shop_bucket quarantine_world = (Inr 7, quarantine_world)"
    by (rule shop_bucket_organization [where fs = "[quarantined_file]" and vs = "[]"]) simp
  then show ?thesis
    by (simp add: File_organization_id_def file_bucket_row_def bind_def get_one_run shop_bucket_def)
qed

theorem restore_releases_quarantine_witness:
  "\<exists>w' w''. FileDownload_get alice 50 quarantine_world = (Inr (Response 403 (Detail
        ''This file was quarantined by malware scanning and cannot be downloaded.'')), quarantine_world)
     \<and> FileRestore_post alice 50 quarantine_world
         = (Inr (Response 200 (FileBody (quarantined_file\<lparr>file_status := FActive\<rparr>))), w')
     \<and> FileDownload_get alice 50 w' = (Inr (Response 200 (FileContent [72, 105] (mime_type quarantined_file)
          (safe_content_disposition (display_filename quarantined_file)))), w'')"
proof -
  have reach: "reachable_file quarantine_world alice quarantined_file 7"
    using quarantined_file_organization
    by (simp add: reachable_file_def unique_rows_def membership_clash_def active_member_def membership_of_def)
  have can: "permitted quarantine_world 1 code (Some 7) (Some (RESOURCE_TYPE_BUCKET, 9))"
    if "code = ''storage.delete'' \<or> code = ''storage.read''" for code
    using that permitted_cong [of quarantine_world "world_of shop"] alice_reads_shop by auto
  show ?thesis
    using restore_releases_quarantine [OF reach, of "[72, 105]"] can by (simp add: name_taken_def)
qed

end
