(* ===== verification/ObjectKeys.thy ===== *)
theory ObjectKeys
  imports Storage
begin

text \<open>
  The references from the database to object storage: every key that a file row or a version row
  names has an object, and no key is named twice. Uploads, new versions and deletions of old objects
  keep this, also when the object storage or the database fails half way.
\<close>

section \<open>Object keys\<close>

definition keys_in_use :: "control \<Rightarrow> string list" where
  "keys_in_use c = map object_key (files c) @ map fv_object_key (file_versions c)"

text \<open>Every key a file or a version names is named once and has an object.\<close>

definition blobs_ok :: "world \<Rightarrow> bool" where
  "blobs_ok w \<longleftrightarrow> distinct (keys_in_use (ctl w)) \<and> (\<forall>k \<in> set (keys_in_use (ctl w)). objects w k \<noteq> None)"

definition drawn_key_unused :: "world \<Rightarrow> bool" where
  "drawn_key_unused w \<longleftrightarrow>
     (\<forall>k \<in> set (keys_in_use (ctl w)). \<not> suffix (uuid_str (uuid_source (env w) (rng w))) k)"

lemma blobs_ok_put:
  assumes "blobs_ok w" and "objects w' = (objects w)(key \<mapsto> content)"
    and "files (ctl w') = files (ctl w)" and "file_versions (ctl w') = file_versions (ctl w)"
  shows "blobs_ok w'"
  using assms by (auto simp: blobs_ok_def keys_in_use_def)

lemma blobs_ok_replace:
  assumes ok: "blobs_ok w" and uniq: "unique_rows file_clash (files (ctl w))"
    and f: "f \<in> set (files (ctl w))" and new: "key \<notin> set (keys_in_use (ctl w))" "object_key (g f) = key"
    and files: "files (ctl w') = update_where (\<lambda>r. file_id r = file_id f) g (files (ctl w))"
    and versions: "file_versions (ctl w') = file_versions (ctl w)"
    and objs: "objects w' key \<noteq> None" "\<And>k. k \<noteq> key \<Longrightarrow> k \<noteq> object_key f \<Longrightarrow> objects w' k = objects w k"
  shows "blobs_ok w'"
proof -
  obtain ys zs where rows: "files (ctl w) = ys @ f # zs" "files (ctl w') = ys @ g f # zs"
    unfolding files by (rule update_file_row [OF uniq f])
  have "distinct (keys_in_use (ctl w'))"
    using ok new by (auto simp: blobs_ok_def keys_in_use_def rows versions)
  moreover have "objects w' k \<noteq> None" if k: "k \<in> set (keys_in_use (ctl w'))" for k
  proof (cases "k = key")
    case False
    with k new(2) have "k \<in> set (keys_in_use (ctl w))" "k \<noteq> object_key f"
      using ok by (auto simp: blobs_ok_def keys_in_use_def rows versions)
    with ok objs(2) [OF False] show ?thesis by (simp add: blobs_ok_def)
  qed (simp add: objs(1))
  ultimately show ?thesis by (simp add: blobs_ok_def)
qed

lemma blobs_ok_version:
  assumes ok: "blobs_ok w" and uniq: "unique_rows file_clash (files (ctl w))"
    and f: "f \<in> set (files (ctl w))" and new: "key \<notin> set (keys_in_use (ctl w))" "object_key (g f) = key"
    and files: "files (ctl w') = update_where (\<lambda>r. file_id r = file_id f) g (files (ctl w))"
    and versions: "file_versions (ctl w') = file_versions (ctl w) @ [v]" "fv_object_key v = object_key f"
    and objs: "objects w' = (objects w)(key \<mapsto> content)"
  shows "blobs_ok w'"
proof -
  obtain ys zs where rows: "files (ctl w) = ys @ f # zs" "files (ctl w') = ys @ g f # zs"
    unfolding files by (rule update_file_row [OF uniq f])
  have "distinct (keys_in_use (ctl w'))"
    using ok new versions(2) by (auto simp: blobs_ok_def keys_in_use_def rows versions(1))
  moreover have "objects w' k \<noteq> None" if k: "k \<in> set (keys_in_use (ctl w'))" for k
  proof (cases "k = key")
    case False
    with k new(2) have "k \<in> set (keys_in_use (ctl w))"
      using versions(2) by (auto simp: keys_in_use_def rows versions(1))
    with ok False show ?thesis by (simp add: blobs_ok_def objs)
  qed (simp add: objs)
  ultimately show ?thesis by (simp add: blobs_ok_def)
qed

lemma updated_row:
  "unique_rows file_clash (files (ctl w)) \<Longrightarrow> f \<in> set (files (ctl w)) \<Longrightarrow>
     g f \<in> set (update_where (\<lambda>r. file_id r = file_id f) g (files (ctl w)))"
  by (erule update_file_row [where g = g]) auto

definition in_versioned_bucket :: "control \<Rightarrow> file_object \<Rightarrow> bool" where
  "in_versioned_bucket c f \<longleftrightarrow> (\<exists>b \<in> set (buckets c). bkt_id b = file_bucket f \<and> versioning_enabled b)"

text \<open>The new row of the file, and the version row for the old content.\<close>

definition version_written :: "world \<Rightarrow> file_object \<Rightarrow> bytes \<Rightarrow> file_object \<Rightarrow> world \<Rightarrow> bool" where
  "version_written w f content f' w' \<longleftrightarrow> blobs_ok w' \<and> f' \<in> set (files (ctl w'))
     \<and> file_id f' = file_id f \<and> objects w' (object_key f') = Some content
     \<and> (if in_versioned_bucket (ctl w) f
        then objects w' (object_key f) = objects w (object_key f)
          \<and> (\<exists>v \<in> set (file_versions (ctl w')). fv_file v = file_id f \<and> fv_object_key v = object_key f)
        else True)"

lemma version_writtenI:
  assumes "blobs_ok w'" and "f' \<in> set (files (ctl w'))" and "file_id f' = file_id f"
    and "objects w' (object_key f') = Some content"
    and "in_versioned_bucket (ctl w) f \<Longrightarrow> objects w' (object_key f) = objects w (object_key f)"
    and "in_versioned_bucket (ctl w) f \<Longrightarrow>
      \<exists>v \<in> set (file_versions (ctl w')). fv_file v = file_id f \<and> fv_object_key v = object_key f"
  shows "version_written w f content f' w'"
  using assms by (simp add: version_written_def)

lemma version_written_log [simp]:
  "version_written w f content f' (log_event e w') = version_written w f content f' w'"
  by (simp add: version_written_def blobs_ok_def keys_in_use_def)

text \<open>C10. A new version never leaves a dangling reference: if every key in use has its object and the
  drawn key is unused, the same holds after \<open>upload_new_version\<close>, whether it returns or fails at any
  step (the upload, the database, the deletion of the old object). When it returns, the file's key
  holds the new content, active only if the scan passed, and in a versioned bucket the old content is
  still there under a version row.\<close>

theorem upload_new_version_keeps_blobs:
  assumes ok: "blobs_ok w" and new: "drawn_key_unused w"
    and uniq: "unique_rows file_clash (files (ctl w))" and f: "f \<in> set (files (ctl w))"
  shows "wp (upload_new_version f u creator)
    (\<lambda>f' w'. version_written w f (up_content u) f' w'
       \<and> file_status f' = uploaded_status (scanned_clean (env w) (up_content u)))
    (\<lambda>e w'. blobs_ok w') w"
proof -
  have used: "object_key f \<in> set (keys_in_use (ctl w))" using f by (simp add: keys_in_use_def)
  have unused: "k @ uuid_str (uuid_source (env w) (rng w)) \<notin> set (keys_in_use (ctl w))" for k
    using new by (auto simp: drawn_key_unused_def suffix_def)
  have other: "object_key f \<noteq> k" if "k \<notin> set (keys_in_use (ctl w))" for k
    using used that by blast
  let ?clean = "scanned_clean (env w) (up_content u)"
  let ?change = "\<lambda>key r. r\<lparr>object_key := key, file_size := length (up_content u),
     checksum_sha256 := sha256 (env w) (up_content u),
     mime_type := sniff_mime_type (take 4096 (up_content u)), file_status := uploaded_status ?clean\<rparr>"
  have bucket: "in_versioned_bucket (ctl w) f \<longleftrightarrow> versioning_enabled b"
    if "filter (\<lambda>b. bkt_id b = file_bucket f) (buckets (ctl w)) = [b]" for b
  proof -
    have "x \<in> set (buckets (ctl w)) \<and> bkt_id x = file_bucket f \<longleftrightarrow> x = b" for x
      using arg_cong [OF that, of set] by auto
    then show ?thesis unfolding in_versioned_bucket_def by metis
  qed
  have same: "blobs_ok w'" if "objects w' = objects w" "ctl w' = ctl w" for w'
    using ok that by (simp add: blobs_ok_def)
  have stored: "blobs_ok w'" if "objects w' = (objects w)(k \<mapsto> up_content u)" "ctl w' = ctl w" for w' k
    by (rule blobs_ok_put [OF ok that(1)]) (simp_all add: that(2))
  have key: "wp (new_object_key org p b i) Q E w"
    if "\<And>K m. K \<notin> set (keys_in_use (ctl w)) \<Longrightarrow> Q K (w\<lparr>rng := m\<rparr>)" for org p b i Q E
    using that [OF unused] unfolding new_object_key_def
    by (simp del: append_assoc append_Cons append_Nil add: append_assoc [symmetric])
  show ?thesis
    unfolding upload_new_version_def wp_bind wp_hash_and_sniff
    apply (simp only: ok if_True if_False wp_bind prod.case wp_scan_for_malware split: if_split)
    apply (intro conjI impI TrueI)
    apply (rule wp_File_organization_id)
    prefer 2 apply (simp only: ok)
    apply (simp only: file_bucket_row_def wp_bind)
    apply (rule wp_get_oneI)
    prefer 2 apply (simp only: ok)
    apply (simp only: wp_bind)
    apply (rule key)
    subgoal for org b K m
    apply (cases "versioning_enabled b")
     apply (simp_all add: wp_s3_put wp_s3_delete wp_orm_create wp_orm_update Let_def ok wp_step)
    subgoal premises prems
      using prems(4) bucket [OF prems(3)] prems(5) other [OF prems(4)]
      apply (simp only: version_written_log)
      apply (intro conjI impI; (rule same stored; simp; fail)?)
      apply (rule version_writtenI)
           apply (rule blobs_ok_version [OF ok uniq f, where g = "?change K" and key = K])
                apply (simp_all add: updated_row [OF uniq f, where g = "?change K"])
      apply simp
      done
    subgoal premises prems
      using prems(4) bucket [OF prems(3)] prems(5) other [OF prems(4)]
      apply (simp only: version_written_log)
      apply (intro conjI impI; (rule same stored; simp; fail)?)
       apply (rule blobs_ok_replace [OF ok uniq f, where g = "?change K" and key = K]; simp)
      apply (rule version_writtenI)
           apply (rule blobs_ok_replace [OF ok uniq f, where g = "?change K" and key = K])
                apply (simp_all add: updated_row [OF uniq f, where g = "?change K"])
      done
    done
    done
qed

lemma length_uuid_str: "length (uuid_str i) = 36"
  by (simp add: uuid_str_def uuid_hex_def Let_def)

theorem upload_new_version_keeps_blobs_witness:
  "wp (upload_new_version quarantined_file hello alice)
    (\<lambda>f' w'. version_written quarantine_world quarantined_file [72, 105] f' w'
       \<and> file_status f' = FActive) (\<lambda>e w'. blobs_ok w') quarantine_world"
proof -
  have "\<not> suffix (uuid_str i) ''k''" for i
    using length_uuid_str [of i] by (auto dest: suffix_length_le)
  then have unused: "drawn_key_unused quarantine_world"
    by (simp add: drawn_key_unused_def keys_in_use_def)
  have ok: "blobs_ok quarantine_world" by (simp add: blobs_ok_def keys_in_use_def)
  have "wp (upload_new_version quarantined_file hello alice)
    (\<lambda>f' w'. version_written quarantine_world quarantined_file (up_content hello) f' w'
       \<and> file_status f' = uploaded_status (scanned_clean (env quarantine_world) (up_content hello)))
    (\<lambda>e w'. blobs_ok w') quarantine_world"
    by (rule upload_new_version_keeps_blobs [OF ok unused]) (simp_all add: unique_rows_def)
  then show ?thesis by (simp add: uploaded_status_def scanned_clean_def hello_def)
qed

end
