(* ===== verification/Python.thy ===== *)
theory Python
  imports Models
begin

text \<open>
  The parts of Python's standard library the backend computes with: \<open>str\<close> methods, \<open>int\<close>,
  \<open>uuid.UUID\<close>, \<open>Decimal\<close> and \<open>strptime\<close> as parsers of text, base 32, percent encoding. Text is a
  list of 8-bit characters, so the model's text is the Latin-1 part of Unicode; its UTF-8 encoding
  is \<open>encode\<close>. \<open>uuid_parse_hex\<close> is the round trip the credential tokens rest on.
\<close>

section \<open>Strings\<close>

definition encode_char :: "char \<Rightarrow> bytes" where
  "encode_char c = (let n = of_char c :: nat in
     if n < 128 then [word_of_nat n] else [word_of_nat (0xC0 + n div 64), word_of_nat (0x80 + n mod 64)])"

definition encode :: "string \<Rightarrow> bytes" where
  "encode s = concat (map encode_char s)"

definition is_space :: "char \<Rightarrow> bool" where
  "is_space c \<longleftrightarrow> (let n = of_char c :: nat in
     (9 \<le> n \<and> n \<le> 13) \<or> (28 \<le> n \<and> n \<le> 32) \<or> n = 0x85 \<or> n = 0xA0)"

definition strip_chars :: "(char \<Rightarrow> bool) \<Rightarrow> string \<Rightarrow> string" where
  "strip_chars P s = rev (dropWhile P (rev (dropWhile P s)))"

abbreviation strip :: "string \<Rightarrow> string" where
  "strip \<equiv> strip_chars is_space"

definition lower_char :: "char \<Rightarrow> char" where
  "lower_char c = (let n = of_char c :: nat in
     if (65 \<le> n \<and> n \<le> 90) \<or> (0xC0 \<le> n \<and> n \<le> 0xDE \<and> n \<noteq> 0xD7) then char_of (n + 32) else c)"

definition lower :: "string \<Rightarrow> string" where
  "lower s = map lower_char s"

definition is_decimal_digit :: "char \<Rightarrow> bool" where
  "is_decimal_digit c \<longleftrightarrow> c \<in> set ''0123456789''"

text \<open>\<open>str.isdigit\<close> also takes the superscript digits.\<close>

definition isdigit :: "string \<Rightarrow> bool" where
  "isdigit s \<longleftrightarrow> s \<noteq> [] \<and> list_all (\<lambda>c. is_decimal_digit c \<or> c \<in> {CHR 0xB2, CHR 0xB3, CHR 0xB9}) s"

definition isascii :: "string \<Rightarrow> bool" where
  "isascii s \<longleftrightarrow> list_all (\<lambda>c. (of_char c :: nat) < 128) s"

text \<open>\<open>s.partition(c)\<close>, without the separator, and \<open>s.replace(sub, "")\<close>.\<close>

definition partition_at :: "char \<Rightarrow> string \<Rightarrow> string \<times> string" where
  "partition_at c s = (takeWhile (\<lambda>x. x \<noteq> c) s, drop 1 (dropWhile (\<lambda>x. x \<noteq> c) s))"

function remove_all :: "string \<Rightarrow> string \<Rightarrow> string" where
  "remove_all sub [] = []"
| "remove_all sub (c # cs) =
    (if sub \<noteq> [] \<and> prefix sub (c # cs) then remove_all sub (drop (length sub - 1) cs)
     else c # remove_all sub cs)"
  by pat_completeness auto

termination
  by (relation "measure (length \<circ> snd)") auto

definition zfill :: "nat \<Rightarrow> string \<Rightarrow> string" where
  "zfill n s = replicate (n - length s) CHR ''0'' @ s"

lemma dropWhile_none: "list_all (\<lambda>c. \<not> P c) s \<Longrightarrow> dropWhile P s = s"
  by (cases s) simp_all

lemma strip_chars_id: "list_all (\<lambda>c. \<not> P c) s \<Longrightarrow> strip_chars P s = s"
  by (simp add: strip_chars_def dropWhile_none)

lemma partition_at_append: "c \<notin> set s \<Longrightarrow> partition_at c (s @ c # t) = (s, t)"
  by (induction s) (auto simp: partition_at_def)

lemma remove_all_id: "sub \<noteq> [] \<Longrightarrow> hd sub \<notin> set s \<Longrightarrow> remove_all sub s = s"
proof (induction s)
  case (Cons c s)
  then have "\<not> prefix sub (c # s)" by (cases sub) auto
  with Cons show ?case by simp
qed simp

lemma encode_append [simp]: "encode (s @ t) = encode s @ encode t"
  by (simp add: encode_def)

section \<open>Numbers\<close>

definition digit_value :: "char \<Rightarrow> nat option" where
  "digit_value c = (if is_decimal_digit c then Some (of_char c - 48) else None)"

definition hex_value :: "char \<Rightarrow> nat option" where
  "hex_value c = (let n = of_char c :: nat in
     if 48 \<le> n \<and> n \<le> 57 then Some (n - 48)
     else if 97 \<le> n \<and> n \<le> 102 then Some (n - 87)
     else if 65 \<le> n \<and> n \<le> 70 then Some (n - 55) else None)"

text \<open>Digits, with single underscores allowed between them.\<close>

fun digits :: "(char \<Rightarrow> nat option) \<Rightarrow> string \<Rightarrow> nat list option" where
  "digits f [] = None"
| "digits f [c] = map_option (\<lambda>d. [d]) (f c)"
| "digits f (c # d # cs) = (case f c of None \<Rightarrow> None
     | Some x \<Rightarrow> map_option ((#) x) (digits f (if d = CHR ''_'' then cs else d # cs)))"

definition of_digits :: "nat \<Rightarrow> nat list \<Rightarrow> nat" where
  "of_digits base ds = foldl (\<lambda>n d. base * n + d) 0 ds"

definition split_sign :: "string \<Rightarrow> bool \<times> string" where
  "split_sign s = (case s of [] \<Rightarrow> (False, [])
     | c # cs \<Rightarrow> if c = CHR ''-'' then (True, cs) else if c = CHR ''+'' then (False, cs) else (False, s))"

definition signed_int :: "bool \<Rightarrow> nat \<Rightarrow> int" where
  "signed_int neg n = (if neg then - int n else int n)"

text \<open>\<open>int(s)\<close> and \<open>int(s, 16)\<close>.\<close>

definition int_of_str :: "string \<Rightarrow> int option" where
  "int_of_str s = (let (neg, t) = split_sign (strip s) in
     map_option (\<lambda>ds. signed_int neg (of_digits 10 ds)) (digits digit_value t))"

definition int_of_hex :: "string \<Rightarrow> int option" where
  "int_of_hex s = (let (neg, t) = split_sign (strip s);
       t = (if prefix ''0x'' t \<or> prefix ''0X'' t
            then (if prefix ''_'' (drop 2 t) then drop 3 t else drop 2 t) else t) in
     map_option (\<lambda>ds. signed_int neg (of_digits 16 ds)) (digits hex_value t))"

fun str_of_nat :: "nat \<Rightarrow> string" where
  "str_of_nat n = (if n < 10 then [char_of (48 + n)] else str_of_nat (n div 10) @ [char_of (48 + n mod 10)])"

declare str_of_nat.simps [simp del]

definition str_of_int :: "int \<Rightarrow> string" where
  "str_of_int i = (if i < 0 then CHR ''-'' # str_of_nat (nat (- i)) else str_of_nat (nat i))"

lemma str_of_nat_digits: "set (str_of_nat n) \<subseteq> set ''0123456789''"
proof (induction n rule: str_of_nat.induct)
  case (1 n)
  have digit: "char_of (48 + k) \<in> set ''0123456789''" if "k < 10" for k :: nat
  proof -
    have "list_all (\<lambda>k. char_of (48 + k :: nat) \<in> set ''0123456789'') [0..<10]" by code_simp
    with that show ?thesis by (simp add: list_all_iff)
  qed
  show ?case
    using 1 digit [of n] digit [of "n mod 10"] by (subst str_of_nat.simps) auto
qed

lemma str_of_nat_length: "n < 10 ^ Suc k \<Longrightarrow> length (str_of_nat n) \<le> Suc k"
proof (induction k arbitrary: n)
  case 0 then show ?case by (subst str_of_nat.simps) simp
next
  case (Suc k)
  have "length (str_of_nat (n div 10)) \<le> Suc k"
    by (rule Suc.IH) (use Suc.prems in \<open>simp add: less_mult_imp_div_less\<close>)
  then show ?case by (subst str_of_nat.simps) simp
qed

section \<open>UUIDs\<close>

text \<open>\<open>uuid.UUID(s)\<close>; \<open>None\<close> for the \<open>ValueError\<close>.\<close>

definition uuid_parse :: "string \<Rightarrow> uuid option" where
  "uuid_parse s =
     (let h = remove_all ''-'' (strip_chars (\<lambda>c. c \<in> {CHR ''{'', CHR ''}''})
            (remove_all ''uuid:'' (remove_all ''urn:'' s)))
      in if length h \<noteq> 32 then None
         else case int_of_hex h of None \<Rightarrow> None
         | Some n \<Rightarrow> if 0 \<le> n \<and> n < 2 ^ 128 then Some (word_of_int n) else None)"

lemma hex_digit_cases:
  "hex_digit n \<in> set hexdigits"
  unfolding hex_digit_def by (rule nth_mem) (simp add: hexdigits_def)

lemma hex_value_digit: "n < 16 \<Longrightarrow> hex_value (hex_digit n) = Some n"
proof -
  assume "n < 16"
  moreover have "list_all (\<lambda>n. hex_value (hex_digit n) = Some n) [0..<16]" by code_simp
  ultimately show ?thesis by (simp add: list_all_iff)
qed

lemma set_uuid_hex: "set (uuid_hex u) \<subseteq> set hexdigits"
  using hex_digit_cases by (auto simp: uuid_hex_def)

lemma length_uuid_hex [simp]: "length (uuid_hex u) = 32"
  by (simp add: uuid_hex_def)

lemma uuid_hex_lacks: "c \<notin> set hexdigits \<Longrightarrow> c \<notin> set (uuid_hex u)"
  using set_uuid_hex by blast

lemma digits_hex: "ns \<noteq> [] \<Longrightarrow> list_all (\<lambda>n. n < 16) ns \<Longrightarrow>
    digits hex_value (map hex_digit ns) = Some ns"
proof (induction ns rule: induct_list012)
  case (3 m n ns)
  have "hex_digit n \<noteq> CHR ''_''" using hex_digit_cases [of n] by (auto simp: hexdigits_def)
  with 3 show ?case by (simp add: hex_value_digit)
qed (simp_all add: hex_value_digit)

lemma of_digits_nibbles:
  "foldl (\<lambda>n d. 16 * n + d) a (map (\<lambda>i. unat (drop_bit (4 * i) u) mod 16) (rev [0..<k]))
     = a * 16 ^ k + unat (u :: uuid) mod 16 ^ k"
proof (induction k arbitrary: a)
  case (Suc k)
  have "unat (drop_bit (4 * k) u) = unat u div 16 ^ k"
    using unat_drop_bit_eq [of "4 * k" u] drop_bit_eq_div [of "4 * k" "unat u"] power_mult [of "2 :: nat" 4 k] by simp
  moreover have "unat u mod 16 ^ Suc k = 16 ^ k * (unat u div 16 ^ k mod 16) + unat u mod 16 ^ k"
    using mod_mult2_eq [of "unat u" "16 ^ k" 16] by (simp add: mult.commute)
  ultimately show ?case by (simp add: Suc.IH) (simp add: algebra_simps)
qed simp

lemma digits_uuid_hex: "\<exists>ns. digits hex_value (uuid_hex u) = Some ns \<and> of_digits 16 ns = unat u"
proof -
  let ?ns = "map (\<lambda>i. unat (drop_bit (4 * i) u) mod 16) (rev [0..<32])"
  have hex: "uuid_hex u = map hex_digit ?ns" by (simp add: uuid_hex_def del: upt_Suc)
  have "digits hex_value (uuid_hex u) = Some ?ns"
    unfolding hex by (rule digits_hex) (simp_all add: list_all_iff)
  moreover have "of_digits 16 ?ns = unat u"
  proof -
    have "of_digits 16 ?ns = unat u mod 16 ^ 32"
      unfolding of_digits_def of_digits_nibbles [of 0] by simp
    also have "\<dots> = unat u" using unsigned_less [of u, where 'a = nat] by (simp del: unsigned_less)
    finally show ?thesis .
  qed
  ultimately show ?thesis by blast
qed

lemma int_of_hex_uuid: "int_of_hex (uuid_hex u) = Some (int (unat u))"
proof -
  obtain ns where ns: "digits hex_value (uuid_hex u) = Some ns" "of_digits 16 ns = unat u"
    using digits_uuid_hex by blast
  have lacks: "c \<notin> set (uuid_hex u)" if "c \<in> {CHR ''x'', CHR ''X'', CHR ''-'', CHR ''+'', CHR '' ''}" for c
    using that by (intro uuid_hex_lacks) (auto simp: hexdigits_def)
  have space: "list_all (\<lambda>c. \<not> is_space c) (uuid_hex u)"
    using set_uuid_hex [of u] by (auto simp: list_all_iff hexdigits_def is_space_def)
  have "split_sign (uuid_hex u) = (False, uuid_hex u)"
    using lacks [of "CHR ''-''"] lacks [of "CHR ''+''"] by (auto simp: split_sign_def split: list.splits)
  moreover have "\<not> prefix ''0x'' (uuid_hex u)" "\<not> prefix ''0X'' (uuid_hex u)"
    using lacks [of "CHR ''x''"] lacks [of "CHR ''X''"] set_mono_prefix by fastforce+
  ultimately show ?thesis
    by (simp add: int_of_hex_def strip_chars_id [OF space] ns signed_int_def)
qed

lemma uuid_parse_hex [simp]: "uuid_parse (uuid_hex u) = Some u"
proof -
  have lacks: "c \<notin> set (uuid_hex u)" if "c \<in> {CHR ''u'', CHR ''-'', CHR ''{'', CHR ''}''}" for c
    using that by (intro uuid_hex_lacks) (auto simp: hexdigits_def)
  have braces: "list_all (\<lambda>c. \<not> c \<in> {CHR ''{'', CHR ''}''}) (uuid_hex u)"
    using lacks by (auto simp: list_all_iff)
  have "uint u < 2 ^ 128" using uint_lt2p [of u] by simp
  then show ?thesis
    using lacks [of "CHR ''u''"] lacks [of "CHR ''-''"]
    by (simp add: uuid_parse_def remove_all_id strip_chars_id [OF braces, simplified] int_of_hex_uuid)
qed

text \<open>The canonical text, with its dashes, names the same UUID.\<close>

lemma remove_all_single: "remove_all [c] s = filter (\<lambda>x. x \<noteq> c) s"
  by (induction s) (auto simp: remove_all.simps)

lemma uuid_parse_str [simp]: "uuid_parse (uuid_str u) = Some u"
proof -
  let ?h = "uuid_hex u"
  have set: "set (uuid_str u) \<subseteq> set hexdigits \<union> {CHR ''-''}"
    using set_uuid_hex [of u] by (auto simp: uuid_str_def Let_def dest!: in_set_takeD in_set_dropD)
  have "remove_all ''urn:'' (uuid_str u) = uuid_str u" "remove_all ''uuid:'' (uuid_str u) = uuid_str u"
    using set by (auto intro!: remove_all_id simp: hexdigits_def)
  moreover have "strip_chars (\<lambda>c. c \<in> {CHR ''{'', CHR ''}''}) (uuid_str u) = uuid_str u"
    using set by (auto intro!: strip_chars_id simp: hexdigits_def list_all_iff)
  moreover have "remove_all ''-'' (uuid_str u) = ?h"
  proof -
    have part: "filter (\<lambda>x. x \<noteq> CHR ''-'') p = p" if "set p \<subseteq> set ?h" for p
      using that uuid_hex_lacks [of "CHR ''-''" u] by (auto simp: filter_id_conv hexdigits_def)
    have "?h = take 8 ?h @ take 4 (drop 8 ?h) @ take 4 (drop 12 ?h) @ take 4 (drop 16 ?h) @ drop 20 ?h"
      by (simp add: take_add [symmetric] drop_drop [symmetric] flip: append_assoc)
    then show ?thesis
      using part [of "take 8 ?h"] part [of "take 4 (drop 8 ?h)"] part [of "take 4 (drop 12 ?h)"]
        part [of "take 4 (drop 16 ?h)"] part [of "drop 20 ?h"]
      by (simp add: remove_all_single uuid_str_def Let_def set_take_subset set_drop_subset
          subset_trans [OF set_take_subset set_drop_subset])
  qed
  moreover have "uint u < 2 ^ 128" using uint_lt2p [of u] by simp
  ultimately show ?thesis by (simp add: uuid_parse_def int_of_hex_uuid)
qed

section \<open>Decimals, dates\<close>

text \<open>The texts \<open>Decimal(s)\<close> accepts: surrounding space and underscores ignored, a sign, then digits
  with an optional fraction and exponent, or an infinity or a NaN. The limits of the C library on
  the exponent are left out.\<close>

definition all_digits :: "string \<Rightarrow> bool" where
  "all_digits s \<longleftrightarrow> list_all is_decimal_digit s"

definition exponent_ok :: "string \<Rightarrow> bool" where
  "exponent_ok s = (case s of [] \<Rightarrow> True
     | c # r \<Rightarrow> c = CHR ''e'' \<and> (let t = snd (split_sign r) in t \<noteq> [] \<and> all_digits t))"

definition number_ok :: "string \<Rightarrow> bool" where
  "number_ok s = (let ip = takeWhile is_decimal_digit s; r = dropWhile is_decimal_digit s in
     (case r of [] \<Rightarrow> ip \<noteq> []
      | c # r2 \<Rightarrow>
          if c = CHR ''.'' then
            (let fp = takeWhile is_decimal_digit r2 in
               (ip \<noteq> [] \<or> fp \<noteq> []) \<and> exponent_ok (dropWhile is_decimal_digit r2))
          else ip \<noteq> [] \<and> exponent_ok r))"

definition decimal_ok :: "string \<Rightarrow> bool" where
  "decimal_ok s = (let t = lower (filter (\<lambda>c. c \<noteq> CHR ''_'') (strip s)); b = snd (split_sign t) in
     b = ''inf'' \<or> b = ''infinity''
     \<or> (prefix ''nan'' b \<and> all_digits (drop 3 b)) \<or> (prefix ''snan'' b \<and> all_digits (drop 4 b))
     \<or> number_ok b)"

text \<open>A field of \<open>datetime.strptime\<close>: at most \<open>n\<close> digits in a range, and what follows them.\<close>

definition digit_field :: "nat \<Rightarrow> nat \<Rightarrow> nat \<Rightarrow> string \<Rightarrow> (int \<times> string) option" where
  "digit_field n lo hi s = (let ds = takeWhile is_decimal_digit s;
       v = of_digits 10 (map (\<lambda>c. of_char c - 48) ds) in
     if ds \<noteq> [] \<and> length ds \<le> n \<and> lo \<le> v \<and> v \<le> hi then Some (int v, dropWhile is_decimal_digit s)
     else None)"

definition year_field :: "string \<Rightarrow> (int \<times> string) option" where
  "year_field s = (if length s \<ge> 4 \<and> all_digits (take 4 s) \<and> take 4 s \<noteq> ''0000''
     then Some (int (of_digits 10 (map (\<lambda>c. of_char c - 48) (take 4 s))), drop 4 s) else None)"

definition skip_char :: "char set \<Rightarrow> string \<Rightarrow> string option" where
  "skip_char cs s = (case s of [] \<Rightarrow> None | c # r \<Rightarrow> if c \<in> cs then Some r else None)"

definition day_field :: "string \<Rightarrow> (int \<times> string) option" where
  "day_field s = (case s of [] \<Rightarrow> None
     | c # r \<Rightarrow> if c = CHR '' '' then digit_field 1 1 9 r else digit_field 2 1 31 s)"

definition leap_year :: "int \<Rightarrow> bool" where
  "leap_year y \<longleftrightarrow> y mod 4 = 0 \<and> (y mod 100 \<noteq> 0 \<or> y mod 400 = 0)"

definition days_in_month :: "int \<Rightarrow> int \<Rightarrow> int" where
  "days_in_month y m = (if m = 2 then (if leap_year y then 29 else 28)
     else if m \<in> {4, 6, 9, 11} then 30 else 31)"

text \<open>\<open>%Y-%m-%d\<close>, and the rest of the text.\<close>

definition date_fields :: "string \<Rightarrow> ((int \<times> int \<times> int) \<times> string) option" where
  "date_fields s =
     Option.bind (year_field s) (\<lambda>(y, r1).
     Option.bind (skip_char {CHR ''-''} r1) (\<lambda>r2.
     Option.bind (digit_field 2 1 12 r2) (\<lambda>(m, r3).
     Option.bind (skip_char {CHR ''-''} r3) (\<lambda>r4.
     Option.bind (day_field r4) (\<lambda>(d, r5).
     if d \<le> days_in_month y m then Some ((y, m, d), r5) else None)))))"

definition strptime_date :: "string \<Rightarrow> (int \<times> int \<times> int) option" where
  "strptime_date s = (case date_fields s of Some (ymd, []) \<Rightarrow> Some ymd | _ \<Rightarrow> None)"

text \<open>The separators of the two date and time formats: a letter T, in either case, and white space.\<close>

definition skip_T :: "string \<Rightarrow> string option" where
  "skip_T s = skip_char {CHR ''T'', CHR ''t''} s"

definition skip_space :: "string \<Rightarrow> string option" where
  "skip_space s = (if s \<noteq> [] \<and> is_space (hd s) then Some (dropWhile is_space s) else None)"

definition time_fields :: "string \<Rightarrow> (int \<times> int \<times> int) option" where
  "time_fields s =
     Option.bind (digit_field 2 0 23 s) (\<lambda>(h, r1).
     Option.bind (skip_char {CHR '':''} r1) (\<lambda>r2.
     Option.bind (digit_field 2 0 59 r2) (\<lambda>(m, r3).
     Option.bind (skip_char {CHR '':''} r3) (\<lambda>r4.
     Option.bind (digit_field 2 0 59 r4) (\<lambda>(x, r5).
     if r5 = [] then Some (h, m, x) else None)))))"

definition strptime_datetime ::
  "(string \<Rightarrow> string option) \<Rightarrow> string \<Rightarrow> (int \<times> int \<times> int \<times> int \<times> int \<times> int) option" where
  "strptime_datetime sep s =
     Option.bind (date_fields s) (\<lambda>((y, m, d), r).
     Option.bind (sep r) (\<lambda>t.
     Option.bind (time_fields t) (\<lambda>(h, n, x). Some (y, m, d, h, n, x))))"

section \<open>JSON as text\<close>

text \<open>\<open>json.dumps\<close> with its defaults: ASCII only, a comma or a colon followed by a space.\<close>

definition hex_lower :: "nat \<Rightarrow> char" where
  "hex_lower n = hex_digit n"

definition json_char :: "char \<Rightarrow> string" where
  "json_char c = (let n = of_char c :: nat in
     if c = CHR 0x22 then [CHR 0x5C, CHR 0x22] else if c = CHR 0x5C then [CHR 0x5C, CHR 0x5C]
     else if n = 10 then CHR 0x5C # ''n'' else if n = 13 then CHR 0x5C # ''r''
     else if n = 9 then CHR 0x5C # ''t'' else if n = 12 then CHR 0x5C # ''f''
     else if n = 8 then CHR 0x5C # ''b''
     else if n < 32 \<or> 127 < n then CHR 0x5C # ''u00'' @ [hex_lower (n div 16), hex_lower n]
     else [c])"

definition json_string :: "string \<Rightarrow> string" where
  "json_string s = CHR 0x22 # concat (map json_char s) @ [CHR 0x22]"

definition join_with :: "string \<Rightarrow> string list \<Rightarrow> string" where
  "join_with sep xs = (case xs of [] \<Rightarrow> [] | y # ys \<Rightarrow> y @ concat (map (\<lambda>z. sep @ z) ys))"

fun json_dumps :: "json \<Rightarrow> string" where
  "json_dumps JNull = ''null''"
| "json_dumps (JBool b) = (if b then ''true'' else ''false'')"
| "json_dumps (JInt i) = str_of_int i"
| "json_dumps (JFloat r) = r"
| "json_dumps (JStr s) = json_string s"
| "json_dumps (JList vs) = ''['' @ join_with '', '' (map json_dumps vs) @ '']''"
| "json_dumps (JObj kvs) = ''{'' @ join_with '', '' (map (\<lambda>kv. json_string (fst kv) @ '': '' @ json_dumps (snd kv)) kvs) @ ''}''"

text \<open>\<open>str(v)\<close> of a parsed JSON value that is not a list or an object.\<close>

definition py_str :: "json \<Rightarrow> string option" where
  "py_str v = (case v of JNull \<Rightarrow> Some ''None'' | JBool b \<Rightarrow> Some (if b then ''True'' else ''False'')
     | JInt i \<Rightarrow> Some (str_of_int i) | JFloat r \<Rightarrow> Some r | JStr s \<Rightarrow> Some s | JList vs \<Rightarrow> None | JObj kvs \<Rightarrow> None)"

end
