(* ===== verification/Totp.thy ===== *)
theory Totp
  imports Python Fixtures
begin

unbundle bit_operations_syntax

text \<open>
  One-time passwords (\<open>accounts/totp.py\<close>): RFC 6238 over base 32, HMAC-SHA1 and \<open>struct\<close>. The
  HMAC is a parameter of the environment, documented to return 20 bytes. Time is in whole seconds.
\<close>

section \<open>Base 32\<close>

definition bits8 :: "byte \<Rightarrow> bool list" where
  "bits8 b = map (bit b) (rev [0..<8])"

definition nat_of_bits :: "bool list \<Rightarrow> nat" where
  "nat_of_bits bs = foldl (\<lambda>n b. 2 * n + (if b then 1 else 0)) 0 bs"

function groups :: "nat \<Rightarrow> 'a list \<Rightarrow> 'a list list" where
  "groups n xs = (if n = 0 \<or> length xs < n then [] else take n xs # groups n (drop n xs))"
  by pat_completeness auto

termination
  by (relation "measure (length \<circ> snd)") auto

declare groups.simps [simp del]

definition base32_alphabet :: string where
  "base32_alphabet = ''ABCDEFGHIJKLMNOPQRSTUVWXYZ234567''"

text \<open>\<open>base64.b32encode\<close> without its padding (\<open>rstrip("=")\<close>), and \<open>base64.b32decode\<close>.\<close>

definition b32encode_unpadded :: "bytes \<Rightarrow> string" where
  "b32encode_unpadded bs =
     (let bits = concat (map bits8 bs);
          bits = bits @ replicate ((5 - length bits mod 5) mod 5) False
      in map (\<lambda>g. base32_alphabet ! nat_of_bits g) (groups 5 bits))"

definition base32_value :: "char \<Rightarrow> nat option" where
  "base32_value c = (let n = of_char c :: nat in
     if 65 \<le> n \<and> n \<le> 90 then Some (n - 65)
     else if 50 \<le> n \<and> n \<le> 55 then Some (n - 24) else None)"

fun decode_base32_chars :: "string \<Rightarrow> bool list option" where
  "decode_base32_chars [] = Some []"
| "decode_base32_chars (c # cs) = (case (base32_value c, decode_base32_chars cs) of
     (Some v, Some bits) \<Rightarrow> Some (map (bit v) (rev [0..<5]) @ bits) | _ \<Rightarrow> None)"

definition b32decode :: "string \<Rightarrow> exn + bytes" where
  "b32decode s =
    (if \<not> isascii s then Inl ValueError
     else if length s mod 8 \<noteq> 0 then Inl BinasciiError
     else let body = rev (dropWhile (\<lambda>c. c = CHR ''='') (rev s)); padchars = length s - length body in
       case decode_base32_chars body of None \<Rightarrow> Inl BinasciiError
       | Some bits \<Rightarrow>
           if padchars \<notin> {0, 1, 3, 4, 6} then Inl BinasciiError
           else Inr (map (\<lambda>g. word_of_nat (nat_of_bits g)) (groups 8 bits)))"

section \<open>The code of a counter\<close>

definition totp_DIGITS :: nat where "totp_DIGITS = 6"
definition PERIOD_SECONDS :: int where "PERIOD_SECONDS = 30"
definition VERIFY_WINDOW :: int where "VERIFY_WINDOW = 1"

text \<open>\<open>struct.pack(">Q", counter)\<close> and \<open>struct.unpack(">I", data)\<close>.\<close>

definition pack_Q :: "int \<Rightarrow> exn + bytes" where
  "pack_Q counter = (if counter < 0 \<or> 2 ^ 64 \<le> counter then Inl StructError
     else Inr (map (\<lambda>i. word_of_int (counter div 256 ^ i)) (rev [0..<8])))"

definition unpack_I :: "bytes \<Rightarrow> exn + 32 word" where
  "unpack_I data = (case data of
     [a, b, c, d] \<Rightarrow> Inr (push_bit 24 (ucast a) OR push_bit 16 (ucast b) OR push_bit 8 (ucast c) OR ucast d)
   | _ \<Rightarrow> Inl StructError)"

definition hotp :: "env \<Rightarrow> string \<Rightarrow> int \<Rightarrow> exn + string" where
  "hotp ev secret counter =
    (case b32decode (secret @ replicate ((8 - length secret mod 8) mod 8) CHR ''='') of
       Inl e \<Rightarrow> Inl e
     | Inr key \<Rightarrow> (case pack_Q counter of
         Inl e \<Rightarrow> Inl e
       | Inr msg \<Rightarrow>
           let digest = hmac_sha1 ev key msg in
           if digest = [] then Inl IndexError
           else let offset = unat (last digest AND 0x0F) in
             (case unpack_I (take 4 (drop offset digest)) of
                Inl e \<Rightarrow> Inl e
              | Inr n \<Rightarrow> Inr (zfill totp_DIGITS
                  (str_of_nat (unat (n AND 0x7FFFFFFF) mod 10 ^ totp_DIGITS))))))"

definition generate_totp :: "env \<Rightarrow> string \<Rightarrow> timestamp \<Rightarrow> exn + string" where
  "generate_totp ev secret time = hotp ev secret (time div PERIOD_SECONDS)"

text \<open>\<open>hmac.compare_digest\<close> on strings accepts ASCII only.\<close>

definition compare_digest :: "string \<Rightarrow> string \<Rightarrow> exn + bool" where
  "compare_digest a b = (if isascii a \<and> isascii b then Inr (a = b) else Inl TypeError)"

fun any_match :: "env \<Rightarrow> string \<Rightarrow> string \<Rightarrow> int \<Rightarrow> int list \<Rightarrow> exn + bool" where
  "any_match ev secret code counter [] = Inr False"
| "any_match ev secret code counter (offset # offsets) =
    (case hotp ev secret (counter + offset) of
       Inl e \<Rightarrow> Inl e
     | Inr expected \<Rightarrow> (case compare_digest expected code of
         Inl e \<Rightarrow> Inl e
       | Inr b \<Rightarrow> if b then Inr True else any_match ev secret code counter offsets))"

definition verify_totp :: "env \<Rightarrow> string \<Rightarrow> string \<Rightarrow> timestamp \<Rightarrow> exn + bool" where
  "verify_totp ev secret code time =
    (if code = [] \<or> \<not> isdigit code \<or> length code \<noteq> totp_DIGITS then Inr False
     else any_match ev secret code (time div PERIOD_SECONDS) [- VERIFY_WINDOW..VERIFY_WINDOW])"

definition generate_secret :: "string app" where
  "generate_secret = (\<lambda>w. (Inr (b32encode_unpadded (token_bytes (env w) (rng w) 20)), w\<lparr>rng := Suc (rng w)\<rparr>))"

section \<open>The provisioning URI\<close>

text \<open>\<open>urllib.parse.quote\<close> (which leaves \<open>/\<close> alone) and \<open>quote_plus\<close>.\<close>

definition hex_upper :: "nat \<Rightarrow> char" where
  "hex_upper n = ''0123456789ABCDEF'' ! (n mod 16)"

definition url_unreserved :: "char \<Rightarrow> bool" where
  "url_unreserved c \<longleftrightarrow> (let n = of_char c :: nat in
     (48 \<le> n \<and> n \<le> 57) \<or> (65 \<le> n \<and> n \<le> 90) \<or> (97 \<le> n \<and> n \<le> 122)) \<or> c \<in> set ''_.-~''"

definition quote_byte :: "byte \<Rightarrow> string" where
  "quote_byte b = CHR ''%'' # [hex_upper (unat b div 16), hex_upper (unat b)]"

definition url_quote :: "string \<Rightarrow> string" where
  "url_quote s = concat (map (\<lambda>c. if url_unreserved c \<or> c = CHR ''/'' then [c]
     else concat (map quote_byte (encode_char c))) s)"

definition quote_plus :: "string \<Rightarrow> string" where
  "quote_plus s = concat (map (\<lambda>c. if c = CHR '' '' then ''+'' else if url_unreserved c then [c]
     else concat (map quote_byte (encode_char c))) s)"

definition issuer :: string where "issuer = ''Private Data Cloud''"

definition provisioning_uri :: "string \<Rightarrow> string \<Rightarrow> string" where
  "provisioning_uri secret account_name =
     ''otpauth://totp/'' @ url_quote (issuer @ '':'' @ account_name)
       @ ''?secret='' @ quote_plus secret @ ''&issuer='' @ quote_plus issuer @ ''&algorithm=SHA1&digits=''
       @ str_of_nat totp_DIGITS @ ''&period='' @ str_of_int PERIOD_SECONDS"

section \<open>Base 32 gives back what it encodes\<close>

lemma groups_concat: "0 < n \<Longrightarrow> list_all (\<lambda>g. length g = n) gs \<Longrightarrow> groups n (concat gs) = gs"
proof (induction gs)
  case Nil then show ?case by (simp add: groups.simps)
next
  case (Cons g gs) then show ?case by (subst groups.simps) auto
qed

lemma concat_groups: "0 < n \<Longrightarrow> n dvd length xs \<Longrightarrow> concat (groups n xs) = xs"
proof (induction n xs rule: groups.induct)
  case (1 n xs)
  show ?case
  proof (cases "length xs < n")
    case True
    with 1(2,3) have "xs = []" by (metis dvd_imp_le leD length_0_conv neq0_conv)
    with True show ?thesis by (simp add: groups.simps)
  next
    case False
    moreover from this have "n dvd length (drop n xs)" using 1(3) by (simp add: dvd_diff_nat)
    ultimately show ?thesis using 1 by (subst groups.simps) simp
  qed
qed

lemma groups_length: "list_all (\<lambda>g. length g = n) (groups n xs)"
proof (induction n xs rule: groups.induct)
  case (1 n xs) then show ?case by (subst groups.simps) simp
qed

lemma nat_of_bits_snoc: "nat_of_bits (bs @ [b]) = 2 * nat_of_bits bs + (if b then 1 else 0)"
  by (simp add: nat_of_bits_def)

lemma nat_of_bits_less: "nat_of_bits bs < 2 ^ length bs"
proof (induction bs rule: rev_induct)
  case (snoc b bs)
  then show ?case by (auto simp: nat_of_bits_snoc)
qed (simp add: nat_of_bits_def)

lemma bits_of_nat_of_bits: "map (bit (nat_of_bits bs)) (rev [0..<length bs]) = bs"
proof (induction bs rule: rev_induct)
  case (snoc b bs)
  have shift: "map f (rev [0..<Suc k]) = map (f \<circ> Suc) (rev [0..<k]) @ [f 0]" for f :: "nat \<Rightarrow> bool" and k
    by (simp only: upt_rec [of 0 "Suc k"]) (simp add: map_Suc_upt [symmetric] rev_map del: upt_Suc)
  have "bit (2 * nat_of_bits bs + (if b then 1 else 0)) \<circ> Suc = bit (nat_of_bits bs)"
    by (simp add: fun_eq_iff bit_Suc)
  with snoc show ?case by (simp add: nat_of_bits_snoc shift bit_0 del: upt_Suc)
qed simp

lemma base32_value_alphabet: "v < 32 \<Longrightarrow> base32_value (base32_alphabet ! v) = Some v"
proof -
  have "list_all (\<lambda>v. base32_value (base32_alphabet ! v) = Some v) [0..<32]" by code_simp
  then show "v < 32 \<Longrightarrow> ?thesis" by (simp add: list_all_iff)
qed

lemma decode_base32_encoded:
  "list_all (\<lambda>g. length g = 5) gs \<Longrightarrow>
     decode_base32_chars (map (\<lambda>g. base32_alphabet ! nat_of_bits g) gs) = Some (concat gs)"
proof (induction gs)
  case (Cons g gs)
  have "nat_of_bits g < 32" using nat_of_bits_less [of g] Cons.prems by simp
  moreover have "map (bit (nat_of_bits g)) (rev [0..<5]) = g"
    using bits_of_nat_of_bits [of g] Cons.prems by simp
  ultimately show ?case using Cons by (simp add: base32_value_alphabet del: upt_Suc upt_conv_Cons)
qed simp

lemma base32_ascii: "v < 32 \<Longrightarrow> (of_char (base32_alphabet ! v) :: nat) < 128 \<and> base32_alphabet ! v \<noteq> CHR ''=''"
proof -
  have "list_all (\<lambda>v. (of_char (base32_alphabet ! v) :: nat) < 128 \<and> base32_alphabet ! v \<noteq> CHR ''='') [0..<32]"
    by code_simp
  then show "v < 32 \<Longrightarrow> ?thesis" by (simp add: list_all_iff)
qed

lemma word_of_bits8: "word_of_nat (nat_of_bits (bits8 b)) = b"
proof (rule bit_word_eqI)
  fix n assume n: "n < LENGTH(8)"
  have len: "length (bits8 b) = 8" by (simp add: bits8_def)
  then have "map (bit (nat_of_bits (bits8 b))) (rev [0..<8]) = map (bit b) (rev [0..<8])"
    using bits_of_nat_of_bits [of "bits8 b"] by (simp add: bits8_def)
  moreover have "n \<in> set (rev [0..<8])" using n by simp
  ultimately have "bit (nat_of_bits (bits8 b)) n = bit b n" unfolding map_eq_conv by blast
  with n show "bit (word_of_nat (nat_of_bits (bits8 b)) :: byte) n = bit b n"
    by (simp add: bit_simps)
qed

lemma times_five_eq_eight: "n * 5 = 8 * m \<Longrightarrow> n mod 8 = 0" for n m :: nat
  by presburger

lemma length_concat_groups: "list_all (\<lambda>g. length g = n) gs \<Longrightarrow> length (concat gs) = n * length gs"
  by (induction gs) simp_all

lemma b32decode_encoded:
  assumes "length key mod 5 = 0"
  shows "b32decode (b32encode_unpadded key) = Inr key"
proof -
  let ?bits = "concat (map bits8 key)"
  have "length ?bits = 8 * length key"
    by (induction key) (simp_all add: bits8_def)
  with assms have five: "length ?bits mod 5 = 0" and eight: "8 dvd length ?bits"
    by (auto simp: mod_mult_right_eq)
  let ?gs = "groups 5 ?bits"
  have enc: "b32encode_unpadded key = map (\<lambda>g. base32_alphabet ! nat_of_bits g) ?gs"
    using five by (simp add: b32encode_unpadded_def Let_def)
  have len: "list_all (\<lambda>g. length g = 5) ?gs" by (rule groups_length)
  have small: "nat_of_bits g < 32" if "g \<in> set ?gs" for g
    using nat_of_bits_less [of g] len that by (simp add: list_all_iff)
  have cat: "concat ?gs = ?bits" by (rule concat_groups) (use five in \<open>auto simp: dvd_eq_mod_eq_0\<close>)
  then have "length ?gs * 5 = 8 * length key"
    using length_concat_groups [OF len] \<open>length ?bits = 8 * length key\<close> by simp
  then have pad: "length (b32encode_unpadded key) mod 8 = 0"
    by (simp add: enc times_five_eq_eight)
  have chars: "(of_char c :: nat) < 128 \<and> c \<noteq> CHR ''=''" if "c \<in> set (b32encode_unpadded key)" for c
    using that small base32_ascii by (auto simp: enc)
  then have "isascii (b32encode_unpadded key)"
    and "rev (dropWhile (\<lambda>c. c = CHR ''='') (rev (b32encode_unpadded key))) = b32encode_unpadded key"
    by (simp_all add: isascii_def list_all_iff dropWhile_none)
  moreover have "groups 8 ?bits = map bits8 key"
    by (rule groups_concat) (simp_all add: list_all_iff bits8_def)
  moreover have "decode_base32_chars (b32encode_unpadded key) = Some ?bits"
    using decode_base32_encoded [OF len] by (simp add: enc cat)
  ultimately show ?thesis using pad by (simp add: b32decode_def word_of_bits8 comp_def)
qed

section \<open>Codes\<close>

text \<open>The documented size of an HMAC-SHA1 digest.\<close>

definition sha1_digests :: "env \<Rightarrow> bool" where
  "sha1_digests ev \<longleftrightarrow> (\<forall>k m. length (hmac_sha1 ev k m) = 20)"

definition six_digits :: "string \<Rightarrow> bool" where
  "six_digits code \<longleftrightarrow> length code = 6 \<and> set code \<subseteq> set ''0123456789''"

definition secret_key :: "string \<Rightarrow> exn + bytes" where
  "secret_key secret = b32decode (secret @ replicate ((8 - length secret mod 8) mod 8) CHR ''='')"

lemma take4_cases: "length xs = 4 \<Longrightarrow> \<exists>a b c d. xs = [a, b, c, d]"
  by (simp add: length_Suc_conv numeral_eq_Suc) blast

lemma hotp_code:
  assumes sha: "sha1_digests ev" and key: "secret_key secret = Inr key" and c: "0 \<le> c" "c < 2 ^ 64"
  shows "\<exists>code. hotp ev secret c = Inr code \<and> six_digits code"
proof -
  obtain msg where msg: "pack_Q c = Inr msg" using c by (simp add: pack_Q_def)
  let ?digest = "hmac_sha1 ev key msg"
  have len: "length ?digest = 20" using sha by (simp add: sha1_digests_def)
  let ?offset = "unat (last ?digest AND 0x0F)"
  have "last ?digest AND 0x0F \<le> 0x0F" by (rule word_and_le1)
  then have "?offset \<le> 15" by (simp add: word_le_nat_alt)
  then have "length (take 4 (drop ?offset ?digest)) = 4" using len by simp
  then obtain a b x d where four: "take 4 (drop ?offset ?digest) = [a, b, x, d]"
    using take4_cases by blast
  then obtain n where n: "unpack_I (take 4 (drop ?offset ?digest)) = Inr n" by (simp add: unpack_I_def)
  let ?k = "unat (n AND 0x7FFFFFFF) mod 10 ^ 6"
  have "length (str_of_nat ?k) \<le> Suc 5" by (rule str_of_nat_length) simp
  then have "six_digits (zfill 6 (str_of_nat ?k))"
    using str_of_nat_digits [of ?k] by (auto simp: six_digits_def zfill_def)
  moreover have "hotp ev secret c = Inr (zfill 6 (str_of_nat ?k))"
    using key msg n len by (auto simp: hotp_def secret_key_def Let_def totp_DIGITS_def)
  ultimately show ?thesis by blast
qed

lemma six_digits_ok: "six_digits code \<Longrightarrow> isdigit code \<and> isascii code \<and> code \<noteq> [] \<and> length code = totp_DIGITS"
proof -
  assume six: "six_digits code"
  have "list_all (\<lambda>c. (of_char c :: nat) < 128 \<and> is_decimal_digit c) ''0123456789''" by code_simp
  with six have all: "(of_char c :: nat) < 128 \<and> is_decimal_digit c" if "c \<in> set code" for c
    using that unfolding six_digits_def list_all_iff by blast
  moreover have "code \<noteq> []" using six by (auto simp: six_digits_def)
  ultimately show ?thesis
    using six by (simp add: six_digits_def isdigit_def isascii_def list_all_iff totp_DIGITS_def)
qed

lemma generate_totp_code:
  assumes "sha1_digests ev" and "secret_key secret = Inr key" and "0 \<le> t" and "t < 2 ^ 64"
  shows "\<exists>code. generate_totp ev secret t = Inr code \<and> six_digits code"
proof -
  have "t div 30 < 2 ^ 64" using assms(3,4) by (auto simp: div_less_dividend)
  then show ?thesis
    using hotp_code [OF assms(1,2), of "t div 30"] assms(3)
    by (auto simp: generate_totp_def PERIOD_SECONDS_def)
qed

text \<open>A code is exactly six decimal digits: for every decodable secret and every time since 1970,
  given that HMAC-SHA1 digests have 20 bytes, the truncation stays inside the digest and the code
  is produced, never more than six digits, with its leading zeros.\<close>

theorem totp_six_digits:
  assumes "sha1_digests ev" and "secret_key secret = Inr key" and "0 \<le> t" and "t < 2 ^ 64"
  shows "\<exists>code. generate_totp ev secret t = Inr code \<and> length code = 6 \<and> set code \<subseteq> set ''0123456789''"
  using generate_totp_code [OF assms] by (simp add: six_digits_def)

theorem totp_six_digits_witness:
  "\<exists>code. generate_totp base_env ''AAAAAAAA'' 50 = Inr code \<and> length code = 6 \<and> set code \<subseteq> set ''0123456789''"
proof -
  have "secret_key ''AAAAAAAA'' = Inr [0, 0, 0, 0, 0]" by code_simp
  then show ?thesis by (rule totp_six_digits [rotated]) (simp_all add: sha1_digests_def)
qed

lemma six_digits_no_space: "six_digits code \<Longrightarrow> isascii code"
  using six_digits_ok by blast

lemma verify_totp_exact:
  assumes sha: "sha1_digests ev" and key: "secret_key secret = Inr key"
    and t: "30 \<le> t" "t < 2 ^ 63" and six: "six_digits code"
  shows "verify_totp ev secret code t =
    Inr (generate_totp ev secret (t - 30) = Inr code \<or> generate_totp ev secret t = Inr code
      \<or> generate_totp ev secret (t + 30) = Inr code)"
proof -
  have range: "0 \<le> t div 30 - 1" "t div 30 + 1 < 2 ^ 64" using t by auto
  obtain x y z where hotp: "hotp ev secret (t div 30 - 1) = Inr x" "hotp ev secret (t div 30) = Inr y"
      "hotp ev secret (t div 30 + 1) = Inr z" and "six_digits x" "six_digits y" "six_digits z"
    using hotp_code [OF sha key, of "t div 30 - 1"] hotp_code [OF sha key, of "t div 30"]
      hotp_code [OF sha key, of "t div 30 + 1"] range by auto
  then have ascii: "isascii x" "isascii y" "isascii z" by (simp_all add: six_digits_no_space)
  have offsets: "[- VERIFY_WINDOW..VERIFY_WINDOW] = [-1, 0, 1]"
    by (simp add: VERIFY_WINDOW_def upto.simps)
  have shift: "(t - 30) div 30 = t div 30 - 1" "(t + 30) div 30 = t div 30 + 1" by simp_all
  show ?thesis
    using six_digits_ok [OF six] hotp ascii
    by (simp add: verify_totp_def offsets PERIOD_SECONDS_def generate_totp_def shift compare_digest_def)
qed

text \<open>C13. The tolerance window: a six-digit code is accepted exactly when it is the code of the current
  period, the one before or the one after, for a decodable secret and from the second period of
  the epoch on.\<close>

theorem verify_totp_window:
  assumes sha: "sha1_digests ev" and key: "secret_key secret = Inr key"
    and t: "30 \<le> t" "t < 2 ^ 63" and six: "six_digits code"
  shows "verify_totp ev secret code t =
    Inr (generate_totp ev secret (t - 30) = Inr code \<or> generate_totp ev secret t = Inr code
      \<or> generate_totp ev secret (t + 30) = Inr code)"
  using assms by (rule verify_totp_exact)

theorem verify_totp_window_witness:
  "verify_totp base_env ''AAAAAAAA'' ''000000'' 50 =
    Inr (generate_totp base_env ''AAAAAAAA'' 20 = Inr ''000000'' \<or> generate_totp base_env ''AAAAAAAA'' 50 = Inr ''000000''
      \<or> generate_totp base_env ''AAAAAAAA'' 80 = Inr ''000000'')"
proof -
  have "secret_key ''AAAAAAAA'' = Inr [0, 0, 0, 0, 0]" by code_simp
  moreover have "six_digits ''000000''" by (simp add: six_digits_def)
  ultimately show ?thesis
    using verify_totp_window [of base_env "''AAAAAAAA''" _ 50 "''000000''"] by (simp add: sha1_digests_def)
qed

text \<open>A superscript digit gets past the check and then stops the comparison: the code
  \<open>12345\<close> followed by a superscript two satisfies \<open>isdigit\<close> and has six characters, and verifying it
  against a decodable secret raises \<open>TypeError\<close> instead of answering that it is wrong.\<close>

theorem superscript_code_crashes:
  assumes sha: "sha1_digests ev" and key: "secret_key secret = Inr key" and t: "30 \<le> t" "t < 2 ^ 63"
  shows "verify_totp ev secret (''12345'' @ [CHR 0xB2]) t = Inl TypeError"
proof -
  have "0 \<le> t div 30 - 1" "t div 30 - 1 < 2 ^ 64" using t by auto
  then obtain x where "hotp ev secret (t div 30 - 1) = Inr x" using hotp_code [OF sha key] by blast
  moreover have "[- VERIFY_WINDOW..VERIFY_WINDOW] = [-1, 0, 1]"
    by (simp add: VERIFY_WINDOW_def upto.simps)
  moreover have "isdigit (''12345'' @ [CHR 0xB2])" "\<not> isascii (''12345'' @ [CHR 0xB2])" by code_simp+
  ultimately show ?thesis
    by (simp add: verify_totp_def PERIOD_SECONDS_def compare_digest_def totp_DIGITS_def)
qed

theorem superscript_code_crashes_witness:
  "verify_totp base_env ''AAAAAAAA'' (''12345'' @ [CHR 0xB2]) 50 = Inl TypeError"
proof -
  have "secret_key ''AAAAAAAA'' = Inr [0, 0, 0, 0, 0]" by code_simp
  then show ?thesis by (rule superscript_code_crashes [rotated]) (simp_all add: sha1_digests_def)
qed

end
