(* ===== verification/Accounts.thy ===== *)
theory Accounts
  imports Totp Guards
begin

text \<open>
  Accounts (\<open>accounts/models.py\<close>, \<open>crypto.py\<close>, \<open>services.py\<close>, \<open>serializers.py\<close>, \<open>views.py\<close>): users,
  the life of an MFA enrolment, and the login in one or two steps. A view that touches the session
  takes it and returns it. The password hasher, its validators and Fernet are parameters of the
  environment; \<open>authenticate\<close>, \<open>login\<close> and \<open>logout\<close> are read from Django's documentation (the
  default model backend: exact e-mail, right password, active user). Service messages of the
  handlers are the environment's \<open>exn_str\<close>; throttles and the CSRF cookie view have no effect here.
\<close>

section \<open>Users\<close>

text \<open>\<open>rsplit("@", 1)\<close>: the text before and after the last at sign, of the stripped address.\<close>

definition normalize_email :: "string \<Rightarrow> string" where
  "normalize_email address = (let s = strip address in
     if CHR ''@'' \<notin> set s then address
     else let domain = rev (takeWhile (\<lambda>c. c \<noteq> CHR ''@'') (rev s)) in
       take (length s - length domain) s @ lower domain)"

definition hash_password :: "string option \<Rightarrow> string option app" where
  "hash_password p = (case p of None \<Rightarrow> ret None
     | Some s \<Rightarrow> (\<lambda>w. (Inr (Some (make_password (env w) (rng w) s)), w\<lparr>rng := Suc (rng w)\<rparr>)))"

definition create_user :: "string \<Rightarrow> string option \<Rightarrow> string \<Rightarrow> string \<Rightarrow> user app" where
  "create_user address pw given family =
     (if address = '''' then raise ValueError
      else bind uuid4 (\<lambda>i. bind (hash_password pw) (\<lambda>hashed.
      let u = \<lparr>user_id = i, email = normalize_email address, first_name = given, last_name = family,
            is_active = True, mfa_enabled = False, mfa_secret_encrypted = None,
            mfa_confirmed_at = None, password = hashed\<rparr> in
      bind (orm_create users users_update user_clash u) (\<lambda>_. ret u))))"

definition save_user :: "user \<Rightarrow> (user \<Rightarrow> user) \<Rightarrow> unit app" where
  "save_user u f = orm_update users users_update user_clash user_id (user_id u) f"

section \<open>The MFA secret at rest\<close>

definition encrypt_secret :: "string \<Rightarrow> bytes app" where
  "encrypt_secret plaintext =
     (\<lambda>w. (Inr (fernet_encrypt (env w) (rng w) plaintext), w\<lparr>rng := Suc (rng w)\<rparr>))"

definition decrypt_secret :: "bytes \<Rightarrow> string app" where
  "decrypt_secret token = bind (gets (\<lambda>w. fernet_decrypt (env w) token)) (\<lambda>r. case r of
     None \<Rightarrow> raise SecretDecryptionError | Some s \<Rightarrow> ret s)"

section \<open>MFA\<close>

text \<open>\<open>totp.verify_totp\<close> at the current time. A service updates the user object it is given as
  well as its row, and returns it.\<close>

definition verify_now :: "string \<Rightarrow> string \<Rightarrow> bool app" where
  "verify_now secret code = bind (gets (\<lambda>w. verify_totp (env w) secret code (clock w))) lift"

definition stored_secret :: "user \<Rightarrow> bytes option" where
  "stored_secret u = (case mfa_secret_encrypted u of Some b \<Rightarrow> if b = [] then None else Some b | None \<Rightarrow> None)"

definition start_mfa_enrollment :: "user \<Rightarrow> (string \<times> string \<times> user) app" where
  "start_mfa_enrollment u =
     bind generate_secret (\<lambda>secret.
     bind (encrypt_secret secret) (\<lambda>token.
     let change = (\<lambda>r. r\<lparr>mfa_secret_encrypted := Some token, mfa_enabled := False, mfa_confirmed_at := None\<rparr>) in
     bind (save_user u change) (\<lambda>_.
     ret (secret, provisioning_uri secret (email u), change u))))"

definition confirm_mfa_enrollment :: "user \<Rightarrow> string \<Rightarrow> user app" where
  "confirm_mfa_enrollment u code = (case stored_secret u of
     None \<Rightarrow> raise MFAError
   | Some token \<Rightarrow>
       bind (decrypt_secret token) (\<lambda>secret.
       bind (verify_now secret code) (\<lambda>valid.
       if \<not> valid then raise MFAError
       else bind now (\<lambda>t.
       let change = (\<lambda>r. r\<lparr>mfa_enabled := True, mfa_confirmed_at := Some t\<rparr>) in
       bind (save_user u change) (\<lambda>_.
       bind (audit_record (Some u) None ''mfa.enable'' ''user'' (uuid_str (user_id u)) '''' Success []) (\<lambda>_.
       ret (change u)))))))"

definition disable_mfa :: "user \<Rightarrow> string \<Rightarrow> user app" where
  "disable_mfa u code = (case stored_secret u of
     None \<Rightarrow> raise MFAError
   | Some token \<Rightarrow>
       if \<not> mfa_enabled u then raise MFAError
       else bind (decrypt_secret token) (\<lambda>secret.
       bind (verify_now secret code) (\<lambda>valid.
       if \<not> valid then raise MFAError
       else
       let change = (\<lambda>r. r\<lparr>mfa_enabled := False, mfa_secret_encrypted := None, mfa_confirmed_at := None\<rparr>) in
       bind (save_user u change) (\<lambda>_.
       bind (audit_record (Some u) None ''mfa.disable'' ''user'' (uuid_str (user_id u)) '''' Success []) (\<lambda>_.
       ret (change u))))))"

definition verify_mfa_code :: "user \<Rightarrow> string \<Rightarrow> bool app" where
  "verify_mfa_code u code = (case stored_secret u of
     None \<Rightarrow> ret False
   | Some token \<Rightarrow>
       if \<not> mfa_enabled u then ret False
       else bind (decrypt_secret token) (\<lambda>secret. verify_now secret code))"

section \<open>Sessions\<close>

record session =
  session_user :: "uuid option"
  mfa_pending :: "uuid option"

definition no_session :: session where
  "no_session = \<lparr>session_user = None, mfa_pending = None\<rparr>"

text \<open>\<open>login\<close> flushes the session of another user, and keeps the rest of it otherwise.\<close>

definition login :: "user \<Rightarrow> session \<Rightarrow> session" where
  "login u s = (if session_user s = None \<or> session_user s = Some (user_id u)
     then s\<lparr>session_user := Some (user_id u)\<rparr>
     else \<lparr>session_user = Some (user_id u), mfa_pending = None\<rparr>)"

definition password_matches :: "env \<Rightarrow> user \<Rightarrow> string \<Rightarrow> bool" where
  "password_matches ev u pw = (case password u of None \<Rightarrow> False | Some h \<Rightarrow> check_password ev pw h)"

definition authenticate :: "string \<Rightarrow> string \<Rightarrow> user option app" where
  "authenticate address pw =
     bind (attempt (get_one (\<lambda>c. filter (\<lambda>u. email u = address) (users c)))) (\<lambda>r. case r of
       Inl e \<Rightarrow> if e = DoesNotExist then ret None else raise e
     | Inr u \<Rightarrow> bind (gets (\<lambda>w. password_matches (env w) u pw)) (\<lambda>ok.
         ret (if ok \<and> is_active u then Some u else None)))"

section \<open>Views\<close>

record registration =
  reg_email :: string
  reg_password :: string
  reg_first_name :: string
  reg_last_name :: string

text \<open>\<open>RegisterSerializer\<close>: the e-mail must be new (without regard to case), the password pass the
  validators.\<close>

definition RegisterSerializer_validate :: "registration option \<Rightarrow> registration app" where
  "RegisterSerializer_validate data = bind (validated data) (\<lambda>d.
     let address = normalize_email (reg_email d) in
     bind (query (\<lambda>c. list_ex (\<lambda>u. lower (email u) = lower address) (users c))) (\<lambda>taken.
     if taken then raise ValidationError
     else bind (gets (\<lambda>w. password_ok (env w) (reg_password d))) (\<lambda>ok.
     if \<not> ok then raise ValidationError else ret (d\<lparr>reg_email := address\<rparr>))))"

definition RegisterView_post :: "session \<Rightarrow> registration option \<Rightarrow> (response \<times> session) app" where
  "RegisterView_post s data =
     bind (RegisterSerializer_validate data) (\<lambda>d.
     bind (create_user (reg_email d) (Some (reg_password d)) (reg_first_name d) (reg_last_name d)) (\<lambda>u.
     ret (Response 201 (UserBody u), login u s)))"

definition LoginView_post :: "session \<Rightarrow> (string \<times> string) option \<Rightarrow> (response \<times> session) app" where
  "LoginView_post s data =
     bind (validated data) (\<lambda>(address, pw).
     bind (authenticate address pw) (\<lambda>found.
     case found of
       None \<Rightarrow>
         bind (audit_record None None ''auth.login'' '''' '''' '''' Denied [(''email'', JStr address)]) (\<lambda>_.
         ret (Response 401 (Detail ''Invalid credentials.''), s))
     | Some u \<Rightarrow>
         if \<not> is_active u then
           bind (audit_record None None ''auth.login'' '''' '''' '''' Denied [(''email'', JStr address)]) (\<lambda>_.
           ret (Response 401 (Detail ''Invalid credentials.''), s))
         else if mfa_enabled u then
           ret (Response 200 (Data (JObj [(''mfa_required'', JBool True)])),
             s\<lparr>mfa_pending := Some (user_id u)\<rparr>)
         else
           bind (audit_record (Some u) None ''auth.login'' '''' '''' '''' Success []) (\<lambda>_.
           ret (Response 200 (UserBody u), login u s))))"

definition MFALoginVerifyView_post :: "session \<Rightarrow> string option \<Rightarrow> (response \<times> session) app" where
  "MFALoginVerifyView_post s data = (case mfa_pending s of
     None \<Rightarrow> ret (Response 400 (Detail ''No MFA login in progress.''), s)
   | Some pending \<Rightarrow>
       bind (validated data) (\<lambda>code.
       bind (attempt (get_one (\<lambda>c. filter (\<lambda>u. user_id u = pending \<and> is_active u) (users c)))) (\<lambda>r.
       case r of
         Inl e \<Rightarrow> if e = DoesNotExist
           then ret (Response 401 (Detail ''Invalid credentials.''), s\<lparr>mfa_pending := None\<rparr>)
           else raise e
       | Inr u \<Rightarrow>
           bind (verify_mfa_code u code) (\<lambda>valid.
           if \<not> valid then
             bind (audit_record (Some u) None ''auth.mfa_verify'' '''' '''' '''' Denied []) (\<lambda>_.
             ret (Response 401 (Detail ''Invalid code.''), s))
           else
             bind (audit_record (Some u) None ''auth.login'' '''' '''' '''' Success []) (\<lambda>_.
             ret (Response 200 (UserBody u), login u (s\<lparr>mfa_pending := None\<rparr>)))))))"

definition LogoutView_post :: "user \<Rightarrow> session \<Rightarrow> (response \<times> session) app" where
  "LogoutView_post user s =
     bind (audit_record (Some user) None ''auth.logout'' '''' '''' '''' Success []) (\<lambda>_.
     ret (Response 204 NoBody, no_session))"

definition MeView_get :: "user \<Rightarrow> response app" where
  "MeView_get user = respond 200 (UserBody user)"

definition MFAEnrollView_post :: "user \<Rightarrow> response app" where
  "MFAEnrollView_post user =
     bind (start_mfa_enrollment user) (\<lambda>(secret, uri, _).
     respond 201 (Data (JObj [(''secret'', JStr secret), (''provisioning_uri'', JStr uri)])))"

definition handle_mfa :: "user app \<Rightarrow> response app" where
  "handle_mfa m = bind (attempt m) (\<lambda>r. case r of
     Inr u \<Rightarrow> respond 200 (UserBody u)
   | Inl e \<Rightarrow> if e = MFAError
       then bind (gets (\<lambda>w. exn_str (env w) e)) (\<lambda>text. respond 400 (Detail text))
       else raise e)"

definition MFAConfirmView_post :: "user \<Rightarrow> string option \<Rightarrow> response app" where
  "MFAConfirmView_post user data =
     bind (validated data) (\<lambda>code. handle_mfa (confirm_mfa_enrollment user code))"

definition MFADisableView_post :: "user \<Rightarrow> string option \<Rightarrow> response app" where
  "MFADisableView_post user data =
     bind (validated data) (\<lambda>code. handle_mfa (disable_mfa user code))"

section \<open>The rows\<close>

lemma save_user_run:
  assumes uniq: "unique_rows user_clash (users (ctl w))"
    and keeps: "\<And>r. user_id (f r) = user_id r \<and> email (f r) = email r"
  shows "save_user u f w = (Inr (), w\<lparr>ctl := users_update (update_where (\<lambda>r. user_id r = user_id u) f) (ctl w)\<rparr>)"
proof -
  have "\<not> user_clash (f r) x" if "r \<in> set (users (ctl w))" "user_id r = user_id u"
    "x \<in> set (users (ctl w))" "user_id x \<noteq> user_id u" for r x
    using user_table.unique_eq [OF uniq that(1,3)] keeps [of r] that(2,4)
    by (auto simp: user_clash_def)
  then have "\<not> list_ex (\<lambda>r. user_id r = user_id u \<and> list_ex (\<lambda>x. user_id x \<noteq> user_id u
      \<and> user_clash (f r) x) (users (ctl w))) (users (ctl w))"
    by (auto simp: list_ex_iff)
  then show ?thesis by (simp add: save_user_def orm_update_def)
qed

lemma user_row_updated:
  assumes "u \<in> set (users c)"
  shows "f u \<in> set (update_where (\<lambda>r. user_id r = user_id u) f (users c))"
  using assms by (force simp: update_where_def)

lemma users_unique_update:
  assumes "unique_rows user_clash us" and "\<And>r. user_id (f r) = user_id r \<and> email (f r) = email r"
  shows "unique_rows user_clash (update_where P f us)"
proof -
  have "user_clash (if P y then f y else y) (if P x then f x else x) = user_clash y x" for x y
    using assms(2) by (simp add: user_clash_def)
  with assms(1) show ?thesis
    by (simp add: unique_rows_def update_where_def sorted_wrt_map)
qed

section \<open>Enrolment\<close>

text \<open>What the code relies on: HMAC digests and random draws have their documented sizes, and Fernet
  gives back what it encrypted, in a token that is not empty.\<close>

definition ciphers_ok :: "env \<Rightarrow> bool" where
  "ciphers_ok ev \<longleftrightarrow> sha1_digests ev \<and> (\<forall>n k. length (token_bytes ev n k) = k)
     \<and> (\<forall>n s. fernet_encrypt ev n s \<noteq> [] \<and> fernet_decrypt ev (fernet_encrypt ev n s) = Some s)"

lemma generated_secret:
  assumes "length key = 20"
  shows "secret_key (b32encode_unpadded key) = Inr key"
proof -
  have mod: "length key mod 5 = 0" using assms by simp
  have rt: "b32decode (b32encode_unpadded key) = Inr key" by (rule b32decode_encoded [OF mod])
  then have "length (b32encode_unpadded key) mod 8 = 0"
    by (auto simp: b32decode_def Let_def split: if_splits option.splits)
  then show ?thesis using rt by (simp add: secret_key_def)
qed

text \<open>C12. Enrolment works end to end: starting it stores a secret and answers it, and whoever computes
  the current code from the answered secret can confirm, after which MFA is on, in the row as in
  the answer, and that same code is accepted at login.\<close>

theorem mfa_enrollment_roundtrip:
  assumes uniq: "unique_rows user_clash (users (ctl w))" and u: "u \<in> set (users (ctl w))"
    and ciphers: "ciphers_ok (env w)" and t: "30 \<le> clock w" "clock w < 2 ^ 63"
  shows "\<exists>secret uri u1 w1 code u2 w2.
     start_mfa_enrollment u w = (Inr (secret, uri, u1), w1) \<and> \<not> mfa_enabled u1
     \<and> generate_totp (env w) secret (clock w) = Inr code
     \<and> confirm_mfa_enrollment u1 code w1 = (Inr u2, w2)
     \<and> mfa_enabled u2 \<and> u2 \<in> set (users (ctl w2)) \<and> user_id u2 = user_id u
     \<and> verify_mfa_code u2 code w2 = (Inr True, w2)"
proof -
  let ?key = "token_bytes (env w) (rng w) 20"
  let ?secret = "b32encode_unpadded ?key"
  let ?token = "fernet_encrypt (env w) (Suc (rng w)) ?secret"
  let ?f = "\<lambda>r. r\<lparr>mfa_secret_encrypted := Some ?token, mfa_enabled := False, mfa_confirmed_at := None\<rparr>"
  let ?g = "\<lambda>r. r\<lparr>mfa_enabled := True, mfa_confirmed_at := Some (clock w)\<rparr>"
  let ?w = "w\<lparr>rng := Suc (Suc (rng w))\<rparr>"
  let ?w1 = "?w\<lparr>ctl := users_update (update_where (\<lambda>r. user_id r = user_id u) ?f) (ctl ?w)\<rparr>"
  have key: "secret_key ?secret = Inr ?key" using generated_secret ciphers by (simp add: ciphers_ok_def)
  have token: "?token \<noteq> []" "fernet_decrypt (env w) ?token = Some ?secret"
    using ciphers by (simp_all add: ciphers_ok_def)
  have sha: "sha1_digests (env w)" using ciphers by (simp add: ciphers_ok_def)
  obtain code where code: "generate_totp (env w) ?secret (clock w) = Inr code" "six_digits code"
    using generate_totp_code [OF sha key, of "clock w"] t by auto
  have valid: "verify_totp (env w) ?secret code (clock w) = Inr True"
    using verify_totp_exact [OF sha key t code(2)] code(1) by simp
  have start: "start_mfa_enrollment u w = (Inr (?secret, provisioning_uri ?secret (email u), ?f u), ?w1)"
    using save_user_run [of ?w ?f u] uniq
    by (simp add: start_mfa_enrollment_def generate_secret_def encrypt_secret_def bind_def)
  have uniq1: "unique_rows user_clash (users (ctl ?w1))"
    using uniq by (simp add: users_unique_update)
  let ?w2 = "?w1\<lparr>ctl := users_update (update_where (\<lambda>r. user_id r = user_id u) ?g) (ctl ?w1)\<rparr>"
  have confirm: "\<exists>e. confirm_mfa_enrollment (?f u) code ?w1 = (Inr (?g (?f u)), log_event e ?w2)"
    using save_user_run [OF uniq1, of ?g "?f u"] token valid
    by (auto simp: confirm_mfa_enrollment_def stored_secret_def decrypt_secret_def verify_now_def bind_def
        lift_def)
  then obtain e where confirm: "confirm_mfa_enrollment (?f u) code ?w1 = (Inr (?g (?f u)), log_event e ?w2)"
    by blast
  have "?f u \<in> set (users (ctl ?w1))" using user_row_updated [OF u, of ?f] by simp
  from user_row_updated [OF this, of ?g] have "?g (?f u) \<in> set (users (ctl ?w2))" by simp
  moreover have "verify_mfa_code (?g (?f u)) code (log_event e ?w2) = (Inr True, log_event e ?w2)"
    using token valid
    by (simp add: verify_mfa_code_def stored_secret_def decrypt_secret_def verify_now_def bind_def lift_def)
  ultimately show ?thesis
    using start code(1) confirm
    by (intro exI [of _ ?secret] exI [of _ "provisioning_uri ?secret (email u)"] exI [of _ "?f u"]
        exI [of _ ?w1] exI [of _ code] exI [of _ "?g (?f u)"] exI [of _ "log_event e ?w2"]) simp
qed

lemma char_of_word: "char_of (unat (word_of_nat (of_char c) :: byte)) = c"
proof -
  have "of_char c mod 256 = (of_char c :: nat)" by simp
  then have "of_char c < (256 :: nat)" by (metis mod_less_divisor zero_less_numeral)
  then have "unat (word_of_nat (of_char c) :: byte) = of_char c"
    by (simp add: unsigned_of_nat take_bit_nat_eq_self)
  then show ?thesis by simp
qed

lemma ciphers_ok_base_env: "ciphers_ok base_env"
  by (simp add: ciphers_ok_def sha1_digests_def char_of_word comp_def)

theorem mfa_enrollment_roundtrip_witness:
  "\<exists>secret uri u1 w1 code u2 w2.
     start_mfa_enrollment alice (world_of shop) = (Inr (secret, uri, u1), w1) \<and> \<not> mfa_enabled u1
     \<and> generate_totp base_env secret 50 = Inr code
     \<and> confirm_mfa_enrollment u1 code w1 = (Inr u2, w2)
     \<and> mfa_enabled u2 \<and> u2 \<in> set (users (ctl w2)) \<and> user_id u2 = 1
     \<and> verify_mfa_code u2 code w2 = (Inr True, w2)"
  using mfa_enrollment_roundtrip [of "world_of shop" alice] ciphers_ok_base_env
  by (simp add: unique_rows_def user_clash_def)

section \<open>Switching MFA off\<close>

text \<open>Disabling asks for a current code: \<open>disable_mfa\<close> returns only if the code it was given is
  accepted for the stored secret at the current time, and leaves the users table alone otherwise.\<close>

theorem disable_mfa_needs_code:
  "wp (disable_mfa u code)
     (\<lambda>u' w'. \<not> mfa_enabled u' \<and> (\<exists>token secret. stored_secret u = Some token
        \<and> fernet_decrypt (env w) token = Some secret
        \<and> verify_totp (env w) secret code (clock w) = Inr True))
     (\<lambda>e w'. users (ctl w') = users (ctl w)) w"
  by (auto simp: disable_mfa_def decrypt_secret_def verify_now_def save_user_def wp_orm_update Let_def
      split: option.splits sum.splits)

text \<open>Enrolling again is a way around it: an authenticated request to start an enrolment, which takes
  no code, switches off the MFA that was on, and from then on the password alone opens a session.\<close>

theorem enrolling_switches_mfa_off:
  assumes uniq: "unique_rows user_clash (users (ctl w))" and u: "u \<in> set (users (ctl w))"
    and on: "mfa_enabled u" "is_active u" and pw: "password_matches (env w) u pw"
  shows "\<exists>r w1 s w2. LoginView_post no_session (Some (email u, pw)) w
       = (Inr (Response 200 (Data (JObj [(''mfa_required'', JBool True)])),
           no_session\<lparr>mfa_pending := Some (user_id u)\<rparr>), w)
     \<and> MFAEnrollView_post u w = (Inr r, w1)
     \<and> LoginView_post no_session (Some (email u, pw)) w1 = (Inr s, w2)
     \<and> session_user (snd s) = Some (user_id u)"
proof -
  let ?secret = "b32encode_unpadded (token_bytes (env w) (rng w) 20)"
  let ?token = "fernet_encrypt (env w) (Suc (rng w)) ?secret"
  let ?f = "\<lambda>r. r\<lparr>mfa_secret_encrypted := Some ?token, mfa_enabled := False, mfa_confirmed_at := None\<rparr>"
  let ?w = "w\<lparr>rng := Suc (Suc (rng w))\<rparr>"
  let ?w1 = "?w\<lparr>ctl := users_update (update_where (\<lambda>r. user_id r = user_id u) ?f) (ctl ?w)\<rparr>"
  have start: "start_mfa_enrollment u w = (Inr (?secret, provisioning_uri ?secret (email u), ?f u), ?w1)"
    using save_user_run [of ?w ?f u] uniq
    by (simp add: start_mfa_enrollment_def generate_secret_def encrypt_secret_def bind_def)
  have one: "filter (\<lambda>r. email r = email u) (users (ctl w)) = [u]"
    by (rule unique_rows_filter_eq [OF uniq]) (use u in \<open>auto simp: user_clash_def\<close>)
  have uniq1: "unique_rows user_clash (users (ctl ?w1))"
    using uniq by (simp add: users_unique_update)
  have "filter (\<lambda>r. email r = email u) (users (ctl ?w1)) = [?f u]"
    by (rule unique_rows_filter_eq [OF uniq1])
      (use user_row_updated [OF u, of ?f] in \<open>auto simp: user_clash_def\<close>)
  moreover have same: "password_matches (env ?w1) (?f u) pw = password_matches (env w) u pw"
    by (simp add: password_matches_def)
  ultimately have "\<exists>s w2. LoginView_post no_session (Some (email u, pw)) ?w1 = (Inr s, w2)
      \<and> session_user (snd s) = Some (user_id u)"
    using on pw same
    by (simp add: LoginView_post_def authenticate_def attempt_def bind_def get_one_run login_def no_session_def)
  moreover have "LoginView_post no_session (Some (email u, pw)) w
       = (Inr (Response 200 (Data (JObj [(''mfa_required'', JBool True)])),
           no_session\<lparr>mfa_pending := Some (user_id u)\<rparr>), w)"
    using on pw one
    by (simp add: LoginView_post_def authenticate_def attempt_def bind_def get_one_run)
  moreover have "\<exists>r. MFAEnrollView_post u w = (Inr r, ?w1)"
    using start by (simp add: MFAEnrollView_post_def bind_def)
  ultimately show ?thesis by blast
qed

definition careful_alice :: user where
  "careful_alice = alice\<lparr>mfa_enabled := True, mfa_secret_encrypted := Some [0], password := Some ''pw''\<rparr>"

definition careful_shop :: control where
  "careful_shop = shop\<lparr>users := [careful_alice, bob]\<rparr>"

lemma careful_simps [simp]:
  "user_id careful_alice = 1" "email careful_alice = ''alice''" "mfa_enabled careful_alice = True"
  "is_active careful_alice = True" "password careful_alice = Some ''pw''"
  "users careful_shop = [careful_alice, bob]"
  by (simp_all add: careful_alice_def careful_shop_def)

theorem enrolling_switches_mfa_off_witness:
  "\<exists>r w1 s w2. LoginView_post no_session (Some (''alice'', ''pw'')) (world_of careful_shop)
       = (Inr (Response 200 (Data (JObj [(''mfa_required'', JBool True)])),
           no_session\<lparr>mfa_pending := Some 1\<rparr>), world_of careful_shop)
     \<and> MFAEnrollView_post careful_alice (world_of careful_shop) = (Inr r, w1)
     \<and> LoginView_post no_session (Some (''alice'', ''pw'')) w1 = (Inr s, w2)
     \<and> session_user (snd s) = Some 1"
  using enrolling_switches_mfa_off [of "world_of careful_shop" careful_alice "''pw''"]
  by (simp add: unique_rows_def user_clash_def password_matches_def)

section \<open>The login state machine\<close>

text \<open>One browser session, from anonymous on, under any sequence of login, code and logout requests at
  any times; a request that raises leaves the session as it was.\<close>

datatype auth_request = PostLogin "(string \<times> string) option" | PostVerify "string option" | PostLogout

definition current_user :: "session \<Rightarrow> user app" where
  "current_user s = bind (query (\<lambda>c. filter (\<lambda>u. Some (user_id u) = session_user s \<and> is_active u) (users c)))
     (\<lambda>us. case us of [] \<Rightarrow> raise NotAuthenticated | u # _ \<Rightarrow> ret u)"

fun auth_step :: "auth_request \<Rightarrow> session \<Rightarrow> (response \<times> session) app" where
  "auth_step (PostLogin data) s = LoginView_post s data"
| "auth_step (PostVerify data) s = MFALoginVerifyView_post s data"
| "auth_step PostLogout s = bind (current_user s) (\<lambda>u. LogoutView_post u s)"

inductive auth_run :: "world \<Rightarrow> (auth_request \<times> timestamp) list \<Rightarrow> session \<Rightarrow> world \<Rightarrow> bool" for w0 where
  start: "auth_run w0 [] no_session w0"
| answered: "auth_run w0 tr s w \<Longrightarrow> auth_step req s (w\<lparr>clock := t\<rparr>) = (Inr (r, s'), w') \<Longrightarrow>
    auth_run w0 (tr @ [(req, t)]) s' w'"
| raised: "auth_run w0 tr s w \<Longrightarrow> auth_step req s (w\<lparr>clock := t\<rparr>) = (Inl e, w') \<Longrightarrow>
    auth_run w0 (tr @ [(req, t)]) s w'"

inductive_cases auth_run_NilE: "auth_run w0 [] s w"

definition gave_password :: "env \<Rightarrow> (auth_request \<times> timestamp) list \<Rightarrow> user \<Rightarrow> bool" where
  "gave_password ev tr u \<longleftrightarrow> is_active u \<and> (\<exists>pw t. (PostLogin (Some (email u, pw)), t) \<in> set tr \<and> password_matches ev u pw)"

definition gave_code :: "env \<Rightarrow> (auth_request \<times> timestamp) list \<Rightarrow> user \<Rightarrow> bool" where
  "gave_code ev tr u \<longleftrightarrow> (\<exists>code t token secret. (PostVerify (Some code), t) \<in> set tr
     \<and> stored_secret u = Some token \<and> fernet_decrypt ev token = Some secret
     \<and> verify_totp ev secret code t = Inr True)"

definition session_ok :: "world \<Rightarrow> (auth_request \<times> timestamp) list \<Rightarrow> session \<Rightarrow> bool" where
  "session_ok w0 tr s \<longleftrightarrow>
     (\<forall>i. session_user s = Some i \<longrightarrow> (\<exists>u \<in> set (users (ctl w0)). user_id u = i
        \<and> gave_password (env w0) tr u \<and> (mfa_enabled u \<longrightarrow> gave_code (env w0) tr u)))
   \<and> (\<forall>i. mfa_pending s = Some i \<longrightarrow> (\<exists>u \<in> set (users (ctl w0)). user_id u = i \<and> gave_password (env w0) tr u))"

lemma gave_mono: "gave_password ev tr u \<Longrightarrow> gave_password ev (tr @ tr') u"
  "gave_code ev tr u \<Longrightarrow> gave_code ev (tr @ tr') u"
  by (auto simp: gave_password_def gave_code_def)

lemma session_ok_mono: "session_ok w0 tr s \<Longrightarrow> session_ok w0 (tr @ tr') s"
  unfolding session_ok_def using gave_mono by blast

text \<open>Nothing these requests do changes the users or the environment.\<close>

definition same_users :: "world \<Rightarrow> world \<Rightarrow> bool" where
  "same_users w w' \<longleftrightarrow> users (ctl w') = users (ctl w) \<and> env w' = env w"

lemma login_wp:
  "wp (LoginView_post s data) (\<lambda>r w'. same_users w w' \<and>
     (snd r = s \<or> (\<exists>u pw. u \<in> set (users (ctl w)) \<and> data = Some (email u, pw) \<and> is_active u
        \<and> password_matches (env w) u pw
        \<and> snd r = (if mfa_enabled u then s\<lparr>mfa_pending := Some (user_id u)\<rparr> else login u s))))
     (\<lambda>e w'. same_users w w') w"
proof -
  have mem: "x \<in> set (users (ctl w)) \<and> email x = a" if "filter (\<lambda>u. email u = a) (users (ctl w)) = [x]" for x a
    using arg_cong [OF that, of set] by auto
  show ?thesis
    unfolding LoginView_post_def authenticate_def
    by (auto simp: wp_validated wp_get_one same_users_def wp_step split: option.splits list.splits prod.splits dest!: mem)
qed

lemma verify_wp:
  "wp (MFALoginVerifyView_post s data) (\<lambda>r w'. same_users w w' \<and>
     (snd r = s \<or> snd r = s\<lparr>mfa_pending := None\<rparr>
      \<or> (\<exists>u code token secret. u \<in> set (users (ctl w)) \<and> mfa_pending s = Some (user_id u) \<and> data = Some code
         \<and> stored_secret u = Some token \<and> fernet_decrypt (env w) token = Some secret
         \<and> verify_totp (env w) secret code (clock w) = Inr True
         \<and> snd r = login u (s\<lparr>mfa_pending := None\<rparr>))))
     (\<lambda>e w'. same_users w w') w"
proof -
  have mem: "x \<in> set (users (ctl w)) \<and> user_id x = a"
    if "filter (\<lambda>u. user_id u = a \<and> is_active u) (users (ctl w)) = [x]" for x a
    using arg_cong [OF that, of set] by auto
  show ?thesis
    unfolding MFALoginVerifyView_post_def verify_mfa_code_def decrypt_secret_def verify_now_def
    by (auto simp: wp_validated wp_get_one same_users_def wp_step split: option.splits list.splits sum.splits dest!: mem)
qed

lemma logout_wp:
  "wp (auth_step PostLogout s) (\<lambda>r w'. same_users w w' \<and> snd r = no_session) (\<lambda>e w'. same_users w w') w"
  by (auto simp: current_user_def LogoutView_post_def same_users_def split: list.splits)

lemma gave_passwordI:
  "password_matches ev u pw \<Longrightarrow> is_active u \<Longrightarrow> (PostLogin (Some (email u, pw)), t) \<in> set tr \<Longrightarrow> gave_password ev tr u"
  by (auto simp: gave_password_def)

lemma gave_codeI:
  "verify_totp ev secret code t = Inr True \<Longrightarrow> stored_secret u = Some token \<Longrightarrow>
     fernet_decrypt ev token = Some secret \<Longrightarrow> (PostVerify (Some code), t) \<in> set tr \<Longrightarrow> gave_code ev tr u"
  by (auto simp: gave_code_def)

lemma session_ok_login:
  assumes uniq: "unique_rows user_clash (users (ctl w0))" and ok: "session_ok w0 tr s"
    and u: "u \<in> set (users (ctl w0))" "gave_password (env w0) tr u" "mfa_enabled u \<Longrightarrow> gave_code (env w0) tr u"
  shows "session_ok w0 tr (login u s)"
  using ok u by (auto simp: session_ok_def login_def split: if_splits)

lemma session_ok_pending:
  "session_ok w0 tr s \<Longrightarrow> u \<in> set (users (ctl w0)) \<Longrightarrow> gave_password (env w0) tr u \<Longrightarrow>
     session_ok w0 tr (s\<lparr>mfa_pending := Some (user_id u)\<rparr>)"
  "session_ok w0 tr s \<Longrightarrow> session_ok w0 tr (s\<lparr>mfa_pending := None\<rparr>)"
  by (auto simp: session_ok_def)

lemma auth_run_ok:
  assumes uniq: "unique_rows user_clash (users (ctl w0))" and run: "auth_run w0 tr s w"
  shows "session_ok w0 tr s \<and> same_users w0 w"
  using run
proof (induction rule: auth_run.induct)
  case start
  show ?case by (simp add: session_ok_def no_session_def same_users_def)
next
  case (answered tr s w req t r s' w')
  let ?w = "w\<lparr>clock := t\<rparr>" and ?tr = "tr @ [(req, t)]"
  have ok: "session_ok w0 ?tr s" and same: "users (ctl ?w) = users (ctl w0)" "env ?w = env w0"
    using answered.IH by (auto simp: session_ok_mono same_users_def)
  show ?case
  proof (cases req)
    case (PostLogin data)
    with answered.hyps(2) have "same_users ?w w'
      \<and> (s' = s \<or> (\<exists>u pw. u \<in> set (users (ctl ?w)) \<and> data = Some (email u, pw) \<and> is_active u
        \<and> password_matches (env ?w) u pw
        \<and> s' = (if mfa_enabled u then s\<lparr>mfa_pending := Some (user_id u)\<rparr> else login u s)))"
      using login_wp [of s data ?w] by (simp add: wp_def)
    then have "s' = s \<or> (\<exists>u pw. u \<in> set (users (ctl w0)) \<and> data = Some (email u, pw) \<and> is_active u
        \<and> password_matches (env w0) u pw
        \<and> s' = (if mfa_enabled u then s\<lparr>mfa_pending := Some (user_id u)\<rparr> else login u s))"
      and step: "same_users ?w w'" unfolding same by auto
    then have "session_ok w0 ?tr s'"
    proof (elim disjE exE conjE)
      fix u pw assume u: "u \<in> set (users (ctl w0))" "data = Some (email u, pw)" "is_active u"
        "password_matches (env w0) u pw"
        and s': "s' = (if mfa_enabled u then s\<lparr>mfa_pending := Some (user_id u)\<rparr> else login u s)"
      have "gave_password (env w0) ?tr u" by (rule gave_passwordI [OF u(4,3), where t = t]) (simp add: PostLogin u(2))
      then show "session_ok w0 ?tr s'"
        using session_ok_login [OF uniq ok u(1)] session_ok_pending(1) [OF ok u(1)]
        by (cases "mfa_enabled u") (simp_all add: s')
    qed (simp add: ok)
    with step same show ?thesis by (simp add: same_users_def)
  next
    case (PostVerify data)
    with answered.hyps(2) have res: "same_users ?w w' \<and>
     (s' = s \<or> s' = s\<lparr>mfa_pending := None\<rparr>
      \<or> (\<exists>u code token secret. u \<in> set (users (ctl ?w)) \<and> mfa_pending s = Some (user_id u) \<and> data = Some code
         \<and> stored_secret u = Some token \<and> fernet_decrypt (env ?w) token = Some secret
         \<and> verify_totp (env ?w) secret code (clock ?w) = Inr True
         \<and> s' = login u (s\<lparr>mfa_pending := None\<rparr>)))"
      using verify_wp [of s data ?w] by (simp add: wp_def)
    have pw: "gave_password (env w0) ?tr u" if mem: "u \<in> set (users (ctl w0))" and pending: "mfa_pending s = Some (user_id u)" for u
    proof -
      obtain v where v: "v \<in> set (users (ctl w0))" "user_id v = user_id u" "gave_password (env w0) ?tr v"
        using ok pending by (auto simp: session_ok_def)
      with user_table.unique_eq [OF uniq v(1) mem] show ?thesis by (simp add: user_clash_def)
    qed
    show ?thesis
      using res ok same PostVerify pw
      by (auto simp: same_users_def intro!: session_ok_login [OF uniq] session_ok_pending(2)
          elim: gave_codeI)
  next
    case PostLogout
    with answered.hyps(2) have "same_users ?w w' \<and> s' = no_session"
      using logout_wp [of s ?w] by (simp add: wp_def)
    then show ?thesis using same by (simp add: session_ok_def no_session_def same_users_def)
  qed
next
  case (raised tr s w req t e w')
  let ?w = "w\<lparr>clock := t\<rparr>"
  have "same_users ?w w'"
    using raised.hyps(2) wp_Inl [OF login_wp] wp_Inl [OF verify_wp] wp_Inl [OF logout_wp]
    by (cases req; hypsubst) (simp only: auth_step.simps(1,2); blast | blast)+
  with raised.IH show ?case by (simp add: session_ok_mono same_users_def)
qed

text \<open>C11. Two factors or none: whatever login, code and logout requests a browser makes, in whatever
  order and at whatever times, a session that has become that of a user belongs to an active user
  whose password was posted in it, and, where that user has MFA on, for whom a code was posted that
  was valid for the user's secret at the time it was posted.\<close>

theorem login_needs_every_factor:
  assumes "unique_rows user_clash (users (ctl w0))" and "auth_run w0 tr s w" and "session_user s = Some i"
  shows "\<exists>u. u \<in> set (users (ctl w0)) \<and> user_id u = i \<and> gave_password (env w0) tr u
    \<and> (if mfa_enabled u then gave_code (env w0) tr u else True)"
  using auth_run_ok [OF assms(1,2)] assms(3) by (auto simp: session_ok_def)

definition pw_bob :: user where
  "pw_bob = bob\<lparr>password := Some ''pw''\<rparr>"

definition pw_shop :: control where
  "pw_shop = shop\<lparr>users := [careful_alice, pw_bob]\<rparr>"

lemma pw_bob_simps [simp]:
  "user_id pw_bob = 2" "email pw_bob = ''bob''" "mfa_enabled pw_bob = False" "is_active pw_bob = True"
  "password pw_bob = Some ''pw''" "users pw_shop = [careful_alice, pw_bob]"
  by (simp_all add: pw_bob_def pw_shop_def)

theorem login_needs_every_factor_witness:
  "\<exists>s w. auth_run (world_of pw_shop) [(PostLogin (Some (''bob'', ''pw'')), 60)] s w \<and> session_user s = Some 2
     \<and> (\<exists>u. u \<in> set (users pw_shop) \<and> user_id u = 2
        \<and> gave_password base_env [(PostLogin (Some (''bob'', ''pw'')), 60)] u)"
proof -
  have "\<exists>r w'. auth_step (PostLogin (Some (''bob'', ''pw''))) no_session ((world_of pw_shop)\<lparr>clock := 60\<rparr>)
      = (Inr (r, login pw_bob no_session), w')"
    by (simp add: LoginView_post_def authenticate_def attempt_def bind_def get_one_run password_matches_def)
  then obtain r w' where "auth_step (PostLogin (Some (''bob'', ''pw''))) no_session ((world_of pw_shop)\<lparr>clock := 60\<rparr>)
      = (Inr (r, login pw_bob no_session), w')" by blast
  note run = auth_run.answered [OF auth_run.start this]
  have user: "session_user (login pw_bob no_session) = Some 2"
    by (simp add: login_def no_session_def)
  have "\<exists>u. u \<in> set (users (ctl (world_of pw_shop))) \<and> user_id u = 2
      \<and> gave_password (env (world_of pw_shop)) ([] @ [(PostLogin (Some (''bob'', ''pw'')), 60)]) u
      \<and> (if mfa_enabled u then gave_code (env (world_of pw_shop)) ([] @ [(PostLogin (Some (''bob'', ''pw'')), 60)]) u else True)"
    by (rule login_needs_every_factor [OF _ run user]) (simp add: unique_rows_def user_clash_def)
  with run user show ?thesis by (auto simp: gave_password_def)
qed

end
