(* ===== verification/Applications.thy ===== *)
theory Applications
  imports Accounts
begin

text \<open>
  Applications (\<open>applications/services.py\<close>, \<open>authentication.py\<close>, \<open>views.py\<close>): a registered
  application owns a service account, an ordinary user row that no password opens, and the
  credentials it authenticates with. A token is \<open>pdc_sk_\<close>, the credential's id in hex, a dot and
  a secret of which only the SHA-256 hash is stored.
\<close>

section \<open>Registration\<close>

definition TOKEN_PREFIX :: string where
  "TOKEN_PREFIX = ''pdc_sk_''"

definition register_application :: "organization \<Rightarrow> string \<Rightarrow> string \<Rightarrow> user \<Rightarrow> application app" where
  "register_application org name text owner =
     bind (atomic_default (
       bind uuid4 (\<lambda>i.
       let a = \<lparr>app_id = i, app_organization = org_id org, app_name = name, app_description = text,
             app_owner = user_id owner\<rparr> in
       bind (orm_create applications applications_update application_clash a) (\<lambda>_.
       bind (create_user (''service-account+'' @ uuid_str i @ ''@service.internal'') None '''' '''') (\<lambda>u.
       bind (save_user u (\<lambda>r. r\<lparr>password := None\<rparr>)) (\<lambda>_.
       bind uuid4 (\<lambda>si.
       bind (orm_create service_accounts service_accounts_update service_account_clash
         \<lparr>sa_id = si, sa_application = i, sa_identity_user = user_id u\<rparr>) (\<lambda>_.
       bind uuid4 (\<lambda>mi.
       bind (orm_create memberships memberships_update membership_clash
         \<lparr>mem_id = mi, mem_user = user_id u, mem_organization = org_id org, mem_team = None,
          mem_status = MActive, mem_invited_by = None\<rparr>) (\<lambda>_.
       ret a)))))))))) (\<lambda>a.
     bind (audit_record (Some owner) (Some (org_id org)) ''application.create'' ''application''
       (uuid_str (app_id a)) '''' Success [(''name'', JStr name)]) (\<lambda>_.
     ret a))"

section \<open>Credentials\<close>

definition hash_secret :: "env \<Rightarrow> string \<Rightarrow> string" where
  "hash_secret ev secret = sha256 ev (encode secret)"

definition token_urlsafe :: "string app" where
  "token_urlsafe = (\<lambda>w. (Inr (token_source (env w) (rng w)), w\<lparr>rng := Suc (rng w)\<rparr>))"

text \<open>\<open>ServiceAccount.organization_id\<close> and \<open>ApplicationCredential.organization_id\<close>.\<close>

definition ServiceAccount_organization_id :: "service_account \<Rightarrow> uuid app" where
  "ServiceAccount_organization_id sa =
     bind (get_one (\<lambda>c. filter (\<lambda>a. app_id a = sa_application sa) (applications c))) (\<lambda>a.
     ret (app_organization a))"

definition credential_service_account :: "application_credential \<Rightarrow> service_account app" where
  "credential_service_account cred =
     get_one (\<lambda>c. filter (\<lambda>s. sa_id s = cred_service_account cred) (service_accounts c))"

definition Credential_organization_id :: "application_credential \<Rightarrow> uuid app" where
  "Credential_organization_id cred = bind (credential_service_account cred) ServiceAccount_organization_id"

definition issue_credential ::
  "service_account \<Rightarrow> user \<Rightarrow> timestamp option \<Rightarrow> (application_credential \<times> string) app" where
  "issue_credential sa actor expires =
     bind uuid4 (\<lambda>i.
     bind token_urlsafe (\<lambda>secret.
     let token = TOKEN_PREFIX @ uuid_hex i @ ''.'' @ secret in
     bind (gets (\<lambda>w. hash_secret (env w) secret)) (\<lambda>hashed.
     let cred = \<lparr>cred_id = i, cred_service_account = sa_id sa, secret_hash = hashed,
           cred_created_by = Some (user_id actor), last_used_at = None, expires_at = expires,
           revoked_at = None\<rparr> in
     bind (orm_create credentials credentials_update credential_clash cred) (\<lambda>_.
     bind (ServiceAccount_organization_id sa) (\<lambda>org.
     bind (audit_record (Some actor) (Some org) ''application.credentials.create''
       ''application_credential'' (uuid_str i) '''' Success []) (\<lambda>_.
     ret (cred, token)))))))"

definition save_credential ::
  "application_credential \<Rightarrow> (application_credential \<Rightarrow> application_credential) \<Rightarrow> unit app" where
  "save_credential cred f =
     orm_update credentials credentials_update credential_clash cred_id (cred_id cred) f"

definition revoke_credential :: "application_credential \<Rightarrow> user \<Rightarrow> application_credential app" where
  "revoke_credential cred actor =
     bind now (\<lambda>t.
     let change = (\<lambda>r. r\<lparr>revoked_at := Some t\<rparr>) in
     bind (save_credential cred change) (\<lambda>_.
     bind (Credential_organization_id cred) (\<lambda>org.
     bind (audit_record (Some actor) (Some org) ''application.credentials.revoke''
       ''application_credential'' (uuid_str (cred_id cred)) '''' Success []) (\<lambda>_.
     ret (change cred)))))"

definition rotate_credential ::
  "application_credential \<Rightarrow> user \<Rightarrow> (application_credential \<times> string) app" where
  "rotate_credential cred actor =
     bind (atomic_default (
       bind (revoke_credential cred actor) (\<lambda>_.
       bind (credential_service_account cred) (\<lambda>sa.
       issue_credential sa actor None)))) (\<lambda>(new, token).
     bind (Credential_organization_id cred) (\<lambda>org.
     bind (audit_record (Some actor) (Some org) ''application.credentials.rotate''
       ''application_credential'' (uuid_str (cred_id new)) '''' Success
       [(''replaced'', JStr (uuid_str (cred_id cred)))]) (\<lambda>_.
     ret (new, token))))"

definition resolve_credential :: "string \<Rightarrow> application_credential app" where
  "resolve_credential token =
     (if \<not> prefix TOKEN_PREFIX token then raise InvalidCredential
      else let (id_part, secret) = partition_at CHR ''.'' (drop (length TOKEN_PREFIX) token) in
      if secret = '''' then raise InvalidCredential
      else case uuid_parse id_part of None \<Rightarrow> raise InvalidCredential
      | Some i \<Rightarrow>
        bind (catch (get_one (\<lambda>c. filter (\<lambda>r. cred_id r = i) (credentials c)))
          (\<lambda>e. if e = DoesNotExist then raise InvalidCredential else raise e)) (\<lambda>cred.
        if revoked_at cred \<noteq> None then raise InvalidCredential
        else bind now (\<lambda>t.
        if (case expires_at cred of None \<Rightarrow> False | Some x \<Rightarrow> x \<le> t) then raise InvalidCredential
        else bind (gets (\<lambda>w. compare_digest (secret_hash cred) (hash_secret (env w) secret))) (\<lambda>same.
        bind (lift same) (\<lambda>equal.
        if \<not> equal then raise InvalidCredential
        else let change = (\<lambda>r. r\<lparr>last_used_at := Some t\<rparr>) in
        bind (save_credential cred change) (\<lambda>_. ret (change cred)))))))"

text \<open>\<open>ServiceAccountAuthentication.authenticate\<close>: \<open>None\<close> leaves the request to the next
  authenticator; a bearer token that does not resolve stops it.\<close>

definition service_account_authenticate :: "string \<Rightarrow> (user \<times> application_credential) option app" where
  "service_account_authenticate header =
     (if \<not> prefix ''Bearer '' header then ret None
      else let token = strip (drop 7 header) in
      if token = '''' then ret None
      else bind (catch (resolve_credential token)
        (\<lambda>e. if e = InvalidCredential then raise AuthenticationFailed else raise e)) (\<lambda>cred.
      bind (credential_service_account cred) (\<lambda>sa.
      bind (get_one (\<lambda>c. filter (\<lambda>u. user_id u = sa_identity_user sa) (users c))) (\<lambda>u.
      ret (Some (u, cred))))))"

section \<open>Views\<close>

definition get_member_application :: "user \<Rightarrow> uuid \<Rightarrow> application app" where
  "get_member_application user application_id = or_404 (get_one (
     member_rows applications app_id (\<lambda>c a. [app_organization a]) (user_id user) application_id))"

interpretation application_lookup:
  member_lookup get_member_application applications app_id "\<lambda>c a. [app_organization a]"
  by (rule member_lookup_join) (rule get_member_application_def)

definition application_service_account :: "application \<Rightarrow> service_account app" where
  "application_service_account a =
     get_one (\<lambda>c. filter (\<lambda>s. sa_application s = app_id a) (service_accounts c))"

definition ApplicationList_get :: "user \<Rightarrow> uuid \<Rightarrow> response app" where
  "ApplicationList_get user organization_id =
     bind (get_member_organization user organization_id) (\<lambda>org.
     bind (query (\<lambda>c. filter (\<lambda>a. app_organization a = org_id org) (applications c))) (\<lambda>apps.
     respond 200 (ApplicationsBody apps)))"

definition ApplicationList_post :: "user \<Rightarrow> uuid \<Rightarrow> (string \<times> string) option \<Rightarrow> response app" where
  "ApplicationList_post user organization_id data =
     bind (get_member_organization user organization_id) (\<lambda>org.
     bind (has_permission (Some user) ''application.create'' (Some (org_id org)) None) (\<lambda>allowed.
     if \<not> allowed then respond 403 NoBody
     else bind (validated data) (\<lambda>(name, text).
     bind (register_application org name text user) (\<lambda>a.
     respond 201 (ApplicationBody a)))))"

definition ApplicationDetail_get :: "user \<Rightarrow> uuid \<Rightarrow> response app" where
  "ApplicationDetail_get user application_id =
     bind (get_member_application user application_id) (\<lambda>a. respond 200 (ApplicationBody a))"

definition CredentialList_get :: "user \<Rightarrow> uuid \<Rightarrow> response app" where
  "CredentialList_get user application_id =
     bind (get_member_application user application_id) (\<lambda>a.
     bind (has_permission (Some user) ''application.credentials.manage'' (Some (app_organization a)) None) (\<lambda>allowed.
     if \<not> allowed then respond 403 NoBody
     else bind (application_service_account a) (\<lambda>sa.
     bind (query (\<lambda>c. filter (\<lambda>r. cred_service_account r = sa_id sa) (credentials c))) (\<lambda>creds.
     respond 200 (CredentialsBody creds)))))"

definition CredentialList_post :: "user \<Rightarrow> uuid \<Rightarrow> response app" where
  "CredentialList_post user application_id =
     bind (get_member_application user application_id) (\<lambda>a.
     bind (has_permission (Some user) ''application.credentials.manage'' (Some (app_organization a)) None) (\<lambda>allowed.
     if \<not> allowed then respond 403 NoBody
     else bind (application_service_account a) (\<lambda>sa.
     bind (issue_credential sa user None) (\<lambda>(cred, token).
     respond 201 (CredentialBody cred token)))))"

definition get_member_credential :: "user \<Rightarrow> uuid \<Rightarrow> uuid \<Rightarrow> application_credential app" where
  "get_member_credential user application_id credential_id =
     bind (get_member_application user application_id) (\<lambda>a.
     bind (application_service_account a) (\<lambda>sa.
     or_404 (get_one (\<lambda>c. filter (\<lambda>r. cred_service_account r = sa_id sa \<and> cred_id r = credential_id)
       (credentials c)))))"

definition CredentialRevoke_post :: "user \<Rightarrow> uuid \<Rightarrow> uuid \<Rightarrow> response app" where
  "CredentialRevoke_post user application_id credential_id =
     bind (get_member_credential user application_id credential_id) (\<lambda>cred.
     bind (Credential_organization_id cred) (\<lambda>org.
     bind (has_permission (Some user) ''application.credentials.manage'' (Some org) None) (\<lambda>allowed.
     if \<not> allowed then respond 403 NoBody
     else bind (revoke_credential cred user) (\<lambda>cred2. respond 200 (CredentialBody cred2 '''')))))"

definition CredentialRotate_post :: "user \<Rightarrow> uuid \<Rightarrow> uuid \<Rightarrow> response app" where
  "CredentialRotate_post user application_id credential_id =
     bind (get_member_credential user application_id credential_id) (\<lambda>cred.
     bind (Credential_organization_id cred) (\<lambda>org.
     bind (has_permission (Some user) ''application.credentials.manage'' (Some org) None) (\<lambda>allowed.
     if \<not> allowed then respond 403 NoBody
     else bind (rotate_credential cred user) (\<lambda>(new, token). respond 201 (CredentialBody new token)))))"

text \<open>The identity of an application, and its direct grants. A grant's resource id is the canonical
  text of a UUID here.\<close>

definition application_identity :: "application \<Rightarrow> user app" where
  "application_identity a = bind (application_service_account a) (\<lambda>sa.
     get_one (\<lambda>c. filter (\<lambda>u. user_id u = sa_identity_user sa) (users c)))"

record grant_request =
  gr_permission_code :: string
  gr_resource_type :: string
  gr_resource_id :: uuid
  gr_expires_at :: "timestamp option"

definition ApplicationGrantList_get :: "user \<Rightarrow> uuid \<Rightarrow> response app" where
  "ApplicationGrantList_get user application_id =
     bind (get_member_application user application_id) (\<lambda>a.
     bind (has_permission (Some user) ''permissions.manage'' (Some (app_organization a)) None) (\<lambda>allowed.
     if \<not> allowed then respond 403 NoBody
     else bind (application_identity a) (\<lambda>u.
     bind (query (\<lambda>c. filter (\<lambda>g. rg_user g = user_id u \<and> rg_organization g = app_organization a)
       (resource_grants c))) (\<lambda>grants.
     respond 200 (GrantsBody grants)))))"

definition ApplicationGrantList_post :: "user \<Rightarrow> uuid \<Rightarrow> grant_request option \<Rightarrow> response app" where
  "ApplicationGrantList_post user application_id data =
     bind (get_member_application user application_id) (\<lambda>a.
     bind (has_permission (Some user) ''permissions.manage'' (Some (app_organization a)) None) (\<lambda>allowed.
     if \<not> allowed then respond 403 NoBody
     else bind (validated data) (\<lambda>d.
     bind (application_identity a) (\<lambda>u.
     bind (attempt (grant_resource_permission u (gr_permission_code d) (app_organization a)
       (gr_resource_type d) (gr_resource_id d) (Some user) (gr_expires_at d))) (\<lambda>r. case r of
         Inr grant \<Rightarrow> respond 201 (GrantBody grant)
       | Inl e \<Rightarrow> if e = PermissionRefused
           then bind (gets (\<lambda>w. exn_str (env w) e)) (\<lambda>text. respond 400 (Detail text))
           else raise e)))))"

section \<open>What a token opens\<close>

lemma save_credential_run:
  assumes uniq: "unique_rows credential_clash (credentials (ctl w))"
    and keeps: "\<And>r. cred_id (f r) = cred_id r \<and> secret_hash (f r) = secret_hash r"
  shows "save_credential cred f w
    = (Inr (), w\<lparr>ctl := credentials_update (update_where (\<lambda>r. cred_id r = cred_id cred) f) (ctl w)\<rparr>)"
proof -
  have "\<not> credential_clash (f r) x" if "r \<in> set (credentials (ctl w))" "cred_id r = cred_id cred"
    "x \<in> set (credentials (ctl w))" "cred_id x \<noteq> cred_id cred" for r x
    using credential_table.unique_eq [OF uniq that(1,3)] keeps [of r] that(2,4)
    by (auto simp: credential_clash_def)
  then have "\<not> list_ex (\<lambda>r. cred_id r = cred_id cred \<and> list_ex (\<lambda>x. cred_id x \<noteq> cred_id cred
      \<and> credential_clash (f r) x) (credentials (ctl w))) (credentials (ctl w))"
    by (auto simp: list_ex_iff)
  then show ?thesis by (simp add: save_credential_def orm_update_def)
qed

lemma credential_row:
  assumes "unique_rows credential_clash (credentials c)" and "cred \<in> set (credentials c)"
  shows "filter (\<lambda>r. cred_id r = cred_id cred) (credentials c) = [cred]"
  by (rule unique_rows_filter_eq [OF assms(1)]) (use assms(2) in \<open>auto simp: credential_clash_def\<close>)

definition live_credential :: "timestamp \<Rightarrow> application_credential \<Rightarrow> bool" where
  "live_credential t cred \<longleftrightarrow> revoked_at cred = None
     \<and> (case expires_at cred of None \<Rightarrow> True | Some x \<Rightarrow> t < x)"

lemma split_token: "partition_at CHR ''.'' (uuid_hex i @ CHR ''.'' # secret) = (uuid_hex i, secret)"
  by (rule partition_at_append, rule uuid_hex_lacks) (simp add: hexdigits_def)

definition token_of :: "uuid \<Rightarrow> string \<Rightarrow> string" where
  "token_of i secret = TOKEN_PREFIX @ uuid_hex i @ ''.'' @ secret"

text \<open>Resolving the token of a stored credential, whatever its state.\<close>

lemma resolve_run:
  assumes uniq: "unique_rows credential_clash (credentials (ctl w))" and row: "cred \<in> set (credentials (ctl w))"
    and ascii: "isascii (secret_hash cred)" "isascii (hash_secret (env w) secret)" and secret: "secret \<noteq> ''''"
  shows "resolve_credential (token_of (cred_id cred) secret) w =
    (if live_credential (clock w) cred \<and> secret_hash cred = hash_secret (env w) secret
     then (Inr (cred\<lparr>last_used_at := Some (clock w)\<rparr>),
       w\<lparr>ctl := credentials_update (update_where (\<lambda>r. cred_id r = cred_id cred)
           (\<lambda>r. r\<lparr>last_used_at := Some (clock w)\<rparr>)) (ctl w)\<rparr>)
     else (Inl InvalidCredential, w))"
proof -
  have lookup: "get_one (\<lambda>c. filter (\<lambda>r. cred_id r = cred_id cred) (credentials c)) w = (Inr cred, w)"
    by (simp add: get_one_run credential_row [OF uniq row])
  have token: "prefix TOKEN_PREFIX (token_of i secret)"
    "partition_at CHR ''.'' (drop (length TOKEN_PREFIX) (token_of i secret)) = (uuid_hex i, secret)" for i
    by (simp_all add: token_of_def split_token)
  show ?thesis
    using ascii secret save_credential_run [OF uniq]
    by (simp add: resolve_credential_def token bind_def catch_def lookup live_credential_def compare_digest_def
        lift_def Let_def split: option.split)
qed

text \<open>What the code relies on: hex digests are ASCII, and drawn secrets are not empty.\<close>

definition secrets_ok :: "env \<Rightarrow> bool" where
  "secrets_ok ev \<longleftrightarrow> (\<forall>b. isascii (sha256 ev b)) \<and> (\<forall>n. token_source ev n \<noteq> '''')"

lemma issue_Inr:
  assumes "issue_credential sa actor expires w = (Inr (cred, token), w')"
  shows "\<exists>e. cred = \<lparr>cred_id = uuid_source (env w) (rng w), cred_service_account = sa_id sa,
       secret_hash = hash_secret (env w) (token_source (env w) (Suc (rng w))),
       cred_created_by = Some (user_id actor), last_used_at = None, expires_at = expires, revoked_at = None\<rparr>
     \<and> token = token_of (cred_id cred) (token_source (env w) (Suc (rng w)))
     \<and> \<not> list_ex (credential_clash cred) (credentials (ctl w))
     \<and> w' = log_event e (w\<lparr>rng := Suc (Suc (rng w)), ctl := credentials_update (\<lambda>xs. xs @ [cred]) (ctl w)\<rparr>)"
  using assms
  by (auto simp: issue_credential_def bind_def token_urlsafe_def Let_def orm_create_def token_of_def
      ServiceAccount_organization_id_def get_one_run split: if_splits list.splits)

lemma issue_resolves:
  assumes run: "issue_credential sa actor expires w = (Inr (cred, token), w')"
    and uniq: "unique_rows credential_clash (credentials (ctl w))" and secrets: "secrets_ok (env w)"
    and alive: "case expires of None \<Rightarrow> True | Some x \<Rightarrow> clock w < x"
  shows "\<exists>w''. resolve_credential token w' = (Inr (cred\<lparr>last_used_at := Some (clock w)\<rparr>), w'')"
proof -
  let ?secret = "token_source (env w) (Suc (rng w))"
  from issue_Inr [OF run] obtain e where cred: "cred = \<lparr>cred_id = uuid_source (env w) (rng w),
       cred_service_account = sa_id sa, secret_hash = hash_secret (env w) ?secret,
       cred_created_by = Some (user_id actor), last_used_at = None, expires_at = expires, revoked_at = None\<rparr>"
    and token: "token = token_of (cred_id cred) ?secret"
    and new: "\<not> list_ex (credential_clash cred) (credentials (ctl w))"
    and w': "w' = log_event e (w\<lparr>rng := Suc (Suc (rng w)), ctl := credentials_update (\<lambda>xs. xs @ [cred]) (ctl w)\<rparr>)"
    by blast
  have "unique_rows credential_clash (credentials (ctl w'))"
    using uniq new by (simp add: w' unique_rows_append)
  moreover have "cred \<in> set (credentials (ctl w'))" by (simp add: w')
  moreover have "isascii (secret_hash cred)" "isascii (hash_secret (env w') ?secret)" "?secret \<noteq> ''''"
    using secrets by (simp_all add: secrets_ok_def cred hash_secret_def w')
  ultimately have "resolve_credential (token_of (cred_id cred) ?secret) w' =
    (if live_credential (clock w') cred \<and> secret_hash cred = hash_secret (env w') ?secret
     then (Inr (cred\<lparr>last_used_at := Some (clock w')\<rparr>),
       w'\<lparr>ctl := credentials_update (update_where (\<lambda>r. cred_id r = cred_id cred)
           (\<lambda>r. r\<lparr>last_used_at := Some (clock w')\<rparr>)) (ctl w')\<rparr>)
     else (Inl InvalidCredential, w'))"
    by (rule resolve_run)
  moreover have "live_credential (clock w') cred"
    using alive by (simp add: live_credential_def cred w' split: option.splits)
  moreover have "secret_hash cred = hash_secret (env w') ?secret" by (simp add: cred w')
  ultimately show ?thesis using token by (simp add: w')
qed

text \<open>C14. The token that issuing answers is the one that authenticates: it resolves at once to the
  credential that was stored for it, unless that was issued already expired.\<close>

theorem issue_resolve_roundtrip:
  assumes "issue_credential sa actor expires w = (Inr (cred, token), w')"
    and "unique_rows credential_clash (credentials (ctl w))" and "secrets_ok (env w)"
    and "case expires of None \<Rightarrow> True | Some x \<Rightarrow> clock w < x"
  shows "\<exists>w''. resolve_credential token w' = (Inr (cred\<lparr>last_used_at := Some (clock w)\<rparr>), w'')"
  using assms by (rule issue_resolves)

text \<open>C15. A token resolves only to a live credential: it has the form prefix, id, dot, secret; the id is
  that of a stored credential that is neither revoked nor expired, and the secret has the stored
  hash. Nothing but its time of last use changes, and a refused token changes nothing.\<close>

theorem resolve_sound:
  "wp (resolve_credential token)
     (\<lambda>cred' w'. \<exists>cred id_part secret. cred \<in> set (credentials (ctl w)) \<and> token = TOKEN_PREFIX @ id_part @ ''.'' @ secret
        \<and> uuid_parse id_part = Some (cred_id cred) \<and> live_credential (clock w) cred
        \<and> secret_hash cred = hash_secret (env w) secret
        \<and> cred' = cred\<lparr>last_used_at := Some (clock w)\<rparr>
        \<and> w' = w\<lparr>ctl := credentials_update (update_where (\<lambda>r. cred_id r = cred_id cred)
            (\<lambda>r. r\<lparr>last_used_at := Some (clock w)\<rparr>)) (ctl w)\<rparr>)
     (\<lambda>e w'. w' = w) w"
proof -
  have parts: "s = fst (partition_at c s) @ c # snd (partition_at c s)" if "snd (partition_at c s) \<noteq> ''''" for c s
    using that by (induction s) (auto simp: partition_at_def split: if_splits)
  have mem: "x \<in> set (credentials (ctl w)) \<and> cred_id x = i"
    if "filter (\<lambda>r. cred_id r = i) (credentials (ctl w)) = [x]" for x i
    using arg_cong [OF that, of set] by auto
  let ?rest = "drop (length TOKEN_PREFIX) token"
  have token: "token = TOKEN_PREFIX @ fst (partition_at CHR ''.'' ?rest) @ ''.'' @ snd (partition_at CHR ''.'' ?rest)"
    if "prefix TOKEN_PREFIX token" "snd (partition_at CHR ''.'' ?rest) \<noteq> ''''"
    using that(1) parts [OF that(2)] by (auto simp: prefix_def)
  show ?thesis
    unfolding resolve_credential_def
    apply (auto simp: wp_get_one compare_digest_def save_credential_def wp_orm_update
        split: prod.split option.split list.split)
    subgoal for id_part secret i cred
      using token mem [of i cred]
      by (simp add: Let_def wp_orm_update) (rule impI, rule exI [of _ cred], rule conjI, simp,
        rule exI [of _ id_part], rule exI [of _ secret], simp add: live_credential_def)
    subgoal for id_part secret i cred x
      using token mem [of i cred]
      by (simp add: Let_def wp_orm_update) (rule impI, rule exI [of _ cred], rule conjI, simp,
        rule exI [of _ id_part], rule exI [of _ secret], simp add: live_credential_def)
    done
qed

lemma revoke_Inr:
  assumes "revoke_credential cred actor w = (Inr cred', w')"
    and uniq: "unique_rows credential_clash (credentials (ctl w))"
  shows "cred' = cred\<lparr>revoked_at := Some (clock w)\<rparr> \<and> (\<exists>e. w' = log_event e
    (w\<lparr>ctl := credentials_update (update_where (\<lambda>r. cred_id r = cred_id cred) (\<lambda>r. r\<lparr>revoked_at := Some (clock w)\<rparr>)) (ctl w)\<rparr>))"
  using assms save_credential_run [OF uniq]
  by (auto simp: revoke_credential_def bind_def Let_def Credential_organization_id_def credential_service_account_def
      ServiceAccount_organization_id_def get_one_run split: list.splits)

lemma unique_credentials_update:
  assumes "unique_rows credential_clash cs" and "\<And>r. cred_id (f r) = cred_id r \<and> secret_hash (f r) = secret_hash r"
  shows "unique_rows credential_clash (update_where P f cs)"
proof -
  have "credential_clash (if P y then f y else y) (if P x then f x else x) = credential_clash y x" for x y
    using assms(2) by (simp add: credential_clash_def)
  with assms(1) show ?thesis by (simp add: unique_rows_def update_where_def sorted_wrt_map)
qed

text \<open>Rotation replaces a credential: when it returns, the token it answers resolves to the new
  credential, and every token of the old one, whatever secret it carried, is refused.\<close>

theorem rotate_replaces:
  assumes run: "rotate_credential cred actor w = (Inr (new, token), w')"
    and uniq: "unique_rows credential_clash (credentials (ctl w))" and row: "cred \<in> set (credentials (ctl w))"
    and secrets: "secrets_ok (env w)" and old: "old \<noteq> ''''" "isascii (secret_hash cred)"
  shows "resolve_credential (token_of (cred_id cred) old) w' = (Inl InvalidCredential, w')
    \<and> (\<exists>w''. resolve_credential token w' = (Inr (new\<lparr>last_used_at := Some (clock w)\<rparr>), w''))"
proof -
  let ?revoke = "update_where (\<lambda>r. cred_id r = cred_id cred) (\<lambda>r. r\<lparr>revoked_at := Some (clock w)\<rparr>)"
  from run obtain c1 w1 sa w2 e2 where revoke: "revoke_credential cred actor w = (Inr c1, w1)"
    and issue: "issue_credential sa actor None w1 = (Inr (new, token), w2)" and w': "w' = log_event e2 w2"
    by (auto simp: rotate_credential_def atomic_default_def bind_def Credential_organization_id_def
        credential_service_account_def ServiceAccount_organization_id_def get_one_run
        split: prod.splits sum.splits list.splits)
  from revoke_Inr [OF revoke uniq] obtain e1 where w1: "w1 = log_event e1
    (w\<lparr>ctl := credentials_update ?revoke (ctl w)\<rparr>)" by blast
  let ?secret = "token_source (env w) (Suc (rng w1))"
  from issue_Inr [OF issue] obtain e where new: "new = \<lparr>cred_id = uuid_source (env w) (rng w1),
       cred_service_account = sa_id sa, secret_hash = hash_secret (env w) ?secret,
       cred_created_by = Some (user_id actor), last_used_at = None, expires_at = None, revoked_at = None\<rparr>"
    and token: "token = token_of (cred_id new) ?secret"
    and fresh: "\<not> list_ex (credential_clash new) (credentials (ctl w1))"
    and w2: "w2 = log_event e (w1\<lparr>rng := Suc (Suc (rng w1)), ctl := credentials_update (\<lambda>xs. xs @ [new]) (ctl w1)\<rparr>)"
    by (auto simp: w1)
  have rows: "credentials (ctl w') = ?revoke (credentials (ctl w)) @ [new]" and env: "env w' = env w"
    and clock: "clock w' = clock w" by (simp_all add: w' w2 w1)
  have uniq': "unique_rows credential_clash (credentials (ctl w'))"
    using unique_credentials_update [OF uniq] fresh by (simp add: rows unique_rows_append w1)
  have hashes: "isascii (hash_secret (env w') s)" for s using secrets by (simp add: secrets_ok_def hash_secret_def env)
  let ?cred = "cred\<lparr>revoked_at := Some (clock w)\<rparr>"
  have "?cred \<in> set (credentials (ctl w'))" using row by (force simp: rows update_where_def)
  from resolve_run [OF uniq' this _ hashes old(1)] old(2)
  have "resolve_credential (token_of (cred_id cred) old) w' = (Inl InvalidCredential, w')"
    by (simp add: live_credential_def)
  moreover have "\<exists>w''. resolve_credential token w' = (Inr (new\<lparr>last_used_at := Some (clock w)\<rparr>), w'')"
  proof -
    have mem: "new \<in> set (credentials (ctl w'))" by (simp add: rows)
    have hash: "secret_hash new = hash_secret (env w') ?secret" by (simp add: new env)
    have "?secret \<noteq> ''''" using secrets by (simp add: secrets_ok_def)
    from resolve_run [OF uniq' mem _ hashes this] show ?thesis
      using hashes [of ?secret] by (simp add: token clock hash live_credential_def) (simp add: new)
  qed
  ultimately show ?thesis by simp
qed

lemma update_where_none: "\<not> list_ex P xs \<Longrightarrow> update_where P f xs = xs"
  by (induction xs) auto

text \<open>A new application can do nothing: registering one adds a user without a password, an active
  membership of the organization and a service account that ties it to the application, and changes
  no one's authority; if any step fails, the database is as it was.\<close>

theorem register_application_powerless:
  "wp (register_application org name text owner)
     (\<lambda>a w'. (\<exists>u sa m. users (ctl w') = users (ctl w) @ [u] \<and> password u = None \<and> is_active u
          \<and> service_accounts (ctl w') = service_accounts (ctl w) @ [sa] \<and> sa_application sa = app_id a
          \<and> sa_identity_user sa = user_id u
          \<and> memberships (ctl w') = memberships (ctl w) @ [m] \<and> mem_user m = user_id u
          \<and> mem_organization m = org_id org \<and> mem_status m = MActive)
        \<and> applications (ctl w') = applications (ctl w) @ [a] \<and> app_organization a = org_id org
        \<and> (\<lambda>i. permitted w' i) = (\<lambda>i. permitted w i))
     (\<lambda>e w'. ctl w' = ctl w) w"
proof -
  have same: "permitted w' = permitted w"
    if "role_assignments (ctl w') = role_assignments (ctl w)" "roles (ctl w') = roles (ctl w)"
      "resource_grants (ctl w') = resource_grants (ctl w)" "clock w' = clock w" for w'
    using permitted_cong [OF that] by (simp add: fun_eq_iff)
  have keep: "update_where (\<lambda>r. user_id r = i) f us = us"
    if "\<not> list_ex (user_clash u) us" "user_id u = i" for u us i and f :: "user \<Rightarrow> user"
    by (rule update_where_none) (use that in \<open>auto simp: list_ex_iff user_clash_def\<close>)
  show ?thesis
    unfolding register_application_def create_user_def hash_password_def save_user_def
    apply (simp add: wp_orm_create wp_orm_update Let_def cong: if_cong)
    apply (intro impI conjI)
     apply (erule keep, simp)
    apply (rule same; simp)
    done
qed

section \<open>Concrete runs\<close>

definition robot_account :: service_account where
  "robot_account = \<lparr>sa_id = 71, sa_application = 70, sa_identity_user = 2\<rparr>"

definition robot_credential :: application_credential where
  "robot_credential = \<lparr>cred_id = 72, cred_service_account = 71, secret_hash = ''x'',
     cred_created_by = Some 1, last_used_at = None, expires_at = None, revoked_at = None\<rparr>"

definition robot_shop :: control where
  "robot_shop = shop\<lparr>applications := [\<lparr>app_id = 70, app_organization = 7, app_name = ''robot'',
       app_description = '''', app_owner = 1\<rparr>],
     service_accounts := [robot_account], credentials := [robot_credential]\<rparr>"

lemma robot_simps [simp]:
  "applications robot_shop = [\<lparr>app_id = 70, app_organization = 7, app_name = ''robot'',
       app_description = '''', app_owner = 1\<rparr>]"
  "service_accounts robot_shop = [robot_account]" "credentials robot_shop = [robot_credential]"
  "cred_id robot_credential = 72" "cred_service_account robot_credential = 71"
  "secret_hash robot_credential = ''x''" "sa_id robot_account = 71" "sa_application robot_account = 70"
  by (simp_all add: robot_shop_def robot_credential_def robot_account_def)

lemma secrets_ok_base_env: "secrets_ok base_env"
  by (simp add: secrets_ok_def isascii_def)

lemma robot_unique: "unique_rows credential_clash (credentials robot_shop)"
  by (simp add: unique_rows_def credential_clash_def)

definition shop_without_credentials :: control where
  "shop_without_credentials = robot_shop\<lparr>credentials := []\<rparr>"

theorem issue_resolve_roundtrip_witness:
  "\<exists>cred token w' w''. issue_credential robot_account alice None (world_of shop_without_credentials) = (Inr (cred, token), w')
     \<and> resolve_credential token w' = (Inr (cred\<lparr>last_used_at := Some 50\<rparr>), w'')"
proof -
  have "\<exists>cred token w'. issue_credential robot_account alice None (world_of shop_without_credentials) = (Inr (cred, token), w')"
    by (simp add: issue_credential_def bind_def token_urlsafe_def orm_create_def Let_def
        ServiceAccount_organization_id_def get_one_run shop_without_credentials_def)
  then obtain cred token w' where run:
    "issue_credential robot_account alice None (world_of shop_without_credentials) = (Inr (cred, token), w')" by blast
  have "\<exists>w''. resolve_credential token w' = (Inr (cred\<lparr>last_used_at := Some (clock (world_of shop_without_credentials))\<rparr>), w'')"
    by (rule issue_resolve_roundtrip [OF run])
      (simp_all add: secrets_ok_base_env shop_without_credentials_def unique_rows_def)
  with run show ?thesis by auto
qed

definition used_up_world :: world where
  "used_up_world = (world_of robot_shop)\<lparr>env := base_env\<lparr>sha256 := (\<lambda>b. ''y'')\<rparr>\<rparr>"

lemma used_up_simps [simp]:
  "ctl used_up_world = robot_shop" "env used_up_world = base_env\<lparr>sha256 := (\<lambda>b. ''y'')\<rparr>"
  "rng used_up_world = 0" "clock used_up_world = 50"
  by (simp_all add: used_up_world_def)

theorem rotate_replaces_witness:
  "\<exists>new token w' w''. rotate_credential robot_credential alice used_up_world = (Inr (new, token), w')
     \<and> resolve_credential (token_of 72 ''old'') w' = (Inl InvalidCredential, w')
     \<and> resolve_credential token w' = (Inr (new\<lparr>last_used_at := Some 50\<rparr>), w'')"
proof -
  have distinct: "(1000 :: uuid) \<noteq> 72" "(1001 :: uuid) \<noteq> 72" "(1002 :: uuid) \<noteq> 72" by simp_all
  have "\<exists>new token w'. rotate_credential robot_credential alice used_up_world = (Inr (new, token), w')"
    using save_credential_run [of used_up_world] robot_unique
    by (simp add: rotate_credential_def atomic_default_def revoke_credential_def issue_credential_def bind_def
        token_urlsafe_def orm_create_def Let_def Credential_organization_id_def credential_service_account_def
        ServiceAccount_organization_id_def get_one_run credential_clash_def hash_secret_def)
  then obtain new token w' where run:
    "rotate_credential robot_credential alice used_up_world = (Inr (new, token), w')" by blast
  have "resolve_credential (token_of (cred_id robot_credential) ''old'') w' = (Inl InvalidCredential, w')
    \<and> (\<exists>w''. resolve_credential token w' = (Inr (new\<lparr>last_used_at := Some (clock used_up_world)\<rparr>), w''))"
    by (rule rotate_replaces [OF run]) (simp_all add: unique_rows_def secrets_ok_def isascii_def)
  with run show ?thesis by auto
qed

end
