(* ===== verification/Ddl.thy ===== *)
theory Ddl
  imports Python
begin

text \<open>
  The two layers between a user's text and DDL (\<open>databases/identifiers.py\<close>, \<open>ddl.py\<close>): strict
  identifiers, and composed statements whose raw parts are constants of the code. What psycopg
  does with a composed statement (quoting) is its documented behaviour and is kept symbolic.
\<close>

section \<open>Identifiers\<close>

definition lower_letter :: "char \<Rightarrow> bool" where
  "lower_letter c \<longleftrightarrow> (let n = of_char c :: nat in 97 \<le> n \<and> n \<le> 122)"

text \<open>\<open>^[a-z][a-z0-9_]{0,62}\Z\<close>\<close>

definition IDENTIFIER_RE :: "string \<Rightarrow> bool" where
  "IDENTIFIER_RE s = (case s of [] \<Rightarrow> False
     | c # r \<Rightarrow> lower_letter c \<and> length r \<le> 62
         \<and> list_all (\<lambda>x. lower_letter x \<or> is_decimal_digit x \<or> x = CHR ''_'') r)"

definition RESERVED_COLUMN_NAMES :: "string set" where
  "RESERVED_COLUMN_NAMES = {''id''}"

definition validate_identifier :: "string \<Rightarrow> exn + string" where
  "validate_identifier name = (if IDENTIFIER_RE name then Inr name else Inl IdentifierError)"

definition validate_column_name :: "string \<Rightarrow> exn + string" where
  "validate_column_name name = (case validate_identifier name of Inl e \<Rightarrow> Inl e
     | Inr n \<Rightarrow> if n \<in> RESERVED_COLUMN_NAMES then Inl IdentifierError else Inr n)"

section \<open>Column types and defaults\<close>

definition PG_TYPES :: "(string \<times> string) list" where
  "PG_TYPES = [(''text'', ''TEXT''), (''integer'', ''INTEGER''), (''bigint'', ''BIGINT''),
     (''boolean'', ''BOOLEAN''), (''date'', ''DATE''), (''datetime'', ''TIMESTAMPTZ''),
     (''uuid'', ''UUID''), (''json'', ''JSONB'')]"

definition MAX_VARCHAR_LENGTH :: int where "MAX_VARCHAR_LENGTH = 10485760"
definition MAX_DECIMAL_PRECISION :: int where "MAX_DECIMAL_PRECISION = 1000"

definition or_default :: "'a option \<Rightarrow> 'a \<Rightarrow> 'a" where
  "or_default x d = (case x of None \<Rightarrow> d | Some v \<Rightarrow> v)"

definition column_type_sql :: "string \<Rightarrow> int option \<Rightarrow> int option \<Rightarrow> int option \<Rightarrow> exn + composable" where
  "column_type_sql dtype max_len prec scal =
    (if dtype = ''varchar'' then
       (let len = or_default max_len 255 in
        if \<not> (0 < len \<and> len \<le> MAX_VARCHAR_LENGTH) then Inl DDLValidationError
        else Inr (Composed [SQL ''VARCHAR('', Literal (VInt len), SQL '')'']))
     else if dtype = ''decimal'' then
       (let p = or_default prec 18; s = or_default scal 4 in
        if \<not> (0 < p \<and> p \<le> MAX_DECIMAL_PRECISION) \<or> \<not> (0 \<le> s \<and> s \<le> p) then Inl DDLValidationError
        else Inr (Composed [SQL ''NUMERIC('', Literal (VInt p), SQL '', '', Literal (VInt s), SQL '')'']))
     else case map_of PG_TYPES dtype of None \<Rightarrow> Inl DDLValidationError | Some t \<Rightarrow> Inr (SQL t))"

definition default_literal :: "pg_value \<Rightarrow> composable" where
  "default_literal v = Composed [SQL '' DEFAULT '', Literal v]"

definition default_clause_sql :: "string \<Rightarrow> json option \<Rightarrow> exn + composable" where
  "default_clause_sql dtype dflt =
    (case dflt of None \<Rightarrow> Inr (SQL '''')
     | Some v \<Rightarrow>
       if dtype = ''boolean'' then
         (case v of JBool b \<Rightarrow> Inr (default_literal (VBool b)) | _ \<Rightarrow> Inl DDLValidationError)
       else if dtype = ''uuid'' then
         (if v \<noteq> JStr ''gen_random_uuid()'' then Inl DDLValidationError
          else Inr (SQL '' DEFAULT gen_random_uuid()''))
       else if dtype = ''datetime'' then
         (if v \<noteq> JStr ''now()'' then Inl DDLValidationError else Inr (SQL '' DEFAULT now()''))
       else if dtype = ''text'' \<or> dtype = ''varchar'' then
         (case v of JStr s \<Rightarrow> Inr (default_literal (VStr s)) | _ \<Rightarrow> Inl DDLValidationError)
       else if dtype = ''integer'' \<or> dtype = ''bigint'' then
         (case v of JInt i \<Rightarrow> Inr (default_literal (VInt i)) | _ \<Rightarrow> Inl DDLValidationError)
       else if dtype = ''decimal'' then
         (case py_str v of Some s \<Rightarrow> if decimal_ok s then Inr (default_literal (VStr s)) else Inl DDLValidationError
          | None \<Rightarrow> Inl DDLValidationError)
       else if dtype = ''json'' then
         Inr (Composed [SQL '' DEFAULT '', Literal (VStr (json_dumps v)), SQL ''::jsonb''])
       else Inl DDLValidationError)"

section \<open>What reaches the server\<close>

text \<open>The raw text, the identifiers and the literals of a composed statement.\<close>

fun raw_texts :: "composable \<Rightarrow> string list" where
  "raw_texts (SQL s) = [s]"
| "raw_texts (Identifier n) = []"
| "raw_texts (Literal v) = []"
| "raw_texts Placeholder = []"
| "raw_texts (Composed qs) = concat (map raw_texts qs)"

fun identifiers_of :: "composable \<Rightarrow> string list" where
  "identifiers_of (SQL s) = []"
| "identifiers_of (Identifier n) = [n]"
| "identifiers_of (Literal v) = []"
| "identifiers_of Placeholder = []"
| "identifiers_of (Composed qs) = concat (map identifiers_of qs)"

fun literals_of :: "composable \<Rightarrow> pg_value list" where
  "literals_of (SQL s) = []"
| "literals_of (Identifier n) = []"
| "literals_of (Literal v) = [v]"
| "literals_of Placeholder = []"
| "literals_of (Composed qs) = concat (map literals_of qs)"

fun placeholders_of :: "composable \<Rightarrow> nat" where
  "placeholders_of (SQL s) = 0"
| "placeholders_of (Identifier n) = 0"
| "placeholders_of (Literal v) = 0"
| "placeholders_of Placeholder = 1"
| "placeholders_of (Composed qs) = sum_list (map placeholders_of qs)"

text \<open>The characters of an identifier that passes, and those with a meaning in SQL.\<close>

definition identifier_char :: "char \<Rightarrow> bool" where
  "identifier_char c \<longleftrightarrow> lower_letter c \<or> is_decimal_digit c \<or> c = CHR ''_''"

definition SQL_SPECIAL :: "char set" where
  "SQL_SPECIAL = {CHR 0x22, CHR 0x27, CHR '';'', CHR ''-'', CHR '' '', CHR 0x0A, CHR ''%'', CHR 0x5C, CHR 0x00}"

lemma identifier_chars:
  assumes "IDENTIFIER_RE s"
  shows "length s \<le> 63 \<and> s \<noteq> '''' \<and> lower_letter (hd s) \<and> set s \<subseteq> Collect identifier_char"
  using assms by (auto simp: IDENTIFIER_RE_def list_all_iff identifier_char_def split: list.splits)

lemma special_not_identifier: "c \<in> SQL_SPECIAL \<Longrightarrow> \<not> identifier_char c"
  by (auto simp: SQL_SPECIAL_def identifier_char_def lower_letter_def is_decimal_digit_def)

lemma identifier_harmless: "IDENTIFIER_RE s \<Longrightarrow> set s \<inter> SQL_SPECIAL = {}"
  using identifier_chars special_not_identifier by blast

text \<open>An accepted column name is a PostgreSQL identifier that needs no quoting: 1 to 63 characters,
  a letter first, then letters, digits and underscores, so no quote, no semicolon, no comment, no
  blank and no line break, not even at the end; and it is not the reserved \<open>id\<close>.\<close>

theorem column_name_bounds:
  "validate_column_name name = (if IDENTIFIER_RE name \<and> name \<noteq> ''id'' then Inr name else Inl IdentifierError)
   \<and> (if IDENTIFIER_RE name
      then 1 \<le> length name \<and> length name \<le> 63 \<and> lower_letter (hd name) \<and> set name \<inter> SQL_SPECIAL = {}
      else True)"
proof -
  have "validate_column_name name = (if IDENTIFIER_RE name \<and> name \<noteq> ''id'' then Inr name else Inl IdentifierError)"
    by (simp add: validate_column_name_def validate_identifier_def RESERVED_COLUMN_NAMES_def)
  then show ?thesis
    using identifier_chars [of name] identifier_harmless [of name] by (simp add: Suc_le_eq)
qed

text \<open>The raw parts of types and defaults.\<close>

definition TYPE_TEXTS :: "string set" where
  "TYPE_TEXTS = {''VARCHAR('', '')'', ''NUMERIC('', '', '', ''TEXT'', ''INTEGER'', ''BIGINT'', ''BOOLEAN'', ''DATE'',
     ''TIMESTAMPTZ'', ''UUID'', ''JSONB'', '''', '' DEFAULT '', '' DEFAULT gen_random_uuid()'', '' DEFAULT now()'', ''::jsonb''}"

lemma TYPE_TEXTS_simps [simp]:
  "''VARCHAR('' \<in> TYPE_TEXTS"
  "'')'' \<in> TYPE_TEXTS"
  "''NUMERIC('' \<in> TYPE_TEXTS"
  "'', '' \<in> TYPE_TEXTS"
  "''TEXT'' \<in> TYPE_TEXTS"
  "''INTEGER'' \<in> TYPE_TEXTS"
  "''BIGINT'' \<in> TYPE_TEXTS"
  "''BOOLEAN'' \<in> TYPE_TEXTS"
  "''DATE'' \<in> TYPE_TEXTS"
  "''TIMESTAMPTZ'' \<in> TYPE_TEXTS"
  "''UUID'' \<in> TYPE_TEXTS"
  "''JSONB'' \<in> TYPE_TEXTS"
  "'''' \<in> TYPE_TEXTS"
  "'' DEFAULT '' \<in> TYPE_TEXTS"
  "'' DEFAULT gen_random_uuid()'' \<in> TYPE_TEXTS"
  "'' DEFAULT now()'' \<in> TYPE_TEXTS"
  "''::jsonb'' \<in> TYPE_TEXTS"
  by (simp_all add: TYPE_TEXTS_def)

lemma column_type_sql_texts:
  assumes "column_type_sql dt m p s = Inr q"
  shows "set (raw_texts q) \<subseteq> TYPE_TEXTS \<and> identifiers_of q = []"
proof -
  have "t \<in> TYPE_TEXTS" if "map_of PG_TYPES dt = Some t" for t
    using map_of_SomeD [OF that] by (auto simp: PG_TYPES_def)
  with assms show ?thesis
    by (auto simp: column_type_sql_def Let_def split: if_splits option.splits)
qed

lemma default_literal_texts: "set (raw_texts (default_literal v)) \<subseteq> TYPE_TEXTS \<and> identifiers_of (default_literal v) = []"
  by (simp add: default_literal_def)

definition template_ok :: "exn + composable \<Rightarrow> bool" where
  "template_ok r \<longleftrightarrow> (case r of Inl e \<Rightarrow> True
     | Inr q \<Rightarrow> set (raw_texts q) \<subseteq> TYPE_TEXTS \<and> identifiers_of q = [])"

lemma template_ok_if: "template_ok x \<Longrightarrow> template_ok y \<Longrightarrow> template_ok (if c then x else y)"
  by simp

lemma default_clause_sql_ok: "template_ok (default_clause_sql dt d)"
proof (cases d)
  case None then show ?thesis by (simp add: default_clause_sql_def template_ok_def)
next
  case (Some v)
  show ?thesis
    unfolding default_clause_sql_def Some option.case
    by (intro template_ok_if; simp add: template_ok_def default_literal_def split: json.split option.split)
qed

lemma default_clause_sql_texts:
  "default_clause_sql dt d = Inr q \<Longrightarrow> set (raw_texts q) \<subseteq> TYPE_TEXTS \<and> identifiers_of q = []"
  using default_clause_sql_ok [of dt d] by (simp add: template_ok_def)


end
