(* ===== verification/Schema.thy ===== *)
theory Schema
  imports Ddl Guards
begin

text \<open>
  The schema services (\<open>databases/services.py\<close>). Every operation asks for permission, validates,
  runs one DDL statement in a transaction of the tenant connection and then writes the catalog in
  a transaction of the control database; if the catalog write fails, it tries to undo the DDL by a
  compensating statement and raises the catalog's error either way. The two connections share no
  transaction. \<open>physical\<close> replays the committed statements of the tenant cluster to the tables that
  exist there, \<open>in_sync\<close> compares them with the catalog.
\<close>

section \<open>Lookups\<close>

definition database_organizations :: "control \<Rightarrow> tenant_database \<Rightarrow> uuid list" where
  "database_organizations c d = project_organizations c (tdb_project d)"

definition table_organizations :: "control \<Rightarrow> db_table \<Rightarrow> uuid list" where
  "table_organizations c t = [org. d \<leftarrow> tenant_databases c, tdb_id d = tbl_database t,
     org \<leftarrow> database_organizations c d]"

definition column_organizations :: "control \<Rightarrow> db_column \<Rightarrow> uuid list" where
  "column_organizations c x = [org. t \<leftarrow> db_tables c, tbl_id t = col_table x,
     org \<leftarrow> table_organizations c t]"

definition get_member_tenant_database :: "user \<Rightarrow> uuid \<Rightarrow> tenant_database app" where
  "get_member_tenant_database user i = or_404 (get_one (
     member_rows tenant_databases tdb_id database_organizations (user_id user) i))"

definition get_member_table :: "user \<Rightarrow> uuid \<Rightarrow> db_table app" where
  "get_member_table user i = or_404 (get_one (
     member_rows db_tables tbl_id table_organizations (user_id user) i))"

definition get_member_column :: "user \<Rightarrow> uuid \<Rightarrow> db_column app" where
  "get_member_column user i = or_404 (get_one (
     member_rows db_columns col_id column_organizations (user_id user) i))"

interpretation database_lookup:
  member_lookup get_member_tenant_database tenant_databases tdb_id database_organizations
  by (rule member_lookup_join) (rule get_member_tenant_database_def)

interpretation table_lookup: member_lookup get_member_table db_tables tbl_id table_organizations
  by (rule member_lookup_join) (rule get_member_table_def)

interpretation column_lookup: member_lookup get_member_column db_columns col_id column_organizations
  by (rule member_lookup_join) (rule get_member_column_def)

text \<open>The foreign keys, and the \<open>organization_id\<close> properties that follow them.\<close>

definition table_database :: "db_table \<Rightarrow> tenant_database app" where
  "table_database t = get_one (\<lambda>c. filter (\<lambda>d. tdb_id d = tbl_database t) (tenant_databases c))"

definition column_table :: "db_column \<Rightarrow> db_table app" where
  "column_table x = get_one (\<lambda>c. filter (\<lambda>t. tbl_id t = col_table x) (db_tables c))"

definition Database_organization_id :: "tenant_database \<Rightarrow> uuid app" where
  "Database_organization_id d = organization_of_project (tdb_project d)"

definition Table_organization_id :: "db_table \<Rightarrow> uuid app" where
  "Table_organization_id t = bind (table_database t) Database_organization_id"

definition Column_organization_id :: "db_column \<Rightarrow> uuid app" where
  "Column_organization_id x = bind (column_table x) Table_organization_id"

section \<open>The two writes\<close>

definition schema_require :: "user \<Rightarrow> string \<Rightarrow> uuid \<Rightarrow> string \<Rightarrow> string \<Rightarrow> string \<Rightarrow> string \<Rightarrow> unit app" where
  "schema_require actor code org action rtype rid request_id =
     require actor code org None action rtype rid request_id SchemaPermissionDenied"

definition execute_tenant_ddl :: "composable \<Rightarrow> unit app" where
  "execute_tenant_ddl ddl = atomic_tenant (bind (tenant_execute ddl []) (\<lambda>_. ret ()))"

definition write_catalog :: "'a app \<Rightarrow> composable \<Rightarrow> 'a app" where
  "write_catalog fn compensating =
     catch (atomic_default fn) (\<lambda>e.
       bind (catch (execute_tenant_ddl compensating) (\<lambda>_. ret ())) (\<lambda>_. raise e))"

text \<open>\<open>except IdentifierError ... raise SchemaValidationError\<close>.\<close>

definition validating :: "(exn + 'a) \<Rightarrow> 'a app" where
  "validating r = (case r of Inr x \<Rightarrow> ret x
     | Inl e \<Rightarrow> if e = IdentifierError \<or> e = DDLValidationError then raise SchemaValidationError else raise e)"

section \<open>Statements\<close>

definition CREATE_SCHEMA :: "string \<Rightarrow> composable" where
  "CREATE_SCHEMA schema = Composed [SQL ''CREATE SCHEMA '', Identifier schema]"

definition DROP_SCHEMA :: "string \<Rightarrow> composable" where
  "DROP_SCHEMA schema = Composed [SQL ''DROP SCHEMA '', Identifier schema, SQL '' CASCADE'']"

definition CREATE_TABLE :: "string \<Rightarrow> string \<Rightarrow> composable" where
  "CREATE_TABLE schema table = Composed [SQL ''CREATE TABLE '', Identifier schema, SQL ''.'', Identifier table,
     SQL '' ('', Identifier ''id'', SQL '' UUID PRIMARY KEY DEFAULT gen_random_uuid())'']"

definition DROP_TABLE :: "string \<Rightarrow> string \<Rightarrow> composable" where
  "DROP_TABLE schema table = Composed [SQL ''DROP TABLE '', Identifier schema, SQL ''.'', Identifier table]"

definition ADD_COLUMN ::
  "string \<Rightarrow> string \<Rightarrow> string \<Rightarrow> composable \<Rightarrow> bool \<Rightarrow> bool \<Rightarrow> composable \<Rightarrow> composable" where
  "ADD_COLUMN schema table col type_sql nullable unique default_sql =
     Composed [SQL ''ALTER TABLE '', Identifier schema, SQL ''.'', Identifier table, SQL '' ADD COLUMN '',
       Identifier col, SQL '' '', type_sql, SQL (if nullable then '''' else '' NOT NULL''),
       SQL (if unique then '' UNIQUE'' else ''''), default_sql]"

definition DROP_COLUMN :: "string \<Rightarrow> string \<Rightarrow> string \<Rightarrow> composable" where
  "DROP_COLUMN schema table col = Composed [SQL ''ALTER TABLE '', Identifier schema, SQL ''.'',
     Identifier table, SQL '' DROP COLUMN '', Identifier col]"

definition ON_DELETE_SQL :: "(string \<times> string) list" where
  "ON_DELETE_SQL = [(''cascade'', ''CASCADE''), (''restrict'', ''RESTRICT''), (''set_null'', ''SET NULL'')]"

definition ADD_FOREIGN_KEY ::
  "string \<Rightarrow> string \<Rightarrow> string \<Rightarrow> string \<Rightarrow> string \<Rightarrow> string \<Rightarrow> string \<Rightarrow> composable" where
  "ADD_FOREIGN_KEY schema table constraint col ref_table ref_col on_delete =
     Composed [SQL ''ALTER TABLE '', Identifier schema, SQL ''.'', Identifier table, SQL '' ADD CONSTRAINT '',
       Identifier constraint, SQL '' FOREIGN KEY ('', Identifier col, SQL '') REFERENCES '', Identifier schema,
       SQL ''.'', Identifier ref_table, SQL '' ('', Identifier ref_col, SQL '') ON DELETE '', SQL on_delete]"

definition DROP_CONSTRAINT :: "string \<Rightarrow> string \<Rightarrow> string \<Rightarrow> composable" where
  "DROP_CONSTRAINT schema table constraint = Composed [SQL ''ALTER TABLE '', Identifier schema, SQL ''.'',
     Identifier table, SQL '' DROP CONSTRAINT '', Identifier constraint]"

section \<open>Operations\<close>

definition create_tenant_database :: "user \<Rightarrow> project \<Rightarrow> string \<Rightarrow> string \<Rightarrow> tenant_database app" where
  "create_tenant_database actor project name request_id =
     bind (Project_organization_id project) (\<lambda>org.
     bind (schema_require actor ''database.create'' org ''database.create'' ''tenant_database'' '''' request_id) (\<lambda>_.
     bind (ensure (name \<noteq> '''' \<and> length name \<le> 200) SchemaValidationError) (\<lambda>_.
     bind uuid4 (\<lambda>i.
     let d = \<lparr>tdb_id = i, tdb_project = proj_id project, tdb_name = name,
           schema_name = ''db_'' @ uuid_hex i, tdb_created_by = user_id actor\<rparr> in
     bind (execute_tenant_ddl (CREATE_SCHEMA (schema_name d))) (\<lambda>_.
     bind (write_catalog (orm_create tenant_databases tenant_databases_update tenant_database_clash d)
       (DROP_SCHEMA (schema_name d))) (\<lambda>_.
     bind (audit_record (Some actor) (Some org) ''database.create'' ''tenant_database'' (uuid_str i)
       request_id Success [(''name'', JStr name)]) (\<lambda>_.
     ret d)))))))"

definition create_table :: "user \<Rightarrow> tenant_database \<Rightarrow> string \<Rightarrow> string \<Rightarrow> db_table app" where
  "create_table actor database name request_id =
     bind (Database_organization_id database) (\<lambda>org.
     bind (schema_require actor ''database.schema.manage'' org ''database.table.create'' ''tenant_database''
       (uuid_str (tdb_id database)) request_id) (\<lambda>_.
     bind (validating (validate_identifier name)) (\<lambda>_.
     bind uuid4 (\<lambda>tid. bind uuid4 (\<lambda>cid.
     bind (execute_tenant_ddl (CREATE_TABLE (schema_name database) name)) (\<lambda>_.
     let t = \<lparr>tbl_id = tid, tbl_database = tdb_id database, tbl_name = name, tbl_created_by = user_id actor\<rparr> in
     bind (write_catalog (
         bind (orm_create db_tables db_tables_update db_table_clash t) (\<lambda>_.
         orm_create db_columns db_columns_update db_column_clash
           \<lparr>col_id = cid, col_table = tid, col_name = ''id'', data_type = ''uuid'', max_length = None,
            precision = None, scale = None, is_primary_key = True, is_nullable = False, is_unique = True,
            default_value = None\<rparr>))
       (DROP_TABLE (schema_name database) name)) (\<lambda>_.
     bind (audit_record (Some actor) (Some org) ''database.table.create'' ''db_table'' (uuid_str tid)
       request_id Success [(''name'', JStr name)]) (\<lambda>_.
     ret t))))))))"

record column_spec =
  cs_name :: string
  cs_data_type :: string
  cs_max_length :: "int option"
  cs_precision :: "int option"
  cs_scale :: "int option"
  cs_nullable :: bool
  cs_unique :: bool
  cs_default :: "json option"

definition column_of_spec :: "uuid \<Rightarrow> db_table \<Rightarrow> column_spec \<Rightarrow> db_column" where
  "column_of_spec i table spec =
     \<lparr>col_id = i, col_table = tbl_id table, col_name = cs_name spec, data_type = cs_data_type spec,
      max_length = cs_max_length spec, precision = cs_precision spec, scale = cs_scale spec,
      is_primary_key = False, is_nullable = cs_nullable spec, is_unique = cs_unique spec,
      default_value = cs_default spec\<rparr>"

text \<open>The three checks in the order of the \<open>try\<close> block.\<close>

definition checked_column_sql :: "column_spec \<Rightarrow> (composable \<times> composable) app" where
  "checked_column_sql spec =
     bind (validating (validate_column_name (cs_name spec))) (\<lambda>_.
     bind (validating (column_type_sql (cs_data_type spec) (cs_max_length spec) (cs_precision spec) (cs_scale spec)))
       (\<lambda>type_sql.
     bind (validating (default_clause_sql (cs_data_type spec) (cs_default spec))) (\<lambda>default_sql.
     ret (type_sql, default_sql))))"

definition add_column :: "user \<Rightarrow> db_table \<Rightarrow> column_spec \<Rightarrow> string \<Rightarrow> db_column app" where
  "add_column actor table spec request_id =
     bind (Table_organization_id table) (\<lambda>org.
     bind (schema_require actor ''database.schema.manage'' org ''database.column.create'' ''db_table''
       (uuid_str (tbl_id table)) request_id) (\<lambda>_.
     bind (checked_column_sql spec) (\<lambda>(type_sql, default_sql).
     bind (table_database table) (\<lambda>database.
     bind (execute_tenant_ddl (ADD_COLUMN (schema_name database) (tbl_name table) (cs_name spec) type_sql
       (cs_nullable spec) (cs_unique spec) default_sql)) (\<lambda>_.
     bind (write_catalog (
         bind uuid4 (\<lambda>cid.
         let x = column_of_spec cid table spec in
         bind (orm_create db_columns db_columns_update db_column_clash x) (\<lambda>_.
         bind (if cs_unique spec
           then bind uuid4 (\<lambda>xid. orm_create db_indexes db_indexes_update db_index_clash
             \<lparr>idx_id = xid, idx_table = tbl_id table, idx_name = ''idx_'' @ uuid_hex cid,
              idx_columns = [cid], idx_is_unique = True\<rparr>)
           else ret ()) (\<lambda>_.
         ret x))))
       (DROP_COLUMN (schema_name database) (tbl_name table) (cs_name spec))) (\<lambda>x.
     bind (audit_record (Some actor) (Some org) ''database.column.create'' ''db_table''
       (uuid_str (tbl_id table)) request_id Success
       [(''column'', JStr (cs_name spec)), (''data_type'', JStr (cs_data_type spec))]) (\<lambda>_.
     ret x)))))))"

definition has_foreign_key :: "control \<Rightarrow> db_column \<Rightarrow> bool" where
  "has_foreign_key c x \<longleftrightarrow> list_ex (\<lambda>k. fk_column k = col_id x) (db_foreign_keys c)"

definition add_foreign_key ::
  "user \<Rightarrow> db_column \<Rightarrow> db_table \<Rightarrow> db_column \<Rightarrow> string \<Rightarrow> string \<Rightarrow> db_foreign_key app" where
  "add_foreign_key actor column ref_table ref_column on_delete request_id =
     bind (Column_organization_id column) (\<lambda>org.
     bind (schema_require actor ''database.schema.manage'' org ''database.foreign_key.create'' ''db_column''
       (uuid_str (col_id column)) request_id) (\<lambda>_.
     bind (column_table column) (\<lambda>table.
     bind (ensure (tbl_database ref_table = tbl_database table) SchemaValidationError) (\<lambda>_.
     bind (ensure (is_unique ref_column \<or> is_primary_key ref_column) SchemaValidationError) (\<lambda>_.
     bind (ensure (data_type column = data_type ref_column) SchemaValidationError) (\<lambda>_.
     bind (query (\<lambda>c. has_foreign_key c column)) (\<lambda>taken.
     bind (ensure (\<not> taken) SchemaValidationError) (\<lambda>_.
     bind (ensure (on_delete = ''set_null'' \<longrightarrow> is_nullable column) SchemaValidationError) (\<lambda>_.
     case map_of ON_DELETE_SQL on_delete of
       None \<Rightarrow> raise SchemaValidationError
     | Some action \<Rightarrow>
       bind (table_database table) (\<lambda>database.
       let constraint = ''fk_'' @ uuid_hex (col_id column) in
       bind (execute_tenant_ddl (ADD_FOREIGN_KEY (schema_name database) (tbl_name table) constraint
         (col_name column) (tbl_name ref_table) (col_name ref_column) action)) (\<lambda>_.
       bind (write_catalog (
           bind uuid4 (\<lambda>i.
           let k = \<lparr>fk_id = i, fk_column = col_id column, fk_references_table = tbl_id ref_table,
                 fk_references_column = col_id ref_column, fk_on_delete = on_delete\<rparr> in
           bind (orm_create db_foreign_keys db_foreign_keys_update db_foreign_key_clash k) (\<lambda>_. ret k)))
         (DROP_CONSTRAINT (schema_name database) (tbl_name table) constraint)) (\<lambda>k.
       bind (audit_record (Some actor) (Some org) ''database.foreign_key.create'' ''db_column''
         (uuid_str (col_id column)) request_id Success
         [(''references_table'', JStr (tbl_name ref_table)), (''references_column'', JStr (col_name ref_column))]) (\<lambda>_.
       ret k)))))))))))))"

text \<open>\<open>instance.delete()\<close> collects the rows that reference the instance with \<open>on_delete=CASCADE\<close>.\<close>

definition delete_tables :: "uuid set \<Rightarrow> control \<Rightarrow> control" where
  "delete_tables ts c =
     (let cols = col_id ` {x \<in> set (db_columns c). col_table x \<in> ts};
          jobs = ij_id ` {j \<in> set (import_jobs c). ij_table j \<in> ts} in
      db_tables_update (delete_where (\<lambda>t. tbl_id t \<in> ts))
      (db_columns_update (delete_where (\<lambda>x. col_table x \<in> ts))
      (db_foreign_keys_update (delete_where (\<lambda>k. fk_column k \<in> cols \<or> fk_references_table k \<in> ts
         \<or> fk_references_column k \<in> cols))
      (db_indexes_update (\<lambda>xs. map (\<lambda>x. x\<lparr>idx_columns := filter (\<lambda>i. i \<notin> cols) (idx_columns x)\<rparr>)
         (delete_where (\<lambda>x. idx_table x \<in> ts) xs))
      (import_job_errors_update (delete_where (\<lambda>e. ije_job e \<in> jobs))
      (import_jobs_update (delete_where (\<lambda>j. ij_table j \<in> ts)) c))))))"

definition delete_table :: "user \<Rightarrow> db_table \<Rightarrow> string \<Rightarrow> unit app" where
  "delete_table actor table request_id =
     bind (Table_organization_id table) (\<lambda>org.
     bind (schema_require actor ''database.delete'' org ''database.table.delete'' ''db_table''
       (uuid_str (tbl_id table)) request_id) (\<lambda>_.
     bind (table_database table) (\<lambda>database.
     bind (execute_tenant_ddl (DROP_TABLE (schema_name database) (tbl_name table))) (\<lambda>_.
     bind (atomic_default (on_ctl (delete_tables {tbl_id table}))) (\<lambda>_.
     audit_record (Some actor) (Some org) ''database.table.delete'' ''db_table'' (uuid_str (tbl_id table))
       request_id Success [])))))"

definition delete_tenant_database :: "user \<Rightarrow> tenant_database \<Rightarrow> string \<Rightarrow> unit app" where
  "delete_tenant_database actor database request_id =
     bind (Database_organization_id database) (\<lambda>org.
     bind (schema_require actor ''database.delete'' org ''database.drop'' ''tenant_database''
       (uuid_str (tdb_id database)) request_id) (\<lambda>_.
     bind (execute_tenant_ddl (DROP_SCHEMA (schema_name database))) (\<lambda>_.
     bind (atomic_default (on_ctl (\<lambda>c. tenant_databases_update (delete_where (\<lambda>d. tdb_id d = tdb_id database))
       (delete_tables (tbl_id ` {t \<in> set (db_tables c). tbl_database t = tdb_id database}) c)))) (\<lambda>_.
     audit_record (Some actor) (Some org) ''database.drop'' ''tenant_database'' (uuid_str (tdb_id database))
       request_id Success []))))"

section \<open>Rules\<close>

lemma wp_execute_tenant_ddl:
  "wp (execute_tenant_ddl q) Q E w =
     (case pg (env w) (pg_calls w) (tnt w) (q, []) of
        Inl e \<Rightarrow> E (DbError e) (w\<lparr>pg_calls := Suc (pg_calls w)\<rparr>)
      | Inr res \<Rightarrow> Q () (w\<lparr>pg_calls := Suc (pg_calls w), tnt := tnt w @ [(q, [])]\<rparr>))"
  by (simp add: execute_tenant_ddl_def wp_tenant_execute split: sum.split)

lemma wp_execute_tenant_ddlI:
  assumes "\<And>e. pg (env w) (pg_calls w) (tnt w) (q, []) = Inl e \<Longrightarrow> E (DbError e) (w\<lparr>pg_calls := Suc (pg_calls w)\<rparr>)"
    and "\<And>res. pg (env w) (pg_calls w) (tnt w) (q, []) = Inr res \<Longrightarrow>
      Q () (w\<lparr>pg_calls := Suc (pg_calls w), tnt := tnt w @ [(q, [])]\<rparr>)"
  shows "wp (execute_tenant_ddl q) Q E w"
  using assms by (simp add: wp_execute_tenant_ddl split: sum.split)

lemma wp_write_catalog:
  "wp (write_catalog fn q) Q E w =
     wp fn Q (\<lambda>e t. wp (execute_tenant_ddl q) (\<lambda>_. E e) (\<lambda>_. E e) (t\<lparr>ctl := ctl w\<rparr>)) w"
proof -
  have ignore: "wp (catch (execute_tenant_ddl q) (\<lambda>_. ret ())) (\<lambda>_. E e) E t
      = wp (execute_tenant_ddl q) (\<lambda>_. E e) (\<lambda>_. E e) t" for e t
    by (simp add: wp_execute_tenant_ddl split: sum.split)
  show ?thesis
    by (simp add: write_catalog_def wp_execute_tenant_ddl split: sum.split)
qed

lemma wp_validating:
  "wp (validating r) Q E w = (case r of Inr x \<Rightarrow> Q x w
     | Inl e \<Rightarrow> E (if e = IdentifierError \<or> e = DDLValidationError then SchemaValidationError else e) w)"
  by (cases r) (simp_all add: validating_def)

lemma wp_schema_require:
  "wp (schema_require actor code org action rtype rid request_id) Q E w =
     (if permitted w (user_id actor) code (Some org) None then Q () w
      else E SchemaPermissionDenied (log_event (denied_row w actor org action rtype rid request_id) w))"
  by (simp add: schema_require_def)

lemma wp_Database_organization_id:
  assumes "\<And>org. database_organizations (ctl w) d = [org] \<Longrightarrow> Q org w" and "\<And>e. E e w"
  shows "wp (Database_organization_id d) Q E w"
  unfolding Database_organization_id_def
  by (rule wp_organization_of_project) (simp_all add: assms database_organizations_def)

lemma Database_organization_id_Inr:
  "Database_organization_id d w = (Inr org, t) \<Longrightarrow> database_organizations (ctl w) d = [org] \<and> t = w"
  by (auto simp: Database_organization_id_def database_organizations_def organization_of_project_Inr
      dest: organization_of_project_world)

lemma Table_organization_id_Inr:
  assumes "Table_organization_id x w = (Inr org, t)"
  shows "table_organizations (ctl w) x = [org] \<and> t = w"
proof -
  obtain d where d: "filter (\<lambda>d. tdb_id d = tbl_database x) (tenant_databases (ctl w)) = [d]"
    and org: "Database_organization_id d w = (Inr org, t)"
    using assms by (auto simp: Table_organization_id_def table_database_def bind_def get_one_run split: list.splits)
  from d Database_organization_id_Inr [OF org] show ?thesis
    by (simp add: table_organizations_def concat_map_if)
qed

lemma Table_organization_id_world: "Table_organization_id x w = (r, t) \<Longrightarrow> t = w"
  by (auto simp: Table_organization_id_def table_database_def Database_organization_id_def bind_def get_one_run
      split: list.splits dest: organization_of_project_world)

lemma wp_Table_organization_id:
  assumes "\<And>org. table_organizations (ctl w) x = [org] \<Longrightarrow> Q org w" and "\<And>e. E e w"
  shows "wp (Table_organization_id x) Q E w"
  by (rule wpI) (metis assms Table_organization_id_Inr Table_organization_id_world)+

lemma Column_organization_id_world: "Column_organization_id x w = (r, t) \<Longrightarrow> t = w"
  by (auto simp: Column_organization_id_def column_table_def bind_def get_one_run
      split: list.splits dest: Table_organization_id_world)

lemma wp_Column_organization_id:
  assumes "\<And>org. Q org w" and "\<And>e. E e w"
  shows "wp (Column_organization_id x) Q E w"
  by (rule wpI) (metis assms Column_organization_id_world)+

section \<open>The physical tables\<close>

text \<open>The tables a statement creates or drops, by its form.\<close>

definition ddl_effect :: "composable \<Rightarrow> (string \<times> string) set \<Rightarrow> (string \<times> string) set" where
  "ddl_effect q ts = (let names = identifiers_of q; s = names ! 0; t = names ! 1; verb = hd (raw_texts q) in
     if verb = ''CREATE TABLE '' then insert (s, t) ts
     else if verb = ''DROP TABLE '' then ts - {(s, t)}
     else if verb = ''DROP SCHEMA '' then {x \<in> ts. fst x \<noteq> s}
     else ts)"

definition physical :: "stmt list \<Rightarrow> (string \<times> string) set" where
  "physical history = fold (\<lambda>(q, ps). ddl_effect q) history {}"

lemma physical_append: "physical (h @ ss) = fold (\<lambda>(q, ps). ddl_effect q) ss (physical h)"
  by (simp add: physical_def)

lemma ddl_effects:
  "ddl_effect (CREATE_TABLE s t) ts = insert (s, t) ts"
  "ddl_effect (DROP_TABLE s t) ts = ts - {(s, t)}"
  "ddl_effect (DROP_SCHEMA s) ts = {x \<in> ts. fst x \<noteq> s}"
  "ddl_effect (CREATE_SCHEMA s) ts = ts"
  "ddl_effect (ADD_COLUMN s t x ty n u d) ts = ts"
  "ddl_effect (DROP_COLUMN s t x) ts = ts"
  "ddl_effect (ADD_FOREIGN_KEY s t k x rt rc od) ts = ts"
  "ddl_effect (DROP_CONSTRAINT s t k) ts = ts"
  by (simp_all add: ddl_effect_def CREATE_TABLE_def DROP_TABLE_def DROP_SCHEMA_def CREATE_SCHEMA_def
      ADD_COLUMN_def DROP_COLUMN_def ADD_FOREIGN_KEY_def DROP_CONSTRAINT_def)

text \<open>The tables the catalog names.\<close>

definition catalog_tables :: "control \<Rightarrow> (string \<times> string) set" where
  "catalog_tables c = {(schema_name d, tbl_name t) | d t. d \<in> set (tenant_databases c)
     \<and> t \<in> set (db_tables c) \<and> tbl_database t = tdb_id d}"

definition in_sync :: "world \<Rightarrow> bool" where
  "in_sync w \<longleftrightarrow> physical (tnt w) = catalog_tables (ctl w)"

text \<open>What PostgreSQL documents of the two statements: the one refuses a name that exists, the other one
  that does not.\<close>

definition postgres_tables :: "env \<Rightarrow> bool" where
  "postgres_tables ev \<longleftrightarrow> (\<forall>n h s t. ((s, t) \<in> physical h \<longrightarrow> (\<exists>e. pg ev n h (CREATE_TABLE s t, []) = Inl e))
     \<and> ((s, t) \<notin> physical h \<longrightarrow> (\<exists>e. pg ev n h (DROP_TABLE s t, []) = Inl e)))"

lemma catalog_tables_audit [simp]: "catalog_tables (audit_events_update f c) = catalog_tables c"
  and catalog_tables_columns [simp]: "catalog_tables (db_columns_update g c) = catalog_tables c"
  by (simp_all add: catalog_tables_def)

lemma catalog_tables_append:
  assumes "unique_rows tenant_database_clash (tenant_databases c)" and "d \<in> set (tenant_databases c)"
    and "db_tables c' = db_tables c @ [t]" "tbl_database t = tdb_id d" "tenant_databases c' = tenant_databases c"
  shows "catalog_tables c' = insert (schema_name d, tbl_name t) (catalog_tables c)"
proof -
  have "x = d" if "x \<in> set (tenant_databases c)" "tdb_id x = tdb_id d" for x
    using tenant_database_table.unique_eq [OF assms(1) that(1) assms(2)] that(2)
    by (simp add: tenant_database_clash_def)
  then have new: "{(schema_name e, tbl_name t) | e. e \<in> set (tenant_databases c) \<and> tbl_database t = tdb_id e}
      = {(schema_name d, tbl_name t)}"
    using assms(2,4) by auto
  have "catalog_tables c' = catalog_tables c
      \<union> {(schema_name e, tbl_name t) | e. e \<in> set (tenant_databases c) \<and> tbl_database t = tdb_id e}"
    unfolding catalog_tables_def assms(3,5) by auto
  then show ?thesis unfolding new by simp
qed

text \<open>C17. Creating a table is one step of the abstract catalog, seen through both databases: from a
  state in which the tenant cluster holds exactly the tables the catalog names, a successful call
  adds the one table to both, and a failing one leaves both as they were, unless the server refused
  the compensating \<open>DROP TABLE\<close> as well, when the table is there and the catalog does not know it.\<close>

theorem create_table_refines:
  assumes sync: "in_sync w" and pg: "postgres_tables (env w)"
    and uniq: "unique_rows tenant_database_clash (tenant_databases (ctl w))"
    and d: "d \<in> set (tenant_databases (ctl w))"
  shows "wp (create_table actor d name request_id)
    (\<lambda>t w'. in_sync w' \<and> physical (tnt w') = insert (schema_name d, name) (physical (tnt w))
       \<and> (schema_name d, name) \<notin> physical (tnt w) \<and> tbl_name t = name \<and> IDENTIFIER_RE name)
    (\<lambda>e w'. catalog_tables (ctl w') = catalog_tables (ctl w)
       \<and> (in_sync w' \<or> physical (tnt w') = insert (schema_name d, name) (physical (tnt w))
            \<and> (\<exists>n e2. pg (env w) n (tnt w') (DROP_TABLE (schema_name d) name, []) = Inl e2))) w"
proof -
  have sync': "physical (tnt w) = catalog_tables (ctl w)" using sync by (simp add: in_sync_def)
  then have new: "(schema_name d, name) \<notin> catalog_tables (ctl w)"
    if "pg (env w) n (tnt w) (CREATE_TABLE (schema_name d) name, []) = Inr r" for n r
    using pg that unfolding postgres_tables_def by (metis sum.distinct(1))
  note grow = catalog_tables_append [OF uniq d]
  note state = in_sync_def sync' physical_append ddl_effects
  show ?thesis
    unfolding create_table_def wp_bind
    apply (rule wp_Database_organization_id)
     apply (simp add: wp_schema_require wp_validating validate_identifier_def Let_def sync)
     apply (intro conjI impI wp_execute_tenant_ddlI; (simp add: state; fail)?)
     apply (simp add: wp_write_catalog wp_orm_create)
     apply (intro conjI impI wp_execute_tenant_ddlI; (drule new, auto simp: state grow Diff_insert_absorb; fail)?)
    apply (simp add: sync)
    done
qed


text \<open>A table is its name in the schema of its database.\<close>

lemma Collect2_diff:
  assumes "\<And>e x. P e x \<Longrightarrow> Q e x \<longleftrightarrow> f e x \<notin> S"
  shows "{f e x | e x. P e x \<and> Q e x} = {f e x | e x. P e x} - S"
  using assms by blast

lemma catalog_tables_delete:
  assumes "\<And>d t. d \<in> set (tenant_databases c) \<Longrightarrow> t \<in> set (db_tables c) \<Longrightarrow> tbl_database t = tdb_id d
      \<Longrightarrow> tbl_id t \<notin> ts \<longleftrightarrow> (schema_name d, tbl_name t) \<notin> S"
  shows "catalog_tables (delete_tables ts c) = catalog_tables c - S"
proof -
  have "catalog_tables (delete_tables ts c) = {(schema_name d, tbl_name t) | d t.
      (d \<in> set (tenant_databases c) \<and> t \<in> set (db_tables c) \<and> tbl_database t = tdb_id d) \<and> tbl_id t \<notin> ts}"
    unfolding catalog_tables_def delete_tables_def Let_def by (rule Collect_cong) auto
  also have "\<dots> = catalog_tables c - S"
    unfolding catalog_tables_def by (rule Collect2_diff) (use assms in blast)
  finally show ?thesis .
qed

lemma same_database:
  fixes c :: control
  assumes "unique_rows tenant_database_clash (tenant_databases c)"
    and "d \<in> set (tenant_databases c)" "e \<in> set (tenant_databases c)"
  shows "schema_name e = schema_name d \<longleftrightarrow> e = d" and "tdb_id e = tdb_id d \<longleftrightarrow> e = d"
  using tenant_database_table.unique_eq [OF assms(1) assms(2,3)] by (auto simp: tenant_database_clash_def)

lemma same_table:
  fixes c :: control
  assumes "unique_rows db_table_clash (db_tables c)" and "t \<in> set (db_tables c)" "x \<in> set (db_tables c)"
  shows "tbl_id x = tbl_id t \<longleftrightarrow> x = t"
    and "tbl_database x = tbl_database t \<and> tbl_name x = tbl_name t \<longleftrightarrow> x = t"
  using db_table_table.unique_eq [OF assms(1) assms(2,3)] by (auto simp: db_table_clash_def)

lemma catalog_tables_delete_table:
  fixes c :: control
  assumes db: "unique_rows tenant_database_clash (tenant_databases c)"
    and tb: "unique_rows db_table_clash (db_tables c)"
    and t: "t \<in> set (db_tables c)" and d: "d \<in> set (tenant_databases c)" "tbl_database t = tdb_id d"
  shows "catalog_tables (delete_tables {tbl_id t} c) = catalog_tables c - {(schema_name d, tbl_name t)}"
proof (rule catalog_tables_delete)
  fix e x
  assume e: "e \<in> set (tenant_databases c)" and x: "x \<in> set (db_tables c)" "tbl_database x = tdb_id e"
  have "schema_name e = schema_name d \<and> tbl_name x = tbl_name t
      \<longleftrightarrow> tbl_database x = tbl_database t \<and> tbl_name x = tbl_name t"
    using same_database [OF db d(1) e] x(2) d(2) by auto
  with same_table [OF tb t x(1)]
  show "tbl_id x \<notin> {tbl_id t} \<longleftrightarrow> (schema_name e, tbl_name x) \<notin> {(schema_name d, tbl_name t)}"
    by auto
qed

lemma catalog_tables_delete_database:
  fixes c :: control
  assumes db: "unique_rows tenant_database_clash (tenant_databases c)"
    and tb: "unique_rows db_table_clash (db_tables c)"
    and d: "d \<in> set (tenant_databases c)"
  shows "catalog_tables (tenant_databases_update (delete_where (\<lambda>e. tdb_id e = tdb_id d))
      (delete_tables (tbl_id ` {t \<in> set (db_tables c). tbl_database t = tdb_id d}) c))
    = catalog_tables c - {x. fst x = schema_name d}" (is "catalog_tables (?drop (delete_tables ?ts c)) = _")
proof -
  have ts: "tbl_id x \<notin> ?ts \<longleftrightarrow> tdb_id e \<noteq> tdb_id d"
    if x: "x \<in> set (db_tables c)" "tbl_database x = tdb_id e" for x e
    using x(2) same_table(1) [OF tb x(1)] x(1) by (auto simp: image_iff) metis+
  have "catalog_tables (?drop (delete_tables ?ts c)) = catalog_tables (delete_tables ?ts c)"
    unfolding catalog_tables_def delete_tables_def Let_def using ts by (intro Collect_cong) auto
  also have "\<dots> = catalog_tables c - {x. fst x = schema_name d}"
    using ts same_database [OF db d] by (intro catalog_tables_delete) auto
  finally show ?thesis .
qed

text \<open>Deleting a table is the inverse step: a successful call takes the one table out of both
  databases, and a failing one leaves both as they were.\<close>

theorem delete_table_refines:
  assumes sync: "in_sync w"
    and uniq: "unique_rows tenant_database_clash (tenant_databases (ctl w))"
      "unique_rows db_table_clash (db_tables (ctl w))"
    and t: "t \<in> set (db_tables (ctl w))"
  shows "wp (delete_table actor t request_id)
    (\<lambda>_ w'. in_sync w' \<and> (\<exists>d \<in> set (tenant_databases (ctl w)). tdb_id d = tbl_database t
       \<and> physical (tnt w') = physical (tnt w) - {(schema_name d, tbl_name t)}))
    (\<lambda>e w'. in_sync w' \<and> physical (tnt w') = physical (tnt w)) w"
proof -
  have sync': "physical (tnt w) = catalog_tables (ctl w)" using sync by (simp add: in_sync_def)
  note state = in_sync_def sync' physical_append ddl_effects
  have gone: "catalog_tables (delete_tables {tbl_id t} (ctl w)) = catalog_tables (ctl w) - {(schema_name d, tbl_name t)}
      \<and> d \<in> set (tenant_databases (ctl w)) \<and> tdb_id d = tbl_database t"
    if "filter (\<lambda>d. tdb_id d = tbl_database t) (tenant_databases (ctl w)) = [d]" for d
  proof -
    from that have "d \<in> set [d]" and "set [d] = {d \<in> set (tenant_databases (ctl w)). tdb_id d = tbl_database t}"
      by (simp, metis set_filter)
    then have "d \<in> set (tenant_databases (ctl w))" "tbl_database t = tdb_id d" by auto
    with catalog_tables_delete_table [OF uniq t this] show ?thesis by simp
  qed
  show ?thesis
    unfolding delete_table_def wp_bind
    apply (rule wp_Table_organization_id)
     apply (simp add: wp_schema_require sync)
     apply (intro conjI impI; (simp add: state; fail)?)
    unfolding table_database_def
     apply (rule wp_get_oneI; (simp add: state; fail)?)
     apply (drule gone, rule wp_execute_tenant_ddlI; (simp add: state; fail)?)
     apply (auto simp: state)
    done
qed

text \<open>Dropping a database takes out the tables of its schema and no other.\<close>

lemma delete_tenant_database_refines:
  assumes sync: "in_sync w"
    and uniq: "unique_rows tenant_database_clash (tenant_databases (ctl w))"
      "unique_rows db_table_clash (db_tables (ctl w))"
    and d: "d \<in> set (tenant_databases (ctl w))"
  shows "wp (delete_tenant_database actor d request_id)
    (\<lambda>_ w'. in_sync w' \<and> physical (tnt w') = {x \<in> physical (tnt w). fst x \<noteq> schema_name d})
    (\<lambda>e w'. in_sync w' \<and> physical (tnt w') = physical (tnt w)) w"
proof -
  have sync': "physical (tnt w) = catalog_tables (ctl w)" using sync by (simp add: in_sync_def)
  note state = in_sync_def sync' physical_append ddl_effects
  have minus: "A - {x. fst x = y} = {x \<in> A. fst x \<noteq> y}" for A :: "(string \<times> string) set" and y by blast
  show ?thesis
    unfolding delete_tenant_database_def wp_bind
    apply (rule wp_Database_organization_id)
     apply (simp add: wp_schema_require sync)
     apply (intro conjI impI wp_execute_tenant_ddlI; (simp add: state; fail)?)
     apply (simp add: state catalog_tables_delete_database [OF uniq d] minus)
    apply (simp add: sync)
    done
qed


section \<open>What is sent and what is stored\<close>

text \<open>A statement is harmless when its raw text is constants of the code and its identifiers need no
  quoting.\<close>

definition harmless :: "string set \<Rightarrow> composable \<Rightarrow> bool" where
  "harmless texts q \<longleftrightarrow> set (raw_texts q) \<subseteq> texts \<and> list_all IDENTIFIER_RE (identifiers_of q)"

definition DDL_TEXTS :: "string set" where
  "DDL_TEXTS = TYPE_TEXTS \<union> {''CREATE SCHEMA '', ''DROP SCHEMA '', '' CASCADE'', ''CREATE TABLE '', ''.'', '' ('',
     '' UUID PRIMARY KEY DEFAULT gen_random_uuid())'', ''DROP TABLE '', ''ALTER TABLE '', '' ADD COLUMN '', '' '',
     '' NOT NULL'', '' UNIQUE'', '' DROP COLUMN '', '' ADD CONSTRAINT '', '' FOREIGN KEY ('', '') REFERENCES '',
     '') ON DELETE '', ''CASCADE'', ''RESTRICT'', ''SET NULL'', '' DROP CONSTRAINT ''}"

lemma DDL_TEXTS_simps [simp]:
  "''CREATE SCHEMA '' \<in> DDL_TEXTS" "''DROP SCHEMA '' \<in> DDL_TEXTS" "'' CASCADE'' \<in> DDL_TEXTS"
  "''CREATE TABLE '' \<in> DDL_TEXTS" "''.'' \<in> DDL_TEXTS" "'' ('' \<in> DDL_TEXTS"
  "'' UUID PRIMARY KEY DEFAULT gen_random_uuid())'' \<in> DDL_TEXTS" "''DROP TABLE '' \<in> DDL_TEXTS"
  "''ALTER TABLE '' \<in> DDL_TEXTS" "'' ADD COLUMN '' \<in> DDL_TEXTS" "'' '' \<in> DDL_TEXTS"
  "'' NOT NULL'' \<in> DDL_TEXTS" "'' UNIQUE'' \<in> DDL_TEXTS" "'' DROP COLUMN '' \<in> DDL_TEXTS"
  "'' ADD CONSTRAINT '' \<in> DDL_TEXTS" "'' FOREIGN KEY ('' \<in> DDL_TEXTS" "'') REFERENCES '' \<in> DDL_TEXTS"
  "'') ON DELETE '' \<in> DDL_TEXTS" "''CASCADE'' \<in> DDL_TEXTS" "''RESTRICT'' \<in> DDL_TEXTS"
  "''SET NULL'' \<in> DDL_TEXTS" "'' DROP CONSTRAINT '' \<in> DDL_TEXTS"
  by (simp_all add: DDL_TEXTS_def)

lemma TYPE_TEXTS_DDL: "x \<in> TYPE_TEXTS \<Longrightarrow> x \<in> DDL_TEXTS"
  by (simp add: DDL_TEXTS_def)

lemma empty_text [simp]: "'''' \<in> DDL_TEXTS"
  by (simp add: TYPE_TEXTS_DDL)

lemma IDENTIFIER_RE_id [simp]: "IDENTIFIER_RE ''id''"
  by (simp add: IDENTIFIER_RE_def lower_letter_def)

lemma harmless_statements [simp]:
  "harmless DDL_TEXTS (CREATE_SCHEMA s) \<longleftrightarrow> IDENTIFIER_RE s"
  "harmless DDL_TEXTS (DROP_SCHEMA s) \<longleftrightarrow> IDENTIFIER_RE s"
  "harmless DDL_TEXTS (CREATE_TABLE s t) \<longleftrightarrow> IDENTIFIER_RE s \<and> IDENTIFIER_RE t"
  "harmless DDL_TEXTS (DROP_TABLE s t) \<longleftrightarrow> IDENTIFIER_RE s \<and> IDENTIFIER_RE t"
  "harmless DDL_TEXTS (DROP_COLUMN s t x) \<longleftrightarrow> IDENTIFIER_RE s \<and> IDENTIFIER_RE t \<and> IDENTIFIER_RE x"
  "harmless DDL_TEXTS (DROP_CONSTRAINT s t x) \<longleftrightarrow> IDENTIFIER_RE s \<and> IDENTIFIER_RE t \<and> IDENTIFIER_RE x"
  by (simp_all add: harmless_def CREATE_SCHEMA_def DROP_SCHEMA_def CREATE_TABLE_def DROP_TABLE_def
      DROP_COLUMN_def DROP_CONSTRAINT_def)

lemma harmless_ADD_COLUMN:
  assumes "IDENTIFIER_RE s" "IDENTIFIER_RE t" "IDENTIFIER_RE x"
    and "column_type_sql dt ml p sc = Inr ty" "default_clause_sql dt d = Inr df"
  shows "harmless DDL_TEXTS (ADD_COLUMN s t x ty n u df)"
  using assms(1-3) column_type_sql_texts [OF assms(4)] default_clause_sql_texts [OF assms(5)]
  by (auto simp: harmless_def ADD_COLUMN_def intro: TYPE_TEXTS_DDL)

lemma harmless_ADD_FOREIGN_KEY:
  assumes "IDENTIFIER_RE s" "IDENTIFIER_RE t" "IDENTIFIER_RE k" "IDENTIFIER_RE x" "IDENTIFIER_RE rt" "IDENTIFIER_RE rc"
    and "map_of ON_DELETE_SQL od = Some action"
  shows "harmless DDL_TEXTS (ADD_FOREIGN_KEY s t k x rt rc action)"
  using assms by (auto simp: harmless_def ADD_FOREIGN_KEY_def ON_DELETE_SQL_def split: if_splits)

lemma hex_digit_char: "lower_letter (hex_digit n) \<or> is_decimal_digit (hex_digit n)"
proof -
  have "list_all (\<lambda>k. lower_letter (hexdigits ! k) \<or> is_decimal_digit (hexdigits ! k)) [0..<16]"
    by (simp add: hexdigits_def upt_rec lower_letter_def is_decimal_digit_def)
  then show ?thesis by (auto simp: hex_digit_def list_all_iff)
qed

lemma IDENTIFIER_RE_hex:
  assumes "IDENTIFIER_RE p" and "length p \<le> 31"
  shows "IDENTIFIER_RE (p @ uuid_hex i)"
proof -
  have "list_all (\<lambda>x. lower_letter x \<or> is_decimal_digit x \<or> x = CHR ''_'') (uuid_hex i)"
    using hex_digit_char by (auto simp: uuid_hex_def list_all_iff)
  moreover have "length (uuid_hex i) = 32" by (simp add: uuid_hex_def)
  ultimately show ?thesis using assms by (auto simp: IDENTIFIER_RE_def split: list.splits)
qed

lemma generated_identifiers:
  "IDENTIFIER_RE (''db_'' @ uuid_hex i)" "IDENTIFIER_RE (''fk_'' @ uuid_hex i)"
  by (rule IDENTIFIER_RE_hex; simp add: IDENTIFIER_RE_def lower_letter_def is_decimal_digit_def)+

lemmas generated_identifiers_simps [simp] = generated_identifiers [unfolded append_Cons append_Nil]

text \<open>The catalog is well formed when every name in it is an identifier and every column has a type
  its parameters fit.\<close>

definition well_formed_column :: "db_column \<Rightarrow> bool" where
  "well_formed_column x \<longleftrightarrow> IDENTIFIER_RE (col_name x)
     \<and> (\<exists>q. column_type_sql (data_type x) (max_length x) (precision x) (scale x) = Inr q)"

definition well_formed_catalog :: "control \<Rightarrow> bool" where
  "well_formed_catalog c \<longleftrightarrow> (\<forall>d \<in> set (tenant_databases c). IDENTIFIER_RE (schema_name d))
     \<and> (\<forall>t \<in> set (db_tables c). IDENTIFIER_RE (tbl_name t)) \<and> (\<forall>x \<in> set (db_columns c). well_formed_column x)"

lemma well_formed_catalog_ignores_audit [simp]: "ignores_audit well_formed_catalog"
  by (simp add: ignores_audit_def well_formed_catalog_def)

text \<open>Programs that keep a predicate of the catalog and one of the statement history.\<close>

definition both :: "(control \<Rightarrow> bool) \<Rightarrow> (stmt list \<Rightarrow> bool) \<Rightarrow> world \<Rightarrow> bool" where
  "both J K w \<longleftrightarrow> J (ctl w) \<and> K (tnt w)"

definition sent_only :: "(composable \<Rightarrow> bool) \<Rightarrow> stmt list \<Rightarrow> bool" where
  "sent_only ok h \<longleftrightarrow> (\<forall>s \<in> set h. ok (fst s))"

lemma sent_only_append [simp]: "sent_only ok (h @ [s]) \<longleftrightarrow> sent_only ok h \<and> ok (fst s)"
  by (auto simp: sent_only_def)

lemma both_uuid4 [keeps]: "preserves (both J K) uuid4"
  and both_audit_record [keeps]:
    "ignores_audit J \<Longrightarrow> preserves (both J K) (audit_record actor org action rt rid req res ctx)"
  and both_on_ctl: "(\<And>c. J c \<Longrightarrow> J (f c)) \<Longrightarrow> preserves (both J K) (on_ctl f)"
  and both_orm_create: "(\<And>c. J c \<Longrightarrow> J (upd (\<lambda>xs. xs @ [r]) c)) \<Longrightarrow>
    preserves (both J K) (orm_create rows upd clash r)"
  by (auto simp: preserves_def both_def ignores_audit_def orm_create_def)

lemma both_schema_require [keeps]:
  "ignores_audit J \<Longrightarrow> preserves (both J K) (schema_require actor code org action rtype rid req)"
  by (auto simp: preserves_def both_def schema_require_def require_run ignores_audit_def)

lemma both_execute_tenant_ddl [keeps]:
  "ok q \<Longrightarrow> preserves (both J (sent_only ok)) (execute_tenant_ddl q)"
  by (auto simp: preserves_def both_def execute_tenant_ddl_def atomic_tenant_def tenant_execute_def bind_def Let_def
      split: sum.split)

lemma both_atomic_default [keeps]:
  assumes "preserves (both J K) m"
  shows "preserves (both J K) (atomic_default m)"
proof (rule preservesI)
  fix w assume w: "both J K w"
  obtain r t where m: "m w = (r, t)" by (cases "m w")
  with assms w have "both J K t" by (auto dest: preservesD)
  with m w show "both J K (snd (atomic_default m w))"
    by (cases r) (simp_all add: atomic_default_def both_def)
qed

lemma both_write_catalog [keeps]:
  "preserves (both J (sent_only ok)) fn \<Longrightarrow> ok q \<Longrightarrow> preserves (both J (sent_only ok)) (write_catalog fn q)"
  unfolding write_catalog_def by (intro keeps)

lemma preserves_validating [keeps]: "preserves I (validating r)"
  by (cases r) (simp_all add: validating_def preserves_def)

lemma preserves_bind_result:
  assumes "\<And>s x t. I s \<Longrightarrow> m s = (Inr x, t) \<Longrightarrow> P x" and "preserves I m" and "\<And>x. P x \<Longrightarrow> preserves I (f x)"
  shows "preserves I (bind m f)"
proof (rule preservesI)
  fix s assume s: "I s"
  obtain r t where m: "m s = (r, t)" by (cases "m s")
  with assms(2) s have "I t" by (auto dest: preservesD)
  with m assms(1) [OF s] assms(3) show "I (snd (bind m f s))"
    by (cases r) (auto simp: preserves_def)
qed

lemma preserves_organization_ids [keeps]:
  "preserves I (Database_organization_id d)"
  "preserves I (Table_organization_id t)"
  "preserves I (Column_organization_id x)"
  "preserves I (table_database t)"
  "preserves I (column_table x)"
  unfolding Database_organization_id_def Table_organization_id_def Column_organization_id_def
    table_database_def column_table_def
  by (intro keeps)+

text \<open>The invariant of the schema services.\<close>

definition schema_inv :: "world \<Rightarrow> bool" where
  "schema_inv = both well_formed_catalog (sent_only (harmless DDL_TEXTS))"

lemma singleton_filter: "filter P xs = [x] \<Longrightarrow> x \<in> set xs \<and> P x"
  using filter_eq_ConsD [of P xs x "[]"] by auto

lemma preserves_table_database_bind:
  assumes "\<And>d. IDENTIFIER_RE (schema_name d) \<Longrightarrow> preserves (both well_formed_catalog K) (f d)"
  shows "preserves (both well_formed_catalog K) (bind (table_database t) f)"
proof (rule preserves_bind_result [where P = "\<lambda>d. IDENTIFIER_RE (schema_name d)"])
  fix s d v
  assume "both well_formed_catalog K s" and run: "table_database t s = (Inr d, v)"
  moreover from run have "d \<in> set (tenant_databases (ctl s))"
    by (auto simp: table_database_def get_one_eq_Inr dest: singleton_filter)
  ultimately show "IDENTIFIER_RE (schema_name d)"
    by (simp add: both_def well_formed_catalog_def)
qed (use assms in \<open>auto intro: keeps\<close>)

lemma checked_column_sql_Inr:
  assumes "checked_column_sql spec s = (Inr (ty, df), t)"
  shows "IDENTIFIER_RE (cs_name spec) \<and> cs_name spec \<noteq> ''id''
    \<and> column_type_sql (cs_data_type spec) (cs_max_length spec) (cs_precision spec) (cs_scale spec) = Inr ty
    \<and> default_clause_sql (cs_data_type spec) (cs_default spec) = Inr df"
  using assms
  by (auto simp: checked_column_sql_def bind_eq_Inr validating_def validate_column_name_def validate_identifier_def
      RESERVED_COLUMN_NAMES_def split: sum.splits if_splits)

lemma preserves_checked_column_sql [keeps]: "preserves I (checked_column_sql spec)"
  unfolding checked_column_sql_def by (intro keeps)

lemma preserves_case_lookup:
  "preserves I n \<Longrightarrow> (\<And>x. opt = Some x \<Longrightarrow> preserves I (m x)) \<Longrightarrow>
     preserves I (case opt of None \<Rightarrow> n | Some x \<Rightarrow> m x)"
  by (cases opt) simp_all

text \<open>What the operations that add to a catalog rely on when they keep an invariant \<open>J\<close> of the catalog
  and send only statements that are \<open>ok\<close>.\<close>

locale schema_invariant =
  fixes J :: "control \<Rightarrow> bool" and ok :: "composable \<Rightarrow> bool"
  assumes catalog: "J c \<Longrightarrow> well_formed_catalog c"
    and statement: "harmless DDL_TEXTS q \<Longrightarrow> ok q"
    and audit: "ignores_audit J"
    and database_row: "J c \<Longrightarrow> IDENTIFIER_RE (schema_name d) \<Longrightarrow> J (tenant_databases_update (\<lambda>xs. xs @ [d]) c)"
    and table_row: "J c \<Longrightarrow> IDENTIFIER_RE (tbl_name t) \<Longrightarrow> J (db_tables_update (\<lambda>xs. xs @ [t]) c)"
    and column_row: "J c \<Longrightarrow> well_formed_column x \<Longrightarrow> J (db_columns_update (\<lambda>xs. xs @ [x]) c)"
    and foreign_key_row: "J c \<Longrightarrow> J (db_foreign_keys_update (\<lambda>xs. xs @ [k]) c)"
    and index_row: "J c \<Longrightarrow> J (db_indexes_update (\<lambda>xs. xs @ [i]) c)"
begin

abbreviation kept :: "world \<Rightarrow> bool" where
  "kept \<equiv> both J (sent_only ok)"

lemmas kept_intros = keeps both_orm_create audit

lemma kept_lookup:
  assumes "\<And>x. P x \<Longrightarrow> preserves kept (f x)"
    and "\<And>c x. well_formed_catalog c \<Longrightarrow> x \<in> set (rows c) \<Longrightarrow> P x" and "\<And>c. set (g c) \<subseteq> set (rows c)"
  shows "preserves kept (bind (get_one g) f)"
proof (rule preserves_bind_result [where P = P])
  fix s x v
  assume "kept s" and "get_one g s = (Inr x, v)"
  then have "well_formed_catalog (ctl s)" and "x \<in> set (g (ctl s))"
    by (auto simp: both_def get_one_eq_Inr intro: catalog)
  with assms(2,3) show "P x" by blast
qed (use assms(1) in \<open>auto intro: keeps\<close>)

lemma kept_table_database:
  assumes "\<And>d. IDENTIFIER_RE (schema_name d) \<Longrightarrow> preserves kept (f d)"
  shows "preserves kept (bind (table_database t) f)"
  unfolding table_database_def
  by (rule kept_lookup [where rows = tenant_databases and P = "\<lambda>d. IDENTIFIER_RE (schema_name d)"]) (auto simp: well_formed_catalog_def assms)

lemma kept_column_table:
  assumes "\<And>t. IDENTIFIER_RE (tbl_name t) \<Longrightarrow> preserves kept (f t)"
  shows "preserves kept (bind (column_table x) f)"
  unfolding column_table_def
  by (rule kept_lookup [where rows = db_tables and P = "\<lambda>t. IDENTIFIER_RE (tbl_name t)"]) (auto simp: well_formed_catalog_def assms)

lemma keeps_create_tenant_database: "preserves kept (create_tenant_database actor project name req)"
  unfolding create_tenant_database_def Let_def
  by (intro kept_intros) (auto intro: database_row statement)

lemma keeps_create_table:
  assumes "IDENTIFIER_RE (schema_name d)"
  shows "preserves kept (create_table actor d name req)"
proof (cases "IDENTIFIER_RE name")
  case True
  then show ?thesis
    using assms unfolding create_table_def Let_def
    by (intro kept_intros)
      (auto simp: well_formed_column_def column_type_sql_def PG_TYPES_def intro!: statement table_row column_row)
next
  case False
  then show ?thesis
    unfolding create_table_def
    by (simp add: validating_def validate_identifier_def, intro keeps audit)
qed

lemma keeps_add_column:
  assumes "IDENTIFIER_RE (tbl_name t)"
  shows "preserves kept (add_column actor t spec req)"
  unfolding add_column_def Let_def
  apply (rule keeps)
   apply (rule keeps)
  apply (rule keeps)
   apply (rule keeps, rule audit)
  apply (rule preserves_bind_result [where P = "\<lambda>(ty, df). IDENTIFIER_RE (cs_name spec)
    \<and> column_type_sql (cs_data_type spec) (cs_max_length spec) (cs_precision spec) (cs_scale spec) = Inr ty
    \<and> default_clause_sql (cs_data_type spec) (cs_default spec) = Inr df"])
    apply (use checked_column_sql_Inr in force)
   apply (rule keeps)
  apply (clarsimp split del: if_split)
  apply (rule kept_table_database)
  apply (intro kept_intros)
  apply (auto simp: assms well_formed_column_def column_of_spec_def
      intro!: statement harmless_ADD_COLUMN column_row index_row)
  done

lemma keeps_add_foreign_key:
  assumes "IDENTIFIER_RE (col_name x)" "IDENTIFIER_RE (tbl_name rt)" "IDENTIFIER_RE (col_name rx)"
  shows "preserves kept (add_foreign_key actor x rt rx od req)"
  unfolding add_foreign_key_def Let_def
  apply (rule keeps)
   apply (rule keeps)
  apply (rule keeps)
   apply (rule keeps, rule audit)
  apply (rule kept_column_table)
  apply (intro preserves_case_lookup kept_table_database both_orm_create audit preserves_bind preserves_ensure
      preserves_query preserves_raise preserves_ret both_execute_tenant_ddl both_write_catalog both_uuid4 both_audit_record)
          apply (auto simp: assms intro!: statement harmless_ADD_FOREIGN_KEY foreign_key_row)
  done

end

interpretation catalog_schema: schema_invariant well_formed_catalog "harmless DDL_TEXTS"
  by unfold_locales (auto simp: well_formed_catalog_def)

lemma delete_table_keeps:
  assumes "IDENTIFIER_RE (tbl_name t)"
  shows "preserves schema_inv (delete_table actor t req)"
  unfolding schema_inv_def delete_table_def
  apply (rule keeps)
   apply (rule keeps)
  apply (rule keeps)
   apply (rule keeps, simp)
  apply (rule preserves_table_database_bind)
  apply (intro keeps both_on_ctl well_formed_catalog_ignores_audit)
  apply (auto simp: assms well_formed_catalog_def delete_tables_def Let_def)
  done

lemma delete_tenant_database_keeps:
  assumes "IDENTIFIER_RE (schema_name d)"
  shows "preserves schema_inv (delete_tenant_database actor d req)"
  unfolding schema_inv_def delete_tenant_database_def
  by (intro keeps both_on_ctl well_formed_catalog_ignores_audit)
    (auto simp: assms well_formed_catalog_def delete_tables_def Let_def)

text \<open>A history of the schema services: any operation, by any user, on objects the catalog holds when
  it starts, with any arguments and any outcome, interleaved with anything that leaves the catalog and
  the tenant cluster alone.\<close>

inductive schema_step :: "world \<Rightarrow> world \<Rightarrow> bool" where
  step_create_database: "create_tenant_database u p name req w = (r, w') \<Longrightarrow> schema_step w w'"
| step_create_table: "d \<in> set (tenant_databases (ctl w)) \<Longrightarrow> create_table u d name req w = (r, w')
     \<Longrightarrow> schema_step w w'"
| step_add_column: "t \<in> set (db_tables (ctl w)) \<Longrightarrow> add_column u t spec req w = (r, w') \<Longrightarrow> schema_step w w'"
| step_add_foreign_key: "x \<in> set (db_columns (ctl w)) \<Longrightarrow> rt \<in> set (db_tables (ctl w)) \<Longrightarrow>
     rx \<in> set (db_columns (ctl w)) \<Longrightarrow> add_foreign_key u x rt rx on_delete req w = (r, w') \<Longrightarrow> schema_step w w'"
| step_delete_table: "t \<in> set (db_tables (ctl w)) \<Longrightarrow> delete_table u t req w = (r, w') \<Longrightarrow> schema_step w w'"
| step_delete_database: "d \<in> set (tenant_databases (ctl w)) \<Longrightarrow> delete_tenant_database u d req w = (r, w')
     \<Longrightarrow> schema_step w w'"
| step_elsewhere: "tnt w' = tnt w \<Longrightarrow> tenant_databases (ctl w') = tenant_databases (ctl w) \<Longrightarrow>
     db_tables (ctl w') = db_tables (ctl w) \<Longrightarrow> db_columns (ctl w') = db_columns (ctl w) \<Longrightarrow> schema_step w w'"

lemma schema_inv_names:
  assumes "schema_inv w"
  shows "d \<in> set (tenant_databases (ctl w)) \<Longrightarrow> IDENTIFIER_RE (schema_name d)"
    and "t \<in> set (db_tables (ctl w)) \<Longrightarrow> IDENTIFIER_RE (tbl_name t)"
    and "x \<in> set (db_columns (ctl w)) \<Longrightarrow> IDENTIFIER_RE (col_name x)"
  using assms by (auto simp: schema_inv_def both_def well_formed_catalog_def well_formed_column_def)

lemma schema_step_inv: "schema_step w w' \<Longrightarrow> schema_inv w \<Longrightarrow> schema_inv w'"
proof (induction rule: schema_step.induct)
  case (step_elsewhere w' w)
  then show ?case by (simp add: schema_inv_def both_def well_formed_catalog_def)
qed (blast dest: preservesD [rotated 2] schema_inv_names
    intro: catalog_schema.keeps_create_tenant_database [folded schema_inv_def] catalog_schema.keeps_create_table [folded schema_inv_def]
      catalog_schema.keeps_add_column [folded schema_inv_def] catalog_schema.keeps_add_foreign_key [folded schema_inv_def]
      delete_table_keeps delete_tenant_database_keeps)+

lemma schema_steps_inv: "schema_step\<^sup>*\<^sup>* w w' \<Longrightarrow> schema_inv w \<Longrightarrow> schema_inv w'"
  by (induction rule: rtranclp_induct) (auto intro: schema_step_inv)

text \<open>C18. No text of a user is ever part of the SQL the schema services send. From a catalog without
  databases, after any history of operations with any names, types and default values, every statement
  committed on the tenant cluster is made of constants of the code and of identifiers that match
  \<open>IDENTIFIER_RE\<close> (default values are literals, quoted by the driver), and every stored column has an
  identifier for a name and a type whose parameters are in bounds.\<close>

theorem schema_history_harmless:
  assumes "schema_step\<^sup>*\<^sup>* w w'" and "tnt w = []"
    and "tenant_databases (ctl w) = []" "db_tables (ctl w) = []" "db_columns (ctl w) = []"
  shows "list_all (\<lambda>s. harmless DDL_TEXTS (fst s)) (tnt w') \<and> list_all well_formed_column (db_columns (ctl w'))"
proof -
  have "schema_inv w"
    using assms(2-) by (simp add: schema_inv_def both_def well_formed_catalog_def sent_only_def)
  with assms(1) have "schema_inv w'" by (rule schema_steps_inv)
  then show ?thesis
    by (simp add: schema_inv_def both_def well_formed_catalog_def sent_only_def list_all_iff)
qed

section \<open>Witnesses\<close>

definition shop_project :: project where
  "shop_project = \<lparr>proj_id = 21, proj_workspace = 20, proj_name = ''p'', proj_created_by = 1\<rparr>"

definition shop_database :: tenant_database where
  "shop_database = \<lparr>tdb_id = 60, tdb_project = 21, tdb_name = ''crm'', schema_name = ''db_crm'', tdb_created_by = 1\<rparr>"

text \<open>A server that keeps its tables: it refuses to create one that exists or to drop one that does not.\<close>

definition table_server :: "nat \<Rightarrow> stmt list \<Rightarrow> stmt \<Rightarrow> db_error + query_result" where
  "table_server n h st = (let names = identifiers_of (fst st); x = (names ! 0, names ! 1); verb = hd (raw_texts (fst st)) in
     if verb = ''CREATE TABLE '' \<and> x \<in> physical h \<or> verb = ''DROP TABLE '' \<and> x \<notin> physical h
     then Inl ProgrammingError else Inr \<lparr>description = [], fetched = [], rowcount = 0\<rparr>)"

text \<open>The shop with one tenant database and the tables \<open>ts\<close> in it.\<close>

definition crm_world :: "db_table list \<Rightarrow> stmt list \<Rightarrow> world" where
  "crm_world ts h = (world_of (shop\<lparr>tenant_databases := [shop_database], db_tables := ts\<rparr>))
     \<lparr>tnt := h, env := base_env\<lparr>pg := table_server\<rparr>\<rparr>"

lemma crm_world_simps [simp]:
  "ctl (crm_world ts h) = shop\<lparr>tenant_databases := [shop_database], db_tables := ts\<rparr>" "tnt (crm_world ts h) = h"
  "env (crm_world ts h) = base_env\<lparr>pg := table_server\<rparr>" "rng (crm_world ts h) = 0"
  "pg_calls (crm_world ts h) = 0" "clock (crm_world ts h) = 50"
  by (simp_all add: crm_world_def)

lemma shop_database_simps [simp]:
  "tdb_id shop_database = 60" "tdb_project shop_database = 21" "schema_name shop_database = ''db_crm''"
  by (simp_all add: shop_database_def)

lemma postgres_tables_table_server: "postgres_tables (base_env\<lparr>pg := table_server\<rparr>)"
  by (simp add: postgres_tables_def table_server_def CREATE_TABLE_def DROP_TABLE_def)

lemma alice_permitted_crm [simp]:
  "permitted (crm_world ts h) 1 ''database.schema.manage'' (Some 7) None"
  "permitted (crm_world ts h) 1 ''database.delete'' (Some 7) None"
  "permitted (world_of shop) 1 ''database.create'' (Some 7) None"
proof -
  have "permitted (crm_world ts h) 1 code (Some 7) None \<longleftrightarrow> permitted (world_of shop) 1 code (Some 7) None" for code
    by (rule permitted_cong) simp_all
  then show "permitted (crm_world ts h) 1 ''database.schema.manage'' (Some 7) None"
    "permitted (crm_world ts h) 1 ''database.delete'' (Some 7) None"
    "permitted (world_of shop) 1 ''database.create'' (Some 7) None"
    by (simp_all add: permitted_def PERMISSIONS_def)
qed

lemma shop_database_organization [simp]:
  "Database_organization_id shop_database (crm_world ts h) = (Inr 7, crm_world ts h)"
  by (simp add: Database_organization_id_def organization_of_project_def Project_organization_id_def bind_def get_one_run)

lemma orders_identifier: "IDENTIFIER_RE ''orders''"
  by (simp add: IDENTIFIER_RE_def lower_letter_def)

lemma create_orders:
  "\<exists>t w'. create_table alice shop_database ''orders'' '''' (crm_world [] []) = (Inr t, w')"
  by (simp add: create_table_def bind_def schema_require_def require_run validating_def validate_identifier_def
      orders_identifier execute_tenant_ddl_def atomic_tenant_def tenant_execute_def Let_def table_server_def
      CREATE_TABLE_def physical_def write_catalog_def atomic_default_def catch_def orm_create_def)

lemma crm_in_sync: "in_sync (crm_world [] [])"
  by (simp add: in_sync_def physical_def catalog_tables_def)

theorem create_table_refines_witness:
  "\<exists>t w'. create_table alice shop_database ''orders'' '''' (crm_world [] []) = (Inr t, w') \<and> in_sync w'
     \<and> physical (tnt w') = {(''db_crm'', ''orders'')}"
proof -
  obtain t w' where run: "create_table alice shop_database ''orders'' '''' (crm_world [] []) = (Inr t, w')"
    using create_orders by blast
  have "in_sync w' \<and> physical (tnt w') = {(''db_crm'', ''orders'')}"
    using wp_Inr [OF create_table_refines [OF crm_in_sync] run] postgres_tables_table_server
    by (simp add: unique_rows_def physical_def)
  with run show ?thesis by blast
qed

definition orders_table :: db_table where
  "orders_table = \<lparr>tbl_id = 70, tbl_database = 60, tbl_name = ''orders'', tbl_created_by = 1\<rparr>"

lemma orders_table_simps [simp]:
  "tbl_id orders_table = 70" "tbl_database orders_table = 60" "tbl_name orders_table = ''orders''"
  by (simp_all add: orders_table_def)

lemma delete_orders:
  "\<exists>w'. delete_table alice orders_table '''' (crm_world [orders_table] [(CREATE_TABLE ''db_crm'' ''orders'', [])])
     = (Inr (), w')"
  by (simp add: delete_table_def bind_def schema_require_def require_run Table_organization_id_def table_database_def
      get_one_run execute_tenant_ddl_def atomic_tenant_def tenant_execute_def Let_def table_server_def
      DROP_TABLE_def physical_def ddl_effects atomic_default_def)

theorem delete_table_refines_witness:
  "\<exists>w'. delete_table alice orders_table '''' (crm_world [orders_table] [(CREATE_TABLE ''db_crm'' ''orders'', [])])
     = (Inr (), w') \<and> in_sync w' \<and> physical (tnt w') = {}"
proof -
  obtain w' where run: "delete_table alice orders_table ''''
      (crm_world [orders_table] [(CREATE_TABLE ''db_crm'' ''orders'', [])]) = (Inr (), w')"
    using delete_orders by blast
  have sync: "in_sync (crm_world [orders_table] [(CREATE_TABLE ''db_crm'' ''orders'', [])])"
    by (auto simp: in_sync_def physical_def catalog_tables_def ddl_effects)
  have "in_sync w' \<and> physical (tnt w') = {}"
    using wp_Inr [OF delete_table_refines [OF sync] run]
    by (simp add: unique_rows_def physical_def ddl_effects)
  with run show ?thesis by blast
qed

theorem schema_history_harmless_witness:
  "\<exists>w'. schema_step\<^sup>*\<^sup>* (world_of shop) w' \<and> length (tnt w') = 1
     \<and> list_all (\<lambda>s. harmless DDL_TEXTS (fst s)) (tnt w')"
proof -
  obtain r w' where run: "create_tenant_database alice shop_project ''crm'' '''' (world_of shop) = (r, w')"
    by (cases "create_tenant_database alice shop_project ''crm'' '''' (world_of shop)")
  then have "length (tnt w') = 1"
    by (auto simp: create_tenant_database_def bind_def Project_organization_id_def get_one_run schema_require_def
        require_run shop_project_def execute_tenant_ddl_def atomic_tenant_def tenant_execute_def Let_def
        write_catalog_def atomic_default_def catch_def orm_create_def)
  moreover have "schema_step\<^sup>*\<^sup>* (world_of shop) w'"
    using step_create_database [OF run] by blast
  ultimately show ?thesis using schema_history_harmless [of "world_of shop" w'] by auto
qed

end
