(* ===== verification/Rows.thy ===== *)
theory Rows
  imports Schema "HOL-Library.AList"
begin

text \<open>
  The rows of tenant tables (\<open>databases/formats.py\<close>, \<open>values.py\<close>, \<open>rows.py\<close>): conversion of JSON
  values to query parameters, and the statements of the data explorer. Text of a request reaches the
  server only as a parameter; what is composed into the statement are the names of the catalog. A
  \<open>%s\<close> of the source is a \<open>Placeholder\<close>.
\<close>

section \<open>Values\<close>

definition BOOLEAN_TRUE_VALUES :: "string set" where "BOOLEAN_TRUE_VALUES = {''true'', ''yes'', ''1''}"
definition BOOLEAN_FALSE_VALUES :: "string set" where "BOOLEAN_FALSE_VALUES = {''false'', ''no'', ''0''}"

definition DATETIME_FORMATS :: "(string \<Rightarrow> string option) list" where
  "DATETIME_FORMATS = [skip_T, skip_space]"

text \<open>The loop over the formats: the first that matches.\<close>

fun first_format :: "(string \<Rightarrow> string option) list \<Rightarrow> string \<Rightarrow> pg_value option" where
  "first_format [] s = None"
| "first_format (fmt # fmts) s = (case strptime_datetime fmt s of
     Some (y, m, d, h, n, x) \<Rightarrow> Some (VDateTime y m d h n x)
   | None \<Rightarrow> first_format fmts s)"

definition validate_and_convert :: "json \<Rightarrow> string \<Rightarrow> exn + pg_value" where
  "validate_and_convert value dtype =
    (if value = JNull then Inr VNull
     else if dtype = ''integer'' \<or> dtype = ''bigint'' then
       (case value of JInt i \<Rightarrow> Inr (VInt i) | _ \<Rightarrow> Inl RowValueError)
     else if dtype = ''decimal'' then
       (case value of JBool b \<Rightarrow> Inl RowValueError
        | _ \<Rightarrow> (case py_str value of
             Some s \<Rightarrow> if decimal_ok s then Inr (VDecimal s) else Inl RowValueError
           | None \<Rightarrow> Inl RowValueError))
     else if dtype = ''boolean'' then
       (case value of JBool b \<Rightarrow> Inr (VBool b)
        | JStr s \<Rightarrow> if lower s \<in> BOOLEAN_TRUE_VALUES \<union> BOOLEAN_FALSE_VALUES
            then Inr (VBool (lower s \<in> BOOLEAN_TRUE_VALUES)) else Inl RowValueError
        | _ \<Rightarrow> Inl RowValueError)
     else if dtype = ''date'' then
       (case value of JStr s \<Rightarrow> (case strptime_date s of
            Some (y, m, d) \<Rightarrow> Inr (VDate y m d) | None \<Rightarrow> Inl RowValueError)
        | _ \<Rightarrow> Inl RowValueError)
     else if dtype = ''datetime'' then
       (case value of JStr s \<Rightarrow> (case first_format DATETIME_FORMATS s of
            Some v \<Rightarrow> Inr v | None \<Rightarrow> Inl RowValueError)
        | _ \<Rightarrow> Inl RowValueError)
     else if dtype = ''uuid'' then
       (case py_str value of
          Some s \<Rightarrow> (case uuid_parse s of Some u \<Rightarrow> Inr (VStr (uuid_str u)) | None \<Rightarrow> Inl RowValueError)
        | None \<Rightarrow> Inl RowValueError)
     else if dtype = ''text'' \<or> dtype = ''varchar'' then
       (case value of JStr s \<Rightarrow> Inr (VStr s) | _ \<Rightarrow> Inl RowValueError)
     else if dtype = ''json'' then Inr (VJsonb value)
     else Inl RowValueError)"

section \<open>Names\<close>

definition DEFAULT_LIMIT :: int where "DEFAULT_LIMIT = 50"
definition MAX_LIMIT :: int where "MAX_LIMIT = 500"

definition columns_of :: "control \<Rightarrow> db_table \<Rightarrow> db_column list" where
  "columns_of c t = filter (\<lambda>x. col_table x = tbl_id t) (db_columns c)"

text \<open>In creation order, which is the order of the rows of the model.\<close>

definition column_names :: "db_table \<Rightarrow> string list app" where
  "column_names t = query (\<lambda>c. map col_name (columns_of c t))"

definition text_column_names :: "db_table \<Rightarrow> string list app" where
  "text_column_names t =
     query (\<lambda>c. map col_name (filter (\<lambda>x. data_type x = ''text'' \<or> data_type x = ''varchar'') (columns_of c t)))"

definition table_sql :: "db_table \<Rightarrow> composable app" where
  "table_sql t = bind (table_database t) (\<lambda>d.
     ret (Composed [Identifier (schema_name d), SQL ''.'', Identifier (tbl_name t)]))"

text \<open>\<open>sql.SQL(sep).join(parts)\<close>.\<close>

fun sql_join :: "string \<Rightarrow> composable list \<Rightarrow> composable list" where
  "sql_join sep [] = []"
| "sql_join sep [q] = [q]"
| "sql_join sep (q # r # qs) = q # SQL sep # sql_join sep (r # qs)"

definition equals_param :: "string \<Rightarrow> composable" where
  "equals_param c = Composed [Identifier c, SQL '' = '', Placeholder]"

definition ilike_param :: "string \<Rightarrow> composable" where
  "ilike_param c = Composed [Identifier c, SQL '' ILIKE '', Placeholder]"

definition identifier_list :: "string list \<Rightarrow> composable" where
  "identifier_list cs = Composed (sql_join '', '' (map Identifier cs))"

section \<open>Reading\<close>

text \<open>The loop over the filters.\<close>

fun filter_clauses :: "string list \<Rightarrow> (string \<times> string) list \<Rightarrow> (exn + composable list \<times> pg_value list)" where
  "filter_clauses names [] = Inr ([], [])"
| "filter_clauses names ((col, raw) # fs) =
    (if col \<notin> set names then Inl RowValueError
     else case filter_clauses names fs of Inl e \<Rightarrow> Inl e
       | Inr (cs, ps) \<Rightarrow> Inr (equals_param col # cs, VStr raw # ps))"

definition search_clause :: "string list \<Rightarrow> string option \<Rightarrow> composable list \<times> pg_value list" where
  "search_clause text_columns search =
    (case search of None \<Rightarrow> ([], [])
     | Some s \<Rightarrow> if s = '''' \<or> text_columns = [] then ([], [])
         else ([Composed (SQL ''('' # sql_join '' OR '' (map ilike_param text_columns) @ [SQL '')''])],
               replicate (length text_columns) (VStr (''%'' @ s @ ''%''))))"

definition build_where :: "db_table \<Rightarrow> (string \<times> string) list \<Rightarrow> string option \<Rightarrow> (composable \<times> pg_value list) app" where
  "build_where t filters search =
     bind (column_names t) (\<lambda>names.
     bind (lift (filter_clauses names filters)) (\<lambda>(cs, ps).
     bind (text_column_names t) (\<lambda>text_columns.
     let (cs', ps') = search_clause text_columns search in
     if cs @ cs' = [] then ret (SQL '''', [])
     else ret (Composed (SQL '' WHERE '' # sql_join '' AND '' (cs @ cs')), ps @ ps'))))"

definition order_clause :: "string list \<Rightarrow> string option \<Rightarrow> exn + composable" where
  "order_clause names order_by =
    (case order_by of None \<Rightarrow> Inr (Composed [SQL '' ORDER BY '', Identifier ''id''])
     | Some s \<Rightarrow>
       if s = '''' then Inr (Composed [SQL '' ORDER BY '', Identifier ''id''])
       else let col = dropWhile (\<lambda>c. c = CHR ''-'') s in
         if col \<notin> set names then Inl RowValueError
         else Inr (Composed [SQL '' ORDER BY '', Identifier col, SQL '' '',
                SQL (if prefix ''-'' s then ''DESC'' else ''ASC'')]))"

definition SELECT_PAGE :: "string list \<Rightarrow> composable \<Rightarrow> composable \<Rightarrow> composable \<Rightarrow> composable" where
  "SELECT_PAGE names table where order =
     Composed [SQL ''SELECT '', identifier_list names, SQL '' FROM '', table, where, order,
       SQL '' LIMIT '', Placeholder, SQL '' OFFSET '', Placeholder]"

definition SELECT_COUNT :: "composable \<Rightarrow> composable \<Rightarrow> composable" where
  "SELECT_COUNT table where = Composed [SQL ''SELECT COUNT(*) FROM '', table, where]"

text \<open>\<open>dict(zip(result_columns, row, strict=True))\<close>, and \<open>cursor.fetchone()\<close> where a row is expected.\<close>

definition py_dict :: "(string \<times> 'v) list \<Rightarrow> (string \<times> 'v) list" where
  "py_dict kvs = foldl (\<lambda>d (k, v). AList.update k v d) [] kvs"

definition row_dict :: "string list \<Rightarrow> pg_value list \<Rightarrow> exn + (string \<times> pg_value) list" where
  "row_dict names row = (if length names \<noteq> length row then Inl ValueError else Inr (py_dict (zip names row)))"

fun row_dicts :: "string list \<Rightarrow> pg_value list list \<Rightarrow> exn + (string \<times> pg_value) list list" where
  "row_dicts names [] = Inr []"
| "row_dicts names (r # rs) = (case row_dict names r of Inl e \<Rightarrow> Inl e
     | Inr d \<Rightarrow> (case row_dicts names rs of Inl e \<Rightarrow> Inl e | Inr ds \<Rightarrow> Inr (d # ds)))"

definition first_cell :: "query_result \<Rightarrow> exn + pg_value" where
  "first_cell r = (case fetched r of [] \<Rightarrow> Inl TypeError | row # _ \<Rightarrow>
     (case row of [] \<Rightarrow> Inl IndexError | v # _ \<Rightarrow> Inr v))"

definition returned_row :: "query_result \<Rightarrow> exn + (string \<times> pg_value) list" where
  "returned_row r = (case fetched r of [] \<Rightarrow> Inl TypeError | row # _ \<Rightarrow> row_dict (description r) row)"

text \<open>\<open>if row is None: raise RowNotFound\<close>.\<close>

definition found_row :: "query_result \<Rightarrow> exn + (string \<times> pg_value) list" where
  "found_row r = (case fetched r of [] \<Rightarrow> Inl RowNotFound | row # _ \<Rightarrow> row_dict (description r) row)"

record page =
  page_count :: pg_value
  page_limit :: int
  page_offset :: int
  page_results :: "(string \<times> pg_value) list list"

definition list_rows ::
  "db_table \<Rightarrow> int \<Rightarrow> int \<Rightarrow> string option \<Rightarrow> (string \<times> string) list \<Rightarrow> string option \<Rightarrow> page app" where
  "list_rows t limit_arg offset_arg order_by filters search =
     (let limit = max 1 (min limit_arg MAX_LIMIT); offset = max 0 offset_arg in
     bind (column_names t) (\<lambda>names.
     bind (build_where t filters search) (\<lambda>(where, ps).
     bind (lift (order_clause names order_by)) (\<lambda>order.
     bind (table_sql t) (\<lambda>table.
     bind (tenant_select (SELECT_COUNT table where) ps) (\<lambda>count.
     bind (lift (first_cell count)) (\<lambda>total.
     bind (tenant_select (SELECT_PAGE names table where order) (ps @ [VInt limit, VInt offset])) (\<lambda>res.
     bind (lift (row_dicts (description res) (fetched res))) (\<lambda>rows.
     ret \<lparr>page_count = total, page_limit = limit, page_offset = offset, page_results = rows\<rparr>)))))))))"

definition SELECT_ROW :: "string list \<Rightarrow> composable \<Rightarrow> composable" where
  "SELECT_ROW names table = Composed [SQL ''SELECT '', identifier_list names, SQL '' FROM '', table, SQL '' WHERE '',
     equals_param ''id'']"

definition get_row :: "db_table \<Rightarrow> uuid \<Rightarrow> (string \<times> pg_value) list app" where
  "get_row t row_id =
     bind (column_names t) (\<lambda>names.
     bind (table_sql t) (\<lambda>table.
     bind (tenant_select (SELECT_ROW names table) [VStr (uuid_str row_id)]) (\<lambda>res.
     lift (found_row res))))"

section \<open>Writing\<close>

text \<open>The loop over \<open>data.items()\<close> that both writes share: known columns, no primary key, converted
  values.\<close>

fun converted :: "db_column list \<Rightarrow> (string \<times> json) list \<Rightarrow> exn + (string list \<times> pg_value list)" where
  "converted columns [] = Inr ([], [])"
| "converted columns ((name, raw) # kvs) =
    (case find (\<lambda>x. col_name x = name) columns of
       None \<Rightarrow> Inl RowValueError
     | Some column \<Rightarrow>
       if is_primary_key column then Inl RowValueError
       else case validate_and_convert raw (data_type column) of Inl e \<Rightarrow> Inl e
         | Inr v \<Rightarrow> (case converted columns kvs of Inl e \<Rightarrow> Inl e
             | Inr (names, vs) \<Rightarrow> Inr (name # names, v # vs)))"

definition missing_required :: "db_column list \<Rightarrow> string list \<Rightarrow> bool" where
  "missing_required columns given \<longleftrightarrow>
     list_ex (\<lambda>x. \<not> is_primary_key x \<and> \<not> is_nullable x \<and> col_name x \<notin> set given) columns"

definition INSERT_ROW :: "composable \<Rightarrow> string list \<Rightarrow> string list \<Rightarrow> composable" where
  "INSERT_ROW table insert_columns names =
     (if insert_columns \<noteq> []
      then Composed [SQL ''INSERT INTO '', table, SQL '' ('', identifier_list insert_columns, SQL '') VALUES ('',
        Composed (sql_join '', '' (map (\<lambda>_. Placeholder) insert_columns)), SQL '') RETURNING '', identifier_list names]
      else Composed [SQL ''INSERT INTO '', table, SQL '' DEFAULT VALUES RETURNING '', identifier_list names])"

definition insert_row :: "db_table \<Rightarrow> (string \<times> json) list \<Rightarrow> (string \<times> pg_value) list app" where
  "insert_row t data =
     bind (query (\<lambda>c. columns_of c t)) (\<lambda>columns.
     bind (lift (converted columns data)) (\<lambda>(insert_columns, values).
     bind (ensure (\<not> missing_required columns insert_columns) RowValueError) (\<lambda>_.
     bind (column_names t) (\<lambda>names.
     bind (table_sql t) (\<lambda>table.
     bind (tenant_execute (INSERT_ROW table insert_columns names) values) (\<lambda>res.
     lift (returned_row res)))))))"

definition UPDATE_ROW :: "composable \<Rightarrow> string list \<Rightarrow> string list \<Rightarrow> composable" where
  "UPDATE_ROW table set_columns names =
     Composed [SQL ''UPDATE '', table, SQL '' SET '', Composed (sql_join '', '' (map equals_param set_columns)),
       SQL '' WHERE '', equals_param ''id'', SQL '' RETURNING '', identifier_list names]"

definition update_row :: "db_table \<Rightarrow> uuid \<Rightarrow> (string \<times> json) list \<Rightarrow> (string \<times> pg_value) list app" where
  "update_row t row_id data =
     bind (ensure (data \<noteq> []) RowValueError) (\<lambda>_.
     bind (query (\<lambda>c. columns_of c t)) (\<lambda>columns.
     bind (lift (converted columns data)) (\<lambda>(set_columns, values).
     bind (column_names t) (\<lambda>names.
     bind (table_sql t) (\<lambda>table.
     bind (tenant_execute (UPDATE_ROW table set_columns names) (values @ [VStr (uuid_str row_id)])) (\<lambda>res.
     lift (found_row res)))))))"

definition DELETE_ROW :: "composable \<Rightarrow> composable" where
  "DELETE_ROW table = Composed [SQL ''DELETE FROM '', table, SQL '' WHERE '', equals_param ''id'']"

definition delete_row :: "db_table \<Rightarrow> uuid \<Rightarrow> unit app" where
  "delete_row t row_id =
     bind (table_sql t) (\<lambda>table.
     bind (tenant_execute (DELETE_ROW table) [VStr (uuid_str row_id)]) (\<lambda>res.
     ensure (rowcount res \<noteq> 0) RowNotFound))"

section \<open>Export\<close>

text \<open>The \<open>while True: batch = cursor.fetchmany(batch_size)\<close> loop over the rows the cursor holds; \<open>text\<close>
  is \<open>str\<close> of the driver's value.\<close>

function export_batches :: "nat \<Rightarrow> (pg_value \<Rightarrow> string) \<Rightarrow> pg_value list list \<Rightarrow> string list list" where
  "export_batches batch_size text cursor =
    (let batch = take batch_size cursor in
     if batch = [] then []
     else map (map (\<lambda>v. if v = VNull then '''' else text v)) batch
       @ export_batches batch_size text (drop batch_size cursor))"
  by pat_completeness auto

termination
  by (relation "measure (\<lambda>(b, f, c). length c)") auto

declare export_batches.simps [simp del]

definition SELECT_ALL :: "string list \<Rightarrow> composable \<Rightarrow> composable" where
  "SELECT_ALL names table = Composed [SQL ''SELECT '', identifier_list names, SQL '' FROM '', table, SQL '' ORDER BY '',
     Identifier ''id'']"

definition iter_export_rows :: "(pg_value \<Rightarrow> string) \<Rightarrow> db_table \<Rightarrow> nat \<Rightarrow> string list list app" where
  "iter_export_rows text t batch_size =
     bind (column_names t) (\<lambda>names.
     bind (table_sql t) (\<lambda>table.
     bind (tenant_select (SELECT_ALL names table) []) (\<lambda>res.
     ret (names # export_batches batch_size text (fetched res)))))"

section \<open>What the statements contain\<close>

definition DML_TEXTS :: "string set" where
  "DML_TEXTS = {'''', ''.'', '' = '', '' ILIKE '', ''('', '')'', '' OR '', '' AND '', '' WHERE '', '' ORDER BY '', '' '',
     ''ASC'', ''DESC'', ''SELECT '', ''SELECT COUNT(*) FROM '', '' FROM '', '', '', '' LIMIT '', '' OFFSET '',
     ''INSERT INTO '', '' ('', '') VALUES ('', '') RETURNING '', '' DEFAULT VALUES RETURNING '', ''UPDATE '', '' SET '',
     '' RETURNING '', ''DELETE FROM ''}"

lemma DML_TEXTS_simps [simp]:
  "'''' \<in> DML_TEXTS" "''.'' \<in> DML_TEXTS" "'' = '' \<in> DML_TEXTS" "'' ILIKE '' \<in> DML_TEXTS" "''('' \<in> DML_TEXTS"
  "'')'' \<in> DML_TEXTS" "'' OR '' \<in> DML_TEXTS" "'' AND '' \<in> DML_TEXTS" "'' WHERE '' \<in> DML_TEXTS"
  "'' ORDER BY '' \<in> DML_TEXTS" "'' '' \<in> DML_TEXTS" "''ASC'' \<in> DML_TEXTS" "''DESC'' \<in> DML_TEXTS"
  "''SELECT '' \<in> DML_TEXTS" "''SELECT COUNT(*) FROM '' \<in> DML_TEXTS" "'' FROM '' \<in> DML_TEXTS" "'', '' \<in> DML_TEXTS"
  "'' LIMIT '' \<in> DML_TEXTS" "'' OFFSET '' \<in> DML_TEXTS" "''INSERT INTO '' \<in> DML_TEXTS" "'' ('' \<in> DML_TEXTS"
  "'') VALUES ('' \<in> DML_TEXTS" "'') RETURNING '' \<in> DML_TEXTS" "'' DEFAULT VALUES RETURNING '' \<in> DML_TEXTS"
  "''UPDATE '' \<in> DML_TEXTS" "'' SET '' \<in> DML_TEXTS" "'' RETURNING '' \<in> DML_TEXTS" "''DELETE FROM '' \<in> DML_TEXTS"
  by (simp_all add: DML_TEXTS_def)

text \<open>Complete: harmless, and with as many parameters as placeholders.\<close>

definition complete_parts :: "composable list \<Rightarrow> nat \<Rightarrow> bool" where
  "complete_parts qs n \<longleftrightarrow> list_all (harmless DML_TEXTS) qs \<and> sum_list (map placeholders_of qs) = n"

definition complete :: "stmt \<Rightarrow> bool" where
  "complete s \<longleftrightarrow> harmless DML_TEXTS (fst s) \<and> placeholders_of (fst s) = length (snd s)"

lemma harmless_simps [simp]:
  "harmless texts (SQL s) \<longleftrightarrow> s \<in> texts"
  "harmless texts (Identifier s) \<longleftrightarrow> IDENTIFIER_RE s"
  "harmless texts Placeholder"
  "harmless texts (Composed qs) \<longleftrightarrow> list_all (harmless texts) qs"
  by (auto simp: harmless_def list_all_iff)

lemma complete_Composed: "complete (Composed qs, ps) \<longleftrightarrow> complete_parts qs (length ps)"
  by (simp add: complete_def complete_parts_def)

lemma harmless_sql_join [simp]: "list_all (harmless texts) (sql_join sep qs) \<longleftrightarrow>
    list_all (harmless texts) qs \<and> (2 \<le> length qs \<longrightarrow> sep \<in> texts)"
  by (induction sep qs rule: sql_join.induct) auto

lemma placeholders_sql_join [simp]:
  "sum_list (map placeholders_of (sql_join sep qs)) = sum_list (map placeholders_of qs)"
  by (induction sep qs rule: sql_join.induct) auto

lemma identifier_list_parts [simp]:
  "harmless DML_TEXTS (identifier_list cs) \<longleftrightarrow> list_all IDENTIFIER_RE cs"
  "placeholders_of (identifier_list cs) = 0"
  by (simp_all add: identifier_list_def list.pred_map comp_def)

lemma param_parts [simp]:
  "harmless DML_TEXTS (equals_param c) \<longleftrightarrow> IDENTIFIER_RE c" "placeholders_of (equals_param c) = 1"
  "harmless DML_TEXTS (ilike_param c) \<longleftrightarrow> IDENTIFIER_RE c" "placeholders_of (ilike_param c) = 1"
  by (simp_all add: equals_param_def ilike_param_def)

lemma filter_clauses_complete:
  assumes "filter_clauses names fs = Inr (cs, ps)" and "list_all IDENTIFIER_RE names"
  shows "complete_parts cs (length ps)"
  using assms
  by (induction names fs arbitrary: cs ps rule: filter_clauses.induct)
    (auto simp: complete_parts_def list_all_iff split: if_splits sum.splits)

lemma search_clause_complete:
  assumes "search_clause names s = (cs, ps)" and "list_all IDENTIFIER_RE names"
  shows "complete_parts cs (length ps)"
  using assms
  by (auto simp: search_clause_def complete_parts_def list.pred_map comp_def sum_list_triv split: option.splits if_splits)

lemma complete_parts_append:
  "complete_parts cs n \<Longrightarrow> complete_parts cs' m \<Longrightarrow> complete_parts (cs @ cs') (n + m)"
  by (simp add: complete_parts_def)

lemma order_clause_harmless:
  "order_clause names order_by = Inr q \<Longrightarrow> list_all IDENTIFIER_RE names \<Longrightarrow>
     harmless DML_TEXTS q \<and> placeholders_of q = 0"
  by (auto simp: order_clause_def list_all_iff Let_def split: option.splits if_splits)

lemma find_SomeD: "find P xs = Some x \<Longrightarrow> x \<in> set xs \<and> P x"
  by (auto simp: find_Some_iff)

lemma converted_Cons:
  "converted columns ((name, raw) # kvs) = Inr (names, vs) \<longleftrightarrow>
     (\<exists>column v names' vs'. find (\<lambda>x. col_name x = name) columns = Some column \<and> \<not> is_primary_key column
        \<and> validate_and_convert raw (data_type column) = Inr v \<and> converted columns kvs = Inr (names', vs')
        \<and> names = name # names' \<and> vs = v # vs')"
  by (auto split: option.splits sum.splits)

lemma converted_complete:
  assumes "converted columns kvs = Inr (names, vs)" and "list_all (\<lambda>x. IDENTIFIER_RE (col_name x)) columns"
  shows "list_all IDENTIFIER_RE names \<and> length vs = length names"
  using assms
proof (induction kvs arbitrary: names vs)
  case (Cons kv kvs)
  obtain name raw where kv: "kv = (name, raw)" by (cases kv)
  with Cons.prems(1) obtain column v names' vs' where
    "find (\<lambda>x. col_name x = name) columns = Some column" "converted columns kvs = Inr (names', vs')"
    "names = name # names'" "vs = v # vs'"
    by (auto simp: converted_Cons simp del: converted.simps)
  with Cons.IH [of names' vs'] Cons.prems(2) show ?case
    by (auto simp: list_all_iff dest: find_SomeD)
qed simp

section \<open>Text of a request is a parameter\<close>

text \<open>A server that raises a \<open>ProgrammingError\<close> (a syntax error, an unknown name, a wrong number of
  parameters) only for statements that are not complete.\<close>

definition strict_server :: "env \<Rightarrow> bool" where
  "strict_server ev \<longleftrightarrow> (\<forall>n h s. complete s \<longrightarrow> pg ev n h s \<noteq> Inl ProgrammingError)"

abbreviation refused :: exn where "refused \<equiv> DbError ProgrammingError"

definition never_refused :: "'a app \<Rightarrow> world \<Rightarrow> bool" where
  "never_refused m w \<longleftrightarrow> fst (m w) \<noteq> Inl refused"

lemma never_refused_wp: "never_refused m w \<longleftrightarrow> wp m (\<lambda>_ _. True) (\<lambda>e _. e \<noteq> refused) w"
  by (auto simp: never_refused_def wp_def split: prod.split sum.split)

lemma wp_selectI:
  assumes "strict_server (env w)" "complete (q, ps)"
    and "\<And>res. Q res (w\<lparr>pg_calls := Suc (pg_calls w)\<rparr>)" "\<And>e. e \<noteq> refused \<Longrightarrow> E e (w\<lparr>pg_calls := Suc (pg_calls w)\<rparr>)"
  shows "wp (tenant_select q ps) Q E w"
proof (cases "pg (env w) (pg_calls w) (tnt w) (q, ps)")
  case (Inl e)
  with assms(1,2) have "DbError e \<noteq> refused" by (auto simp: strict_server_def)
  with Inl assms(4) show ?thesis by (simp add: wp_tenant_select)
qed (use assms(3) in \<open>simp add: wp_tenant_select\<close>)

lemma wp_executeI:
  assumes "strict_server (env w)" "complete (q, ps)"
    and "\<And>res. Q res (w\<lparr>pg_calls := Suc (pg_calls w), tnt := tnt w @ [(q, ps)]\<rparr>)"
    and "\<And>e. e \<noteq> refused \<Longrightarrow> E e (w\<lparr>pg_calls := Suc (pg_calls w)\<rparr>)"
  shows "wp (tenant_execute q ps) Q E w"
proof (cases "pg (env w) (pg_calls w) (tnt w) (q, ps)")
  case (Inl e)
  with assms(1,2) have "DbError e \<noteq> refused" by (auto simp: strict_server_def)
  with Inl assms(4) show ?thesis by (simp add: wp_tenant_execute)
qed (use assms(3) in \<open>simp add: wp_tenant_execute\<close>)

lemma wp_table_sqlI:
  assumes "well_formed_catalog (ctl w)" "IDENTIFIER_RE (tbl_name t)"
    and "\<And>q. harmless DML_TEXTS q \<Longrightarrow> placeholders_of q = 0 \<Longrightarrow> Q q w" "\<And>e. e \<noteq> refused \<Longrightarrow> E e w"
  shows "wp (table_sql t) Q E w"
proof -
  have "Q (Composed [Identifier (schema_name d), SQL ''.'', Identifier (tbl_name t)]) w"
    if "filter (\<lambda>d. tdb_id d = tbl_database t) (tenant_databases (ctl w)) = [d]" for d
    by (rule assms(3)) (use singleton_filter [OF that] assms(1,2) in \<open>auto simp: well_formed_catalog_def\<close>)
  then show ?thesis
    by (auto simp: table_sql_def table_database_def wp_get_one assms(4) split: list.split)
qed

lemma columns_of_identifiers:
  "well_formed_catalog c \<Longrightarrow> list_all (\<lambda>x. IDENTIFIER_RE (col_name x)) (columns_of c t)"
  by (auto simp: well_formed_catalog_def well_formed_column_def columns_of_def list_all_iff)

lemma column_names_identifiers:
  "well_formed_catalog c \<Longrightarrow> list_all IDENTIFIER_RE (map col_name (columns_of c t))"
  using columns_of_identifiers [of c t] by (simp add: list.pred_map comp_def)

lemma filter_clauses_Inl: "filter_clauses names fs = Inl e \<Longrightarrow> e = RowValueError"
  by (induction names fs rule: filter_clauses.induct) (auto split: if_splits sum.splits)

lemma order_clause_Inl: "order_clause names order_by = Inl e \<Longrightarrow> e = RowValueError"
  by (auto simp: order_clause_def Let_def split: option.splits if_splits)

lemma validate_and_convert_Inl: "validate_and_convert v dt = Inl e \<Longrightarrow> e = RowValueError"
  by (auto simp: validate_and_convert_def split: if_splits option.splits json.splits prod.splits)

lemma converted_Inl: "converted columns kvs = Inl e \<Longrightarrow> e = RowValueError"
  by (induction columns kvs rule: converted.induct)
    (auto split: option.splits if_splits sum.splits dest: validate_and_convert_Inl)

lemma row_dicts_Inl: "row_dicts names rs = Inl e \<Longrightarrow> e = ValueError"
  by (induction names rs rule: row_dicts.induct) (auto simp: row_dict_def split: sum.splits if_splits)

lemma returned_Inl:
  "first_cell r = Inl e \<Longrightarrow> e \<noteq> refused"
  "returned_row r = Inl e \<Longrightarrow> e \<noteq> refused"
  "found_row r = Inl e \<Longrightarrow> e \<noteq> refused"
  by (auto simp: first_cell_def returned_row_def found_row_def row_dict_def split: list.splits if_splits)

lemma wp_liftI:
  "(\<And>x. r = Inr x \<Longrightarrow> Q x s) \<Longrightarrow> (\<And>e. r = Inl e \<Longrightarrow> E e s) \<Longrightarrow> wp (lift r) Q E s"
  by (cases r) simp_all

lemma wp_bindI: "wp m (\<lambda>x. wp (f x) Q E) E s \<Longrightarrow> wp (bind m f) Q E s"
  by simp

lemma wp_case_prodI: "(\<And>a b. p = (a, b) \<Longrightarrow> wp (f a b) Q E s) \<Longrightarrow> wp (case p of (a, b) \<Rightarrow> f a b) Q E s"
  by (cases p) simp

lemma wp_ensureI: "(b \<Longrightarrow> Q () s) \<Longrightarrow> (\<not> b \<Longrightarrow> E e s) \<Longrightarrow> wp (ensure b e) Q E s"
  by simp

lemma wp_queryI: "Q (f (ctl s)) s \<Longrightarrow> wp (query f) Q E s"
  by simp

lemma wp_retI: "Q x s \<Longrightarrow> wp (ret x) Q E s"
  by simp

lemmas vcg = wp_queryI wp_retI wp_ensureI wp_case_prodI wp_bindI wp_liftI wp_table_sqlI wp_selectI wp_executeI

lemma wp_build_where:
  assumes "well_formed_catalog (ctl w)"
    and "\<And>q ps. complete (q, ps) \<Longrightarrow> Q (q, ps) w" "E RowValueError w"
  shows "wp (build_where t filters search) Q E w"
proof -
  let ?names = "map col_name (columns_of (ctl w) t)"
  let ?text = "map col_name (filter (\<lambda>x. data_type x = ''text'' \<or> data_type x = ''varchar'') (columns_of (ctl w) t))"
  have names: "list_all IDENTIFIER_RE ?names" "list_all IDENTIFIER_RE ?text"
    using column_names_identifiers [OF assms(1), of t] by (auto simp: list_all_iff)
  obtain cs' ps' where search: "search_clause ?text search = (cs', ps')" by (cases "search_clause ?text search")
  have "Q (SQL '''', []) w"
    by (rule assms(2)) (simp add: complete_def)
  moreover have "Q (Composed (SQL '' WHERE '' # sql_join '' AND '' (cs @ cs')), ps @ ps') w"
    if "filter_clauses ?names filters = Inr (cs, ps)" for cs ps
    using complete_parts_append [OF filter_clauses_complete [OF that names(1)] search_clause_complete [OF search names(2)]]
    by (intro assms(2)) (simp add: complete_def complete_parts_def)
  ultimately show ?thesis
    using search assms(3) filter_clauses_Inl [of ?names filters]
    by (cases "filter_clauses ?names filters")
      (auto simp: build_where_def column_names_def text_column_names_def)
qed

lemmas outcomes = returned_Inl filter_clauses_Inl order_clause_Inl converted_Inl row_dicts_Inl

lemma column_lists [simp]:
  "well_formed_catalog c \<Longrightarrow> list_all IDENTIFIER_RE (map col_name (columns_of c t))"
  by (rule column_names_identifiers)

lemma statements_complete [simp]:
  "harmless DML_TEXTS table \<Longrightarrow> placeholders_of table = 0 \<Longrightarrow> complete (where, ps) \<Longrightarrow>
     complete (SELECT_COUNT table where, ps)"
  "harmless DML_TEXTS table \<Longrightarrow> placeholders_of table = 0 \<Longrightarrow> complete (where, ps) \<Longrightarrow>
     harmless DML_TEXTS order \<Longrightarrow> placeholders_of order = 0 \<Longrightarrow> list_all IDENTIFIER_RE names \<Longrightarrow>
     complete (SELECT_PAGE names table where order, ps @ [a, b])"
  "harmless DML_TEXTS table \<Longrightarrow> placeholders_of table = 0 \<Longrightarrow> list_all IDENTIFIER_RE names \<Longrightarrow>
     complete (SELECT_ROW names table, [a])"
  "harmless DML_TEXTS table \<Longrightarrow> placeholders_of table = 0 \<Longrightarrow> list_all IDENTIFIER_RE names \<Longrightarrow>
     complete (SELECT_ALL names table, [])"
  "harmless DML_TEXTS table \<Longrightarrow> placeholders_of table = 0 \<Longrightarrow> complete (DELETE_ROW table, [a])"
  "harmless DML_TEXTS table \<Longrightarrow> placeholders_of table = 0 \<Longrightarrow> list_all IDENTIFIER_RE names \<Longrightarrow>
     list_all IDENTIFIER_RE cs \<and> length vs = length cs \<Longrightarrow> complete (INSERT_ROW table cs names, vs)"
  "harmless DML_TEXTS table \<Longrightarrow> placeholders_of table = 0 \<Longrightarrow> list_all IDENTIFIER_RE names \<Longrightarrow>
     list_all IDENTIFIER_RE cs \<and> length vs = length cs \<Longrightarrow> complete (UPDATE_ROW table cs names, vs @ [a])"
  by (simp_all add: complete_def SELECT_COUNT_def SELECT_PAGE_def SELECT_ROW_def SELECT_ALL_def DELETE_ROW_def
      INSERT_ROW_def UPDATE_ROW_def list.pred_map list.pred_True comp_def sum_list_triv)

lemma row_operations_never_refused:
  assumes "strict_server (env w)" "well_formed_catalog (ctl w)" "IDENTIFIER_RE (tbl_name t)"
  shows list_rows_never_refused: "never_refused (list_rows t limit offset order_by filters search) w"
    and get_row_never_refused: "never_refused (get_row t i) w"
    and insert_row_never_refused: "never_refused (insert_row t data) w"
    and update_row_never_refused: "never_refused (update_row t i data) w"
    and delete_row_never_refused: "never_refused (delete_row t i) w"
    and iter_export_rows_never_refused: "never_refused (iter_export_rows text t n) w"
proof -
  note order = order_clause_harmless [OF _ column_names_identifiers [OF assms(2)]]
  note conv = converted_complete [OF _ columns_of_identifiers [OF assms(2)]]
  show "never_refused (list_rows t limit offset order_by filters search) w"
    unfolding never_refused_wp list_rows_def Let_def column_names_def
    apply (intro vcg wp_build_where)
                     apply (simp_all add: assms order)
      apply (drule outcomes; simp)+
    done
  show "never_refused (get_row t i) w"
    unfolding never_refused_wp get_row_def column_names_def
    apply (intro vcg)
           apply (simp_all add: assms)
    apply (drule outcomes; simp)+
    done
  show "never_refused (insert_row t data) w"
    unfolding never_refused_wp insert_row_def column_names_def
    apply (intro vcg)
             apply (simp_all add: assms conv)
     apply (drule outcomes; simp)+
    done
  show "never_refused (update_row t i data) w"
    unfolding never_refused_wp update_row_def column_names_def
    apply (intro vcg)
             apply (simp_all add: assms conv)
     apply (drule outcomes; simp)+
    done
  show "never_refused (delete_row t i) w"
    unfolding never_refused_wp delete_row_def
    by (intro vcg) (simp_all add: assms)
  show "never_refused (iter_export_rows text t n) w"
    unfolding never_refused_wp iter_export_rows_def column_names_def
    by (intro vcg) (simp_all add: assms)
qed

text \<open>C19. No text of a request becomes SQL in the data explorer either. With the names of a well formed
  catalog, every statement of listing, reading, inserting, updating, deleting and exporting rows, for
  any filters, ordering, search text, JSON values and identifiers, is made of constants of the code and
  identifiers that need no quoting, and has exactly one parameter per placeholder: a server that
  raises \<open>ProgrammingError\<close> for every other statement raises it for none of them.\<close>

theorem rows_only_parameters:
  assumes "strict_server (env w)" "well_formed_catalog (ctl w)" "IDENTIFIER_RE (tbl_name t)"
  shows "never_refused (list_rows t limit offset order_by filters search) w \<and> never_refused (get_row t i) w
    \<and> never_refused (insert_row t data) w \<and> never_refused (update_row t i data) w
    \<and> never_refused (delete_row t i) w \<and> never_refused (iter_export_rows text t n) w"
  using row_operations_never_refused [OF assms] by blast

definition strict_pg :: "nat \<Rightarrow> stmt list \<Rightarrow> stmt \<Rightarrow> db_error + query_result" where
  "strict_pg n h s = (if complete s then Inr \<lparr>description = [''count''], fetched = [[VInt 0]], rowcount = 1\<rparr>
     else Inl ProgrammingError)"

theorem rows_only_parameters_witness:
  "never_refused (list_rows orders_table 10 0 (Some ''-id'') [(''id'', [CHR 0x27])] (Some ''%''))
     ((crm_world [orders_table] [])\<lparr>env := base_env\<lparr>pg := strict_pg\<rparr>\<rparr>)
   \<and> strict_pg 0 [] (SQL ''DROP'', []) = Inl ProgrammingError"
proof -
  have "strict_server (base_env\<lparr>pg := strict_pg\<rparr>)"
    by (simp add: strict_server_def strict_pg_def)
  then show ?thesis
    using rows_only_parameters [of "(crm_world [orders_table] [])\<lparr>env := base_env\<lparr>pg := strict_pg\<rparr>\<rparr>" orders_table]
    by (simp add: strict_pg_def complete_def DML_TEXTS_def well_formed_catalog_def orders_identifier
        IDENTIFIER_RE_def lower_letter_def is_decimal_digit_def)
qed

section \<open>Values\<close>

text \<open>The values a column of a type takes.\<close>

definition valid_date :: "int \<Rightarrow> int \<Rightarrow> int \<Rightarrow> bool" where
  "valid_date y m d \<longleftrightarrow> 1 \<le> y \<and> y \<le> 9999 \<and> 1 \<le> m \<and> m \<le> 12 \<and> 1 \<le> d \<and> d \<le> days_in_month y m"

definition valid_time :: "int \<Rightarrow> int \<Rightarrow> int \<Rightarrow> bool" where
  "valid_time h n x \<longleftrightarrow> 0 \<le> h \<and> h \<le> 23 \<and> 0 \<le> n \<and> n \<le> 59 \<and> 0 \<le> x \<and> x \<le> 59"

fun value_fits :: "string \<Rightarrow> pg_value \<Rightarrow> bool" where
  "value_fits dt VNull = True"
| "value_fits dt (VBool b) = (dt = ''boolean'')"
| "value_fits dt (VInt i) = (dt = ''integer'' \<or> dt = ''bigint'')"
| "value_fits dt (VFloat s) = False"
| "value_fits dt (VStr s) = (dt = ''text'' \<or> dt = ''varchar'' \<or> (dt = ''uuid'' \<and> uuid_parse s \<noteq> None))"
| "value_fits dt (VDecimal s) = (dt = ''decimal'' \<and> decimal_ok s)"
| "value_fits dt (VDate y m d) = (dt = ''date'' \<and> valid_date y m d)"
| "value_fits dt (VDateTime y m d h n x) = (dt = ''datetime'' \<and> valid_date y m d \<and> valid_time h n x)"
| "value_fits dt (VJsonb v) = (dt = ''json'')"
| "value_fits dt (VPyObject v) = False"

lemma digit_field_bounds: "digit_field k lo hi s = Some (v, r) \<Longrightarrow> int lo \<le> v \<and> v \<le> int hi"
  by (auto simp: digit_field_def Let_def split: if_splits)

lemma digit_char_value:
  "is_decimal_digit c \<Longrightarrow> of_char c - 48 \<le> (9::nat) \<and> (c = CHR ''0'' \<or> 0 < of_char c - (48::nat))"
  by (auto simp: is_decimal_digit_def)

lemma year_field_bounds:
  assumes "year_field s = Some (v, r)"
  shows "1 \<le> v \<and> v \<le> 9999"
proof -
  from assms have "4 \<le> length s" by (simp add: year_field_def split: if_splits)
  then obtain a b c d rest where s: "s = a # b # c # d # rest"
    by (auto simp: numeral_eq_Suc Suc_le_length_iff)
  with assms have dig: "is_decimal_digit a" "is_decimal_digit b" "is_decimal_digit c" "is_decimal_digit d"
    and nz: "\<not> (a = CHR ''0'' \<and> b = CHR ''0'' \<and> c = CHR ''0'' \<and> d = CHR ''0'')"
    and v: "v = int (1000 * (of_char a - 48) + 100 * (of_char b - 48) + 10 * (of_char c - 48) + (of_char d - 48))"
    by (auto simp: year_field_def all_digits_def of_digits_def split: if_splits)
  show ?thesis
    using v nz dig [THEN digit_char_value] by auto
qed

lemma day_field_bounds: "day_field s = Some (v, r) \<Longrightarrow> 1 \<le> v"
  by (auto simp: day_field_def dest: digit_field_bounds split: list.splits if_splits)

lemma date_fields_valid:
  assumes "date_fields s = Some ((y, m, d), r)"
  shows "valid_date y m d"
proof -
  from assms obtain r1 r2 r3 r4 where "year_field s = Some (y, r1)" "digit_field 2 1 12 r2 = Some (m, r3)"
    "day_field r4 = Some (d, r)" "d \<le> days_in_month y m"
    by (auto simp: date_fields_def bind_eq_Some_conv split: if_splits)
  then show ?thesis
    using year_field_bounds digit_field_bounds [of 2 1 12 r2] day_field_bounds by (auto simp: valid_date_def)
qed

lemma time_fields_valid:
  assumes "time_fields s = Some (h, n, x)"
  shows "valid_time h n x"
proof -
  from assms obtain r1 r2 r3 r4 where "digit_field 2 0 23 s = Some (h, r1)" "digit_field 2 0 59 r2 = Some (n, r3)"
    "digit_field 2 0 59 r4 = Some (x, [])"
    by (auto simp: time_fields_def bind_eq_Some_conv split: if_splits)
  then show ?thesis
    using digit_field_bounds [of 2 0 23 s] digit_field_bounds [of 2 0 59 r2] digit_field_bounds [of 2 0 59 r4]
    by (auto simp: valid_time_def)
qed

lemma strptime_date_valid: "strptime_date s = Some (y, m, d) \<Longrightarrow> valid_date y m d"
  by (auto simp: strptime_date_def dest: date_fields_valid split: option.splits list.splits prod.splits)

lemma first_format_fits: "first_format fmts s = Some v \<Longrightarrow> value_fits ''datetime'' v \<and> v \<noteq> VNull"
proof (induction fmts s rule: first_format.induct)
  case (2 fmt fmts s)
  have "valid_date y m d \<and> valid_time h n x" if "strptime_datetime fmt s = Some (y, m, d, h, n, x)" for y m d h n x
    using that by (auto simp: strptime_datetime_def bind_eq_Some_conv dest: date_fields_valid time_fields_valid)
  with 2 show ?case by (auto split: option.splits prod.splits)
qed simp

definition conversion_ok :: "json \<Rightarrow> string \<Rightarrow> exn + pg_value \<Rightarrow> bool" where
  "conversion_ok value dtype r \<longleftrightarrow> (case r of
     Inl e \<Rightarrow> e = RowValueError \<and> value \<noteq> JNull
   | Inr v \<Rightarrow> value_fits dtype v \<and> (v = VNull \<longleftrightarrow> value = JNull))"

lemma conversion_ok_if:
  "(c \<Longrightarrow> conversion_ok value dtype x) \<Longrightarrow> (\<not> c \<Longrightarrow> conversion_ok value dtype y) \<Longrightarrow>
     conversion_ok value dtype (if c then x else y)"
  by simp

lemma validate_and_convert_ok: "conversion_ok value dtype (validate_and_convert value dtype)"
  unfolding validate_and_convert_def
  by (intro conversion_ok_if)
    (auto simp: conversion_ok_def dest: strptime_date_valid first_format_fits split: json.split option.split prod.split if_split)



section \<open>Paging\<close>

lemma wp_build_where_any: "(\<And>x. Q x w) \<Longrightarrow> (\<And>e. E e w) \<Longrightarrow> wp (build_where t filters search) Q E w"
  by (auto simp: build_where_def column_names_def text_column_names_def split: sum.split prod.split)

lemma wp_table_sql_any: "(\<And>x. Q x w) \<Longrightarrow> (\<And>e. E e w) \<Longrightarrow> wp (table_sql t) Q E w"
  by (auto simp: table_sql_def table_database_def wp_get_one split: list.split)

lemma wp_tenant_select_any:
  "(\<And>res. Q res (w\<lparr>pg_calls := Suc (pg_calls w)\<rparr>)) \<Longrightarrow> (\<And>e. E e (w\<lparr>pg_calls := Suc (pg_calls w)\<rparr>)) \<Longrightarrow>
     wp (tenant_select q ps) Q E w"
  by (auto simp: wp_tenant_select split: sum.split)

text \<open>A page is bounded whatever the request asks for: at least one and at most 500 rows are asked of
  the server, from an offset that is not negative, and reading changes nothing, neither in the tenant
  cluster nor in the control database, also when it fails.\<close>

theorem list_rows_bounded:
  "wp (list_rows t limit_arg offset_arg order_by filters search)
    (\<lambda>p w'. 1 \<le> page_limit p \<and> page_limit p \<le> 500 \<and> 0 \<le> page_offset p
       \<and> page_limit p = (if limit_arg < 1 then 1 else if 500 < limit_arg then 500 else limit_arg)
       \<and> tnt w' = tnt w \<and> ctl w' = ctl w)
    (\<lambda>e w'. tnt w' = tnt w \<and> ctl w' = ctl w) w"
  unfolding list_rows_def Let_def column_names_def
  by (intro vcg(1-4) wp_bindI wp_liftI wp_build_where_any wp_table_sql_any wp_tenant_select_any)
    (auto simp: MAX_LIMIT_def)

section \<open>Inserting\<close>

text \<open>What a request must hold to be inserted.\<close>

definition accepted_item :: "db_column list \<Rightarrow> string \<times> json \<Rightarrow> bool" where
  "accepted_item columns kv \<longleftrightarrow> (case find (\<lambda>x. col_name x = fst kv) columns of None \<Rightarrow> False
     | Some x \<Rightarrow> \<not> is_primary_key x \<and> (\<exists>p. validate_and_convert (snd kv) (data_type x) = Inr p))"

definition accepted_data :: "db_column list \<Rightarrow> (string \<times> json) list \<Rightarrow> bool" where
  "accepted_data columns data \<longleftrightarrow> list_all (accepted_item columns) data
     \<and> list_all (\<lambda>x. is_primary_key x \<or> is_nullable x \<or> col_name x \<in> fst ` set data) columns"

lemma converted_exact:
  "if list_all (accepted_item columns) data then \<exists>vs. converted columns data = Inr (map fst data, vs)
   else converted columns data = Inl RowValueError"
proof (induction data)
  case (Cons kv data)
  obtain name v where kv: "kv = (name, v)" by (cases kv)
  show ?case
  proof (cases "accepted_item columns kv")
    case True
    then show ?thesis using Cons
      by (auto simp: kv accepted_item_def split: option.splits if_splits)
  next
    case False
    then show ?thesis
      by (auto simp: kv accepted_item_def split: option.splits sum.split dest: validate_and_convert_Inl)
  qed
qed simp

text \<open>C21. An insertion is checked completely before anything is sent: it reaches the server exactly when
  every key is a column that is not the primary key, with a value its type takes, and every required
  column is given; what is then committed is the one \<open>INSERT\<close> of the given columns with the converted
  values. Otherwise it fails with \<open>RowValueError\<close> and no call of the server.\<close>

theorem insert_row_exact:
  assumes "filter (\<lambda>d. tdb_id d = tbl_database t) (tenant_databases (ctl w)) = [d]"
  shows "if accepted_data (columns_of (ctl w) t) data
    then (\<exists>vs q r w'. converted (columns_of (ctl w) t) data = Inr (map fst data, vs)
      \<and> q = INSERT_ROW (Composed [Identifier (schema_name d), SQL ''.'', Identifier (tbl_name t)]) (map fst data)
           (map col_name (columns_of (ctl w) t))
      \<and> insert_row t data w = (r, w') \<and> pg_calls w' = Suc (pg_calls w) \<and> ctl w' = ctl w
      \<and> tnt w' = (case pg (env w) (pg_calls w) (tnt w) (q, vs) of Inl e \<Rightarrow> tnt w | Inr res \<Rightarrow> tnt w @ [(q, vs)]))
    else insert_row t data w = (Inl RowValueError, w)"
proof (cases "list_all (accepted_item (columns_of (ctl w) t)) data")
  case True
  then obtain vs where vs: "converted (columns_of (ctl w) t) data = Inr (map fst data, vs)"
    using converted_exact [of "columns_of (ctl w) t" data] by auto
  have missing: "missing_required (columns_of (ctl w) t) (map fst data) \<longleftrightarrow> \<not> accepted_data (columns_of (ctl w) t) data"
    using True by (auto simp: missing_required_def accepted_data_def list_all_iff list_ex_iff)
  show ?thesis
    using vs missing assms
    by (auto simp: insert_row_def bind_def column_names_def table_sql_def table_database_def get_one_run
        tenant_execute_def Let_def split: sum.split)
next
  case False
  then show ?thesis
    using converted_exact [of "columns_of (ctl w) t" data]
    by (simp add: insert_row_def bind_def accepted_data_def)
qed

theorem insert_row_exact_witness:
  "insert_row orders_table [(''total'', JInt 5)] (crm_world [orders_table] [])
     = (Inl RowValueError, crm_world [orders_table] [])
   \<and> (\<exists>r w'. insert_row orders_table [] (crm_world [orders_table] []) = (r, w')
     \<and> tnt w' = [(INSERT_ROW (Composed [Identifier ''db_crm'', SQL ''.'', Identifier ''orders'']) [] [], [])])"
proof -
  have d: "filter (\<lambda>d. tdb_id d = tbl_database orders_table) (tenant_databases (ctl (crm_world [orders_table] [])))
      = [shop_database]"
    by simp
  show ?thesis
    using insert_row_exact [OF d, of "[(''total'', JInt 5)]"] insert_row_exact [OF d, of "[]"]
    by (auto simp: accepted_data_def accepted_item_def columns_of_def table_server_def INSERT_ROW_def)
qed

section \<open>Exporting\<close>

text \<open>The streamed export is the whole table: reading the cursor in batches of any positive size gives
  the rows that reading it at once would, in the same order.\<close>

theorem export_batches_correct:
  "export_batches (Suc n) str rs = map (map (\<lambda>v. if v = VNull then '''' else str v)) rs"
proof (induction rs rule: length_induct)
  case (1 rs)
  show ?case
  proof (cases rs)
    case (Cons r rest)
    with 1 have "export_batches (Suc n) str (drop (Suc n) rs) = map (map (\<lambda>v. if v = VNull then '''' else str v)) (drop (Suc n) rs)"
      by simp
    then show ?thesis
      using Cons by (subst export_batches.simps) (simp add: Let_def take_map [symmetric] drop_map [symmetric])
  qed (simp add: export_batches.simps)
qed

end
