(* ===== verification/Connections.thy ===== *)
theory Connections
  imports Rows
begin

text \<open>
  External databases in connected mode (\<open>databases/connectors.py\<close>, \<open>connections.py\<close>, \<open>crypto.py\<close>):
  the guard that every dial passes (addresses as 32 and 128 bit words, the classes of Python 3.13's
  \<open>ipaddress\<close> as networks), the PostgreSQL connector and the service operations. The resolver, the
  driver's connection and the remote server are parameters of the environment; \<open>net_calls\<close> numbers
  the calls that leave the machine.
\<close>

section \<open>Addresses\<close>

definition in_net :: "'w::len word \<Rightarrow> 'w word \<Rightarrow> nat \<Rightarrow> bool" where
  "in_net ip net len \<longleftrightarrow> drop_bit (LENGTH('w) - len) ip = drop_bit (LENGTH('w) - len) net"

definition in_nets :: "'w::len word \<Rightarrow> ('w word \<times> nat) list \<Rightarrow> bool" where
  "in_nets ip nets \<longleftrightarrow> list_ex (\<lambda>(net, len). in_net ip net len) nets"

definition v4 :: "nat \<Rightarrow> nat \<Rightarrow> nat \<Rightarrow> nat \<Rightarrow> 32 word" where
  "v4 a b c d = word_of_nat (((a * 256 + b) * 256 + c) * 256 + d)"

definition PRIVATE_V4 :: "(32 word \<times> nat) list" where
  "PRIVATE_V4 = [(v4 0 0 0 0, 8), (v4 10 0 0 0, 8), (v4 127 0 0 0, 8), (v4 169 254 0 0, 16), (v4 172 16 0 0, 12),
     (v4 192 0 0 0, 24), (v4 192 0 0 170, 31), (v4 192 0 2 0, 24), (v4 192 168 0 0, 16), (v4 198 18 0 0, 15),
     (v4 198 51 100 0, 24), (v4 203 0 113 0, 24), (v4 240 0 0 0, 4), (v4 255 255 255 255, 32)]"

definition PRIVATE_EXCEPTIONS_V4 :: "(32 word \<times> nat) list" where
  "PRIVATE_EXCEPTIONS_V4 = [(v4 192 0 0 9, 32), (v4 192 0 0 10, 32)]"

text \<open>A network of IPv6, by the first 64 bits and the last.\<close>

definition v6 :: "nat \<Rightarrow> nat \<Rightarrow> 128 word" where
  "v6 hi lo = word_of_nat (hi * 2 ^ 64 + lo)"

definition PRIVATE_V6 :: "(128 word \<times> nat) list" where
  "PRIVATE_V6 = [(v6 0 1, 128), (v6 0 0, 128), (v6 0 0xFFFF00000000, 96), (v6 0x0064FF9B00010000 0, 48),
     (v6 0x0100000000000000 0, 64), (v6 0x2001000000000000 0, 23), (v6 0x20010DB800000000 0, 32),
     (v6 0x2002000000000000 0, 16), (v6 0xFC00000000000000 0, 7), (v6 0xFE80000000000000 0, 10)]"

definition PRIVATE_EXCEPTIONS_V6 :: "(128 word \<times> nat) list" where
  "PRIVATE_EXCEPTIONS_V6 = [(v6 0x2001000100000000 1, 128), (v6 0x2001000100000000 2, 128), (v6 0x2001000300000000 0, 32),
     (v6 0x2001000401120000 0, 48), (v6 0x2001002000000000 0, 28), (v6 0x2001003000000000 0, 28)]"

definition RESERVED_V6 :: "(128 word \<times> nat) list" where
  "RESERVED_V6 = [(v6 0 0, 8), (v6 0x0100000000000000 0, 8), (v6 0x0200000000000000 0, 7), (v6 0x0400000000000000 0, 6),
     (v6 0x0800000000000000 0, 5), (v6 0x1000000000000000 0, 4), (v6 0x4000000000000000 0, 3),
     (v6 0x6000000000000000 0, 3), (v6 0x8000000000000000 0, 3), (v6 0xA000000000000000 0, 3),
     (v6 0xC000000000000000 0, 3), (v6 0xE000000000000000 0, 4), (v6 0xF000000000000000 0, 5),
     (v6 0xF800000000000000 0, 6), (v6 0xFE00000000000000 0, 9)]"

text \<open>Since Python 3.13 every property of an IPv4-mapped IPv6 address is that of the IPv4 address.\<close>

definition mapped :: "ip_address \<Rightarrow> ip_address" where
  "mapped ip = (case ip of IPv4 a \<Rightarrow> IPv4 a
     | IPv6 v \<Rightarrow> if in_net v (v6 0 0xFFFF00000000) 96 then IPv4 (ucast v) else IPv6 v)"

definition is_loopback :: "ip_address \<Rightarrow> bool" where
  "is_loopback ip = (case mapped ip of IPv4 a \<Rightarrow> in_net a (v4 127 0 0 0) 8 | IPv6 v \<Rightarrow> v = 1)"

definition is_link_local :: "ip_address \<Rightarrow> bool" where
  "is_link_local ip = (case mapped ip of IPv4 a \<Rightarrow> in_net a (v4 169 254 0 0) 16
     | IPv6 v \<Rightarrow> in_net v (v6 0xFE80000000000000 0) 10)"

definition is_unspecified :: "ip_address \<Rightarrow> bool" where
  "is_unspecified ip = (case mapped ip of IPv4 a \<Rightarrow> a = 0 | IPv6 v \<Rightarrow> v = 0)"

definition is_reserved :: "ip_address \<Rightarrow> bool" where
  "is_reserved ip = (case mapped ip of IPv4 a \<Rightarrow> in_net a (v4 240 0 0 0) 4 | IPv6 v \<Rightarrow> in_nets v RESERVED_V6)"

definition is_multicast :: "ip_address \<Rightarrow> bool" where
  "is_multicast ip = (case mapped ip of IPv4 a \<Rightarrow> in_net a (v4 224 0 0 0) 4
     | IPv6 v \<Rightarrow> in_net v (v6 0xFF00000000000000 0) 8)"

definition is_private :: "ip_address \<Rightarrow> bool" where
  "is_private ip = (case mapped ip of
       IPv4 a \<Rightarrow> in_nets a PRIVATE_V4 \<and> \<not> in_nets a PRIVATE_EXCEPTIONS_V4
     | IPv6 v \<Rightarrow> in_nets v PRIVATE_V6 \<and> \<not> in_nets v PRIVATE_EXCEPTIONS_V6)"

section \<open>The host guard\<close>

definition ALWAYS_UNSAFE :: "ip_address \<Rightarrow> bool" where
  "ALWAYS_UNSAFE ip \<longleftrightarrow> is_link_local ip \<or> is_unspecified ip \<or> is_reserved ip \<or> is_multicast ip"

definition PRIVATE_NETWORK :: "ip_address \<Rightarrow> bool" where
  "PRIVATE_NETWORK ip \<longleftrightarrow> is_private ip \<or> is_loopback ip"

text \<open>The loop over the resolved addresses: True where it reaches its end.\<close>

fun addresses_safe :: "bool \<Rightarrow> ip_address list \<Rightarrow> bool" where
  "addresses_safe block [] = True"
| "addresses_safe block (ip # ips) =
    (if is_loopback ip then (if block then False else addresses_safe block ips)
     else if ALWAYS_UNSAFE ip then False
     else if block \<and> PRIVATE_NETWORK ip then False
     else addresses_safe block ips)"

definition resolve :: "string \<Rightarrow> ip_address list app" where
  "resolve hostname = (\<lambda>w. (case getaddrinfo (env w) (net_calls w) hostname of None \<Rightarrow> Inl UnsafeHost | Some ips \<Rightarrow> Inr ips,
     w\<lparr>net_calls := Suc (net_calls w)\<rparr>))"

definition assert_host_is_safe :: "string \<Rightarrow> unit app" where
  "assert_host_is_safe hostname =
     bind (resolve hostname) (\<lambda>ips.
     bind (gets (\<lambda>w. block_private (env w))) (\<lambda>block.
     ensure (addresses_safe block ips) UnsafeHost))"

section \<open>The connector\<close>

text \<open>\<open>psycopg.connect\<close> and \<open>cursor.execute\<close> on the remote server.\<close>

definition dial :: "connection_params \<Rightarrow> unit app" where
  "dial params = (\<lambda>w. (case remote_connect (env w) (net_calls w) params of None \<Rightarrow> Inr () | Some e \<Rightarrow> Inl (DbError e),
     w\<lparr>net_calls := Suc (net_calls w)\<rparr>))"

definition remote_query :: "connection_params \<Rightarrow> stmt \<Rightarrow> query_result app" where
  "remote_query params s = (\<lambda>w. (case remote_execute (env w) (net_calls w) params s of Inl e \<Rightarrow> Inl (DbError e) | Inr r \<Rightarrow> Inr r,
     w\<lparr>net_calls := Suc (net_calls w)\<rparr>))"

definition connect :: "connection_params \<Rightarrow> unit app" where
  "connect params =
     bind (assert_host_is_safe (cp_host params)) (\<lambda>_.
     catch (dial params) (\<lambda>e. if e = DbError OperationalError then raise ConnectionFailed else raise e))"

text \<open>\<open>except psycopg.Error as exc: raise ConnectionFailed\<close>.\<close>

definition sanitized :: "'a app \<Rightarrow> 'a app" where
  "sanitized m = catch m (\<lambda>e. case e of DbError _ \<Rightarrow> raise ConnectionFailed | _ \<Rightarrow> raise e)"

definition pg_test_connection :: "connection_params \<Rightarrow> unit app" where
  "pg_test_connection params = sanitized (bind (connect params) (\<lambda>_.
     bind (remote_query params (SQL ''SELECT 1'', [])) (\<lambda>_. ret ())))"

definition COLUMNS_QUERY :: composable where
  "COLUMNS_QUERY = SQL (''SELECT table_name, column_name, data_type, is_nullable FROM information_schema.columns ''
     @ ''WHERE table_schema = '' @ [CHR 0x27] @ ''public'' @ [CHR 0x27] @ '' ORDER BY table_name, ordinal_position'')"

text \<open>The loop that groups the columns by table; \<open>None\<close> where a row does not unpack.\<close>

fun group_columns :: "pg_value list list \<Rightarrow> (string \<times> column_info list) list \<Rightarrow> exn + (string \<times> column_info list) list" where
  "group_columns [] tables = Inr tables"
| "group_columns (row # rs) tables = (case row of
     [VStr table, VStr column, VStr dtype, nullable] \<Rightarrow>
       (let c = \<lparr>ci_name = column, ci_data_type = dtype, ci_is_nullable = (nullable = VStr ''YES'')\<rparr>;
            old = (case map_of tables table of None \<Rightarrow> [] | Some cs \<Rightarrow> cs) in
        group_columns rs (AList.update table (old @ [c]) tables))
   | _ \<Rightarrow> Inl ValueError)"

definition introspect_schema :: "connection_params \<Rightarrow> table_info list app" where
  "introspect_schema params =
     bind (sanitized (bind (connect params) (\<lambda>_. remote_query params (COLUMNS_QUERY, [])))) (\<lambda>res.
     bind (lift (group_columns (fetched res) [])) (\<lambda>tables.
     ret (map (\<lambda>(n, cs). \<lparr>ti_name = n, ti_columns = cs\<rparr>) tables)))"

text \<open>\<open>dict_row\<close>, and \<open>total_row["count"] if total_row else 0\<close>.\<close>

definition count_cell :: "query_result \<Rightarrow> exn + pg_value" where
  "count_cell r = (case fetched r of [] \<Rightarrow> Inr (VInt 0)
     | row # _ \<Rightarrow> (let d = py_dict (zip (description r) row) in
         if d = [] then Inr (VInt 0)
         else case map_of d ''count'' of None \<Rightarrow> Inl KeyError | Some v \<Rightarrow> Inr v))"

definition REMOTE_PAGE :: "string \<Rightarrow> composable" where
  "REMOTE_PAGE t = Composed [SQL ''SELECT * FROM '', Identifier t, SQL '' LIMIT '', Placeholder, SQL '' OFFSET '', Placeholder]"

definition REMOTE_COUNT :: "string \<Rightarrow> composable" where
  "REMOTE_COUNT t = Composed [SQL ''SELECT COUNT(*) FROM '', Identifier t]"

definition pg_list_rows :: "connection_params \<Rightarrow> string \<Rightarrow> int \<Rightarrow> int \<Rightarrow> page app" where
  "pg_list_rows params table_name limit_arg offset_arg =
     (let limit = max 1 (min limit_arg MAX_LIMIT); offset = max 0 offset_arg in
     sanitized (
       bind (connect params) (\<lambda>_.
       bind (remote_query params (REMOTE_COUNT table_name, [])) (\<lambda>count.
       bind (lift (count_cell count)) (\<lambda>total.
       bind (remote_query params (REMOTE_PAGE table_name, [VInt limit, VInt offset])) (\<lambda>res.
       ret \<lparr>page_count = total, page_limit = limit, page_offset = offset,
            page_results = map (\<lambda>row. py_dict (zip (description res) row)) (fetched res)\<rparr>))))))"

section \<open>Credentials\<close>

definition encrypt_credential :: "string \<Rightarrow> bytes app" where
  "encrypt_credential plaintext =
     (\<lambda>w. (Inr (fernet_encrypt (env w) (rng w) plaintext), w\<lparr>rng := Suc (rng w)\<rparr>))"

definition decrypt_credential :: "bytes \<Rightarrow> string app" where
  "decrypt_credential token = bind (gets (\<lambda>w. fernet_decrypt (env w) token)) (\<lambda>r. case r of
     None \<Rightarrow> raise CredentialDecryptionError | Some s \<Rightarrow> ret s)"

section \<open>Service operations\<close>

definition connection_require ::
  "user \<Rightarrow> string \<Rightarrow> uuid \<Rightarrow> string \<Rightarrow> uuid option \<Rightarrow> string \<Rightarrow> bool \<Rightarrow> unit app" where
  "connection_require actor code org action resource_id request_id scoped =
     require actor code org
       (if scoped then map_option (\<lambda>i. (RESOURCE_TYPE_CONNECTED_DATABASE, i)) resource_id else None)
       action ''connected_database'' (case resource_id of None \<Rightarrow> '''' | Some i \<Rightarrow> uuid_str i) request_id
       ConnectionPermissionDenied"

definition connected_database_organizations :: "control \<Rightarrow> connected_database \<Rightarrow> uuid list" where
  "connected_database_organizations c d = project_organizations c (cdb_project d)"

definition get_member_connected_database :: "user \<Rightarrow> uuid \<Rightarrow> connected_database app" where
  "get_member_connected_database user i = or_404 (get_one (
     member_rows connected_databases cdb_id connected_database_organizations (user_id user) i))"

interpretation connected_database_lookup:
  member_lookup get_member_connected_database connected_databases cdb_id connected_database_organizations
  by (rule member_lookup_join) (rule get_member_connected_database_def)

definition ConnectedDatabase_organization_id :: "connected_database \<Rightarrow> uuid app" where
  "ConnectedDatabase_organization_id d = organization_of_project (cdb_project d)"

definition params_of :: "connected_database \<Rightarrow> string \<Rightarrow> connection_params" where
  "params_of d pw = \<lparr>cp_host = host d, cp_port = port d, cp_database = database_name d, cp_username = username d,
     cp_password = pw, cp_sslmode = sslmode d\<rparr>"

definition CONNECTORS :: "string set" where "CONNECTORS = {''postgresql''}"

definition connector :: "string \<Rightarrow> unit app" where
  "connector engine_name = ensure (engine_name \<in> CONNECTORS) ConnectionValidationError"

text \<open>\<open>UnsafeHost\<close> is a subclass of \<open>ConnectionFailed\<close>.\<close>

definition is_connection_failed :: "exn \<Rightarrow> bool" where
  "is_connection_failed e \<longleftrightarrow> e = ConnectionFailed \<or> e = UnsafeHost"

record connection_data =
  cd_name :: string
  cd_engine :: string
  cd_params :: connection_params

definition create_connected_database :: "user \<Rightarrow> project \<Rightarrow> connection_data \<Rightarrow> string \<Rightarrow> connected_database app" where
  "create_connected_database actor project data request_id =
     bind (Project_organization_id project) (\<lambda>org.
     bind (connection_require actor ''connection.manage'' org ''connection.create'' None request_id False) (\<lambda>_.
     bind (ensure (cd_name data \<noteq> '''' \<and> length (cd_name data) \<le> 200) ConnectionValidationError) (\<lambda>_.
     bind (connector (cd_engine data)) (\<lambda>_.
     bind (catch (pg_test_connection (cd_params data)) (\<lambda>e.
       if is_connection_failed e
       then bind (gets (\<lambda>w. exn_str (env w) e)) (\<lambda>text.
         bind (audit_record (Some actor) (Some org) ''connection.create'' ''connected_database'' '''' request_id Error
           [(''name'', JStr (cd_name data)), (''error'', JStr text)]) (\<lambda>_.
         raise ConnectionValidationError))
       else raise e)) (\<lambda>_.
     bind uuid4 (\<lambda>i.
     bind (encrypt_credential (cp_password (cd_params data))) (\<lambda>secret.
     bind now (\<lambda>t.
     let p = cd_params data;
         d = \<lparr>cdb_id = i, cdb_project = proj_id project, cdb_name = cd_name data, engine = cd_engine data,
           host = cp_host p, port = cp_port p, database_name = cp_database p, username = cp_username p,
           encrypted_password = secret, sslmode = cp_sslmode p, cdb_status = Connected,
           last_tested_at = Some t, last_test_error = '''', cdb_created_by = user_id actor\<rparr> in
     bind (orm_create connected_databases connected_databases_update connected_database_clash d) (\<lambda>_.
     bind (audit_record (Some actor) (Some org) ''connection.create'' ''connected_database'' (uuid_str i) request_id
       Success [(''name'', JStr (cd_name data)), (''host'', JStr (cp_host p)), (''database_name'', JStr (cp_database p))]) (\<lambda>_.
     ret d))))))))))"

definition status_text :: "connection_status \<Rightarrow> string" where
  "status_text s = (case s of Untested \<Rightarrow> ''untested'' | Connected \<Rightarrow> ''connected'' | Unreachable \<Rightarrow> ''unreachable'')"

definition test_connected_database :: "user \<Rightarrow> connected_database \<Rightarrow> string \<Rightarrow> connected_database app" where
  "test_connected_database actor d request_id =
     bind (ConnectedDatabase_organization_id d) (\<lambda>org.
     bind (connection_require actor ''connection.manage'' org ''connection.test'' (Some (cdb_id d)) request_id False) (\<lambda>_.
     bind (connector (engine d)) (\<lambda>_.
     bind (decrypt_credential (encrypted_password d)) (\<lambda>pw.
     bind (attempt (pg_test_connection (params_of d pw))) (\<lambda>r.
     bind (case r of
         Inl e \<Rightarrow> if is_connection_failed e
           then bind (gets (\<lambda>w. exn_str (env w) e)) (\<lambda>text. ret (Unreachable, text)) else raise e
       | Inr _ \<Rightarrow> ret (Connected, '''')) (\<lambda>(st, err).
     bind now (\<lambda>t.
     let change = (\<lambda>x. x\<lparr>cdb_status := st, last_test_error := err, last_tested_at := Some t\<rparr>) in
     bind (orm_update connected_databases connected_databases_update connected_database_clash cdb_id (cdb_id d) change) (\<lambda>_.
     bind (audit_record (Some actor) (Some org) ''connection.test'' ''connected_database'' (uuid_str (cdb_id d)) request_id
       Success [(''status'', JStr (status_text st))]) (\<lambda>_.
     ret (change d))))))))))"

definition get_connected_database_schema :: "user \<Rightarrow> connected_database \<Rightarrow> string \<Rightarrow> table_info list app" where
  "get_connected_database_schema actor d request_id =
     bind (ConnectedDatabase_organization_id d) (\<lambda>org.
     bind (connection_require actor ''database.read'' org ''connection.schema.read'' (Some (cdb_id d)) request_id True) (\<lambda>_.
     bind (connector (engine d)) (\<lambda>_.
     bind (decrypt_credential (encrypted_password d)) (\<lambda>pw.
     introspect_schema (params_of d pw)))))"

definition list_connected_database_rows ::
  "user \<Rightarrow> connected_database \<Rightarrow> string \<Rightarrow> int \<Rightarrow> int \<Rightarrow> string \<Rightarrow> page app" where
  "list_connected_database_rows actor d table_name limit offset request_id =
     bind (ConnectedDatabase_organization_id d) (\<lambda>org.
     bind (connection_require actor ''database.read'' org ''connection.rows.read'' (Some (cdb_id d)) request_id True) (\<lambda>_.
     bind (connector (engine d)) (\<lambda>_.
     bind (decrypt_credential (encrypted_password d)) (\<lambda>pw.
     bind (introspect_schema (params_of d pw)) (\<lambda>tables.
     bind (ensure (table_name \<in> ti_name ` set tables) ConnectionValidationError) (\<lambda>_.
     pg_list_rows (params_of d pw) table_name limit offset))))))"

definition delete_connected_database :: "user \<Rightarrow> connected_database \<Rightarrow> string \<Rightarrow> unit app" where
  "delete_connected_database actor d request_id =
     bind (ConnectedDatabase_organization_id d) (\<lambda>org.
     bind (connection_require actor ''connection.manage'' org ''connection.delete'' (Some (cdb_id d)) request_id False) (\<lambda>_.
     bind (on_ctl (connected_databases_update (delete_where (\<lambda>x. cdb_id x = cdb_id d)))) (\<lambda>_.
     audit_record (Some actor) (Some org) ''connection.delete'' ''connected_database'' (uuid_str (cdb_id d)) request_id
       Success [])))"

section \<open>What the guard lets through\<close>

lemma div_eq_iff_interval:
  assumes "0 < m"
  shows "n div m = k \<longleftrightarrow> k * m \<le> n \<and> n < Suc k * (m :: nat)"
proof -
  have "n div m = k \<longleftrightarrow> k \<le> n div m \<and> n div m < Suc k" by auto
  also have "\<dots> \<longleftrightarrow> k * m \<le> n \<and> n < Suc k * m"
    using assms by (simp only: less_eq_div_iff_mult_less_eq div_less_iff_less_mult)
  finally show ?thesis .
qed

lemma in_net_v4:
  "in_net (a :: 32 word) net k \<longleftrightarrow> unat a div 2 ^ (32 - k) = unat net div 2 ^ (32 - k)"
proof -
  have "unat (drop_bit n x) = unat x div 2 ^ n" for n and x :: "32 word"
    by (simp only: unsigned_drop_bit_eq) (simp only: take_bit_nat_eq_self [OF unsigned_less] drop_bit_eq_div)
  then show ?thesis
    by (simp add: in_net_def word_unat_eq_iff)
qed

text \<open>The networks of the guard as ranges of 32 bit numbers.\<close>

definition within :: "32 word \<Rightarrow> 32 word \<Rightarrow> 32 word \<Rightarrow> bool" where
  "within lo hi a \<longleftrightarrow> lo \<le> a \<and> a \<le> hi"

lemma v4_ranges:
  "in_net a (v4 127 0 0 0) 8 \<longleftrightarrow> within 0x7F000000 0x7FFFFFFF a"
  "in_net a (v4 169 254 0 0) 16 \<longleftrightarrow> within 0xA9FE0000 0xA9FEFFFF a"
  "in_net a (v4 240 0 0 0) 4 \<longleftrightarrow> within 0xF0000000 0xFFFFFFFF a"
  "in_net a (v4 224 0 0 0) 4 \<longleftrightarrow> within 0xE0000000 0xEFFFFFFF a"
  "in_net a (v4 10 0 0 0) 8 \<longleftrightarrow> within 0x0A000000 0x0AFFFFFF a"
  "in_net a (v4 172 16 0 0) 12 \<longleftrightarrow> within 0xAC100000 0xAC1FFFFF a"
  "in_net a (v4 192 168 0 0) 16 \<longleftrightarrow> within 0xC0A80000 0xC0A8FFFF a"
  using unsigned_less [of a]
  by (simp_all add: in_net_v4 v4_def within_def word_le_nat_alt div_eq_iff_interval) arith+

lemma mapped_v4 [simp]: "mapped (IPv4 a) = IPv4 a"
  by (simp add: mapped_def)

lemma v4_zero: "within 0 0 a \<longleftrightarrow> a = 0"
  by (auto simp: within_def)

lemma addresses_safe_Cons: "addresses_safe block (ip # ips) \<longleftrightarrow> addresses_safe block [ip] \<and> addresses_safe block ips"
  by simp

lemma addresses_safe_all: "addresses_safe block ips \<longleftrightarrow> list_all (\<lambda>ip. addresses_safe block [ip]) ips"
proof (induction ips)
  case (Cons ip ips)
  show ?case unfolding addresses_safe_Cons [of block ip ips] Cons.IH by (simp only: list.pred_inject)
qed simp

lemma default_guard_v4:
  "addresses_safe False [IPv4 a] \<longleftrightarrow> 0 < a \<and> a < 0xE0000000 \<and> \<not> within 0xA9FE0000 0xA9FEFFFF a"
proof -
  have "is_loopback (IPv4 a) \<longleftrightarrow> within 0x7F000000 0x7FFFFFFF a"
    by (simp add: is_loopback_def v4_ranges)
  moreover have "ALWAYS_UNSAFE (IPv4 a) \<longleftrightarrow> within 0xA9FE0000 0xA9FEFFFF a \<or> a = 0 \<or> 0xE0000000 \<le> a"
  proof -
    have "unat a < 2 ^ LENGTH(32)" by (rule unsigned_less)
    then show ?thesis
      by (simp add: ALWAYS_UNSAFE_def is_link_local_def is_unspecified_def is_reserved_def is_multicast_def v4_ranges)
        (auto simp: within_def word_le_nat_alt)
  qed
  ultimately show ?thesis
    by (auto simp: within_def word_le_nat_alt word_less_nat_alt unat_eq_0 word_gt_0)
qed

lemma private_ranges_blocked:
  assumes "within 0x0A000000 0x0AFFFFFF a \<or> within 0xAC100000 0xAC1FFFFF a \<or> within 0xC0A80000 0xC0A8FFFF a"
  shows "is_private (IPv4 a)"
proof -
  have "\<not> in_nets a PRIVATE_EXCEPTIONS_V4"
    using assms by (auto simp: in_nets_def PRIVATE_EXCEPTIONS_V4_def in_net_def v4_def within_def word_le_nat_alt)
  moreover have "in_nets a PRIVATE_V4"
    using assms by (auto simp: in_nets_def PRIVATE_V4_def v4_ranges)
  ultimately show ?thesis by (simp add: is_private_def)
qed


section \<open>No dial without the guard\<close>

lemma unsafe_connect:
  assumes "case getaddrinfo (env w) (net_calls w) (cp_host p) of None \<Rightarrow> True
    | Some ips \<Rightarrow> \<not> addresses_safe (block_private (env w)) ips"
  shows "connect p w = (Inl UnsafeHost, w\<lparr>net_calls := Suc (net_calls w)\<rparr>)"
  using assms by (auto simp: connect_def assert_host_is_safe_def resolve_def bind_def split: option.splits)

text \<open>C23. Every connector operation checks the host on the attempt itself: when the resolver's answer at
  this attempt is not safe, testing, reading the schema and reading rows all end with \<open>UnsafeHost\<close>
  after the one call of the resolver; nothing is dialled and nothing is sent.\<close>

theorem guard_before_dial:
  assumes "case getaddrinfo (env w) (net_calls w) (cp_host p) of None \<Rightarrow> True
    | Some ips \<Rightarrow> \<not> addresses_safe (block_private (env w)) ips"
  shows "pg_test_connection p w = (Inl UnsafeHost, w\<lparr>net_calls := Suc (net_calls w)\<rparr>)
    \<and> introspect_schema p w = (Inl UnsafeHost, w\<lparr>net_calls := Suc (net_calls w)\<rparr>)
    \<and> pg_list_rows p t limit offset w = (Inl UnsafeHost, w\<lparr>net_calls := Suc (net_calls w)\<rparr>)"
  using unsafe_connect [OF assms]
  by (simp add: pg_test_connection_def introspect_schema_def pg_list_rows_def sanitized_def Let_def bind_def catch_def)

section \<open>Registering a connection\<close>

lemma wp_resolve: "wp (resolve h) Q E w =
    (case getaddrinfo (env w) (net_calls w) h of None \<Rightarrow> E UnsafeHost (w\<lparr>net_calls := Suc (net_calls w)\<rparr>)
     | Some ips \<Rightarrow> Q ips (w\<lparr>net_calls := Suc (net_calls w)\<rparr>))"
  by (simp add: wp_def resolve_def split: option.split)

text \<open>A connector call leaves everything but the call counter, and succeeds only for a safe host.\<close>

definition safe_now :: "world \<Rightarrow> string \<Rightarrow> bool" where
  "safe_now w h \<longleftrightarrow> (case getaddrinfo (env w) (net_calls w) h of None \<Rightarrow> False
     | Some ips \<Rightarrow> addresses_safe (block_private (env w)) ips)"

lemma pg_test_connection_effect:
  "\<exists>r n. pg_test_connection p w = (r, w\<lparr>net_calls := n\<rparr>) \<and> (r = Inr () \<longrightarrow> safe_now w (cp_host p))"
  by (auto simp: pg_test_connection_def sanitized_def catch_def connect_def assert_host_is_safe_def resolve_def bind_def
      dial_def remote_query_def safe_now_def split: option.split sum.split exn.split)

lemma wp_pg_test_connectionI:
  assumes "\<And>n. safe_now w (cp_host p) \<Longrightarrow> Q () (w\<lparr>net_calls := n\<rparr>)" and "\<And>e n. E e (w\<lparr>net_calls := n\<rparr>)"
  shows "wp (pg_test_connection p) Q E w"
proof -
  obtain r n where run: "pg_test_connection p w = (r, w\<lparr>net_calls := n\<rparr>)"
    and safe: "r = Inr () \<longrightarrow> safe_now w (cp_host p)"
    using pg_test_connection_effect by blast
  show ?thesis
    using assms safe by (cases r) (simp_all add: wp_def run)
qed

lemma wp_catchI: "wp m Q (\<lambda>e. wp (h e) Q E) s \<Longrightarrow> wp (catch m h) Q E s"
  by simp

lemma wp_encrypt_credential:
  "wp (encrypt_credential x) Q E w = Q (fernet_encrypt (env w) (rng w) x) (w\<lparr>rng := Suc (rng w)\<rparr>)"
  by (simp add: wp_def encrypt_credential_def)

text \<open>A connection is stored only after it worked: a successful registration was permitted, the name of
  the host resolved to safe addresses only, the engine is supported, and exactly one row is added, with
  the status \<open>connected\<close>, the parameters that were tested and the password in encrypted form only;
  a registration that fails in any way stores no connection.\<close>

theorem create_connected_database_tested:
  "wp (create_connected_database actor project data request_id)
    (\<lambda>d w'. (\<exists>org. workspace_organizations (ctl w) project = [org]
           \<and> permitted w (user_id actor) ''connection.manage'' (Some org) None)
       \<and> safe_now w (cp_host (cd_params data)) \<and> cd_engine data \<in> CONNECTORS
       \<and> connected_databases (ctl w') = connected_databases (ctl w) @ [d]
       \<and> cdb_status d = Connected \<and> host d = cp_host (cd_params data)
       \<and> (\<exists>n. encrypted_password d = fernet_encrypt (env w) n (cp_password (cd_params data))))
    (\<lambda>e w'. connected_databases (ctl w') = connected_databases (ctl w)) w"
proof -
  have org: "wp (Project_organization_id project) Q E w"
    if "\<And>org. workspace_organizations (ctl w) project = [org] \<Longrightarrow> Q org w" "\<And>e. E e w" for Q E
    using that Project_organization_id_Inr Project_organization_id_world by (metis wpI)
  show ?thesis
    unfolding create_connected_database_def wp_bind
    apply (rule org)
     apply (simp add: connection_require_def connector_def)
     apply (intro impI conjI wp_pg_test_connectionI)
       apply (simp_all add: wp_encrypt_credential Let_def wp_orm_create)
    by blast
qed

section \<open>Witnesses\<close>

text \<open>A resolver that knows one public host and the metadata address of a cloud.\<close>

definition two_hosts :: "nat \<Rightarrow> string \<Rightarrow> ip_address list option" where
  "two_hosts n h = (if h = ''db'' then Some [IPv4 (v4 93 184 216 34)]
     else if h = ''meta'' then Some [IPv4 (v4 169 254 169 254)] else None)"

definition net_world :: world where
  "net_world = (world_of shop)\<lparr>env := base_env\<lparr>getaddrinfo := two_hosts\<rparr>\<rparr>"

definition params_to :: "string \<Rightarrow> connection_params" where
  "params_to h = \<lparr>cp_host = h, cp_port = 5432, cp_database = ''x'', cp_username = ''u'', cp_password = ''p'', cp_sslmode = ''require''\<rparr>"

theorem guard_before_dial_witness:
  "pg_test_connection (params_to ''meta'') net_world = (Inl UnsafeHost, net_world\<lparr>net_calls := 1\<rparr>)"
proof -
  have "\<not> addresses_safe False [IPv4 (v4 169 254 169 254)]"
    unfolding default_guard_v4 by (simp add: v4_def within_def word_le_nat_alt)
  then show ?thesis
    using guard_before_dial [of net_world "params_to ''meta''"]
    by (simp add: net_world_def two_hosts_def params_to_def)
qed

end
