(* ===== verification/DatabaseViews.thy ===== *)
theory DatabaseViews
  imports Connections
begin

text \<open>
  The database views (\<open>databases/views.py\<close>): tenant databases, their tables, columns and foreign keys,
  the rows of the data explorer, and connected databases. A path that names an object looks it up
  through the caller's memberships first; schema and connection operations ask for permission in
  the service, row operations in the view.
\<close>

text \<open>\<open>_handle\<close> and \<open>_handle_connection\<close>: the exceptions a service call may raise, as responses.\<close>

definition detail_response :: "nat \<Rightarrow> exn \<Rightarrow> response app" where
  "detail_response st e = bind (gets (\<lambda>w. exn_str (env w) e)) (\<lambda>text. respond st (Detail text))"

definition handle_schema :: "'a app \<Rightarrow> ('a \<Rightarrow> response app) \<Rightarrow> response app" where
  "handle_schema fn k = bind (attempt fn) (\<lambda>r. case r of Inr x \<Rightarrow> k x
     | Inl e \<Rightarrow> if e = SchemaPermissionDenied then respond 403 NoBody
         else if e = SchemaValidationError then detail_response 400 e
         else raise e)"

definition handle_connection :: "'a app \<Rightarrow> ('a \<Rightarrow> response app) \<Rightarrow> response app" where
  "handle_connection fn k = bind (attempt fn) (\<lambda>r. case r of Inr x \<Rightarrow> k x
     | Inl e \<Rightarrow> if e = ConnectionPermissionDenied then respond 403 NoBody
         else if e = ConnectionValidationError then detail_response 400 e
         else if is_connection_failed e then detail_response 502 e
         else raise e)"

section \<open>Schema\<close>

definition TenantDatabaseList_get :: "user \<Rightarrow> uuid \<Rightarrow> response app" where
  "TenantDatabaseList_get user project_id =
     bind (get_member_project user project_id) (\<lambda>p.
     bind (query (\<lambda>c. filter (\<lambda>d. tdb_project d = proj_id p) (tenant_databases c))) (\<lambda>ds.
     respond 200 (DatabasesBody ds)))"

definition TenantDatabaseList_post :: "user \<Rightarrow> uuid \<Rightarrow> string option \<Rightarrow> string \<Rightarrow> response app" where
  "TenantDatabaseList_post user project_id data request_id =
     bind (get_member_project user project_id) (\<lambda>p.
     bind (validated data) (\<lambda>name.
     handle_schema (create_tenant_database user p name request_id) (\<lambda>d. respond 201 (DatabaseBody d))))"

definition TenantDatabaseDetail_get :: "user \<Rightarrow> uuid \<Rightarrow> response app" where
  "TenantDatabaseDetail_get user i =
     bind (get_member_tenant_database user i) (\<lambda>d. respond 200 (DatabaseBody d))"

definition TenantDatabaseDetail_delete :: "user \<Rightarrow> uuid \<Rightarrow> string \<Rightarrow> response app" where
  "TenantDatabaseDetail_delete user i request_id =
     bind (get_member_tenant_database user i) (\<lambda>d.
     handle_schema (delete_tenant_database user d request_id) (\<lambda>_. respond 204 NoBody))"

definition TableList_get :: "user \<Rightarrow> uuid \<Rightarrow> response app" where
  "TableList_get user i =
     bind (get_member_tenant_database user i) (\<lambda>d.
     bind (query (\<lambda>c. filter (\<lambda>t. tbl_database t = tdb_id d) (db_tables c))) (\<lambda>ts.
     respond 200 (TablesBody ts)))"

definition TableList_post :: "user \<Rightarrow> uuid \<Rightarrow> string option \<Rightarrow> string \<Rightarrow> response app" where
  "TableList_post user i data request_id =
     bind (get_member_tenant_database user i) (\<lambda>d.
     bind (validated data) (\<lambda>name.
     handle_schema (create_table user d name request_id) (\<lambda>t. respond 201 (TableBody t))))"

definition TableDetail_get :: "user \<Rightarrow> uuid \<Rightarrow> response app" where
  "TableDetail_get user i = bind (get_member_table user i) (\<lambda>t. respond 200 (TableBody t))"

definition TableDetail_delete :: "user \<Rightarrow> uuid \<Rightarrow> string \<Rightarrow> response app" where
  "TableDetail_delete user i request_id =
     bind (get_member_table user i) (\<lambda>t.
     handle_schema (delete_table user t request_id) (\<lambda>_. respond 204 NoBody))"

definition ColumnCreate_post :: "user \<Rightarrow> uuid \<Rightarrow> column_spec option \<Rightarrow> string \<Rightarrow> response app" where
  "ColumnCreate_post user i data request_id =
     bind (get_member_table user i) (\<lambda>t.
     bind (validated data) (\<lambda>spec.
     handle_schema (add_column user t spec request_id) (\<lambda>x. respond 201 (ColumnBody x))))"

record fk_data =
  fkd_column :: uuid
  fkd_references_table :: uuid
  fkd_references_column :: uuid
  fkd_on_delete :: string

definition ForeignKeyCreate_post :: "user \<Rightarrow> uuid \<Rightarrow> fk_data option \<Rightarrow> string \<Rightarrow> response app" where
  "ForeignKeyCreate_post user i data request_id =
     bind (get_member_table user i) (\<lambda>t.
     bind (validated data) (\<lambda>d.
     bind (get_member_column user (fkd_column d)) (\<lambda>x.
     if col_table x \<noteq> tbl_id t then respond 400 (Detail ''column does not belong to this table'')
     else
       bind (or_404 (get_one (\<lambda>c. filter (\<lambda>r. tbl_id r = fkd_references_table d \<and> tbl_database r = tbl_database t)
         (db_tables c)))) (\<lambda>ref_table.
       bind (get_member_column user (fkd_references_column d)) (\<lambda>ref_column.
       handle_schema (add_foreign_key user x ref_table ref_column (fkd_on_delete d) request_id)
         (\<lambda>k. respond 201 (ForeignKeyBody k)))))))"

section \<open>Rows\<close>

definition database_resource :: "db_table \<Rightarrow> (string \<times> uuid) option" where
  "database_resource t = Some (RESOURCE_TYPE_TENANT_DATABASE, tbl_database t)"

definition parse_filters :: "(string \<times> string) list \<Rightarrow> (string \<times> string) list" where
  "parse_filters params = map (\<lambda>(k, v). (drop 2 k, v)) (filter (\<lambda>(k, v). prefix ''f_'' k) params)"

text \<open>The lookup and the permission check with which every row view begins.\<close>

definition with_table :: "user \<Rightarrow> uuid \<Rightarrow> string \<Rightarrow> (db_table \<Rightarrow> response app) \<Rightarrow> response app" where
  "with_table user i code k =
     bind (get_member_table user i) (\<lambda>t.
     bind (Table_organization_id t) (\<lambda>org.
     bind (has_permission (Some user) code (Some org) (database_resource t)) (\<lambda>allowed.
     if \<not> allowed then respond 403 NoBody else k t)))"

definition int_param :: "string option \<Rightarrow> int \<Rightarrow> int option" where
  "int_param p d = (case p of None \<Rightarrow> Some d | Some s \<Rightarrow> int_of_str s)"

definition page_response :: "page \<Rightarrow> payload" where
  "page_response p = PageBody (page_count p) (page_limit p) (page_offset p) (page_results p)"

definition RowList_get :: "user \<Rightarrow> uuid \<Rightarrow> (string \<times> string) list \<Rightarrow> response app" where
  "RowList_get user i params = with_table user i ''database.read'' (\<lambda>t.
     case (int_param (map_of params ''limit'') DEFAULT_LIMIT, int_param (map_of params ''offset'') 0) of
       (Some limit, Some offset) \<Rightarrow>
         bind (attempt (list_rows t limit offset (map_of params ''ordering'') (parse_filters params)
           (map_of params ''search''))) (\<lambda>r. case r of
             Inr p \<Rightarrow> respond 200 (page_response p)
           | Inl e \<Rightarrow> if e = RowValueError then detail_response 400 e else raise e)
     | _ \<Rightarrow> respond 400 (Detail ''limit/offset must be integers''))"

definition RowList_post :: "user \<Rightarrow> uuid \<Rightarrow> (string \<times> json) list \<Rightarrow> response app" where
  "RowList_post user i data = with_table user i ''database.write'' (\<lambda>t.
     bind (attempt (insert_row t data)) (\<lambda>r. case r of
         Inr row \<Rightarrow> respond 201 (RowBody row)
       | Inl e \<Rightarrow> if e = RowValueError then detail_response 400 e else raise e))"

definition RowDetail_get :: "user \<Rightarrow> uuid \<Rightarrow> uuid \<Rightarrow> response app" where
  "RowDetail_get user i row_id = with_table user i ''database.read'' (\<lambda>t.
     bind (attempt (get_row t row_id)) (\<lambda>r. case r of
         Inr row \<Rightarrow> respond 200 (RowBody row)
       | Inl e \<Rightarrow> if e = RowNotFound then raise Http404 else raise e))"

definition RowDetail_patch :: "user \<Rightarrow> uuid \<Rightarrow> uuid \<Rightarrow> (string \<times> json) list \<Rightarrow> response app" where
  "RowDetail_patch user i row_id data = with_table user i ''database.write'' (\<lambda>t.
     bind (attempt (update_row t row_id data)) (\<lambda>r. case r of
         Inr row \<Rightarrow> respond 200 (RowBody row)
       | Inl e \<Rightarrow> if e = RowNotFound then raise Http404
           else if e = RowValueError then detail_response 400 e else raise e))"

definition RowDetail_delete :: "user \<Rightarrow> uuid \<Rightarrow> uuid \<Rightarrow> response app" where
  "RowDetail_delete user i row_id = with_table user i ''database.write'' (\<lambda>t.
     bind (attempt (delete_row t row_id)) (\<lambda>r. case r of
         Inr _ \<Rightarrow> respond 204 NoBody
       | Inl e \<Rightarrow> if e = RowNotFound then raise Http404 else raise e))"

text \<open>The rows of the streamed response; \<open>str\<close> is the text of the driver's value.\<close>

definition RowExport_get :: "(pg_value \<Rightarrow> string) \<Rightarrow> user \<Rightarrow> uuid \<Rightarrow> response app" where
  "RowExport_get str user i = with_table user i ''dataset.export'' (\<lambda>t.
     bind (iter_export_rows str t 1000) (\<lambda>rows.
     respond 200 (CsvBody rows (''attachment; filename='' @ [CHR 0x22] @ tbl_name t @ ''.csv'' @ [CHR 0x22]))))"

section \<open>Connections\<close>

definition ConnectedDatabaseList_get :: "user \<Rightarrow> uuid \<Rightarrow> response app" where
  "ConnectedDatabaseList_get user project_id =
     bind (get_member_project user project_id) (\<lambda>p.
     bind (query (\<lambda>c. filter (\<lambda>d. cdb_project d = proj_id p) (connected_databases c))) (\<lambda>ds.
     respond 200 (ConnectionsBody ds)))"

text \<open>\<open>ConnectedDatabaseCreateSerializer\<close>: the framework's field checks, then \<open>validate_host\<close>.\<close>

definition validate_host :: "connection_data option \<Rightarrow> connection_data app" where
  "validate_host data =
     bind (validated data) (\<lambda>d.
     bind (catch (assert_host_is_safe (cp_host (cd_params d)))
       (\<lambda>e. if e = UnsafeHost then raise ValidationError else raise e)) (\<lambda>_.
     ret d))"

definition ConnectedDatabaseList_post :: "user \<Rightarrow> uuid \<Rightarrow> connection_data option \<Rightarrow> string \<Rightarrow> response app" where
  "ConnectedDatabaseList_post user project_id data request_id =
     bind (get_member_project user project_id) (\<lambda>p.
     bind (validate_host data) (\<lambda>d.
     handle_connection (create_connected_database user p d request_id) (\<lambda>c. respond 201 (ConnectionBody c))))"

definition ConnectedDatabaseDetail_get :: "user \<Rightarrow> uuid \<Rightarrow> response app" where
  "ConnectedDatabaseDetail_get user i =
     bind (get_member_connected_database user i) (\<lambda>d. respond 200 (ConnectionBody d))"

definition ConnectedDatabaseDetail_delete :: "user \<Rightarrow> uuid \<Rightarrow> string \<Rightarrow> response app" where
  "ConnectedDatabaseDetail_delete user i request_id =
     bind (get_member_connected_database user i) (\<lambda>d.
     handle_connection (delete_connected_database user d request_id) (\<lambda>_. respond 204 NoBody))"

definition ConnectedDatabaseTest_post :: "user \<Rightarrow> uuid \<Rightarrow> string \<Rightarrow> response app" where
  "ConnectedDatabaseTest_post user i request_id =
     bind (get_member_connected_database user i) (\<lambda>d.
     handle_connection (test_connected_database user d request_id) (\<lambda>c. respond 200 (ConnectionBody c)))"

definition ConnectedDatabaseSchema_get :: "user \<Rightarrow> uuid \<Rightarrow> string \<Rightarrow> response app" where
  "ConnectedDatabaseSchema_get user i request_id =
     bind (get_member_connected_database user i) (\<lambda>d.
     handle_connection (get_connected_database_schema user d request_id) (\<lambda>ts. respond 200 (SchemaBody ts)))"

definition ConnectedDatabaseTableRows_get :: "user \<Rightarrow> uuid \<Rightarrow> string \<Rightarrow> (string \<times> string) list \<Rightarrow> string \<Rightarrow> response app" where
  "ConnectedDatabaseTableRows_get user i table_name params request_id =
     bind (get_member_connected_database user i) (\<lambda>d.
     case (int_param (map_of params ''limit'') 50, int_param (map_of params ''offset'') 0) of
       (Some limit, Some offset) \<Rightarrow>
         handle_connection (list_connected_database_rows user d table_name limit offset request_id)
           (\<lambda>p. respond 200 (page_response p))
     | _ \<Rightarrow> respond 400 (Detail ''limit/offset must be integers''))"

section \<open>Row access\<close>

text \<open>Who may touch the rows of a table: an active member of an organization that owns it, with the
  permission there or a grant on the database the table is in.\<close>

definition row_access :: "world \<Rightarrow> user \<Rightarrow> uuid \<Rightarrow> string \<Rightarrow> bool" where
  "row_access w u i code \<longleftrightarrow> (\<exists>t org. t \<in> set (db_tables (ctl w)) \<and> tbl_id t = i
     \<and> table_organizations (ctl w) t = [org] \<and> active_member (ctl w) (user_id u) org
     \<and> permitted w (user_id u) code (Some org) (database_resource t))"

definition turned_away :: "response app \<Rightarrow> world \<Rightarrow> bool" where
  "turned_away view w \<longleftrightarrow> snd (view w) = w
     \<and> (case fst (view w) of Inl e \<Rightarrow> e \<in> {Http404, DoesNotExist, MultipleObjectsReturned} | Inr r \<Rightarrow> r = Response 403 NoBody)"

lemma lookup_table_errors: "get_member_table u i w = (Inl e, v) \<Longrightarrow> e \<in> {Http404, MultipleObjectsReturned}"
  by (auto simp: get_member_table_def or_404_run get_one_run split: list.splits)

lemma Table_organization_id_errors: "Table_organization_id t w = (Inl e, v) \<Longrightarrow> e \<in> {DoesNotExist, MultipleObjectsReturned}"
  by (auto simp: Table_organization_id_def table_database_def Database_organization_id_def organization_of_project_def
      Project_organization_id_def bind_def get_one_run split: list.splits)

lemma with_table_turned_away:
  assumes "\<not> row_access w u i code"
  shows "turned_away (with_table u i code k) w"
proof (cases "get_member_table u i w")
  case (Pair r v)
  show ?thesis
  proof (cases r)
    case (Inl e)
    with Pair table_lookup.lookup_keeps [of u i w] show ?thesis
      by (auto simp: with_table_def turned_away_def bind_def dest!: lookup_table_errors)
  next
    case (Inr t)
    note found = table_lookup.lookup_Inr [OF Pair [unfolded Inr]]
    show ?thesis
    proof (cases "Table_organization_id t w")
      case org: (Pair s x)
      have "x = w" using Table_organization_id_world org by blast
      show ?thesis
      proof (cases s)
        case (Inl e)
        with org Pair Inr found(1) \<open>x = w\<close> show ?thesis
          by (auto simp: with_table_def turned_away_def bind_def dest!: Table_organization_id_errors)
      next
        case (Inr n)
        with org Table_organization_id_Inr have "table_organizations (ctl w) t = [n]" by blast
        with found(2-4) assms have "\<not> permitted w (user_id u) code (Some n) (database_resource t)"
          by (auto simp: row_access_def)
        with org Inr Pair \<open>r = Inr t\<close> found(1) \<open>x = w\<close> show ?thesis
          by (simp add: with_table_def turned_away_def bind_def)
      qed
    qed
  qed
qed

text \<open>C24. The rows of a table are reached only with the right permission. For anyone else (a stranger, a
  suspended or removed member, a member without the permission) reading, listing, inserting,
  updating, deleting and exporting rows are answered with a 403 or a 404, and the world is left as it
  was: no statement is sent to the tenant cluster.\<close>

theorem row_views_guarded:
  "(if row_access w u i ''database.read'' then True
    else turned_away (RowList_get u i params) w \<and> turned_away (RowDetail_get u i row_id) w)
   \<and> (if row_access w u i ''database.write'' then True
    else turned_away (RowList_post u i data) w \<and> turned_away (RowDetail_patch u i row_id data) w
      \<and> turned_away (RowDetail_delete u i row_id) w)
   \<and> (if row_access w u i ''dataset.export'' then True else turned_away (RowExport_get str u i) w)"
  by (simp add: RowList_get_def RowDetail_get_def RowList_post_def RowDetail_patch_def RowDetail_delete_def
      RowExport_get_def with_table_turned_away)

section \<open>Foreign keys across tables\<close>

text \<open>The column a foreign key is recorded to reference need not be a column of the table it references:
  \<open>add_foreign_key\<close> compares databases, uniqueness and type only. With two tables of one database, the
  statement references \<open>customers.id\<close> while the catalog records the primary key of \<open>orders\<close>.\<close>

definition customers_table :: db_table where
  "customers_table = \<lparr>tbl_id = 71, tbl_database = 60, tbl_name = ''customers'', tbl_created_by = 1\<rparr>"

definition key_column :: "uuid \<Rightarrow> uuid \<Rightarrow> string \<Rightarrow> bool \<Rightarrow> db_column" where
  "key_column i t n pk = \<lparr>col_id = i, col_table = t, col_name = n, data_type = ''uuid'', max_length = None,
     precision = None, scale = None, is_primary_key = pk, is_nullable = \<not> pk, is_unique = pk, default_value = None\<rparr>"

definition fk_world :: world where
  "fk_world = (world_of (shop\<lparr>tenant_databases := [shop_database], db_tables := [orders_table, customers_table],
     db_columns := [key_column 80 70 ''id'' True, key_column 81 71 ''id'' True, key_column 82 70 ''customer'' False]\<rparr>))"

lemma fk_world_simps [simp]:
  "ctl fk_world = shop\<lparr>tenant_databases := [shop_database], db_tables := [orders_table, customers_table],
     db_columns := [key_column 80 70 ''id'' True, key_column 81 71 ''id'' True, key_column 82 70 ''customer'' False]\<rparr>"
  "env fk_world = base_env" "tnt fk_world = []" "rng fk_world = 0" "pg_calls fk_world = 0" "clock fk_world = 50"
  by (simp_all add: fk_world_def)

lemma foreign_key_to_a_column_of_another_table:
  "\<exists>k w'. add_foreign_key alice (key_column 82 70 ''customer'' False) customers_table (key_column 80 70 ''id'' True)
       ''restrict'' '''' fk_world = (Inr k, w')
     \<and> db_foreign_keys (ctl w') = [k] \<and> fk_references_table k = 71 \<and> fk_references_column k = 80"
proof -
  have "permitted fk_world 1 ''database.schema.manage'' (Some 7) None \<longleftrightarrow>
      permitted (world_of shop) 1 ''database.schema.manage'' (Some 7) None"
    by (rule permitted_cong) simp_all
  then have may: "permitted fk_world 1 ''database.schema.manage'' (Some 7) None"
    by (simp add: permitted_def PERMISSIONS_def)
  have org: "Column_organization_id (key_column 82 70 ''customer'' False) fk_world = (Inr 7, fk_world)"
    by (simp add: Column_organization_id_def column_table_def Table_organization_id_def table_database_def
        Database_organization_id_def organization_of_project_def Project_organization_id_def bind_def get_one_run
        key_column_def customers_table_def)
  show ?thesis
    using may org
    by (simp add: add_foreign_key_def bind_def schema_require_def require_run column_table_def table_database_def get_one_run
        key_column_def customers_table_def has_foreign_key_def ON_DELETE_SQL_def execute_tenant_ddl_def
        atomic_tenant_def tenant_execute_def Let_def write_catalog_def atomic_default_def catch_def orm_create_def)
qed

end
