(* ===== verification/Csv.thy ===== *)
theory Csv
  imports Python "HOL-Library.AList"
begin

text \<open>
  Python's \<open>csv\<close> module as the import, export and restore pipelines use it: the record parser behind
  \<open>csv.reader\<close> (the excel dialect with a chosen delimiter), \<open>csv.DictReader\<close> and \<open>csv.writer\<close>. The
  two ways the backend cuts a text into lines for the reader, \<open>io.StringIO\<close> and the lines of an
  object's stream, are two instances of one interface: what the writer wrote is read back, except
  that the lines of a stream come without their ends, so a line break inside a cell is lost.
\<close>

section \<open>The reader\<close>

datatype csv_state = StartRecord | StartField | InField | InQuotedField | QuoteInQuotedField | EatCrnl

record csv_parser =
  csv_state :: csv_state
  csv_fields :: "string list"
  csv_field :: string

definition FIELD_LIMIT :: nat where "FIELD_LIMIT = 131072"

definition newline :: "char \<Rightarrow> bool" where "newline c \<longleftrightarrow> c = CHR 0x0A \<or> c = CHR 0x0D"

definition quote :: char where "quote = CHR 0x22"

definition reset :: csv_parser where
  "reset = \<lparr>csv_state = StartRecord, csv_fields = [], csv_field = []\<rparr>"

definition save_field :: "csv_state \<Rightarrow> csv_parser \<Rightarrow> csv_parser" where
  "save_field st p = p\<lparr>csv_state := st, csv_fields := csv_fields p @ [csv_field p], csv_field := []\<rparr>"

definition add_char :: "csv_state \<Rightarrow> char \<Rightarrow> csv_parser \<Rightarrow> exn + csv_parser" where
  "add_char st c p = (if length (csv_field p) \<ge> FIELD_LIMIT then Inl CsvError
     else Inr (p\<lparr>csv_state := st, csv_field := csv_field p @ [c]\<rparr>))"

text \<open>One character, \<open>None\<close> for the end of the line the iterator gave.\<close>

definition start_field :: "char \<Rightarrow> char option \<Rightarrow> csv_parser \<Rightarrow> exn + csv_parser" where
  "start_field d x p = (case x of None \<Rightarrow> Inr (save_field StartRecord p)
     | Some c \<Rightarrow>
         if newline c then Inr (save_field EatCrnl p)
         else if c = quote then Inr (p\<lparr>csv_state := InQuotedField\<rparr>)
         else if c = d then Inr (save_field StartField p)
         else add_char InField c p)"

definition parse_char :: "char \<Rightarrow> char option \<Rightarrow> csv_parser \<Rightarrow> exn + csv_parser" where
  "parse_char d x p = (case csv_state p of
     StartRecord \<Rightarrow> (case x of None \<Rightarrow> Inr p
       | Some c \<Rightarrow> if newline c then Inr (p\<lparr>csv_state := EatCrnl\<rparr>) else start_field d x p)
   | StartField \<Rightarrow> start_field d x p
   | InField \<Rightarrow> (case x of None \<Rightarrow> Inr (save_field StartRecord p)
       | Some c \<Rightarrow> if newline c then Inr (save_field EatCrnl p)
           else if c = d then Inr (save_field StartField p)
           else add_char InField c p)
   | InQuotedField \<Rightarrow> (case x of None \<Rightarrow> Inr p
       | Some c \<Rightarrow> if c = quote then Inr (p\<lparr>csv_state := QuoteInQuotedField\<rparr>)
           else add_char InQuotedField c p)
   | QuoteInQuotedField \<Rightarrow> (case x of None \<Rightarrow> Inr (save_field StartRecord p)
       | Some c \<Rightarrow> if c = quote then add_char InQuotedField c p
           else if c = d then Inr (save_field StartField p)
           else if newline c then Inr (save_field EatCrnl p)
           else add_char InField c p)
   | EatCrnl \<Rightarrow> (case x of None \<Rightarrow> Inr (p\<lparr>csv_state := StartRecord\<rparr>)
       | Some c \<Rightarrow> if newline c then Inr p else Inl CsvError))"

fun parse_line :: "char \<Rightarrow> string \<Rightarrow> csv_parser \<Rightarrow> exn + csv_parser" where
  "parse_line d [] p = parse_char d None p"
| "parse_line d (c # cs) p = (case parse_char d (Some c) p of Inl e \<Rightarrow> Inl e | Inr q \<Rightarrow> parse_line d cs q)"

text \<open>\<open>next(reader)\<close>: lines are taken until a record is complete. \<open>fin\<close> is what the line iterator
  raises when it has no more lines, \<open>None\<close> for the \<open>StopIteration\<close> of its end.\<close>

fun next_record :: "char \<Rightarrow> exn option \<Rightarrow> string list \<Rightarrow> csv_parser \<Rightarrow> exn + (string list \<times> string list) option" where
  "next_record d fin [] p = (case fin of Some e \<Rightarrow> Inl e
     | None \<Rightarrow> if csv_field p \<noteq> [] \<or> csv_state p = InQuotedField
         then Inr (Some (csv_fields (save_field StartRecord p), [])) else Inr None)"
| "next_record d fin (l # ls) p = (case parse_line d l p of Inl e \<Rightarrow> Inl e
     | Inr q \<Rightarrow> if csv_state q = StartRecord then Inr (Some (csv_fields q, ls)) else next_record d fin ls q)"

lemma next_record_shorter: "next_record d fin ls p = Inr (Some (r, ls')) \<Longrightarrow> length ls' \<le> length ls - 1"
proof (induction ls arbitrary: p)
  case (Cons l ls)
  then show ?case by (fastforce split: sum.splits if_splits)
qed (auto split: option.splits if_splits)

lemma next_record_end: "next_record d fin [] reset = (case fin of Some e \<Rightarrow> Inl e | None \<Rightarrow> Inr None)"
  by (simp add: reset_def split: option.split)

text \<open>The whole iteration: the records, and the exception that ends it, if one does.\<close>

function csv_rows :: "char \<Rightarrow> exn option \<Rightarrow> string list \<Rightarrow> string list list \<times> exn option" where
  "csv_rows d fin ls = (case next_record d fin ls reset of
     Inl e \<Rightarrow> ([], Some e)
   | Inr None \<Rightarrow> ([], None)
   | Inr (Some (r, ls')) \<Rightarrow> (let (rs, e) = csv_rows d fin ls' in (r # rs, e)))"
  by pat_completeness auto

termination
proof (relation "measure (\<lambda>(d, fin, ls). length ls)")
  fix d :: char and fin ls y z r ls'
  assume "next_record d fin ls reset = Inr y" "y = Some z" "(r, ls') = z"
  then show "((d, fin, ls'), d, fin, ls) \<in> measure (\<lambda>(d, fin, ls). length ls)"
    using next_record_shorter [of d fin ls reset r ls'] next_record_end [of d fin]
    by (cases ls) (auto split: option.splits simp del: next_record.simps)
qed simp

declare csv_rows.simps [simp del]

section \<open>\<open>DictReader\<close>\<close>

definition dict_row :: "string list \<Rightarrow> string list \<Rightarrow> (string option \<times> csv_cell) list" where
  "dict_row names row =
     (let d = foldl (\<lambda>d (k, v). AList.update (Some k) (Cell v) d) [] (zip names row) in
      if length names < length row then AList.update None (Surplus (drop (length names) row)) d
      else foldl (\<lambda>d k. AList.update (Some k) NoCell d) d (drop (length row) names))"

text \<open>The header is the first record, blank or not; later blank records are skipped.\<close>

definition dict_rows :: "char \<Rightarrow> exn option \<Rightarrow> string list \<Rightarrow> (string option \<times> csv_cell) list list \<times> exn option" where
  "dict_rows d fin ls = (case csv_rows d fin ls of
     ([], e) \<Rightarrow> ([], e)
   | (names # rows, e) \<Rightarrow> (map (dict_row names) (filter (\<lambda>r. r \<noteq> []) rows), e))"

section \<open>The writer\<close>

definition must_quote :: "char \<Rightarrow> string \<Rightarrow> bool" where
  "must_quote d f \<longleftrightarrow> list_ex (\<lambda>c. c = d \<or> c = quote \<or> newline c) f"

definition doubled :: "string \<Rightarrow> string" where
  "doubled f = concat (map (\<lambda>c. if c = quote then [quote, quote] else [c]) f)"

definition quoted :: "string \<Rightarrow> string" where
  "quoted f = quote # doubled f @ [quote]"

definition write_field :: "char \<Rightarrow> string \<Rightarrow> string" where
  "write_field d f = (if must_quote d f then quoted f else f)"

fun write_fields :: "char \<Rightarrow> string list \<Rightarrow> string" where
  "write_fields d [] = []"
| "write_fields d [f] = write_field d f"
| "write_fields d (f # g # fs) = write_field d f @ d # write_fields d (g # fs)"

definition CRLF :: string where "CRLF = [CHR 0x0D, CHR 0x0A]"

text \<open>\<open>writerow\<close>: a record of one empty field is written quoted.\<close>

definition write_row :: "char \<Rightarrow> string list \<Rightarrow> string" where
  "write_row d row = (if row = [[]] then quoted [] else write_fields d row) @ CRLF"

definition write_rows :: "char \<Rightarrow> string list list \<Rightarrow> string" where
  "write_rows d rows = concat (map (write_row d) rows)"

section \<open>Lines\<close>

text \<open>Iterating an \<open>io.StringIO\<close>: lines keep their line feed.\<close>

fun text_lines :: "string \<Rightarrow> string list" where
  "text_lines [] = []"
| "text_lines (c # cs) = (if c = CHR 0x0A then [c] # text_lines cs
     else case text_lines cs of [] \<Rightarrow> [[c]] | l # ls \<Rightarrow> (c # l) # ls)"

text \<open>\<open>bytes.splitlines\<close>: lines without their ends, which are \<open>\\n\<close>, \<open>\\r\<close> and \<open>\\r\\n\<close>.\<close>

fun split_lines :: "string \<Rightarrow> string list" where
  "split_lines [] = []"
| "split_lines [c] = (if newline c then [[]] else [[c]])"
| "split_lines (c # x # cs) =
    (if c = CHR 0x0D \<and> x = CHR 0x0A then [] # split_lines cs
     else if newline c then [] # split_lines (x # cs)
     else case split_lines (x # cs) of [] \<Rightarrow> [[c]] | l # ls \<Rightarrow> (c # l) # ls)"


lemma text_lines_Nil [simp]: "text_lines s = [] \<longleftrightarrow> s = []"
  by (cases s) (auto split: list.split)

lemma split_lines_Nil [simp]: "split_lines s = [] \<longleftrightarrow> s = []"
  by (induction s rule: split_lines.induct) (auto split: list.split)

lemma same_state: "csv_state p = st \<Longrightarrow> p\<lparr>csv_state := st, csv_field := f\<rparr> = p\<lparr>csv_field := f\<rparr>"
  by (cases p) simp

text \<open>The interface between a cut into lines and the reader: \<open>clean\<close> is what the reader sees of a
  quoted text.\<close>

locale line_source =
  fixes split :: "string \<Rightarrow> string list" and clean :: "string \<Rightarrow> string"
  assumes next_char: "\<not> newline c \<Longrightarrow> s \<noteq> [] \<Longrightarrow> next_record d fin (split (c # s)) p =
      (case parse_char d (Some c) p of Inl e \<Rightarrow> Inl e | Inr q \<Rightarrow> next_record d fin (split s) q)"
    and next_break: "newline c \<Longrightarrow> s \<noteq> [] \<Longrightarrow> csv_state p = InQuotedField \<Longrightarrow> length (csv_field p) < FIELD_LIMIT \<Longrightarrow>
      next_record d fin (split (c # s)) p = next_record d fin (split s) (p\<lparr>csv_field := csv_field p @ clean [c]\<rparr>)"
    and next_row_end: "\<not> newline d \<Longrightarrow> csv_state p = StartField \<or> csv_state p = InField \<or> csv_state p = QuoteInQuotedField \<Longrightarrow>
      next_record d fin (split (CRLF @ s)) p = Inr (Some (csv_fields p @ [csv_field p], split s))"
    and next_blank: "csv_state p = StartRecord \<Longrightarrow>
      next_record d fin (split (CRLF @ s)) p = Inr (Some (csv_fields p, split s))"
    and split_empty: "split [] = []"
    and clean_empty: "clean [] = []"
    and clean_char: "\<not> newline c \<Longrightarrow> clean [c] = [c]"
    and clean_append: "clean (s @ t) = clean s @ clean t"
    and clean_shorter: "length (clean s) \<le> length s"
begin

lemma clean_Cons: "clean (c # s) = clean [c] @ clean s"
  using clean_append [of "[c]" s] by simp

lemma next_quoted:
  "csv_state p = InQuotedField \<Longrightarrow> length (csv_field p) + length f \<le> FIELD_LIMIT \<Longrightarrow> s \<noteq> [] \<Longrightarrow>
     next_record d fin (split (doubled f @ s)) p = next_record d fin (split s) (p\<lparr>csv_field := csv_field p @ clean f\<rparr>)"
proof (induction f arbitrary: p)
  case Nil
  then show ?case by (simp add: doubled_def clean_empty)
next
  case (Cons c f)
  let ?q = "p\<lparr>csv_field := csv_field p @ clean [c]\<rparr>"
  have rest: "doubled f @ s \<noteq> []" using Cons.prems by simp
  have one: "length (clean [c]) \<le> 1" using clean_shorter [of "[c]"] by simp
  have "next_record d fin (split (doubled (c # f) @ s)) p = next_record d fin (split (doubled f @ s)) ?q"
  proof (cases "newline c")
    case True
    then have "c \<noteq> quote" by (auto simp: newline_def quote_def)
    then show ?thesis using next_break [OF True rest Cons.prems(1)] Cons.prems by (simp add: doubled_def)
  next
    case False
    have "\<not> newline quote" by (simp add: newline_def quote_def)
    with False show ?thesis
      using Cons.prems rest
      by (cases "c = quote") (simp_all add: doubled_def next_char parse_char_def add_char_def clean_char same_state)
  qed
  also have "\<dots> = next_record d fin (split s) (?q\<lparr>csv_field := csv_field ?q @ clean f\<rparr>)"
    using Cons.prems one by (intro Cons.IH) simp_all
  finally show ?case by (simp add: clean_Cons [of c f])
qed

lemma next_plain:
  "csv_state p = InField \<Longrightarrow> \<not> must_quote d f \<Longrightarrow> length (csv_field p) + length f \<le> FIELD_LIMIT \<Longrightarrow> s \<noteq> [] \<Longrightarrow>
     next_record d fin (split (f @ s)) p = next_record d fin (split s) (p\<lparr>csv_field := csv_field p @ f\<rparr>)"
proof (induction f arbitrary: p)
  case (Cons c f)
  then show ?case by (simp add: next_char parse_char_def add_char_def must_quote_def same_state)
qed simp

lemma clean_plain: "\<not> must_quote d f \<Longrightarrow> clean f = f"
proof (induction f)
  case (Cons c f)
  then have "clean [c] = [c]" "clean f = f" by (simp_all add: must_quote_def clean_char)
  then show ?case by (subst clean_Cons) simp
qed (rule clean_empty)

text \<open>A written field, at the start of a field, is read up to the character after it.\<close>

definition field_read :: "csv_parser \<Rightarrow> string \<Rightarrow> csv_parser \<Rightarrow> bool" where
  "field_read p f q \<longleftrightarrow> csv_fields q = csv_fields p \<and> csv_field q = clean f
     \<and> (csv_state q = StartField \<or> csv_state q = InField \<or> csv_state q = QuoteInQuotedField)"

lemma next_quoted_field:
  assumes "csv_state p = StartField \<or> csv_state p = StartRecord" and "csv_field p = []"
    and "length f \<le> FIELD_LIMIT" and "s \<noteq> []"
  shows "\<exists>q. field_read p f q \<and> next_record d fin (split (quoted f @ s)) p = next_record d fin (split s) q"
proof -
  let ?p = "p\<lparr>csv_state := InQuotedField\<rparr>"
  let ?q = "?p\<lparr>csv_field := clean f\<rparr>"
  have nq: "\<not> newline quote" by (simp add: newline_def quote_def)
  have "next_record d fin (split (quoted f @ s)) p = next_record d fin (split (doubled f @ quote # s)) ?p"
    using assms(1) nq by (auto simp: quoted_def next_char parse_char_def start_field_def)
  also have "\<dots> = next_record d fin (split (quote # s)) ?q"
    using next_quoted [of ?p f "quote # s" d fin] assms by simp
  also have "\<dots> = next_record d fin (split s) (?q\<lparr>csv_state := QuoteInQuotedField\<rparr>)"
    using assms(4) nq by (simp add: next_char parse_char_def)
  finally show ?thesis by (intro exI [of _ "?q\<lparr>csv_state := QuoteInQuotedField\<rparr>"]) (simp add: field_read_def)
qed

lemma next_plain_field:
  assumes "csv_state p = StartField \<or> (csv_state p = StartRecord \<and> f \<noteq> [])" and "csv_field p = []"
    and "length f \<le> FIELD_LIMIT" and "\<not> must_quote d f" and "s \<noteq> []"
  shows "\<exists>q. field_read p f q \<and> next_record d fin (split (f @ s)) p = next_record d fin (split s) q"
proof (cases f)
  case Nil
  with assms(1) have "field_read p f p" using assms(2) by (simp add: field_read_def clean_empty)
  with Nil show ?thesis by auto
next
  case (Cons c g)
  let ?q = "p\<lparr>csv_state := InField, csv_field := [c]\<rparr>"
  have c: "\<not> newline c" "c \<noteq> quote" "c \<noteq> d" and g: "\<not> must_quote d g"
    using assms(4) Cons by (auto simp: must_quote_def)
  have step: "parse_char d (Some c) p = Inr ?q"
    using assms(1,2) c by (auto simp: parse_char_def start_field_def add_char_def FIELD_LIMIT_def)
  have "next_record d fin (split (f @ s)) p = next_record d fin (split (g @ s)) ?q"
    using Cons c(1) step assms(5) by (simp add: next_char)
  also have "\<dots> = next_record d fin (split s) (?q\<lparr>csv_field := f\<rparr>)"
    using next_plain [of ?q d g s fin] g assms(3,5) Cons by simp
  finally show ?thesis
    using clean_plain [OF assms(4)] by (intro exI [of _ "?q\<lparr>csv_field := f\<rparr>"]) (simp add: field_read_def)
qed

lemma next_field:
  assumes "csv_state p = StartField \<or> (csv_state p = StartRecord \<and> f \<noteq> [])" and "csv_field p = []"
    and "length f \<le> FIELD_LIMIT" and "s \<noteq> []"
  shows "\<exists>q. field_read p f q \<and> next_record d fin (split (write_field d f @ s)) p = next_record d fin (split s) q"
  using next_plain_field [OF assms(1,2,3) _ assms(4)] next_quoted_field [of p f s d fin] assms
  by (cases "must_quote d f") (auto simp: write_field_def)

lemma next_delimiter:
  assumes "field_read p f q" and "d \<noteq> quote" and "\<not> newline d" and "s \<noteq> []"
  shows "\<exists>r. csv_state r = StartField \<and> csv_field r = [] \<and> csv_fields r = csv_fields p @ [clean f]
     \<and> next_record d fin (split (d # s)) q = next_record d fin (split s) r"
  using assms by (intro exI [of _ "save_field StartField q"])
    (auto simp: field_read_def next_char parse_char_def start_field_def save_field_def)

lemma next_fields:
  "d \<noteq> quote \<Longrightarrow> \<not> newline d \<Longrightarrow> csv_state p = StartField \<or> (csv_state p = StartRecord \<and> row \<noteq> [[]]) \<Longrightarrow> csv_field p = [] \<Longrightarrow> row \<noteq> [] \<Longrightarrow>
    list_all (\<lambda>f. length f \<le> FIELD_LIMIT) row \<Longrightarrow>
    next_record d fin (split (write_fields d row @ CRLF @ s)) p = Inr (Some (csv_fields p @ map clean row, split s))"
proof (induction d row arbitrary: p rule: write_fields.induct)
  case (2 d f)
  then obtain q where q: "field_read p f q" "next_record d fin (split (write_field d f @ CRLF @ s)) p
      = next_record d fin (split (CRLF @ s)) q"
    using next_field [of p f "CRLF @ s" d fin] by (auto simp: CRLF_def)
  then show ?case using next_row_end [of d q fin s] "2.prems" by (simp add: field_read_def)
next
  case (3 d f g fs)
  let ?s = "write_fields d (g # fs) @ CRLF @ s"
  have s: "?s \<noteq> []" by (simp add: CRLF_def)
  have "\<exists>r. csv_state r = StartField \<and> csv_field r = [] \<and> csv_fields r = csv_fields p @ [clean f]
     \<and> next_record d fin (split (write_field d f @ d # ?s)) p = next_record d fin (split ?s) r"
  proof (cases "csv_state p = StartRecord \<and> f = []")
    case True
    have "parse_char d (Some d) p = Inr (save_field StartField p)"
      using True "3.prems"(1,2) by (auto simp: parse_char_def start_field_def)
    then have "next_record d fin (split (d # ?s)) p = next_record d fin (split ?s) (save_field StartField p)"
      using next_char [OF "3.prems"(2) s, of d fin p] by simp
    with True "3.prems"(4) show ?thesis
      by (intro exI [of _ "save_field StartField p"]) (simp add: write_field_def must_quote_def save_field_def clean_empty)
  next
    case False
    then obtain q where "field_read p f q" "next_record d fin (split (write_field d f @ d # ?s)) p
        = next_record d fin (split (d # ?s)) q"
      using next_field [of p f "d # ?s" d fin] "3.prems" by auto
    then show ?thesis using next_delimiter [of p f q d ?s fin] "3.prems" s by auto
  qed
  then obtain r where r: "csv_state r = StartField" "csv_field r = []" "csv_fields r = csv_fields p @ [clean f]"
    "next_record d fin (split (write_field d f @ d # ?s)) p = next_record d fin (split ?s) r" by blast
  have "next_record d fin (split ?s) r = Inr (Some (csv_fields r @ map clean (g # fs), split s))"
    using "3.IH" [of r] r "3.prems" by simp
  with r show ?case by simp
qed simp

lemma next_row:
  assumes "d \<noteq> quote" and "\<not> newline d" and "list_all (\<lambda>f. length f \<le> FIELD_LIMIT) row"
  shows "next_record d fin (split (write_row d row @ s)) reset = Inr (Some (map clean row, split s))"
proof -
  consider "row = []" | "row = [[]]" | "row \<noteq> []" "row \<noteq> [[]]" by blast
  then show ?thesis
  proof cases
    case 1
    then show ?thesis using next_blank [of reset d fin s] by (simp add: write_row_def reset_def)
  next
    case 2
    then obtain q where "field_read reset [] q" "next_record d fin (split (quoted [] @ CRLF @ s)) reset
        = next_record d fin (split (CRLF @ s)) q"
      using next_quoted_field [of reset "[]" "CRLF @ s" d fin] by (auto simp: reset_def CRLF_def)
    then show ?thesis using next_row_end [of d q fin s] assms(2) 2 by (simp add: write_row_def field_read_def reset_def)
  next
    case 3
    then show ?thesis using next_fields [OF assms(1,2), of reset row fin s] assms(3)
      by (simp add: write_row_def) (simp add: reset_def)
  qed
qed

lemma rows_read_back:
  assumes "d \<noteq> quote" and "\<not> newline d" and "list_all (list_all (\<lambda>f. length f \<le> FIELD_LIMIT)) rows"
  shows "csv_rows d None (split (write_rows d rows)) = (map (map clean) rows, None)"
  using assms(3)
proof (induction rows)
  case Nil
  show ?case by (subst csv_rows.simps) (simp add: write_rows_def split_empty reset_def)
next
  case (Cons row rows)
  then show ?case
    using next_row [OF assms(1,2), of row None "write_rows d rows"]
    by (subst csv_rows.simps) (simp add: write_rows_def)
qed

end

lemma next_cons_line:
  "next_record d fin ((c # l) # ls) p =
     (case parse_char d (Some c) p of Inl e \<Rightarrow> Inl e | Inr q \<Rightarrow> next_record d fin (l # ls) q)"
  by (simp split: sum.split)

lemma text_lines_Cons:
  assumes "c \<noteq> CHR 0x0A" and "s \<noteq> []"
  obtains l ls where "text_lines s = l # ls" "text_lines (c # s) = (c # l) # ls"
  using assms by (cases "text_lines s") auto

lemma text_lines_char:
  assumes "c \<noteq> CHR 0x0A" and "s \<noteq> []"
  shows "next_record d fin (text_lines (c # s)) p =
    (case parse_char d (Some c) p of Inl e \<Rightarrow> Inl e | Inr q \<Rightarrow> next_record d fin (text_lines s) q)"
  using text_lines_Cons [OF assms] next_cons_line by metis

lemma split_lines_char:
  assumes "\<not> newline c" and "s \<noteq> []"
  shows "next_record d fin (split_lines (c # s)) p =
    (case parse_char d (Some c) p of Inl e \<Rightarrow> Inl e | Inr q \<Rightarrow> next_record d fin (split_lines s) q)"
proof -
  obtain x t where s: "s = x # t" using assms(2) by (cases s) auto
  obtain l ls where l: "split_lines s = l # ls" using assms(2) by (cases "split_lines s") auto
  have "split_lines (c # s) = (c # l) # ls"
    using assms l s by (auto simp: newline_def)
  with l next_cons_line show ?thesis by metis
qed

interpretation text_source: line_source text_lines "\<lambda>s. s"
proof
  fix c :: char and s :: string and d fin and p :: csv_parser
  assume "\<not> newline c" "s \<noteq> []"
  then show "next_record d fin (text_lines (c # s)) p =
      (case parse_char d (Some c) p of Inl e \<Rightarrow> Inl e | Inr q \<Rightarrow> next_record d fin (text_lines s) q)"
    by (intro text_lines_char) (simp_all add: newline_def)
next
  fix c :: char and s :: string and d fin and p :: csv_parser
  assume c: "newline c" and s: "s \<noteq> []" and p: "csv_state p = InQuotedField" "length (csv_field p) < FIELD_LIMIT"
  let ?q = "p\<lparr>csv_field := csv_field p @ [c]\<rparr>"
  have add: "parse_char d (Some c) p = Inr ?q"
    using c p by (auto simp: parse_char_def add_char_def newline_def quote_def same_state)
  show "next_record d fin (text_lines (c # s)) p = next_record d fin (text_lines s) ?q"
  proof (cases "c = CHR 0x0A")
    case True
    with add p show ?thesis by (simp add: parse_char_def)
  next
    case False
    with add s show ?thesis using text_lines_char [of c s d fin p] by (simp del: text_lines.simps)
  qed
next
  fix d fin and s :: string and p :: csv_parser
  assume "\<not> newline d" "csv_state p = StartField \<or> csv_state p = InField \<or> csv_state p = QuoteInQuotedField"
  then show "next_record d fin (text_lines (CRLF @ s)) p = Inr (Some (csv_fields p @ [csv_field p], text_lines s))"
    by (auto simp: CRLF_def parse_char_def start_field_def save_field_def newline_def quote_def)
next
  fix d fin and s :: string and p :: csv_parser
  assume "csv_state p = StartRecord"
  then show "next_record d fin (text_lines (CRLF @ s)) p = Inr (Some (csv_fields p, text_lines s))"
    by (simp add: CRLF_def parse_char_def newline_def)
qed simp_all

lemma split_lines_break: "newline c \<Longrightarrow> s \<noteq> [] \<Longrightarrow> split_lines (c # s) = [] # split_lines s
    \<or> (\<exists>t. s = CHR 0x0A # t \<and> split_lines (c # s) = [] # split_lines t \<and> split_lines s = [] # split_lines t)"
  by (cases s; cases "tl s") (auto simp: newline_def)

text \<open>Inside quotes the end of a line is no character at all.\<close>

lemma quoted_line_end: "csv_state p = InQuotedField \<Longrightarrow> next_record d fin ([] # ls) p = next_record d fin ls p"
  by (simp add: parse_char_def)

lemma split_lines_CRLF: "split_lines (CRLF @ s) = [] # split_lines s"
  by (simp add: CRLF_def)

interpretation stream_source: line_source split_lines "filter (\<lambda>c. \<not> newline c)"
proof
  fix c :: char and s :: string and d fin and p :: csv_parser
  assume "\<not> newline c" "s \<noteq> []"
  then show "next_record d fin (split_lines (c # s)) p =
      (case parse_char d (Some c) p of Inl e \<Rightarrow> Inl e | Inr q \<Rightarrow> next_record d fin (split_lines s) q)"
    by (rule split_lines_char)
next
  fix c :: char and s :: string and d fin and p :: csv_parser
  assume c: "newline c" and s: "s \<noteq> []" and p: "csv_state p = InQuotedField"
  have "next_record d fin (split_lines (c # s)) p = next_record d fin (split_lines s) p"
    using split_lines_break [OF c s] quoted_line_end [OF p] by (auto simp del: next_record.simps split_lines.simps)
  with c show "next_record d fin (split_lines (c # s)) p =
      next_record d fin (split_lines s) (p\<lparr>csv_field := csv_field p @ filter (\<lambda>c. \<not> newline c) [c]\<rparr>)" by simp
next
  fix d fin and s :: string and p :: csv_parser
  assume "\<not> newline d" "csv_state p = StartField \<or> csv_state p = InField \<or> csv_state p = QuoteInQuotedField"
  then show "next_record d fin (split_lines (CRLF @ s)) p = Inr (Some (csv_fields p @ [csv_field p], split_lines s))"
    by (auto simp: split_lines_CRLF parse_char_def start_field_def save_field_def)
next
  fix d fin and s :: string and p :: csv_parser
  assume "csv_state p = StartRecord"
  then show "next_record d fin (split_lines (CRLF @ s)) p = Inr (Some (csv_fields p, split_lines s))"
    by (simp add: split_lines_CRLF parse_char_def)
qed (simp_all add: length_filter_le)

text \<open>What the two line sources give for a written file.\<close>

lemmas text_round_trip = text_source.rows_read_back [unfolded list.map_ident]
lemmas stream_round_trip = stream_source.rows_read_back

section \<open>A broken iterator\<close>

text \<open>What is read before the line iterator raises is a beginning of what would have been read.\<close>

lemma next_record_append:
  "next_record d (Some e) us p = Inr (Some (r, us')) \<Longrightarrow> next_record d fin (us @ vs) p = Inr (Some (r, us' @ vs))"
  by (induction us arbitrary: p) (auto split: sum.splits if_splits)

lemma next_record_broken: "next_record d (Some e) us p \<noteq> Inr None"
  by (induction us arbitrary: p) (auto split: sum.splits)

lemma csv_rows_prefix: "prefix (fst (csv_rows d (Some e) us)) (fst (csv_rows d fin (us @ vs)))"
proof (induction "length us" arbitrary: us rule: less_induct)
  case less
  show ?case
  proof (cases "next_record d (Some e) us reset")
    case (Inl x)
    then show ?thesis by (subst csv_rows.simps) simp
  next
    case (Inr y)
    then obtain r us' where y: "y = Some (r, us')" using next_record_broken by (cases y) auto
    then have "length us' < length us"
      using Inr next_record_shorter [of d "Some e" us reset r us'] next_record_end [of d "Some e"]
      by (cases us) auto
    then have "prefix (fst (csv_rows d (Some e) us')) (fst (csv_rows d fin (us' @ vs)))" by (rule less)
    moreover have "fst (csv_rows d (Some e) us) = r # fst (csv_rows d (Some e) us')"
      using Inr y by (subst csv_rows.simps) (simp split: prod.split)
    moreover have "fst (csv_rows d fin (us @ vs)) = r # fst (csv_rows d fin (us' @ vs))"
      using next_record_append [of d e us reset r us' fin vs] Inr y
      by (subst csv_rows.simps) (simp split: prod.split)
    ultimately show ?thesis by simp
  qed
qed

lemma dict_rows_prefix: "prefix (fst (dict_rows d (Some e) us)) (fst (dict_rows d fin (us @ vs)))"
proof -
  obtain rs x ss y where rows: "csv_rows d (Some e) us = (rs, x)" "csv_rows d fin (us @ vs) = (ss, y)"
    by (cases "csv_rows d (Some e) us"; cases "csv_rows d fin (us @ vs)")
  then have "prefix rs ss" using csv_rows_prefix [of d e us fin vs] by simp
  then show ?thesis
    using rows by (cases rs; cases ss) (auto simp: dict_rows_def prefix_def)
qed

lemma csv_rows_broken: "snd (csv_rows d (Some e) us) \<noteq> None"
proof (induction "length us" arbitrary: us rule: less_induct)
  case less
  show ?case
  proof (cases "next_record d (Some e) us reset")
    case (Inl x)
    then show ?thesis by (subst csv_rows.simps) simp
  next
    case (Inr y)
    then obtain r us' where y: "y = Some (r, us')" using next_record_broken by (cases y) auto
    then have "length us' < length us"
      using Inr next_record_shorter [of d "Some e" us reset r us'] next_record_end [of d "Some e"]
      by (cases us) auto
    then show ?thesis using less [of us'] Inr y by (subst csv_rows.simps) (auto split: prod.splits)
  qed
qed

lemma dict_rows_broken: "snd (dict_rows d (Some e) us) \<noteq> None"
  using csv_rows_broken [of d e us] by (auto simp: dict_rows_def split: prod.split list.split)

lemma dict_rows_empty [simp]: "dict_rows d fin [] = ([], fin)"
  by (cases fin) (simp_all add: dict_rows_def csv_rows.simps [of d _ "[]"] reset_def)

end
