(* ===== verification/Imports.thy ===== *)
theory Imports
  imports Csv DatabaseViews Storage
begin

text \<open>
  The CSV import pipeline (\<open>imports/\<close>): inspection of a sample with its guesses of encoding,
  delimiter and column types, the validated start of a job, the streamed insertion with its
  checkpoints, and the Celery task that retries it.
\<close>

section \<open>Inspection\<close>

definition SAMPLE_BYTES :: nat where "SAMPLE_BYTES = 65536"
definition SAMPLE_ROWS :: nat where "SAMPLE_ROWS = 50"

definition ENCODINGS_TO_TRY :: "string list" where
  "ENCODINGS_TO_TRY = [''utf-8-sig'', ''utf-8'', ''latin-1'']"

text \<open>Whether \<open>bytes.decode(encoding)\<close> accepts the bytes, for the three encodings tried.\<close>

definition decodes :: "string \<Rightarrow> bytes \<Rightarrow> bool" where
  "decodes enc b \<longleftrightarrow> (if enc = ''latin-1'' then True else utf8_valid b)"

fun first_encoding :: "string list \<Rightarrow> bytes \<Rightarrow> string" where
  "first_encoding [] b = ''latin-1''"
| "first_encoding (e # es) b = (if decodes e b then e else first_encoding es b)"

definition detect_encoding :: "bytes \<Rightarrow> string" where
  "detect_encoding b = first_encoding ENCODINGS_TO_TRY b"

definition detect_delimiter :: "library \<Rightarrow> string \<Rightarrow> char" where
  "detect_delimiter L s = (case csv_sniff L s of Some d \<Rightarrow> d | None \<Rightarrow> CHR '','')"

definition looks_like_date :: "string \<Rightarrow> bool" where
  "looks_like_date v \<longleftrightarrow> strptime_date v \<noteq> None"

definition looks_like_datetime :: "string \<Rightarrow> bool" where
  "looks_like_datetime v \<longleftrightarrow> list_ex (\<lambda>fmt. strptime_datetime fmt v \<noteq> None) DATETIME_FORMATS"

text \<open>The texts \<open>float(s)\<close> accepts: digits may be separated by single underscores.\<close>

definition digit_run :: "string \<Rightarrow> bool" where
  "digit_run s \<longleftrightarrow> digits digit_value s \<noteq> None"

definition float_exponent :: "string \<Rightarrow> bool" where
  "float_exponent s = (case s of [] \<Rightarrow> True
     | c # r \<Rightarrow> (c = CHR ''e'' \<or> c = CHR ''E'') \<and> digit_run (snd (split_sign r)))"

definition float_number :: "string \<Rightarrow> bool" where
  "float_number s =
     (let mantissa = takeWhile (\<lambda>c. c \<noteq> CHR ''e'' \<and> c \<noteq> CHR ''E'') s;
          rest = dropWhile (\<lambda>c. c \<noteq> CHR ''e'' \<and> c \<noteq> CHR ''E'') s;
          ip = takeWhile (\<lambda>c. c \<noteq> CHR ''.'') mantissa; r = dropWhile (\<lambda>c. c \<noteq> CHR ''.'') mantissa in
      float_exponent rest
      \<and> (case r of [] \<Rightarrow> digit_run ip
         | _ # fp \<Rightarrow> (ip = [] \<or> digit_run ip) \<and> (fp = [] \<or> digit_run fp) \<and> (ip \<noteq> [] \<or> fp \<noteq> [])))"

definition float_ok :: "string \<Rightarrow> bool" where
  "float_ok s = (let b = snd (split_sign (strip s)) in
     lower b \<in> {''inf'', ''infinity'', ''nan''} \<or> float_number b)"

definition is_decimal :: "string \<Rightarrow> bool" where
  "is_decimal v \<longleftrightarrow> float_ok v \<and> (CHR ''.'' \<in> set v \<or> CHR ''e'' \<in> set (lower v))"

definition infer_type :: "string list \<Rightarrow> string" where
  "infer_type values =
     (let non_empty = filter (\<lambda>v. v \<noteq> []) (map strip values) in
      if non_empty = [] then ''text''
      else if list_all (\<lambda>v. lower v \<in> BOOLEAN_TRUE_VALUES \<union> BOOLEAN_FALSE_VALUES) non_empty then ''boolean''
      else if list_all (\<lambda>v. isdigit (dropWhile (\<lambda>c. c = CHR ''-'') v)) non_empty then ''integer''
      else if list_all is_decimal non_empty then ''decimal''
      else if list_all looks_like_date non_empty then ''date''
      else if list_all looks_like_datetime non_empty then ''datetime''
      else ''text'')"

record preview =
  pv_encoding :: string
  pv_delimiter :: char
  pv_headers :: "string list"
  pv_sample_rows :: "string list list"
  pv_columns :: "(string \<times> string) list"

text \<open>\<open>head.decode(encoding, errors="replace")\<close> and \<open>list(csv.reader(...))\<close> may raise.\<close>

definition inspect_sample :: "library \<Rightarrow> bytes \<Rightarrow> exn + preview" where
  "inspect_sample L head =
     (let encoding = detect_encoding head in
      case decode_replace L encoding of None \<Rightarrow> Inl LookupError
      | Some decode \<Rightarrow>
        let sample_text = decode head; delimiter = detect_delimiter L sample_text in
        (case csv_rows delimiter None (text_lines sample_text) of
           (_, Some e) \<Rightarrow> Inl e
         | (all_rows, None) \<Rightarrow>
           let rows = (if length head \<ge> SAMPLE_BYTES \<and> all_rows \<noteq> [] then butlast all_rows else all_rows) in
           if rows = [] then Inl InspectionError
           else let headers = hd rows; sample_rows = take SAMPLE_ROWS (tl rows) in
             Inr \<lparr>pv_encoding = encoding, pv_delimiter = delimiter, pv_headers = headers,
               pv_sample_rows = sample_rows,
               pv_columns = map (\<lambda>(i, header). (header,
                 infer_type (map (\<lambda>row. row ! i) (filter (\<lambda>row. i < length row) sample_rows))))
                 (List.enumerate 0 headers)\<rparr>))"

section \<open>Conversion\<close>

text \<open>\<open>json.loads\<close> gives the driver plain Python objects.\<close>

fun python_object :: "json \<Rightarrow> pg_value" where
  "python_object JNull = VNull"
| "python_object (JBool b) = VBool b"
| "python_object (JInt i) = VInt i"
| "python_object (JFloat s) = VFloat s"
| "python_object (JStr s) = VStr s"
| "python_object j = VPyObject j"

definition convert_value :: "library \<Rightarrow> string \<Rightarrow> string \<Rightarrow> exn + pg_value" where
  "convert_value L text dtype =
     (let raw = strip text in
      if raw = [] then Inr VNull
      else if dtype = ''integer'' \<or> dtype = ''bigint'' then
        (case int_of_str raw of Some i \<Rightarrow> Inr (VInt i) | None \<Rightarrow> Inl ValueError)
      else if dtype = ''decimal'' then if decimal_ok raw then Inr (VDecimal raw) else Inl ValueError
      else if dtype = ''boolean'' then
        if lower raw \<in> BOOLEAN_TRUE_VALUES then Inr (VBool True)
        else if lower raw \<in> BOOLEAN_FALSE_VALUES then Inr (VBool False)
        else Inl ValueError
      else if dtype = ''date'' then
        (case strptime_date raw of Some (y, m, d) \<Rightarrow> Inr (VDate y m d) | None \<Rightarrow> Inl ValueError)
      else if dtype = ''datetime'' then
        (case first_format DATETIME_FORMATS raw of Some v \<Rightarrow> Inr v | None \<Rightarrow> Inl ValueError)
      else if dtype = ''uuid'' then
        (case uuid_parse raw of Some u \<Rightarrow> Inr (VStr (uuid_str u)) | None \<Rightarrow> Inl ValueError)
      else if dtype = ''json'' then
        (case json_loads L (encode raw) of Inl e \<Rightarrow> Inl e | Inr j \<Rightarrow> Inr (python_object j))
      else Inr (VStr raw))"

text \<open>\<open>_convert_value(row.get(csv_column, ""), target_type)\<close>: a column the header has but the row lacks
  is \<open>None\<close>, which has no \<open>strip\<close>.\<close>

definition convert_cell :: "library \<Rightarrow> (string option \<times> csv_cell) list \<Rightarrow> column_mapping \<Rightarrow> exn + pg_value" where
  "convert_cell L row m = (case map_of row (Some (csv_column m)) of
     None \<Rightarrow> convert_value L '''' (target_type m)
   | Some (Cell s) \<Rightarrow> convert_value L s (target_type m)
   | Some _ \<Rightarrow> Inl AttributeError)"

fun convert_row :: "library \<Rightarrow> (string option \<times> csv_cell) list \<Rightarrow> column_mapping list \<Rightarrow> exn + pg_value list" where
  "convert_row L row [] = Inr []"
| "convert_row L row (m # ms) = (case convert_cell L row m of Inl e \<Rightarrow> Inl e
     | Inr v \<Rightarrow> (case convert_row L row ms of Inl e \<Rightarrow> Inl e | Inr vs \<Rightarrow> Inr (v # vs)))"

section \<open>Starting an import\<close>

text \<open>The organizations a job belongs to: the join through its table.\<close>

definition import_job_organizations :: "control \<Rightarrow> import_job \<Rightarrow> uuid list" where
  "import_job_organizations c j = [org. t \<leftarrow> db_tables c, tbl_id t = ij_table j,
     org \<leftarrow> table_organizations c t]"

definition get_member_import_job :: "user \<Rightarrow> uuid \<Rightarrow> import_job app" where
  "get_member_import_job user i = or_404 (get_one (
     member_rows import_jobs ij_id import_job_organizations (user_id user) i))"

interpretation import_job_lookup:
  member_lookup get_member_import_job import_jobs ij_id import_job_organizations
  by (rule member_lookup_join) (rule get_member_import_job_def)

definition RESERVED_TARGET_COLUMNS :: "string set" where "RESERVED_TARGET_COLUMNS = {''id''}"

text \<open>The loop over the mapping, with the targets already seen. \<open>columns_by_name\<close> is the column of a
  name; the names of a table are distinct.\<close>

fun check_entries :: "db_column list \<Rightarrow> string set \<Rightarrow> column_mapping list \<Rightarrow> bool" where
  "check_entries columns seen [] = True"
| "check_entries columns seen (m # ms) =
    (if csv_column m = [] \<or> target_column m = [] \<or> target_type m = [] then False
     else if target_column m \<in> RESERVED_TARGET_COLUMNS then False
     else if target_column m \<in> seen then False
     else case find (\<lambda>x. col_name x = target_column m) columns of
         None \<Rightarrow> False
       | Some column \<Rightarrow> if data_type column \<noteq> target_type m then False
           else check_entries columns (insert (target_column m) seen) ms)"

definition validate_column_mapping :: "db_table \<Rightarrow> column_mapping list \<Rightarrow> unit app" where
  "validate_column_mapping t mapping =
     bind (ensure (mapping \<noteq> []) ImportValidationError) (\<lambda>_.
     bind (query (\<lambda>c. columns_of c t)) (\<lambda>columns.
     ensure (check_entries columns {} mapping) ImportValidationError))"

definition enqueue :: "task \<Rightarrow> unit app" where
  "enqueue t = modify (\<lambda>w. w\<lparr>tasks := tasks w @ [t]\<rparr>)"

definition start_import ::
  "user \<Rightarrow> db_table \<Rightarrow> file_object \<Rightarrow> string \<Rightarrow> string \<Rightarrow> column_mapping list \<Rightarrow> import_job app" where
  "start_import actor t f encoding delimiter mapping =
     bind (Table_organization_id t) (\<lambda>org.
     bind (has_permission (Some actor) ''dataset.import'' (Some org) None) (\<lambda>allowed.
     bind (ensure allowed ImportPermissionDenied) (\<lambda>_.
     bind (validate_column_mapping t mapping) (\<lambda>_.
     bind uuid4 (\<lambda>i.
     let job = \<lparr>ij_id = i, ij_file = file_id f, ij_table = tbl_id t, ij_encoding = encoding,
           ij_delimiter = delimiter, ij_column_mapping = mapping, ij_status = Pending, total_rows = None,
           imported_rows = 0, rejected_rows = 0, last_processed_row = 0, ij_error_message = '''',
           ij_created_by = user_id actor, ij_started_at = None, ij_completed_at = None\<rparr> in
     bind (orm_create import_jobs import_jobs_update import_job_clash job) (\<lambda>_.
     bind (enqueue (RunImportTask i)) (\<lambda>_.
     ret job)))))))"

section \<open>Running it\<close>

definition CHUNK_ROWS :: nat where "CHUNK_ROWS = 1000"
definition MAX_STORED_ERRORS :: nat where "MAX_STORED_ERRORS = 1000"

text \<open>The lines of the body and what ends them: a broken stream, an unknown codec at the first line.\<close>

definition decoded_lines :: "library \<Rightarrow> nat option \<Rightarrow> string \<Rightarrow> bytes \<Rightarrow> string list \<times> exn option" where
  "decoded_lines L breaks encoding content =
     (let ls = stream_lines L content;
          got = (case breaks of None \<Rightarrow> ls | Some k \<Rightarrow> take k ls);
          fin = (if breaks = None then None else Some StorageError) in
      case decode_replace L encoding of
        Some decode \<Rightarrow> (map decode got, fin)
      | None \<Rightarrow> ([], if got = [] then fin else Some LookupError))"

text \<open>The argument check of \<open>csv.DictReader(..., delimiter=...)\<close>.\<close>

definition reader_delimiter :: "string \<Rightarrow> exn + char" where
  "reader_delimiter s = (case s of [d] \<Rightarrow> if d = quote \<or> newline d then Inl ValueError else Inr d
     | _ \<Rightarrow> Inl TypeError)"

definition INSERT_IMPORTED :: "string \<Rightarrow> string \<Rightarrow> string list \<Rightarrow> composable" where
  "INSERT_IMPORTED schema table columns =
     Composed [SQL ''INSERT INTO '', Identifier schema, SQL ''.'', Identifier table, SQL '' ('',
       identifier_list columns, SQL '') VALUES ('',
       Composed (sql_join '', '' (map (\<lambda>_. Placeholder) columns)), SQL '')'']"

definition save_job :: "import_job \<Rightarrow> (import_job \<Rightarrow> import_job) \<Rightarrow> unit app" where
  "save_job job f = orm_update import_jobs import_jobs_update import_job_clash ij_id (ij_id job) f"

text \<open>The local variables of \<open>run_import\<close>.\<close>

record progress =
  pr_imported :: nat
  pr_rejected :: nat
  pr_row_number :: nat
  pr_last :: nat
  pr_pending :: "import_job_error list"

definition checkpoint :: "import_job \<Rightarrow> progress \<Rightarrow> import_job app" where
  "checkpoint job p =
     (let change = (\<lambda>j. j\<lparr>imported_rows := pr_imported p, rejected_rows := pr_rejected p,
            last_processed_row := pr_last p\<rparr>) in
      bind (save_job job change) (\<lambda>_.
      bind (if pr_pending p \<noteq> [] then on_ctl (import_job_errors_update (\<lambda>es. es @ pr_pending p)) else ret ()) (\<lambda>_.
      ret (change job))))"

text \<open>One row: conversion and insertion, in its own transaction.\<close>

definition import_row :: "composable \<Rightarrow> column_mapping list \<Rightarrow> (string option \<times> csv_cell) list \<Rightarrow> unit app" where
  "import_row insert_sql mapping row =
     bind (gets (\<lambda>w. convert_row (lib (env w)) row mapping)) (\<lambda>r.
     bind (lift r) (\<lambda>values.
     bind (atomic_tenant (tenant_execute insert_sql values)) (\<lambda>_. ret ())))"

definition rejection :: "import_job \<Rightarrow> nat \<Rightarrow> (string option \<times> csv_cell) list \<Rightarrow> string \<Rightarrow> import_job_error" where
  "rejection job n row text =
     \<lparr>ije_job = ij_id job, ije_row_number = n, ije_message = take 500 text, ije_raw_row = row\<rparr>"

definition connection_broken :: "exn \<Rightarrow> bool" where
  "connection_broken e \<longleftrightarrow> e = DbError OperationalError \<or> e = DbError InterfaceError"

text \<open>What the row's outcome does to the variables.\<close>

definition counted :: "import_job \<Rightarrow> nat \<Rightarrow> (string option \<times> csv_cell) list \<Rightarrow> string option \<Rightarrow> progress \<Rightarrow> progress" where
  "counted job n row failure p = (case failure of
     None \<Rightarrow> p\<lparr>pr_imported := Suc (pr_imported p), pr_last := n\<rparr>
   | Some text \<Rightarrow> p\<lparr>pr_rejected := Suc (pr_rejected p), pr_last := n,
       pr_pending := pr_pending p @ (if length (pr_pending p) < MAX_STORED_ERRORS then [rejection job n row text] else [])\<rparr>)"

text \<open>The end of the loop's body: every thousand rows a checkpoint.\<close>

definition row_done :: "import_job \<Rightarrow> nat \<Rightarrow> progress \<Rightarrow> ((exn + import_job) \<times> progress) app" where
  "row_done job n p =
     (if n mod CHUNK_ROWS = 0 then
        bind (attempt (checkpoint job p)) (\<lambda>c. case c of
          Inl e \<Rightarrow> ret (Inl e, p)
        | Inr job' \<Rightarrow> ret (Inr job', p\<lparr>pr_pending := []\<rparr>))
      else ret (Inr job, p))"

text \<open>The loop over the numbered rows. It returns the exception that left it, if one did, with the
  job and the variables as they were then: the handler of the \<open>try\<close> around the loop sees them.\<close>

fun import_rows :: "composable \<Rightarrow> import_job \<Rightarrow> (nat \<times> (string option \<times> csv_cell) list) list \<Rightarrow> progress
    \<Rightarrow> (exn option \<times> import_job \<times> progress) app" where
  "import_rows ins job [] p = ret (None, job, p)"
| "import_rows ins job ((n, row) # rows) p0 =
    (let p = p0\<lparr>pr_row_number := n\<rparr> in
     if n \<le> last_processed_row job then import_rows ins job rows p
     else
       bind (attempt (import_row ins (ij_column_mapping job) row)) (\<lambda>r.
       if (case r of Inl e \<Rightarrow> connection_broken e | Inr _ \<Rightarrow> False) then
         ret (Some (projl r), job, p)
       else
         bind (gets (\<lambda>w. exn_str (env w))) (\<lambda>str.
         bind (row_done job n (counted job n row (case r of Inl e \<Rightarrow> Some (str e) | Inr _ \<Rightarrow> None) p)) (\<lambda>(c, q).
         case c of Inl e \<Rightarrow> ret (Some e, job, q) | Inr job' \<Rightarrow> import_rows ins job' rows q))))"

text \<open>The \<open>try\<close> around the loop, its handler, and what follows it.\<close>

definition import_stream :: "composable \<Rightarrow> import_job \<Rightarrow> (string option \<times> csv_cell) list list \<Rightarrow> exn option
    \<Rightarrow> unit app" where
  "import_stream ins job rows failure =
     bind (import_rows ins job (List.enumerate 1 rows) \<lparr>pr_imported = imported_rows job,
       pr_rejected = rejected_rows job, pr_row_number = last_processed_row job,
       pr_last = last_processed_row job, pr_pending = []\<rparr>) (\<lambda>(broken, job1, p).
     case (if broken \<noteq> None then broken else failure) of
       Some e \<Rightarrow> bind (checkpoint job1 p) (\<lambda>_. raise e)
     | None \<Rightarrow>
         bind (checkpoint job1 p) (\<lambda>job2.
         bind now (\<lambda>t1.
         save_job job2 (\<lambda>j. j\<lparr>total_rows := Some (pr_row_number p), ij_status := Completed,
           ij_completed_at := Some t1\<rparr>))))"

definition run_import :: "uuid \<Rightarrow> unit app" where
  "run_import job_id =
     bind (get_one (\<lambda>c. filter (\<lambda>j. ij_id j = job_id) (import_jobs c))) (\<lambda>job0.
     bind now (\<lambda>t0.
     let start = (\<lambda>j. j\<lparr>ij_status := Running, ij_started_at := Some t0\<rparr>); job = start job0 in
     bind (save_job job start) (\<lambda>_.
     bind (get_one (\<lambda>c. filter (\<lambda>t. tbl_id t = ij_table job) (db_tables c))) (\<lambda>t.
     bind (table_database t) (\<lambda>d.
     let ins = INSERT_IMPORTED (schema_name d) (tbl_name t) (map target_column (ij_column_mapping job)) in
     bind (get_one (\<lambda>c. filter (\<lambda>f. file_id f = ij_file job) (files c))) (\<lambda>f.
     bind (gets s3_calls) (\<lambda>call.
     bind (s3_get (object_key f)) (\<lambda>content.
     bind (gets (\<lambda>w. decoded_lines (lib (env w)) (stream_breaks (env w) call) (ij_encoding job) content)) (\<lambda>(ls, fin).
     bind (lift (reader_delimiter (ij_delimiter job))) (\<lambda>delimiter.
     let (rows, failure) = dict_rows delimiter fin ls in
     import_stream ins job rows failure))))))))))"

section \<open>The task\<close>

definition MAX_RETRIES :: nat where "MAX_RETRIES = 3"

text \<open>\<open>self.retry(exc=exc)\<close> of a task at its \<open>retries\<close>-th retry always raises: \<open>retry_outcome\<close> says
  what. \<open>Retry\<close> means that the task was queued again.\<close>

definition self_retry :: "task \<Rightarrow> nat \<Rightarrow> nat \<Rightarrow> exn \<Rightarrow> unit app" where
  "self_retry t max_retries retries e =
     bind (gets (\<lambda>w. retry_outcome (env w) retries max_retries e)) (\<lambda>x.
     bind (if x = Retry then enqueue t else ret ()) (\<lambda>_. raise x))"

definition run_import_task :: "nat \<Rightarrow> uuid \<Rightarrow> unit app" where
  "run_import_task retries job_id =
     catch (run_import job_id) (\<lambda>exc.
       catch (self_retry (RunImportTask job_id) MAX_RETRIES retries exc) (\<lambda>x.
         if x = MaxRetriesExceeded then
           bind (gets (\<lambda>w. exn_str (env w) exc)) (\<lambda>text.
           bind (on_ctl (import_jobs_update (update_where (\<lambda>j. ij_id j = job_id)
             (\<lambda>j. j\<lparr>ij_status := Failed, ij_error_message := take 2000 text\<rparr>)))) (\<lambda>_.
           raise MaxRetriesExceeded))
         else raise x))"

section \<open>Views\<close>

definition s3_get_prefix :: "string \<Rightarrow> nat \<Rightarrow> bytes app" where
  "s3_get_prefix key n = bind (s3_get key) (\<lambda>content. ret (take n content))"

definition preview_json :: "preview \<Rightarrow> json" where
  "preview_json p = JObj [(''encoding'', JStr (pv_encoding p)), (''delimiter'', JStr [pv_delimiter p]),
     (''headers'', JList (map JStr (pv_headers p))),
     (''sample_rows'', JList (map (\<lambda>r. JList (map JStr r)) (pv_sample_rows p))),
     (''columns'', JList (map (\<lambda>(c, t). JObj [(''csv_column'', JStr c), (''inferred_type'', JStr t)]) (pv_columns p)))]"

definition ImportPreview_get :: "user \<Rightarrow> uuid \<Rightarrow> response app" where
  "ImportPreview_get user fid =
     bind (get_member_file user fid) (\<lambda>f.
     bind (File_organization_id f) (\<lambda>org.
     bind (has_permission (Some user) ''dataset.import'' (Some org) None) (\<lambda>allowed.
     if \<not> allowed then respond 403 NoBody
     else bind (s3_get_prefix (object_key f) SAMPLE_BYTES) (\<lambda>head.
     bind (gets (\<lambda>w. inspect_sample (lib (env w)) head)) (\<lambda>r. case r of
         Inr p \<Rightarrow> respond 200 (Data (preview_json p))
       | Inl e \<Rightarrow> if e = InspectionError then detail_response 400 e else raise e)))))"

definition ImportJobList_get :: "user \<Rightarrow> uuid \<Rightarrow> response app" where
  "ImportJobList_get user i =
     bind (get_member_table user i) (\<lambda>t.
     bind (query (\<lambda>c. filter (\<lambda>j. ij_table j = tbl_id t) (import_jobs c))) (\<lambda>js.
     respond 200 (ImportJobsBody js)))"

record import_data =
  id_file_id :: uuid
  id_encoding :: string
  id_delimiter :: string
  id_column_mapping :: "column_mapping list"

definition ImportJobList_post :: "user \<Rightarrow> uuid \<Rightarrow> import_data option \<Rightarrow> response app" where
  "ImportJobList_post user i data =
     bind (get_member_table user i) (\<lambda>t.
     bind (validated data) (\<lambda>d.
     bind (get_member_file user (id_file_id d)) (\<lambda>f.
     bind (File_organization_id f) (\<lambda>file_org.
     bind (Table_organization_id t) (\<lambda>table_org.
     if file_org \<noteq> table_org then respond 400 (Detail ''file and table must belong to the same organization'')
     else bind (attempt (start_import user t f (id_encoding d) (id_delimiter d) (id_column_mapping d))) (\<lambda>r. case r of
         Inr job \<Rightarrow> respond 201 (ImportJobBody job)
       | Inl e \<Rightarrow> if e = ImportPermissionDenied then respond 403 NoBody
           else if e = ImportValidationError then detail_response 400 e
           else raise e))))))"

definition ImportJobDetail_get :: "user \<Rightarrow> uuid \<Rightarrow> response app" where
  "ImportJobDetail_get user i =
     bind (get_member_import_job user i) (\<lambda>j. respond 200 (ImportJobBody j))"

text \<open>In the order of the row numbers.\<close>

definition ImportJobErrorList_get :: "user \<Rightarrow> uuid \<Rightarrow> response app" where
  "ImportJobErrorList_get user i =
     bind (get_member_import_job user i) (\<lambda>j.
     bind (query (\<lambda>c. sort_key ije_row_number (filter (\<lambda>e. ije_job e = ij_id j) (import_job_errors c)))) (\<lambda>es.
     respond 200 (ImportErrorsBody (take 200 es))))"

section \<open>Every row once\<close>

text \<open>The stored row of a job, the rows of its file, the statement it inserts them with.\<close>

definition stored :: "uuid \<Rightarrow> control \<Rightarrow> import_job list" where
  "stored i c = filter (\<lambda>j. ij_id j = i) (import_jobs c)"

definition file_rows :: "world \<Rightarrow> import_job \<Rightarrow> (string option \<times> csv_cell) list list" where
  "file_rows w job = (case filter (\<lambda>f. file_id f = ij_file job) (files (ctl w)) of
     [f] \<Rightarrow> (case (objects w (object_key f), decode_replace (lib (env w)) (ij_encoding job), reader_delimiter (ij_delimiter job)) of
         (Some content, Some decode, Inr d) \<Rightarrow> fst (dict_rows d None (map decode (stream_lines (lib (env w)) content)))
       | _ \<Rightarrow> [])
   | _ \<Rightarrow> [])"

definition job_insert :: "control \<Rightarrow> import_job \<Rightarrow> composable" where
  "job_insert c job = (case filter (\<lambda>t. tbl_id t = ij_table job) (db_tables c) of
     [t] \<Rightarrow> (case filter (\<lambda>d. tdb_id d = tbl_database t) (tenant_databases c) of
         [d] \<Rightarrow> INSERT_IMPORTED (schema_name d) (tbl_name t) (map target_column (ij_column_mapping job))
       | _ \<Rightarrow> SQL '''')
   | _ \<Rightarrow> SQL '''')"

text \<open>What a stretch of the import did: the rows with the numbers \<open>ns\<close>, in ascending order and all
  of the stretch, were inserted with their converted values, one statement each; every row of the
  stretch was counted as imported or as rejected.\<close>

definition tally :: "library \<Rightarrow> composable \<Rightarrow> column_mapping list \<Rightarrow> (string option \<times> csv_cell) list list
    \<Rightarrow> stmt list \<Rightarrow> nat \<times> nat \<times> nat \<Rightarrow> stmt list \<Rightarrow> nat \<times> nat \<times> nat \<Rightarrow> bool" where
  "tally L ins ms rows h p h' p' = (case (p, p') of ((imp, rej, lp), (imp', rej', lp')) \<Rightarrow>
     \<exists>ns. sorted_wrt (<) ns \<and> set ns \<subseteq> {lp<..lp'}
       \<and> h' = h @ map (\<lambda>n. (ins, projr (convert_row L (rows ! (n - 1)) ms))) ns
       \<and> imp' = imp + length ns \<and> imp' + rej' + lp = imp + rej + lp' \<and> lp \<le> lp'
       \<and> lp' \<le> max lp (length rows))"

lemma tally_refl: "tally L ins ms rows h p h p"
  by (cases p) (simp add: tally_def exI [of _ "[]"])

lemma tally_trans:
  assumes "tally L ins ms rows h p h' p'" and "tally L ins ms rows h' p' h'' p''"
  shows "tally L ins ms rows h p h'' p''"
proof -
  obtain a b l a' b' l' a'' b'' l'' where p: "p = (a, b, l)" "p' = (a', b', l')" "p'' = (a'', b'', l'')"
    by (cases p; cases p'; cases p'')
  obtain ns ns' where ns: "sorted_wrt (<) ns" "set ns \<subseteq> {l<..l'}" "sorted_wrt (<) ns'" "set ns' \<subseteq> {l'<..l''}"
    and h: "h' = h @ map (\<lambda>n. (ins, projr (convert_row L (rows ! (n - 1)) ms))) ns"
      "h'' = h' @ map (\<lambda>n. (ins, projr (convert_row L (rows ! (n - 1)) ms))) ns'"
    and eqs: "a' = a + length ns" "a'' = a' + length ns'" "a' + b' + l = a + b + l'" "a'' + b'' + l' = a' + b' + l''"
      "l \<le> l'" "l' \<le> l''" "l' \<le> max l (length rows)" "l'' \<le> max l' (length rows)"
    using assms unfolding tally_def p by auto
  have "sorted_wrt (<) (ns @ ns')" using ns by (force simp: sorted_wrt_append)
  moreover have "set (ns @ ns') \<subseteq> {l<..l''}" using ns eqs by force
  moreover have "l'' \<le> max l (length rows)" using eqs by linarith
  ultimately show ?thesis
    unfolding tally_def p using h eqs by (intro case_prodI exI [of _ "ns @ ns'"]) simp
qed

lemma tally_step:
  assumes "n = Suc l" and "n \<le> length rows"
  shows "h' = h @ [(ins, projr (convert_row L (rows ! (n - 1)) ms))] \<Longrightarrow> tally L ins ms rows h (a, b, l) h' (Suc a, b, n)"
    and "tally L ins ms rows h (a, b, l) h (a, Suc b, n)"
  using assms by (auto simp: tally_def intro: exI [of _ "[n]"] exI [of _ "[]"])

lemma stored_update [simp]:
  "(\<And>j. ij_id (f j) = ij_id j) \<Longrightarrow>
     stored i (import_jobs_update (update_where (\<lambda>j. ij_id j = i) f) c) = map f (stored i c)"
  by (simp add: stored_def filter_map comp_def update_where_def)

lemma stored_cong [simp]: "stored i (import_job_errors_update g c) = stored i c"
  by (simp add: stored_def)

lemma save_job_run:
  assumes "\<And>j. ij_id (f j) = ij_id j"
  shows "save_job job f w = (Inr (), w\<lparr>ctl := import_jobs_update (update_where (\<lambda>j. ij_id j = ij_id job) f) (ctl w)\<rparr>)"
  using assms by (auto simp: save_job_def orm_update_def import_job_clash_def list_ex_iff)

text \<open>The job is stored once, and running.\<close>

definition running :: "uuid \<Rightarrow> control \<Rightarrow> bool" where
  "running i c \<longleftrightarrow> (\<exists>r. stored i c = [r] \<and> ij_status r = Running)"

abbreviation counts :: "progress \<Rightarrow> nat \<times> nat \<times> nat" where
  "counts p \<equiv> (pr_imported p, pr_rejected p, pr_last p)"

lemma wp_checkpoint:
  assumes "ij_id job = i" and "stored i (ctl w) = [r]"
  shows "wp (checkpoint job p) (\<lambda>job' w'. job' = job\<lparr>imported_rows := pr_imported p,
        rejected_rows := pr_rejected p, last_processed_row := pr_last p\<rparr>
      \<and> stored i (ctl w') = [r\<lparr>imported_rows := pr_imported p, rejected_rows := pr_rejected p,
          last_processed_row := pr_last p\<rparr>]
      \<and> tnt w' = tnt w \<and> env w' = env w) (\<lambda>e w'. False) w"
  using assms by (simp add: checkpoint_def wp_def bind_def save_job_run)

lemma wp_row_done:
  assumes "ij_id job = i" and "running i (ctl w)" and "last_processed_row job \<le> pr_last p"
  shows "wp (row_done job n p) (\<lambda>(c, q) w'. (\<exists>job'. c = Inr job' \<and> ij_id job' = i
        \<and> ij_column_mapping job' = ij_column_mapping job \<and> last_processed_row job' \<le> pr_last q)
      \<and> counts q = counts p \<and> running i (ctl w') \<and> tnt w' = tnt w \<and> env w' = env w) (\<lambda>e w'. False) w"
proof -
  obtain r where r: "stored i (ctl w) = [r]" "ij_status r = Running" using assms(2) by (auto simp: running_def)
  show ?thesis
  proof (cases "n mod CHUNK_ROWS = 0")
    case True
    show ?thesis
      unfolding row_done_def using True
      by simp (rule wp_mono [OF wp_checkpoint [OF assms(1) r(1), of p]]; use r assms in \<open>simp add: running_def\<close>)
  next
    case False
    then show ?thesis using assms by (simp add: row_done_def)
  qed
qed

lemma wp_import_row:
  "wp (import_row ins ms row)
     (\<lambda>_ w'. tnt w' = tnt w @ [(ins, projr (convert_row (lib (env w)) row ms))] \<and> ctl w' = ctl w \<and> env w' = env w)
     (\<lambda>e w'. tnt w' = tnt w \<and> ctl w' = ctl w \<and> env w' = env w) w"
  by (simp add: import_row_def wp_tenant_execute split: sum.split)

lemma counted_counts:
  "counts (counted job n row failure p) = (case failure of
     None \<Rightarrow> (Suc (pr_imported p), pr_rejected p, n) | Some _ \<Rightarrow> (pr_imported p, Suc (pr_rejected p), n))"
  by (simp add: counted_def split: option.split)

lemma wp_import_rows:
  assumes "ij_id job = i" and "running i (ctl w)" and "drop (k - 1) rows = rs" and "1 \<le> k"
    and "k \<le> Suc (pr_last p)" and "k \<le> pr_last p \<longrightarrow> last_processed_row job = pr_last p"
    and "last_processed_row job \<le> pr_last p"
  shows "wp (import_rows ins job (List.enumerate k rs) p) (\<lambda>(e, job', p') w'.
      tally (lib (env w)) ins (ij_column_mapping job) rows (tnt w) (counts p) (tnt w') (counts p')
      \<and> running i (ctl w') \<and> ij_id job' = i \<and> env w' = env w
      \<and> (e = None \<longrightarrow> length rows \<le> pr_last p'))
    (\<lambda>e w'. False) w"
  using assms
proof (induction rs arbitrary: k job p w)
  case Nil
  then show ?case by (auto simp: tally_refl wp_def)
next
  case (Cons row rs)
  let ?p = "p\<lparr>pr_row_number := k\<rparr>"
  have k: "k \<le> length rows" "row = rows ! (k - 1)" "drop (Suc k - 1) rows = rs"
  proof -
    have "length (drop (k - 1) rows) = Suc (length rs)" using Cons.prems(3) by simp
    then show "k \<le> length rows" using Cons.prems(4) by simp
    have "rows ! (k - 1) = drop (k - 1) rows ! 0" using \<open>k \<le> length rows\<close> Cons.prems(4) by simp
    then show "row = rows ! (k - 1)" using Cons.prems(3) by simp
    have "drop 1 (drop (k - 1) rows) = rs" using Cons.prems(3) by simp
    then show "drop (Suc k - 1) rows = rs" using Cons.prems(4) by simp
  qed
  let ?Q = "\<lambda>(e, job', p') w'. tally (lib (env w)) ins (ij_column_mapping job) rows (tnt w) (counts p) (tnt w') (counts p')
      \<and> running i (ctl w') \<and> ij_id job' = i \<and> env w' = env w \<and> (e = None \<longrightarrow> length rows \<le> pr_last p')"
  show ?case
  proof (cases "k \<le> last_processed_row job")
    case True
    then show ?thesis using Cons.IH [of job w "Suc k" ?p] Cons.prems k by simp
  next
    case False
    then have next_row: "k = Suc (pr_last p)" using Cons.prems(5,6,7) by linarith
    have rest: "wp (bind (row_done job k q) (\<lambda>(c, q). case c of Inl e \<Rightarrow> ret (Some e, job, q)
          | Inr job' \<Rightarrow> import_rows ins job' (List.enumerate (Suc k) rs) q))
        ?Q (\<lambda>e w'. False) v"
      if v: "running i (ctl v)" "env v = env w" and q: "pr_last q = k"
        "tally (lib (env w)) ins (ij_column_mapping job) rows (tnt w) (counts p) (tnt v) (counts q)" for q and v :: world
    proof -
      let ?S = "\<lambda>(c, q') w'. (\<exists>job'. c = Inr job' \<and> ij_id job' = i
            \<and> ij_column_mapping job' = ij_column_mapping job \<and> last_processed_row job' \<le> pr_last q')
          \<and> counts q' = counts q \<and> running i (ctl w') \<and> tnt w' = tnt v \<and> env w' = env v"
      have step: "wp (row_done job k q) ?S (\<lambda>e w'. False) v"
        using Cons.prems(1,7) v(1) q(1) next_row by (intro wp_row_done) simp_all
      show ?thesis
        unfolding wp_bind
      proof (rule wp_mono [OF step])
        fix x :: "(exn + import_job) \<times> progress" and w' :: world
        assume "?S x w'"
        then obtain q' and job' :: import_job where x: "x = (Inr job', q')" and job': "ij_id job' = i"
          "ij_column_mapping job' = ij_column_mapping job" "last_processed_row job' \<le> pr_last q'"
          and w': "counts q' = counts q" "running i (ctl w')" "tnt w' = tnt v" "env w' = env v"
          by (cases x) auto
        let ?R = "\<lambda>(e, job'', p') w''.
            tally (lib (env w')) ins (ij_column_mapping job') rows (tnt w') (counts q') (tnt w'') (counts p')
            \<and> running i (ctl w'') \<and> ij_id job'' = i \<and> env w'' = env w' \<and> (e = None \<longrightarrow> length rows \<le> pr_last p')"
        have "wp (import_rows ins job' (List.enumerate (Suc k) rs) q') ?R (\<lambda>e w'. False) w'"
          using job' w' k(3) q(1) by (intro Cons.IH) simp_all
        moreover have "?Q y t" if "?R y t" for y and t :: world
          using that tally_trans [OF q(2)] w' v(2) job'(2) by (cases y) auto
        ultimately have "wp (import_rows ins job' (List.enumerate (Suc k) rs) q') ?Q (\<lambda>e w'. False) w'"
          by (rule wp_mono)
        then show "wp (case x of (c, q) \<Rightarrow> (case c of Inl e \<Rightarrow> ret (Some e, job, q)
          | Inr job' \<Rightarrow> import_rows ins job' (List.enumerate (Suc k) rs) q)) ?Q (\<lambda>e w'. False) w'"
          by (simp only: x prod.case sum.case)
      qed simp
    qed
    have imported: "tally (lib (env w)) ins (ij_column_mapping job) rows (tnt w) (counts p) (tnt v)
        (Suc (pr_imported p), pr_rejected p, k)"
      if "tnt v = tnt w @ [(ins, projr (convert_row (lib (env w)) row (ij_column_mapping job)))]" for v :: world
      using tally_step(1) [OF next_row k(1)] that k(2) by simp
    have rejected: "tally (lib (env w)) ins (ij_column_mapping job) rows (tnt w) (counts p) (tnt w)
        (pr_imported p, Suc (pr_rejected p), k)"
      by (rule tally_step(2) [OF next_row k(1)])
    show ?thesis
      unfolding enumerate_simps import_rows.simps Let_def if_not_P [OF False] wp_bind wp_attempt
    proof (rule wp_mono [OF wp_import_row], goal_cases)
      case (1 x v)
      then show ?case
        using rest [of v "counted job k row None ?p"] imported [of v] Cons.prems(2)
        by (simp add: counted_counts) (simp add: counted_def)
    next
      case (2 e v)
      then show ?case
        using rest [of v "counted job k row (Some (exn_str (env v) e)) ?p"] rejected Cons.prems(1,2)
        by (simp add: counted_counts tally_refl) (simp add: counted_def)
    qed
  qed
qed

abbreviation job_counts :: "import_job \<Rightarrow> nat \<times> nat \<times> nat" where
  "job_counts j \<equiv> (imported_rows j, rejected_rows j, last_processed_row j)"

lemma wp_save_jobI:
  assumes "\<And>j. ij_id (f j) = ij_id j"
    and "Q () (w\<lparr>ctl := import_jobs_update (update_where (\<lambda>j. ij_id j = ij_id job) f) (ctl w)\<rparr>)"
  shows "wp (save_job job f) Q E w"
  using assms(2) by (simp add: wp_def save_job_run [OF assms(1)])

lemma wp_import_stream:
  assumes "ij_id job = i" and "running i (ctl w)"
  shows "wp (import_stream ins job rows failure)
    (\<lambda>_ w'. \<exists>j. stored i (ctl w') = [j] \<and> ij_status j = Completed \<and> failure = None
      \<and> tally (lib (env w)) ins (ij_column_mapping job) rows (tnt w) (job_counts job) (tnt w') (job_counts j)
      \<and> length rows \<le> last_processed_row j)
    (\<lambda>e w'. \<exists>j. stored i (ctl w') = [j] \<and> ij_status j = Running
      \<and> tally (lib (env w)) ins (ij_column_mapping job) rows (tnt w) (job_counts job) (tnt w') (job_counts j)) w"
    (is "wp _ ?Q ?E w")
proof -
  let ?p = "\<lparr>pr_imported = imported_rows job, pr_rejected = rejected_rows job, pr_row_number = last_processed_row job,
       pr_last = last_processed_row job, pr_pending = []\<rparr>"
  let ?R = "\<lambda>(e, job', p') w'. tally (lib (env w)) ins (ij_column_mapping job) rows (tnt w) (counts ?p) (tnt w') (counts p')
      \<and> running i (ctl w') \<and> ij_id job' = i \<and> env w' = env w \<and> (e = None \<longrightarrow> length rows \<le> pr_last p')"
  have loop: "wp (import_rows ins job (List.enumerate 1 rows) ?p) ?R (\<lambda>e w'. False) w"
    using assms by (intro wp_import_rows) simp_all
  show ?thesis
    unfolding import_stream_def wp_bind
  proof (rule wp_mono [OF loop])
    fix x :: "exn option \<times> import_job \<times> progress" and v :: world
    assume "?R x v"
    then obtain e job' p' where x: "x = (e, job', p')" and job': "ij_id job' = i"
      and tally: "tally (lib (env w)) ins (ij_column_mapping job) rows (tnt w) (job_counts job) (tnt v) (counts p')"
      and v: "running i (ctl v)" and all: "e = None \<longrightarrow> length rows \<le> pr_last p'"
      by (cases x) auto
    obtain r where r: "stored i (ctl v) = [r]" "ij_status r = Running" using v by (auto simp: running_def)
    note save = wp_checkpoint [OF job' r(1), of p']
    show "wp (case x of (broken, job1, p) \<Rightarrow> (case (if broken \<noteq> None then broken else failure) of
         Some e \<Rightarrow> bind (checkpoint job1 p) (\<lambda>_. raise e)
       | None \<Rightarrow> bind (checkpoint job1 p) (\<lambda>job2. bind now (\<lambda>t1. save_job job2 (\<lambda>j. j\<lparr>total_rows := Some (pr_row_number p),
           ij_status := Completed, ij_completed_at := Some t1\<rparr>))))) ?Q ?E v"
    proof (cases "if e \<noteq> None then e else failure")
      case (Some exc)
      show ?thesis
        unfolding x prod.case Some option.case wp_bind
        by (rule wp_mono [OF save]) (use tally r in simp_all)
    next
      case None
      then have none: "e = None" "failure = None" by (auto split: if_splits)
      show ?thesis
        unfolding x prod.case None option.case wp_bind
        by (rule wp_mono [OF save]; simp; rule wp_save_jobI) (use tally r none all job' in simp_all)
    qed
  qed simp
qed

lemma tally_prefix:
  assumes "prefix rs rows" and "tally L ins ms rs h p h' p'"
  shows "tally L ins ms rows h p h' p'"
proof -
  obtain a b l a' b' l' where p: "p = (a, b, l)" "p' = (a', b', l')" by (cases p; cases p')
  obtain ns where ns: "sorted_wrt (<) ns" "set ns \<subseteq> {l<..l'}" "a' = a + length ns" "a' + b' + l = a + b + l'" "l \<le> l'"
      "l' \<le> max l (length rs)" and h: "h' = h @ map (\<lambda>n. (ins, projr (convert_row L (rs ! (n - 1)) ms))) ns"
    using assms(2) unfolding p tally_def by auto
  have len: "length rs \<le> length rows" using assms(1) by (rule prefix_length_le)
  have "rs ! (n - 1) = rows ! (n - 1)" if "n \<in> set ns" for n
  proof -
    have "n - 1 < length rs" using that ns by fastforce
    then show ?thesis using assms(1) by (auto simp: prefix_def nth_append)
  qed
  then have "h' = h @ map (\<lambda>n. (ins, projr (convert_row L (rows ! (n - 1)) ms))) ns" using h by simp
  moreover have "l' \<le> max l (length rows)" using ns len by linarith
  ultimately show ?thesis unfolding p tally_def using ns by blast
qed

text \<open>The lines of an attempt are a beginning of the lines of the file.\<close>

lemma rows_read:
  assumes "decoded_lines L breaks enc content = (ls, fin)" and "dict_rows d fin ls = (rows, failure)"
  defines "full \<equiv> (case decode_replace L enc of Some decode \<Rightarrow> fst (dict_rows d None (map decode (stream_lines L content)))
      | None \<Rightarrow> [])"
  shows "prefix rows full" and "failure = None \<Longrightarrow> rows = full"
proof -
  have "prefix rows full \<and> (failure = None \<longrightarrow> rows = full)"
  proof (cases "decode_replace L enc")
    case None
    then show ?thesis using assms by (auto simp: decoded_lines_def Let_def)
  next
    case (Some decode)
    show ?thesis
    proof (cases breaks)
      case None
      then show ?thesis using assms Some by (auto simp: decoded_lines_def Let_def)
    next
      case breaks: (Some k)
      let ?all = "stream_lines L content"
      have ls: "ls = map decode (take k ?all)" "fin = Some StorageError"
        using assms(1) Some breaks by (auto simp: decoded_lines_def Let_def)
      have "prefix (fst (dict_rows d fin ls)) (fst (dict_rows d None (ls @ map decode (drop k ?all))))"
        unfolding ls(2) by (rule dict_rows_prefix)
      moreover have "ls @ map decode (drop k ?all) = map decode ?all"
        by (simp add: ls(1) flip: map_append)
      moreover have "failure \<noteq> None" using dict_rows_broken [of d StorageError ls] assms(2) ls(2) by simp
      ultimately show ?thesis using assms(2,3) Some by auto
    qed
  qed
  then show "prefix rows full" and "failure = None \<Longrightarrow> rows = full" by auto
qed

definition import_ledger :: "world \<Rightarrow> import_job \<Rightarrow> world \<Rightarrow> import_job \<Rightarrow> bool" where
  "import_ledger w job w' job' \<longleftrightarrow>
     tally (lib (env w)) (job_insert (ctl w) job) (ij_column_mapping job) (file_rows w job)
       (tnt w) (job_counts job) (tnt w') (job_counts job')"

lemma wp_run_import:
  assumes "stored i (ctl w) = [job]"
  shows "wp (run_import i)
    (\<lambda>_ w'. \<exists>job'. stored i (ctl w') = [job'] \<and> ij_status job' = Completed
       \<and> import_ledger w job w' job' \<and> length (file_rows w job) \<le> last_processed_row job')
    (\<lambda>e w'. \<exists>job'. stored i (ctl w') = [job'] \<and> ij_status job' = Running \<and> import_ledger w job w' job') w"
    (is "wp _ ?Q ?E w")
proof -
  define start where "start = (\<lambda>j :: import_job. j\<lparr>ij_status := Running, ij_started_at := Some (clock w)\<rparr>)"
  define v where "v = w\<lparr>ctl := import_jobs_update (update_where (\<lambda>j. ij_id j = i) start) (ctl w)\<rparr>"
  have job: "ij_id job = i" using assms by (auto simp: stored_def dest!: arg_cong [of _ _ set])
  have v: "stored i (ctl v) = [start job]" "tnt v = tnt w" "env v = env w" "objects v = objects w" "s3_calls v = s3_calls w"
    "db_tables (ctl v) = db_tables (ctl w)" "tenant_databases (ctl v) = tenant_databases (ctl w)" "files (ctl v) = files (ctl w)"
    using assms by (simp_all add: v_def start_def)
  have start: "ij_status (start job) = Running" "job_counts (start job) = job_counts job" "ij_id (start job) = i"
    "ij_column_mapping (start job) = ij_column_mapping job" "ij_table (start job) = ij_table job" "ij_file (start job) = ij_file job"
    "ij_encoding (start job) = ij_encoding job" "ij_delimiter (start job) = ij_delimiter job"
    using job by (simp_all add: start_def)
  have ins: "job_insert (ctl w) job = INSERT_IMPORTED (schema_name d) (tbl_name t) (map target_column (ij_column_mapping job))"
    if "filter (\<lambda>t. tbl_id t = ij_table job) (db_tables (ctl w)) = [t]"
      "filter (\<lambda>d. tdb_id d = tbl_database t) (tenant_databases (ctl w)) = [d]" for t d
    using that by (simp add: job_insert_def)
  have unchanged: "?E e u" if "tnt u = tnt w" "ctl u = ctl v" for e :: exn and u
    using that v(1) start by (simp add: import_ledger_def tally_refl)
  have loaded: "wp (get_one (\<lambda>c. filter (\<lambda>j. ij_id j = i) (import_jobs c))) Q E w = Q job w" for Q E
    using assms by (simp add: stored_def wp_get_one)
  have started: "wp (save_job (start job) start) Q E w = Q () v" for Q E
    using start(3) by (simp add: wp_def save_job_run v_def start_def)
  have fold: "job\<lparr>ij_status := Running, ij_started_at := Some (clock w)\<rparr> = start job"
      "(\<lambda>j :: import_job. j\<lparr>ij_status := Running, ij_started_at := Some (clock w)\<rparr>) = start"
    by (simp_all add: start_def)
  show ?thesis
    unfolding run_import_def Let_def wp_bind loaded wp_now fold started start(3-) table_database_def
  proof (rule wp_get_oneI, rule wp_get_oneI, rule wp_get_oneI)
    show "?E e v" for e :: exn using unchanged [OF v(2) refl] .
    show "?E e v" for e :: exn using unchanged [OF v(2) refl] .
    show "?E e v" for e :: exn using unchanged [OF v(2) refl] .
    fix t d f
    assume t: "filter (\<lambda>t. tbl_id t = ij_table job) (db_tables (ctl v)) = [t]"
      and d: "filter (\<lambda>d. tdb_id d = tbl_database t) (tenant_databases (ctl v)) = [d]"
      and f: "filter (\<lambda>f. file_id f = ij_file job) (files (ctl v)) = [f]"
    let ?ins = "INSERT_IMPORTED (schema_name d) (tbl_name t) (map target_column (ij_column_mapping job))"
    show "wp (gets s3_calls) (\<lambda>call. wp (s3_get (object_key f)) (\<lambda>content.
        wp (gets (\<lambda>w. decoded_lines (lib (env w)) (stream_breaks (env w) call) (ij_encoding job) content))
          (\<lambda>x. wp (case x of (ls, fin) \<Rightarrow> bind (lift (reader_delimiter (ij_delimiter job))) (\<lambda>delimiter.
             case dict_rows delimiter fin ls of (rows, failure) \<Rightarrow> import_stream ?ins (start job) rows failure)) ?Q ?E)
          ?E) ?E) ?E v"
    proof (simp only: wp_gets wp_s3_get split: if_split option.split, intro conjI impI allI)
      fix content
      assume content: "objects v (object_key f) = Some content"
      let ?u = "v\<lparr>s3_calls := Suc (s3_calls v)\<rparr>"
      let ?lines = "decoded_lines (lib (env ?u)) (stream_breaks (env ?u) (s3_calls v)) (ij_encoding job) content"
      show "wp (case ?lines of (ls, fin) \<Rightarrow> bind (lift (reader_delimiter (ij_delimiter job))) (\<lambda>delimiter.
          case dict_rows delimiter fin ls of (rows, failure) \<Rightarrow> import_stream ?ins (start job) rows failure)) ?Q ?E ?u"
      proof (intro wp_case_prodI wp_bindI wp_liftI)
        fix ls fin delimiter rows failure
        assume lines: "?lines = (ls, fin)" and delimiter: "reader_delimiter (ij_delimiter job) = Inr delimiter"
          and rows: "dict_rows delimiter fin ls = (rows, failure)"
        have all: "prefix rows (file_rows w job)" "failure = None \<Longrightarrow> rows = file_rows w job"
          using rows_read [OF lines rows] f content delimiter
          by (simp_all add: file_rows_def v cong: option.case_cong)
        have run: "running i (ctl ?u)" using v(1) start(1) by (simp add: running_def)
        show "wp (import_stream ?ins (start job) rows failure) ?Q ?E ?u"
          by (rule wp_mono [OF wp_import_stream [OF start(3) run]])
            (use all t d in \<open>auto simp: import_ledger_def ins start v intro: tally_prefix\<close>)
      qed (rule unchanged; simp add: v)
    qed (rule unchanged; simp add: v)+
  qed
qed

section \<open>Attempt after attempt\<close>

text \<open>What an import reads: the files, the catalog, the settings of the jobs, the stored objects and
  the environment. No attempt changes any of it.\<close>

definition job_settings :: "import_job \<Rightarrow> uuid \<times> uuid \<times> uuid \<times> string \<times> string \<times> column_mapping list" where
  "job_settings j = (ij_id j, ij_file j, ij_table j, ij_encoding j, ij_delimiter j, ij_column_mapping j)"

definition import_inputs where
  "import_inputs w = (files (ctl w), db_tables (ctl w), tenant_databases (ctl w),
     map job_settings (import_jobs (ctl w)), objects w, env w)"

lemma import_inputs_cong:
  "import_inputs w = import_inputs w' \<Longrightarrow> job_settings j = job_settings j' \<Longrightarrow>
     file_rows w j = file_rows w' j' \<and> job_insert (ctl w) j = job_insert (ctl w') j'
     \<and> lib (env w) = lib (env w') \<and> ij_column_mapping j = ij_column_mapping j'"
  unfolding import_inputs_def job_settings_def file_rows_def job_insert_def prod.inject by (elim conjE) (simp only: simp_thms)

lemma reads_save_job:
  assumes "\<And>j. job_settings (f j) = job_settings j"
  shows "preserves (\<lambda>w. import_inputs w = x) (save_job job f)"
  using assms
  by (intro preservesI) (auto simp: save_job_def orm_update_def import_inputs_def job_settings_def update_where_def)

lemma reads_s3_get: "preserves (\<lambda>w. import_inputs w = x) (s3_get key)"
  by (intro preservesI) (auto simp: s3_get_def s3_call_def Let_def import_inputs_def split: option.splits)

lemma reads_tenant: "preserves (\<lambda>w. import_inputs w = x) (atomic_tenant (tenant_execute q ps))"
  by (intro preservesI) (auto simp: tenant_execute_def atomic_tenant_def import_inputs_def Let_def split: prod.splits sum.splits)

lemma reads_checkpoint: "preserves (\<lambda>w. import_inputs w = x) (checkpoint job p)"
  unfolding checkpoint_def Let_def
  by (intro keeps reads_save_job) (auto simp: job_settings_def import_inputs_def preserves_def)

lemma reads_import_rows: "preserves (\<lambda>w. import_inputs w = x) (import_rows ins job rs p)"
  by (induction ins job rs p rule: import_rows.induct)
    (auto simp: Let_def row_done_def import_row_def preserves_ret [unfolded ret_def]
      intro!: keeps reads_checkpoint reads_tenant)

lemma reads_run_import: "preserves (\<lambda>w. import_inputs w = x) (run_import i)"
  unfolding run_import_def Let_def import_stream_def table_database_def
  by (intro keeps reads_save_job reads_s3_get reads_import_rows reads_checkpoint) (simp_all add: job_settings_def)

text \<open>The attempts of the task, one after the other; what an attempt raises ends that attempt.\<close>

fun attempts :: "nat \<Rightarrow> uuid \<Rightarrow> unit app" where
  "attempts 0 i = ret ()"
| "attempts (Suc n) i = bind (attempt (run_import i)) (\<lambda>_. attempts n i)"

lemma wp_attempts:
  assumes "stored i (ctl w) = [job]"
  shows "wp (attempts n i) (\<lambda>_ w'. \<exists>job'. stored i (ctl w') = [job'] \<and> import_ledger w job w' job') (\<lambda>e w'. False) w"
  using assms
proof (induction n arbitrary: w job)
  case 0
  then show ?case by (simp add: wp_def import_ledger_def tally_refl)
next
  case (Suc n)
  obtain r v where run: "run_import i w = (r, v)" by (cases "run_import i w")
  obtain job' where job': "stored i (ctl v) = [job']" and ledger: "import_ledger w job v job'"
    using wp_run_import [OF Suc.prems] run by (cases r) (auto simp: wp_def)
  have inputs: "import_inputs v = import_inputs w" using preservesD [OF reads_run_import refl run] .
  have "job_settings job' = job_settings job"
  proof -
    have "map job_settings (stored i c) = filter (\<lambda>s. fst s = i) (map job_settings (import_jobs c))" for c
      by (simp add: stored_def filter_map comp_def job_settings_def)
    then have "map job_settings (stored i (ctl v)) = map job_settings (stored i (ctl w))"
      using inputs by (simp add: import_inputs_def)
    then show ?thesis using job' Suc.prems by simp
  qed
  note same = import_inputs_cong [OF inputs this]
  have "wp (attempts n i) (\<lambda>_ w'. \<exists>job''. stored i (ctl w') = [job''] \<and> import_ledger v job' w' job'') (\<lambda>e w'. False) v"
    by (rule Suc.IH [OF job'])
  then have "wp (attempts n i) (\<lambda>_ w'. \<exists>job''. stored i (ctl w') = [job''] \<and> import_ledger w job w' job'') (\<lambda>e w'. False) v"
    by (rule wp_mono) (use ledger same in \<open>auto simp: import_ledger_def intro: tally_trans\<close>)
  then show ?case by (cases r) (simp_all add: wp_def attempt_def bind_def run)
qed

text \<open>C25. Every row at most once, over any number of attempts. A job that starts with nothing counted is
  run \<open>n\<close> times, whatever fails on the way: the connection to the tenant database, single statements,
  the download in the middle of the stream. The rows in the tenant database are then exactly the
  conversions of a strictly ascending list of row numbers of the file, the imported counter is their
  number, the rejected counter is the number of the other rows up to the last processed one, which is
  a row of the file.\<close>

theorem import_exactly_once:
  assumes "stored i (ctl w) = [job]" and "job_counts job = (0, 0, 0)"
  shows "\<exists>job' ns. let w' = snd (attempts n i w); rows = file_rows w job in
     stored i (ctl w') = [job'] \<and> sorted_wrt (<) ns \<and> set ns \<subseteq> {1..last_processed_row job'}
     \<and> tnt w' = tnt w @ map (\<lambda>k. (job_insert (ctl w) job, projr (convert_row (lib (env w)) (rows ! (k - 1)) (ij_column_mapping job)))) ns
     \<and> imported_rows job' = length ns
     \<and> imported_rows job' + rejected_rows job' = last_processed_row job' \<and> last_processed_row job' \<le> length rows"
proof -
  obtain job' where job': "stored i (ctl (snd (attempts n i w))) = [job']"
    and ledger: "import_ledger w job (snd (attempts n i w)) job'"
    using wp_attempts [OF assms(1), of n] by (auto simp: wp_def split: prod.splits sum.splits)
  then obtain ns where "sorted_wrt (<) ns" "set ns \<subseteq> {0<..last_processed_row job'}" "imported_rows job' = length ns"
    "imported_rows job' + rejected_rows job' = last_processed_row job'" "last_processed_row job' \<le> length (file_rows w job)"
    "tnt (snd (attempts n i w)) = tnt w @ map (\<lambda>k. (job_insert (ctl w) job,
       projr (convert_row (lib (env w)) (file_rows w job ! (k - 1)) (ij_column_mapping job)))) ns"
    using assms(2) by (auto simp: import_ledger_def tally_def)
  then show ?thesis using job'
    by (intro exI [of _ job'] exI [of _ ns]) (auto simp: Let_def subset_eq Suc_le_eq)
qed

definition orders_job :: import_job where
  "orders_job = \<lparr>ij_id = 90, ij_file = 91, ij_table = 70, ij_encoding = ''utf-8'', ij_delimiter = '','',
     ij_column_mapping = [\<lparr>csv_column = ''Total'', target_column = ''total'', target_type = ''integer''\<rparr>],
     ij_status = Pending, total_rows = None, imported_rows = 0, rejected_rows = 0, last_processed_row = 0,
     ij_error_message = '''', ij_created_by = 1, ij_started_at = None, ij_completed_at = None\<rparr>"

definition import_world :: world where
  "import_world = (crm_world [orders_table] [])\<lparr>ctl := (ctl (crm_world [orders_table] []))\<lparr>import_jobs := [orders_job], files := []\<rparr>\<rparr>"

lemma orders_job_simps [simp]:
  "ij_id orders_job = 90" "ij_file orders_job = 91" "ij_table orders_job = 70"
  by (simp_all add: orders_job_def)

lemma import_world_simps [simp]:
  "import_jobs (ctl import_world) = [orders_job]" "tnt import_world = []" "files (ctl import_world) = []"
  "db_tables (ctl import_world) = [orders_table]" "tenant_databases (ctl import_world) = [shop_database]"
  "clock import_world = 50" "env import_world = base_env\<lparr>pg := table_server\<rparr>"
  by (simp_all add: import_world_def)

lemma stored_orders_job [simp]: "stored 90 (ctl import_world) = [orders_job]"
  by (simp add: stored_def)

lemma import_exactly_once_witness:
  "\<exists>job' ns. let w' = snd (attempts 3 90 import_world); rows = file_rows import_world orders_job in
     stored 90 (ctl w') = [job'] \<and> sorted_wrt (<) ns \<and> set ns \<subseteq> {1..last_processed_row job'}
     \<and> tnt w' = map (\<lambda>k. (job_insert (ctl import_world) orders_job,
         projr (convert_row base_library (rows ! (k - 1)) (ij_column_mapping orders_job)))) ns
     \<and> imported_rows job' = length ns
     \<and> imported_rows job' + rejected_rows job' = last_processed_row job' \<and> last_processed_row job' \<le> length rows"
  using import_exactly_once [of 90 import_world orders_job 3]
  by (simp add: orders_job_def)

section \<open>What the inference promises\<close>

text \<open>A text as \<open>Decimal\<close> reads it.\<close>

definition squeeze :: "string \<Rightarrow> string" where
  "squeeze s = lower (filter (\<lambda>c. c \<noteq> CHR ''_'') s)"

lemma squeeze_simps [simp]:
  "squeeze [] = []" "squeeze (s @ t) = squeeze s @ squeeze t"
  "squeeze (c # s) = (if c = CHR ''_'' then squeeze s else lower_char c # squeeze s)"
  by (simp_all add: squeeze_def lower_def)

lemma decimal_digit_lower: "is_decimal_digit c \<Longrightarrow> lower_char c = c \<and> c \<noteq> CHR ''_''"
  by (auto simp: is_decimal_digit_def lower_char_def)

lemma lower_char_marks [simp]:
  "lower_char CHR ''.'' = CHR ''.''" "lower_char CHR ''-'' = CHR ''-''" "lower_char CHR ''+'' = CHR ''+''"
  "lower_char CHR ''e'' = CHR ''e''" "lower_char CHR ''E'' = CHR ''e''"
  by (simp_all add: lower_char_def, code_simp?)

lemma digit_run_squeeze:
  assumes "digit_run s"
  shows "squeeze s \<noteq> []" and "all_digits (squeeze s)" and "s \<noteq> []" and "is_decimal_digit (hd s)"
proof -
  have "squeeze s \<noteq> [] \<and> all_digits (squeeze s) \<and> s \<noteq> [] \<and> is_decimal_digit (hd s)"
    using assms[unfolded digit_run_def]
  proof (induction digit_value s rule: digits.induct)
    case (2 c)
    then show ?case by (auto simp: digit_value_def all_digits_def decimal_digit_lower split: if_splits)
  next
    case (3 c d cs)
    then show ?case
      by (auto simp: digit_value_def all_digits_def decimal_digit_lower split: if_splits option.splits)
  qed simp
  then show "squeeze s \<noteq> []" "all_digits (squeeze s)" "s \<noteq> []" "is_decimal_digit (hd s)" by simp_all
qed

lemma takeWhile_digits: "all_digits s \<Longrightarrow> t = [] \<or> \<not> is_decimal_digit (hd t) \<Longrightarrow>
    takeWhile is_decimal_digit (s @ t) = s \<and> dropWhile is_decimal_digit (s @ t) = t"
  by (induction s; cases t) (simp_all add: all_digits_def)

lemma split_sign_squeeze:
  assumes "snd (split_sign s) \<noteq> []" and "is_decimal_digit (hd (snd (split_sign s))) \<or> hd (snd (split_sign s)) = CHR ''.''"
  shows "snd (split_sign (squeeze s)) = squeeze (snd (split_sign s))"
proof (cases s)
  case (Cons c cs)
  consider "c = CHR ''-''" | "c = CHR ''+''" | "c \<noteq> CHR ''-''" "c \<noteq> CHR ''+''" "snd (split_sign s) = s"
    using Cons by (auto simp: split_sign_def)
  then show ?thesis
  proof cases
    case 3
    then have "lower_char c = c" "c \<noteq> CHR ''_''"
      using assms(2) decimal_digit_lower [of c] Cons by auto
    then show ?thesis using 3 Cons by (simp add: split_sign_def)
  qed (simp_all add: split_sign_def Cons)
qed (simp add: split_sign_def)

lemma float_exponent_squeeze:
  assumes "float_exponent s"
  shows "exponent_ok (squeeze s)" and "squeeze s = [] \<or> hd (squeeze s) = CHR ''e''"
proof -
  have "exponent_ok (squeeze s) \<and> (squeeze s = [] \<or> hd (squeeze s) = CHR ''e'')"
  proof (cases s)
    case (Cons c r)
    have run: "digit_run (snd (split_sign r))" and c: "lower_char c = CHR ''e''" "c \<noteq> CHR ''_''"
      using assms Cons by (auto simp: float_exponent_def)
    have "snd (split_sign (squeeze r)) = squeeze (snd (split_sign r))"
      using digit_run_squeeze(3,4) [OF run] by (intro split_sign_squeeze) simp_all
    then show ?thesis using digit_run_squeeze [OF run] c Cons by (simp add: exponent_ok_def)
  qed (simp add: exponent_ok_def)
  then show "exponent_ok (squeeze s)" and "squeeze s = [] \<or> hd (squeeze s) = CHR ''e''" by simp_all
qed

lemma float_number_squeeze:
  assumes "float_number s"
  shows "number_ok (squeeze s)" and "s \<noteq> []" and "is_decimal_digit (hd s) \<or> hd s = CHR ''.''"
proof -
  define mantissa where "mantissa = takeWhile (\<lambda>c. c \<noteq> CHR ''e'' \<and> c \<noteq> CHR ''E'') s"
  define expo where "expo = dropWhile (\<lambda>c. c \<noteq> CHR ''e'' \<and> c \<noteq> CHR ''E'') s"
  define ip where "ip = takeWhile (\<lambda>c. c \<noteq> CHR ''.'') mantissa"
  define r where "r = dropWhile (\<lambda>c. c \<noteq> CHR ''.'') mantissa"
  have "mantissa = ip @ r" "s = mantissa @ expo" by (simp_all add: mantissa_def expo_def ip_def r_def)
  then have s: "s = ip @ r @ expo" by simp
  have e: "float_exponent expo" and rest: "case r of [] \<Rightarrow> digit_run ip
      | _ # fp \<Rightarrow> (ip = [] \<or> digit_run ip) \<and> (fp = [] \<or> digit_run fp) \<and> (ip \<noteq> [] \<or> fp \<noteq> [])"
    using assms unfolding float_number_def Let_def mantissa_def [symmetric] expo_def [symmetric]
      ip_def [symmetric] r_def [symmetric] by simp_all
  note e = float_exponent_squeeze [OF e]
  have e_digit: "squeeze expo = [] \<or> \<not> is_decimal_digit (hd (squeeze expo))"
    using e(2) by (auto simp: is_decimal_digit_def)
  have "number_ok (squeeze s) \<and> s \<noteq> [] \<and> (is_decimal_digit (hd s) \<or> hd s = CHR ''.'')"
  proof (cases r)
    case Nil
    then have run: "digit_run ip" using rest by simp
    note split = takeWhile_digits [OF digit_run_squeeze(2) [OF run] e_digit]
    have "number_ok (squeeze ip @ squeeze expo)"
      unfolding number_ok_def Let_def conjunct1 [OF split] conjunct2 [OF split]
      using digit_run_squeeze(1) [OF run] e by (cases "squeeze expo") auto
    then show ?thesis using digit_run_squeeze(3,4) [OF run] by (simp add: s Nil)
  next
    case (Cons c fp)
    then have c: "c = CHR ''.''" using hd_dropWhile [of "\<lambda>c. c \<noteq> CHR ''.''" mantissa] by (auto simp: r_def)
    have digits: "all_digits (squeeze ip)" "all_digits (squeeze fp)" "squeeze ip \<noteq> [] \<or> squeeze fp \<noteq> []"
      using rest Cons digit_run_squeeze(1,2) [of ip] digit_run_squeeze(1,2) [of fp] by (auto simp: all_digits_def)
    have dot: "\<not> is_decimal_digit CHR ''.''" by (simp add: is_decimal_digit_def)
    have "number_ok (squeeze ip @ CHR ''.'' # squeeze fp @ squeeze expo)"
      using takeWhile_digits [OF digits(1), of "CHR ''.'' # squeeze fp @ squeeze expo"]
        takeWhile_digits [OF digits(2) e_digit] digits(3) dot e(1)
      by (auto simp: number_ok_def)
    moreover have "ip = [] \<or> ip \<noteq> [] \<and> is_decimal_digit (hd ip)"
      using rest Cons digit_run_squeeze(3,4) [of ip] by auto
    ultimately show ?thesis by (auto simp: s Cons c)
  qed
  then show "number_ok (squeeze s)" and "s \<noteq> []" and "is_decimal_digit (hd s) \<or> hd s = CHR ''.''" by simp_all
qed

lemma strip_strip [simp]: "strip (strip s) = strip s"
proof -
  have ends: "\<not> is_space (hd (strip s))" "\<not> is_space (last (strip s))" if "strip s \<noteq> []"
  proof -
    let ?t = "dropWhile is_space s"
    have t: "\<not> is_space (hd ?t)" if "?t \<noteq> []" using hd_dropWhile [OF that] .
    have r: "\<not> is_space (hd (dropWhile is_space (rev ?t)))"
      using that hd_dropWhile [of is_space "rev ?t"] by (simp add: strip_chars_def)
    have "suffix (dropWhile is_space (rev ?t)) (rev ?t)" by (rule suffix_dropWhile)
    then have "prefix (strip s) ?t" by (simp add: strip_chars_def suffix_to_prefix)
    then have "hd (strip s) = hd ?t" "?t \<noteq> []" using that by (auto simp: prefix_def simp del: dropWhile_eq_Nil_conv)
    then show "\<not> is_space (hd (strip s))" using t by simp
    show "\<not> is_space (last (strip s))" using r that by (simp add: strip_chars_def last_rev)
  qed
  show ?thesis
  proof (cases "strip s = []")
    case False
    have "dropWhile is_space (strip s) = strip s" using ends(1) [OF False] by (cases "strip s") simp_all
    moreover have "dropWhile is_space (rev (strip s)) = rev (strip s)"
      using ends(2) [OF False] False by (cases "strip s" rule: rev_cases) simp_all
    ultimately show ?thesis unfolding strip_chars_def [of is_space "strip s"] by simp
  next
    case True
    show ?thesis unfolding True by (simp add: strip_chars_def)
  qed
qed

lemma float_decimal:
  assumes "strip v = v" and "is_decimal v"
  shows "decimal_ok v"
proof -
  let ?b = "snd (split_sign v)"
  have tail: "set v \<subseteq> insert CHR ''-'' (insert CHR ''+'' (set ?b))" by (auto simp: split_sign_def split: list.split)
  have "CHR ''.'' \<in> set v \<or> CHR ''e'' \<in> set (lower v)" using assms(2) by (simp add: is_decimal_def)
  then have "CHR ''.'' \<in> set (lower v) \<or> CHR ''e'' \<in> set (lower v)" by (force simp: lower_def)
  then have "CHR ''.'' \<in> set (lower ?b) \<or> CHR ''e'' \<in> set (lower ?b)" using tail by (force simp: lower_def)
  then have "lower ?b \<notin> {''inf'', ''infinity'', ''nan''}" by auto
  then have b: "float_number ?b" using assms by (auto simp: is_decimal_def float_ok_def)
  note b = float_number_squeeze [OF b]
  have "snd (split_sign (squeeze v)) = squeeze ?b" using b(2,3) by (rule split_sign_squeeze)
  then show ?thesis using b(1) assms(1) by (simp add: decimal_ok_def squeeze_def)
qed



section \<open>What starts\<close>

definition importable :: "db_column list \<Rightarrow> column_mapping \<Rightarrow> bool" where
  "importable columns m \<longleftrightarrow> csv_column m \<noteq> [] \<and> target_column m \<noteq> [] \<and> target_type m \<noteq> []
     \<and> target_column m \<noteq> ''id''
     \<and> map_option data_type (find (\<lambda>x. col_name x = target_column m) columns) = Some (target_type m)"

lemma check_entries_from:
  "check_entries columns seen ms \<longleftrightarrow> list_all (importable columns) ms
     \<and> distinct (map target_column ms) \<and> set (map target_column ms) \<inter> seen = {}"
  by (induction columns seen ms rule: check_entries.induct)
    (auto simp: importable_def RESERVED_TARGET_COLUMNS_def split: option.split)

text \<open>A mapping is accepted exactly when it is not empty, each of its entries names a column of the
  file, a column of the table other than \<open>id\<close> and that column's own type, and no column of the table
  is named twice; otherwise the request fails with \<open>ImportValidationError\<close>, and nothing is written
  either way.\<close>

theorem validate_column_mapping_exact:
  "validate_column_mapping t ms w =
     (if ms \<noteq> [] \<and> list_all (importable (columns_of (ctl w) t)) ms \<and> distinct (map target_column ms)
      then Inr () else Inl ImportValidationError, w)"
  by (simp add: validate_column_mapping_def ensure_def query_def bind_def check_entries_from)

lemma wp_Table_organization_idI:
  assumes "\<And>org. table_organizations (ctl w) t = [org] \<Longrightarrow> Q org w" and "\<And>e. E e w"
  shows "wp (Table_organization_id t) Q E w"
proof (cases "Table_organization_id t w")
  case (Pair r v)
  then have "v = w" by (rule Table_organization_id_world)
  with Pair assms show ?thesis by (cases r) (auto simp: wp_def dest: Table_organization_id_Inr)
qed

lemma wp_validate_column_mappingI:
  assumes "list_all (importable (columns_of (ctl w) t)) ms \<Longrightarrow> distinct (map target_column ms) \<Longrightarrow> Q () w"
    and "\<And>e. E e w"
  shows "wp (validate_column_mapping t ms) Q E w"
  using assms by (simp add: validate_column_mapping_def check_entries_from)

text \<open>An import starts only with \<open>dataset.import\<close> in the organization of the table and a valid
  mapping. It then adds one pending job, with nothing counted, and queues its task; when it does not
  start, no job is added and nothing is queued.\<close>

definition fresh_job :: "uuid \<Rightarrow> db_table \<Rightarrow> file_object \<Rightarrow> column_mapping list \<Rightarrow> import_job \<Rightarrow> bool" where
  "fresh_job actor t f ms j \<longleftrightarrow> ij_table j = tbl_id t \<and> ij_file j = file_id f \<and> ij_created_by j = actor
     \<and> ij_column_mapping j = ms \<and> ij_status j = Pending \<and> imported_rows j = 0 \<and> rejected_rows j = 0
     \<and> last_processed_row j = 0"

theorem start_import_guarded:
  "wp (start_import actor t f encoding delimiter ms)
     (\<lambda>job w'. (\<exists>org. table_organizations (ctl w) t = [org] \<and> role_allows (ctl w) (user_id actor) ''dataset.import'' (Some org))
        \<and> list_all (importable (columns_of (ctl w) t)) ms \<and> distinct (map target_column ms)
        \<and> fresh_job (user_id actor) t f ms job \<and> import_jobs (ctl w') = import_jobs (ctl w) @ [job]
        \<and> tasks w' = tasks w @ [RunImportTask (ij_id job)])
     (\<lambda>e w'. import_jobs (ctl w') = import_jobs (ctl w) \<and> tasks w' = tasks w) w"
  unfolding start_import_def wp_bind enqueue_def Let_def
  by (rule wp_Table_organization_idI; simp add: permitted_def; intro impI conjI
      wp_validate_column_mappingI; simp add: wp_orm_create fresh_job_def)

section \<open>A failed import\<close>

text \<open>C26. When the retries of the task are used up, \<open>self.retry(exc=exc)\<close> raises \<open>exc\<close> itself, as Celery
  documents it. The handler of \<open>MaxRetriesExceededError\<close> is then never reached: the task ends with the
  exception and the job stays \<open>Running\<close>, without an error message.\<close>

theorem failed_import_stays_running:
  assumes "stored i (ctl w) = [job]" and "run_import i w = (Inl e, t)"
    and "retry_outcome (env t) MAX_RETRIES MAX_RETRIES e = e" and "e \<noteq> Retry" and "e \<noteq> MaxRetriesExceeded"
  shows "run_import_task MAX_RETRIES i w = (Inl e, t) \<and> (\<exists>job'. stored i (ctl t) = [job'] \<and> ij_status job' = Running)"
proof
  show "run_import_task MAX_RETRIES i w = (Inl e, t)"
    using assms by (simp add: run_import_task_def self_retry_def catch_def bind_def)
  show "\<exists>job'. stored i (ctl t) = [job'] \<and> ij_status job' = Running"
    using wp_run_import [OF assms(1)] assms(2) by (auto simp: wp_def)
qed

lemma failed_import_stays_running_witness:
  "fst (run_import_task MAX_RETRIES 90 import_world) = Inl DoesNotExist
   \<and> map ij_status (stored 90 (ctl (snd (run_import_task MAX_RETRIES 90 import_world)))) = [Running]"
proof -
  obtain t where run: "run_import 90 import_world = (Inl DoesNotExist, t)" "env t = env import_world"
    by (simp add: run_import_def bind_def Let_def save_job_run get_one_run table_database_def)
  have "run_import_task MAX_RETRIES 90 import_world = (Inl DoesNotExist, t)
      \<and> (\<exists>job'. stored 90 (ctl t) = [job'] \<and> ij_status job' = Running)"
    by (rule failed_import_stays_running [OF stored_orders_job run(1)]) (simp_all add: run(2))
  then show ?thesis by auto
qed

section \<open>Line breaks within cells\<close>

text \<open>A CSV file as \<open>csv.writer\<close> writes it, with any cells up to the field limit, is read back exactly
  by a reader over \<open>io.StringIO\<close>, which is how the preview reads its sample. The import reads the
  lines of \<open>iter_lines()\<close>, which come without their line ends: it reads the same rows and cells, but
  with every line break within a cell removed.\<close>

theorem import_drops_line_breaks:
  assumes "map decode (stream_lines L content) = split_lines (write_rows d rows)"
    and "decode_replace L enc = Some decode" and "d \<noteq> quote" and "\<not> newline d"
    and "list_all (list_all (\<lambda>f. length f \<le> FIELD_LIMIT)) rows"
  shows "csv_rows d None (text_lines (write_rows d rows)) = (rows, None)
     \<and> (case decoded_lines L None enc content of (ls, fin) \<Rightarrow>
          csv_rows d fin ls = (map (map (filter (\<lambda>c. \<not> newline c))) rows, None))"
  using assms text_round_trip [OF assms(3-5)] stream_round_trip [OF assms(3-5)]
  by (simp add: decoded_lines_def)

definition broken_cell :: library where
  "broken_cell = base_library\<lparr>stream_lines := (\<lambda>b. [[34, 97], [98, 34]])\<rparr>"

lemma import_drops_line_breaks_witness:
  "csv_rows CHR '','' None (text_lines (write_rows CHR '','' [[''a'' @ [CHR 0x0A] @ ''b'']])) = ([[''a'' @ [CHR 0x0A] @ ''b'']], None)
   \<and> (case decoded_lines broken_cell None ''utf-8'' [] of (ls, fin) \<Rightarrow> csv_rows CHR '','' fin ls = ([[''ab'']], None))"
proof -
  have lines: "map (map (\<lambda>x :: byte. char_of (unat x))) (stream_lines broken_cell [])
      = split_lines (write_rows CHR '','' [[''a'' @ [CHR 0x0A] @ ''b'']])"
    by code_simp
  show ?thesis
    using import_drops_line_breaks [OF lines, of "''utf-8''"]
    by (simp add: broken_cell_def base_library_def quote_def newline_def FIELD_LIMIT_def)
qed

end
