(* ===== verification/Containers.thy ===== *)
theory Containers
  imports Python Fixtures
begin

text \<open>
  The outer container of a portable package and its manifest (\<open>exports/container.py\<close>,
  \<open>exports/crypto.py\<close>, \<open>exports/manifest.py\<close>), with the access to parsed JSON that the restore of a
  package shares.
\<close>

section \<open>Parsed JSON as Python reads it\<close>

text \<open>\<open>obj[key]\<close>, \<open>obj.get(key)\<close> and \<open>for x in obj\<close> on what \<open>json.loads\<close> returned, with the exceptions
  of the wrong kind of object.\<close>

definition json_item :: "json \<Rightarrow> string \<Rightarrow> exn + json" where
  "json_item j key = (case j of
     JObj kvs \<Rightarrow> (case map_of kvs key of Some v \<Rightarrow> Inr v | None \<Rightarrow> Inl KeyError)
   | _ \<Rightarrow> Inl TypeError)"

definition json_get :: "json \<Rightarrow> string \<Rightarrow> json \<Rightarrow> exn + json" where
  "json_get j key other = (case j of
     JObj kvs \<Rightarrow> Inr (case map_of kvs key of Some v \<Rightarrow> v | None \<Rightarrow> other)
   | _ \<Rightarrow> Inl AttributeError)"

definition json_iter :: "json \<Rightarrow> exn + json list" where
  "json_iter j = (case j of
     JList xs \<Rightarrow> Inr xs
   | JObj kvs \<Rightarrow> Inr (map (\<lambda>(k, v). JStr k) kvs)
   | JStr s \<Rightarrow> Inr (map (\<lambda>c. JStr [c]) s)
   | _ \<Rightarrow> Inl TypeError)"

text \<open>A value used where only text will do.\<close>

definition json_text :: "json \<Rightarrow> exn + string" where
  "json_text j = (case j of JStr s \<Rightarrow> Inr s | _ \<Rightarrow> Inl TypeError)"

definition truthy :: "json \<Rightarrow> bool" where
  "truthy j \<longleftrightarrow> j \<noteq> JNull \<and> j \<noteq> JBool False \<and> j \<notin> {JInt 0, JFloat ''0.0'', JFloat ''-0.0''} \<and> j \<noteq> JStr '''' \<and> j \<noteq> JList []
     \<and> j \<noteq> JObj []"

section \<open>Bytes\<close>

text \<open>\<open>bytes.hex\<close> and \<open>bytes.fromhex\<close>, which skips ASCII white space between the bytes.\<close>

definition bytes_hex :: "bytes \<Rightarrow> string" where
  "bytes_hex b = concat (map (\<lambda>x. [hex_digit (unat x div 16), hex_digit (unat x mod 16)]) b)"

definition ascii_space :: "char \<Rightarrow> bool" where
  "ascii_space c \<longleftrightarrow> (let n = of_char c :: nat in (9 \<le> n \<and> n \<le> 13) \<or> n = 32)"

fun fromhex :: "string \<Rightarrow> bytes option" where
  "fromhex [] = Some []"
| "fromhex (c # cs) =
    (if ascii_space c then fromhex cs
     else case cs of [] \<Rightarrow> None
       | d # ds \<Rightarrow> (case (hex_value c, hex_value d) of
           (Some x, Some y) \<Rightarrow> map_option ((#) (word_of_nat (16 * x + y))) (fromhex ds)
         | _ \<Rightarrow> None))"

text \<open>\<open>n.to_bytes(4, "big")\<close> and \<open>int.from_bytes(b, "big")\<close>.\<close>

definition to_bytes4 :: "nat \<Rightarrow> exn + bytes" where
  "to_bytes4 n = (if n < 2 ^ 32
     then Inr (map (\<lambda>k. word_of_nat (n div 256 ^ k mod 256)) [3, 2, 1, 0]) else Inl OverflowError)"

definition of_bytes :: "bytes \<Rightarrow> nat" where
  "of_bytes b = foldl (\<lambda>n x. n * 256 + unat x) 0 b"

section \<open>The container\<close>

definition MAGIC :: bytes where "MAGIC = encode ''ICPKG001''"
definition ARGON2_TIME_COST :: int where "ARGON2_TIME_COST = 3"
definition ARGON2_MEMORY_COST_KIB :: int where "ARGON2_MEMORY_COST_KIB = 256 * 1024"
definition ARGON2_PARALLELISM :: int where "ARGON2_PARALLELISM = 4"
definition ARGON2_SALT_BYTES :: nat where "ARGON2_SALT_BYTES = 16"
definition AES_NONCE_BYTES :: nat where "AES_NONCE_BYTES = 12"

definition derive_key :: "library \<Rightarrow> string \<Rightarrow> bytes \<Rightarrow> exn + bytes" where
  "derive_key L passphrase salt = argon2id L (encode passphrase) salt
     (JInt ARGON2_TIME_COST) (JInt ARGON2_MEMORY_COST_KIB) (JInt ARGON2_PARALLELISM)"

definition urandom :: "nat \<Rightarrow> bytes app" where
  "urandom n = (\<lambda>w. (Inr (token_bytes (env w) (rng w) n), w\<lparr>rng := Suc (rng w)\<rparr>))"

definition encryption_meta :: "bytes \<Rightarrow> bytes \<Rightarrow> json" where
  "encryption_meta salt nonce = JObj [
     (''algorithm'', JStr ''AES-256-GCM''), (''kdf'', JStr ''argon2id''),
     (''kdf_params'', JObj [(''time_cost'', JInt ARGON2_TIME_COST),
        (''memory_cost_kib'', JInt ARGON2_MEMORY_COST_KIB), (''parallelism'', JInt ARGON2_PARALLELISM)]),
     (''salt'', JStr (bytes_hex salt)), (''nonce'', JStr (bytes_hex nonce))]"

definition container_header :: "json \<Rightarrow> json" where
  "container_header meta = JObj [(''format'', JStr ''intracloud-portable-container''), (''encryption'', meta)]"

definition write_container :: "bytes \<Rightarrow> string option \<Rightarrow> bytes app" where
  "write_container zip_bytes passphrase =
     bind (gets (\<lambda>w. lib (env w))) (\<lambda>L.
     bind (case passphrase of
         None \<Rightarrow> ret (JNull, zip_bytes)
       | Some p \<Rightarrow>
           bind (urandom ARGON2_SALT_BYTES) (\<lambda>salt.
           bind (urandom AES_NONCE_BYTES) (\<lambda>nonce.
           bind (lift (derive_key L p salt)) (\<lambda>key.
           ret (encryption_meta salt nonce, aesgcm_encrypt L key nonce zip_bytes))))) (\<lambda>(meta, payload).
     let header = encode (json_dumps (container_header meta)) in
     bind (lift (to_bytes4 (length header))) (\<lambda>len.
     ret (MAGIC @ len @ header @ payload))))"

definition header_length :: "bytes \<Rightarrow> nat" where
  "header_length data = of_bytes (take 4 (drop 8 data))"

definition read_container_header :: "library \<Rightarrow> bytes \<Rightarrow> exn + json" where
  "read_container_header L data =
     (if take 8 data \<noteq> MAGIC then Inl ContainerError
      else case json_loads L (take (header_length data) (drop 12 data)) of
          Inl e \<Rightarrow> Inl (if e = JSONDecodeError then ContainerError else e)
        | Inr j \<Rightarrow> Inr j)"

text \<open>\<open>bytes.fromhex(encryption[key])\<close>.\<close>

definition hex_item :: "json \<Rightarrow> string \<Rightarrow> exn + bytes" where
  "hex_item j key = (case json_item j key of
     Inl e \<Rightarrow> Inl e
   | Inr (JStr s) \<Rightarrow> (case fromhex s of None \<Rightarrow> Inl ValueError | Some b \<Rightarrow> Inr b)
   | Inr _ \<Rightarrow> Inl TypeError)"

text \<open>The statements of the \<open>try\<close> block, and its handler.\<close>

definition encryption_fields :: "json \<Rightarrow> exn + bytes \<times> bytes \<times> json" where
  "encryption_fields enc =
     (let r = (case hex_item enc ''salt'' of Inl e \<Rightarrow> Inl e
        | Inr salt \<Rightarrow> (case hex_item enc ''nonce'' of Inl e \<Rightarrow> Inl e
        | Inr nonce \<Rightarrow> (case json_item enc ''kdf_params'' of Inl e \<Rightarrow> Inl e
        | Inr params \<Rightarrow> Inr (salt, nonce, params)))) in
      case r of Inl e \<Rightarrow> Inl (if e = KeyError \<or> e = ValueError then ContainerError else e) | Inr x \<Rightarrow> Inr x)"

definition package_key :: "library \<Rightarrow> string \<Rightarrow> bytes \<Rightarrow> json \<Rightarrow> exn + bytes" where
  "package_key L passphrase salt params =
     (case json_item params ''time_cost'' of Inl e \<Rightarrow> Inl e
      | Inr t \<Rightarrow> (case json_item params ''memory_cost_kib'' of Inl e \<Rightarrow> Inl e
      | Inr m \<Rightarrow> (case json_item params ''parallelism'' of Inl e \<Rightarrow> Inl e
      | Inr k \<Rightarrow> argon2id L (encode passphrase) salt t m k)))"

definition read_container_payload :: "library \<Rightarrow> bytes \<Rightarrow> string option \<Rightarrow> exn + bytes" where
  "read_container_payload L data passphrase =
     (case read_container_header L data of Inl e \<Rightarrow> Inl e
      | Inr header \<Rightarrow>
     (let payload = drop (12 + header_length data) data in
      case json_get header ''encryption'' JNull of Inl e \<Rightarrow> Inl e
      | Inr enc \<Rightarrow>
        if enc = JNull then Inr payload
        else case passphrase of None \<Rightarrow> Inl DecryptionFailed
        | Some p \<Rightarrow> (case encryption_fields enc of Inl e \<Rightarrow> Inl e
        | Inr (salt, nonce, params) \<Rightarrow> (case package_key L p salt params of Inl e \<Rightarrow> Inl e
        | Inr key \<Rightarrow> (case aesgcm_decrypt L key nonce payload of
            Inl e \<Rightarrow> Inl (if e = InvalidTag then DecryptionFailed else e)
          | Inr b \<Rightarrow> Inr b)))))"

text \<open>Reading gives back what was packed.\<close>

lemma fromhex_hex [simp]: "fromhex (bytes_hex b) = Some b"
proof (induction b)
  case (Cons x b)
  have digits: "unat x div 16 < 16" "unat x mod 16 < 16" using unsigned_less [of x, where 'a = nat] by (simp_all add: less_mult_imp_div_less)
  have "\<not> ascii_space (hex_digit n)" for n
    using hex_digit_cases [of n] by (auto simp: hexdigits_def ascii_space_def)
  moreover have "word_of_nat (16 * (unat x div 16) + unat x mod 16) = x" by simp
  ultimately show ?case using Cons hex_value_digit [OF digits(1)] hex_value_digit [OF digits(2)]
    by (simp add: bytes_hex_def)
qed (simp add: bytes_hex_def)

lemma of_bytes_to_bytes4:
  assumes "to_bytes4 n = Inr b"
  shows "of_bytes b = n" and "length b = 4"
proof -
  have byte: "unat (word_of_nat (m mod 256) :: byte) = m mod 256" for m
    by (simp add: unat_of_nat take_bit_eq_mod)
  define x where "x = n div 256"
  define y where "y = x div 256"
  define z where "z = y div 256"
  have n: "n < 2 ^ 32" and b: "b = map (\<lambda>k. word_of_nat (n div 256 ^ k mod 256)) [3, 2, 1, 0]"
    using assms by (simp_all add: to_bytes4_def split: if_splits)
  have pow: "n div 256 ^ 3 = z" "n div 256 ^ 2 = y" "n div 256 ^ 1 = x" "n div 256 ^ 0 = n"
    by (simp_all add: x_def y_def z_def div_mult2_eq [symmetric])
  have "z < 256" using n by (simp add: x_def y_def z_def div_mult2_eq [symmetric] div_less_iff_less_mult)
  moreover have "n = x * 256 + n mod 256" "x = y * 256 + x mod 256" "y = z * 256 + y mod 256"
    by (simp_all add: x_def y_def z_def)
  moreover have "of_bytes b = ((z mod 256 * 256 + y mod 256) * 256 + x mod 256) * 256 + n mod 256"
    by (simp only: b of_bytes_def list.map pow foldl.simps byte mult_0 add_0)
  ultimately show "of_bytes b = n" by simp
  show "length b = 4" by (simp add: b)
qed

lemma length_MAGIC [simp]: "length MAGIC = 8"
  by (simp add: MAGIC_def encode_def encode_char_def)

lemma packed_parts:
  assumes "to_bytes4 (length header) = Inr len" and "data = MAGIC @ len @ header @ payload"
  shows "take 8 data = MAGIC" and "header_length data = length header"
    and "take (length header) (drop 12 data) = header" and "drop (12 + length header) data = payload"
proof -
  have len: "of_bytes len = length header" "length len = 4" using of_bytes_to_bytes4 [OF assms(1)] by simp_all
  show "take 8 data = MAGIC" by (simp add: assms(2))
  show "header_length data = length header" using len by (simp add: assms(2) header_length_def)
  have tail: "drop 12 data = header @ payload" using len by (simp add: assms(2))
  show "take (length header) (drop 12 data) = header" by (simp add: tail)
  have "drop (12 + length header) data = drop (length header) (drop 12 data)" by (simp add: add.commute)
  then show "drop (12 + length header) data = payload" by (simp add: tail)
qed

text \<open>The encryption parameters \<open>write_container\<close> draws and records.\<close>

definition drawn_meta :: "world \<Rightarrow> string option \<Rightarrow> json" where
  "drawn_meta w passphrase = (case passphrase of None \<Rightarrow> JNull
     | Some p \<Rightarrow> encryption_meta (token_bytes (env w) (rng w) ARGON2_SALT_BYTES)
         (token_bytes (env w) (Suc (rng w)) AES_NONCE_BYTES))"

lemma container_opens:
  assumes "write_container zip_bytes passphrase w = (Inr data, w')" and "L = lib (env w)"
    and "json_loads L (encode (json_dumps (container_header (drawn_meta w passphrase))))
      = Inr (container_header (drawn_meta w passphrase))"
    and "\<And>key nonce b. aesgcm_decrypt L key nonce (aesgcm_encrypt L key nonce b) = Inr b"
  shows "read_container_payload L data passphrase = Inr zip_bytes
    \<and> read_container_payload L data None = (if passphrase = None then Inr zip_bytes else Inl DecryptionFailed)"
proof -
  define meta where "meta = drawn_meta w passphrase"
  let ?header = "encode (json_dumps (container_header meta))"
  obtain payload len where len: "to_bytes4 (length ?header) = Inr len" and data: "data = MAGIC @ len @ ?header @ payload"
    and plain: "passphrase = None \<Longrightarrow> payload = zip_bytes"
    and cipher: "\<And>p. passphrase = Some p \<Longrightarrow> \<exists>key. derive_key L p (token_bytes (env w) (rng w) ARGON2_SALT_BYTES) = Inr key
        \<and> payload = aesgcm_encrypt L key (token_bytes (env w) (Suc (rng w)) AES_NONCE_BYTES) zip_bytes"
    using assms(1,2) by (cases passphrase)
      (auto simp: write_container_def bind_def urandom_def drawn_meta_def meta_def Let_def split: sum.splits)
  note parts = packed_parts [OF len data]
  have header: "read_container_header L data = Inr (container_header meta)"
    using assms(3) parts by (simp add: read_container_header_def meta_def)
  show ?thesis
  proof (cases passphrase)
    case None
    then show ?thesis using header plain parts
      by (simp add: read_container_payload_def Let_def container_header_def json_get_def meta_def drawn_meta_def)
  next
    case (Some p)
    then obtain key where key: "derive_key L p (token_bytes (env w) (rng w) ARGON2_SALT_BYTES) = Inr key"
      and payload: "payload = aesgcm_encrypt L key (token_bytes (env w) (Suc (rng w)) AES_NONCE_BYTES) zip_bytes"
      using cipher by blast
    have meta: "meta = encryption_meta (token_bytes (env w) (rng w) ARGON2_SALT_BYTES)
        (token_bytes (env w) (Suc (rng w)) AES_NONCE_BYTES)"
      using Some by (simp add: meta_def drawn_meta_def)
    show ?thesis using header parts key payload Some assms(4)
      by (simp add: read_container_payload_def Let_def container_header_def json_get_def meta encryption_meta_def
          encryption_fields_def hex_item_def json_item_def package_key_def derive_key_def)
  qed
qed

text \<open>A package opens with the passphrase it was written with and gives back exactly the archive;
  an encrypted one does not open without a passphrase. The JSON module gives back the header it
  wrote, and AES-GCM decrypts what it encrypted under the same key and nonce.\<close>

theorem container_roundtrip:
  assumes "write_container zip_bytes passphrase w = (Inr data, w')" and "L = lib (env w)"
    and "json_loads L (encode (json_dumps (container_header (drawn_meta w passphrase))))
      = Inr (container_header (drawn_meta w passphrase))"
    and "\<And>key nonce b. aesgcm_decrypt L key nonce (aesgcm_encrypt L key nonce b) = Inr b"
  shows "read_container_payload L data passphrase = Inr zip_bytes
    \<and> read_container_payload L data None = (if passphrase = None then Inr zip_bytes else Inl DecryptionFailed)"
  by (rule container_opens [OF assms])

text \<open>The header stays far below the four gigabytes its length field can count.\<close>

lemma length_encode: "length (encode s) \<le> 2 * length s"
  by (induction s) (auto simp: encode_def encode_char_def Let_def)

lemma length_json_string: "length (json_string s) \<le> 6 * length s + 2"
proof -
  have "length (json_char c) \<le> 6" for c
    unfolding json_char_def Let_def by (simp only: split: if_split) simp
  then have "length (concat (map json_char s)) \<le> 6 * length s"
    by (induction s) (auto intro: add_mono)
  then show ?thesis by (simp add: json_string_def)
qed

lemma header_short: "length (encode (json_dumps (container_header (encryption_meta (replicate 16 7) (replicate 12 7))))) < 2 ^ 32"
proof -
  have hex: "length (bytes_hex b) = 2 * length b" for b by (induction b) (simp_all add: bytes_hex_def)
  have costs: "length (str_of_int ARGON2_TIME_COST) \<le> 6" "length (str_of_int ARGON2_MEMORY_COST_KIB) \<le> 6"
    "length (str_of_int ARGON2_PARALLELISM) \<le> 6"
    using str_of_nat_length [of 3 5] str_of_nat_length [of 262144 5] str_of_nat_length [of 4 5]
    by (simp_all add: str_of_int_def ARGON2_TIME_COST_def ARGON2_MEMORY_COST_KIB_def ARGON2_PARALLELISM_def)
  have "length (json_dumps (container_header (encryption_meta (replicate 16 7) (replicate 12 7)))) \<le> 5000"
    using length_json_string [of "bytes_hex (replicate 16 7)"] length_json_string [of "bytes_hex (replicate 12 7)"]
      length_json_string [of "''format''"] length_json_string [of "''intracloud-portable-container''"]
      length_json_string [of "''encryption''"] length_json_string [of "''algorithm''"]
      length_json_string [of "''AES-256-GCM''"] length_json_string [of "''kdf''"]
      length_json_string [of "''argon2id''"] length_json_string [of "''kdf_params''"]
      length_json_string [of "''time_cost''"] length_json_string [of "''memory_cost_kib''"]
      length_json_string [of "''parallelism''"] length_json_string [of "''salt''"]
      length_json_string [of "''nonce''"]
      costs
    by (simp add: container_header_def encryption_meta_def join_with_def hex)
  then show ?thesis
    using length_encode [of "json_dumps (container_header (encryption_meta (replicate 16 7) (replicate 12 7)))"] by simp
qed

lemma write_container_runs:
  assumes "derive_key (lib (env w)) p (token_bytes (env w) (rng w) ARGON2_SALT_BYTES) = Inr key"
    and "length (encode (json_dumps (container_header (drawn_meta w (Some p))))) < 2 ^ 32"
  shows "\<exists>data w'. write_container z (Some p) w = (Inr data, w')"
  using assms by (simp add: write_container_def bind_def urandom_def drawn_meta_def to_bytes4_def Let_def)

definition packing_world :: world where
  "packing_world = (world_of no_rows)\<lparr>env := base_env\<lparr>lib := base_library\<lparr>
     json_loads := (\<lambda>b. Inr (container_header (encryption_meta (replicate 16 7) (replicate 12 7))))\<rparr>\<rparr>\<rparr>"

lemma packing_meta: "drawn_meta packing_world (Some p) = encryption_meta (replicate 16 7) (replicate 12 7)"
  by (simp add: drawn_meta_def packing_world_def ARGON2_SALT_BYTES_def AES_NONCE_BYTES_def)

lemma container_roundtrip_witness:
  "\<exists>data w'. write_container [1, 2, 3] (Some ''secret'') packing_world = (Inr data, w')
     \<and> read_container_payload (lib (env packing_world)) data (Some ''secret'') = Inr [1, 2, 3]
     \<and> read_container_payload (lib (env packing_world)) data None = Inl DecryptionFailed"
proof -
  have key: "derive_key (lib (env packing_world)) ''secret'' salt = Inr (encode ''secret'')" for salt
    by (simp add: derive_key_def packing_world_def base_library_def)
  have "\<exists>data w'. write_container [1, 2, 3] (Some ''secret'') packing_world = (Inr data, w')"
    by (rule write_container_runs [OF key]) (simp only: packing_meta header_short)
  then obtain data w' where run: "write_container [1, 2, 3] (Some ''secret'') packing_world = (Inr data, w')" by blast
  have opened: "read_container_payload (lib (env packing_world)) data (Some ''secret'') = Inr [1, 2, 3]
    \<and> read_container_payload (lib (env packing_world)) data None
      = (if Some ''secret'' = None then Inr [1, 2, 3] else Inl DecryptionFailed)"
    by (rule container_roundtrip [OF run refl])
      (simp_all only: packing_meta, simp_all add: packing_world_def base_library_def)
  then have "read_container_payload (lib (env packing_world)) data None = Inl DecryptionFailed" by simp
  with opened run show ?thesis by blast
qed

section \<open>Passphrases in transit\<close>

text \<open>The token of Fernet is ASCII text.\<close>

definition token_text :: "bytes \<Rightarrow> string" where
  "token_text b = map (\<lambda>x. char_of (unat x)) b"

definition wrap_passphrase :: "string option \<Rightarrow> string option app" where
  "wrap_passphrase passphrase = (case passphrase of None \<Rightarrow> ret None
     | Some p \<Rightarrow> (\<lambda>w. (Inr (Some (token_text (fernet_encrypt (env w) (rng w) p))), w\<lparr>rng := Suc (rng w)\<rparr>)))"

definition unwrap_passphrase :: "string option \<Rightarrow> string option app" where
  "unwrap_passphrase wrapped = (case wrapped of None \<Rightarrow> ret None
     | Some t \<Rightarrow> bind (gets (\<lambda>w. fernet_decrypt (env w) (encode t))) (\<lambda>r. case r of
         None \<Rightarrow> raise PassphraseTransitError | Some p \<Rightarrow> ret (Some p)))"

section \<open>The manifest\<close>

definition FORMAT_NAME :: string where "FORMAT_NAME = ''intracloud-portable''"
definition FORMAT_VERSION :: int where "FORMAT_VERSION = 1"

definition EXCLUDED_SCOPE :: "string list" where
  "EXCLUDED_SCOPE = [''applications'', ''connected_databases'', ''sharing'', ''analytics'', ''user_password_hashes'']"

text \<open>The dictionary \<open>new_manifest\<close> makes, with what the builder fills in.\<close>

definition manifest_json :: "string \<Rightarrow> string \<Rightarrow> json \<Rightarrow> (string \<times> json) list \<Rightarrow> (string \<times> string) list \<Rightarrow> json" where
  "manifest_json version export_id organization databases checksums = JObj [
     (''format'', JStr FORMAT_NAME), (''format_version'', JInt FORMAT_VERSION),
     (''product_version'', JStr version), (''export_id'', JStr export_id), (''export_type'', JStr ''organization''),
     (''organization'', organization), (''databases'', JObj databases),
     (''checksums'', JObj (map (\<lambda>(n, d). (n, JStr d)) checksums)), (''encryption'', JNull),
     (''excluded'', JList (map JStr EXCLUDED_SCOPE))]"

text \<open>\<open>True\<close> and \<open>False\<close> are integers to \<open>isinstance\<close>.\<close>

definition validate_manifest_shape :: "json \<Rightarrow> exn + unit" where
  "validate_manifest_shape m = (case m of
     JObj kvs \<Rightarrow>
       if map_of kvs ''format'' \<noteq> Some (JStr FORMAT_NAME) then Inl ManifestError
       else if (case map_of kvs ''format_version'' of
           Some (JInt v) \<Rightarrow> v > FORMAT_VERSION | Some (JBool b) \<Rightarrow> False | _ \<Rightarrow> True) then Inl ManifestError
       else if map_of kvs ''export_type'' \<noteq> Some (JStr ''organization'') then Inl ManifestError
       else if (case map_of kvs ''organization'' of Some (JObj x) \<Rightarrow> False | _ \<Rightarrow> True) then Inl ManifestError
       else Inr ()
   | _ \<Rightarrow> Inl ManifestError)"

lemma manifest_json_valid: "validate_manifest_shape (manifest_json v i (JObj org) dbs sums) = Inr ()"
  by (simp add: validate_manifest_shape_def manifest_json_def)

lemma manifest_json_items [simp]:
  "json_item (manifest_json v i org dbs sums) ''organization'' = Inr org"
  "json_item (manifest_json v i org dbs sums) ''databases'' = Inr (JObj dbs)"
  "json_get (manifest_json v i org dbs sums) ''checksums'' x = Inr (JObj (map (\<lambda>(n, d). (n, JStr d)) sums))"
  by (simp_all add: manifest_json_def json_item_def json_get_def)

end
