(* ===== verification/Builder.thy ===== *)
theory Builder
  imports "HOL-Library.AList" "HOL-Library.Char_ord" "HOL-Library.List_Lexorder" Containers Rows Csv Storage
begin

text \<open>
  The export of an organization into a portable package (\<open>exports/builder.py\<close>): its workspaces,
  projects, databases with their rows, buckets with their files, teams and memberships, written
  into one archive with a checksum of every member, which becomes the payload of a container. The
  archive is the list of its members in the order they are written; the temporary file it is written
  to is not modelled. A query ordered by a name sorts by the collation of the database.
\<close>

section \<open>Ordered queries\<close>

fun insert_by :: "('a \<Rightarrow> 'a \<Rightarrow> bool) \<Rightarrow> 'a \<Rightarrow> 'a list \<Rightarrow> 'a list" where
  "insert_by le x [] = [x]"
| "insert_by le x (y # ys) = (if le x y then x # y # ys else y # insert_by le x ys)"

definition sort_by :: "('a \<Rightarrow> 'a \<Rightarrow> bool) \<Rightarrow> 'a list \<Rightarrow> 'a list" where
  "sort_by le xs = foldr (insert_by le) xs []"

definition by_text :: "('a \<Rightarrow> string) \<Rightarrow> (control \<Rightarrow> 'a list) \<Rightarrow> 'a list app" where
  "by_text key f = gets (\<lambda>w. sort_by (\<lambda>x y. collation (env w) (key x) (key y)) (f (ctl w)))"

section \<open>The archive writer\<close>

record archive_writer =
  aw_members :: "(string \<times> bytes) list"
  aw_checksums :: "(string \<times> string) list"

definition write_bytes :: "string \<Rightarrow> bytes \<Rightarrow> archive_writer \<Rightarrow> archive_writer app" where
  "write_bytes arcname content a = gets (\<lambda>w.
     a\<lparr>aw_checksums := AList.update arcname (sha256 (env w) content) (aw_checksums a),
       aw_members := aw_members a @ [(arcname, content)]\<rparr>)"

text \<open>Reading a stream to its end: its chunks are the content, cut, and it may break. \<open>write_stream\<close>
  hashes the chunks it writes.\<close>

definition s3_read :: "string \<Rightarrow> bytes app" where
  "s3_read key =
     bind (gets s3_calls) (\<lambda>call.
     bind (s3_get key) (\<lambda>content.
     bind (gets (\<lambda>w. stream_breaks (env w) call)) (\<lambda>broken.
     if broken = None then ret content else raise StorageError)))"

definition write_stream :: "string \<Rightarrow> string \<Rightarrow> archive_writer \<Rightarrow> (archive_writer \<times> string) app" where
  "write_stream arcname key a =
     bind (s3_read key) (\<lambda>content.
     bind (write_bytes arcname content a) (\<lambda>a'.
     bind (gets (\<lambda>w. sha256 (env w) content)) (\<lambda>digest.
     ret (a', digest))))"

section \<open>Databases\<close>

definition option_json :: "('a \<Rightarrow> json) \<Rightarrow> 'a option \<Rightarrow> json" where
  "option_json f x = (case x of None \<Rightarrow> JNull | Some y \<Rightarrow> f y)"

definition column_dict :: "db_column \<Rightarrow> json" where
  "column_dict x = JObj [(''name'', JStr (col_name x)), (''data_type'', JStr (data_type x)),
     (''max_length'', option_json JInt (max_length x)), (''precision'', option_json JInt (precision x)),
     (''scale'', option_json JInt (scale x)), (''is_nullable'', JBool (is_nullable x)),
     (''is_unique'', JBool (is_unique x)), (''default_value'', option_json id (default_value x))]"

definition foreign_key_dict :: "db_foreign_key \<Rightarrow> json app" where
  "foreign_key_dict k =
     bind (get_one (\<lambda>c. filter (\<lambda>x. col_id x = fk_column k) (db_columns c))) (\<lambda>x.
     bind (get_one (\<lambda>c. filter (\<lambda>t. tbl_id t = fk_references_table k) (db_tables c))) (\<lambda>t.
     bind (get_one (\<lambda>c. filter (\<lambda>x. col_id x = fk_references_column k) (db_columns c))) (\<lambda>y.
     ret (JObj [(''column'', JStr (col_name x)), (''references_table'', JStr (tbl_name t)),
       (''references_column'', JStr (col_name y)), (''on_delete'', JStr (fk_on_delete k))]))))"

definition table_keys :: "control \<Rightarrow> db_table \<Rightarrow> db_foreign_key list" where
  "table_keys c t = filter (\<lambda>k. list_ex (\<lambda>x. col_id x = fk_column k) (columns_of c t)) (db_foreign_keys c)"

definition rows_arcname :: "tenant_database \<Rightarrow> db_table \<Rightarrow> string" where
  "rows_arcname d t = ''databases/'' @ uuid_hex (tdb_id d) @ ''/rows/'' @ uuid_hex (tbl_id t) @ ''.csv''"

definition schema_arcname :: "tenant_database \<Rightarrow> string" where
  "schema_arcname d = ''databases/'' @ uuid_hex (tdb_id d) @ ''/schema.json''"

definition export_table :: "(pg_value \<Rightarrow> string) \<Rightarrow> tenant_database \<Rightarrow> archive_writer \<Rightarrow> db_table
    \<Rightarrow> (archive_writer \<times> json) app" where
  "export_table str d a t =
     bind (query (\<lambda>c. map column_dict (filter (\<lambda>x. \<not> is_primary_key x) (columns_of c t)))) (\<lambda>columns.
     bind (query (\<lambda>c. table_keys c t)) (\<lambda>ks.
     bind (for_map foreign_key_dict ks) (\<lambda>fks.
     bind (iter_export_rows str t 1000) (\<lambda>rows.
     bind (write_bytes (rows_arcname d t) (encode (write_rows CHR '','' rows)) a) (\<lambda>a'.
     ret (a', JObj [(''id'', JStr (uuid_hex (tbl_id t))), (''name'', JStr (tbl_name t)),
       (''columns'', JList columns), (''foreign_keys'', JList fks), (''rows_path'', JStr (rows_arcname d t))]))))))"

definition export_tenant_database :: "(pg_value \<Rightarrow> string) \<Rightarrow> archive_writer \<Rightarrow> tenant_database
    \<Rightarrow> (archive_writer \<times> json) app" where
  "export_tenant_database str a d =
     bind (query (\<lambda>c. filter (\<lambda>t. tbl_database t = tdb_id d) (db_tables c))) (\<lambda>ts.
     bind (collect (export_table str d) a ts) (\<lambda>(a', tables).
     bind (gets (\<lambda>w. json_dumps_pretty (lib (env w)) (JObj [(''name'', JStr (tdb_name d)), (''tables'', JList tables)]))) (\<lambda>schema.
     bind (write_bytes (schema_arcname d) (encode schema) a') (\<lambda>a''.
     ret (a'', JObj [(''name'', JStr (tdb_name d)), (''schema_path'', JStr (schema_arcname d))])))))"

section \<open>Buckets\<close>

text \<open>The walk up the parents of a folder; \<open>fuel\<close> bounds it, and more folders than there are is a cycle.\<close>

fun folder_path :: "nat \<Rightarrow> uuid option \<Rightarrow> string list app" where
  "folder_path 0 folder = raise TimeoutExpired"
| "folder_path (Suc fuel) folder = (case folder of
     None \<Rightarrow> ret []
   | Some i \<Rightarrow>
       bind (get_one (\<lambda>c. filter (\<lambda>f. fld_id f = i) (folders c))) (\<lambda>f.
       bind (folder_path fuel (fld_parent f)) (\<lambda>up.
       ret (up @ [fld_name f]))))"

type_synonym content_refs = "string \<Rightarrow> string option"

definition content_arcname :: "string \<Rightarrow> string" where
  "content_arcname checksum = ''objects/'' @ checksum"

definition export_content :: "file_object \<Rightarrow> archive_writer \<times> content_refs
    \<Rightarrow> ((archive_writer \<times> content_refs) \<times> string) app" where
  "export_content f s = (case s of (a, refs) \<Rightarrow> (case refs (checksum_sha256 f) of
     Some content_ref \<Rightarrow> ret ((a, refs), content_ref)
   | None \<Rightarrow>
       let content_ref = content_arcname (checksum_sha256 f) in
       bind (write_stream content_ref (object_key f) a) (\<lambda>(a', digest).
       bind (ensure (digest = checksum_sha256 f) ValueError) (\<lambda>_.
       ret ((a', refs(checksum_sha256 f \<mapsto> content_ref)), content_ref)))))"

definition export_file :: "archive_writer \<times> content_refs \<Rightarrow> file_object
    \<Rightarrow> ((archive_writer \<times> content_refs) \<times> json) app" where
  "export_file s f =
     bind (export_content f s) (\<lambda>(s', content_ref).
     bind (query (\<lambda>c. Suc (length (folders c)))) (\<lambda>fuel.
     bind (folder_path fuel (file_folder f)) (\<lambda>path.
     ret (s', JObj [(''folder_path'', JList (map JStr path)), (''display_filename'', JStr (display_filename f)),
       (''original_filename'', JStr (original_filename f)), (''mime_type'', JStr (mime_type f)),
       (''size'', JInt (int (file_size f))), (''checksum_sha256'', JStr (checksum_sha256 f)),
       (''content_ref'', JStr content_ref)]))))"

definition export_bucket :: "archive_writer \<times> content_refs \<Rightarrow> bucket
    \<Rightarrow> ((archive_writer \<times> content_refs) \<times> json) app" where
  "export_bucket s b =
     bind (by_text display_filename (\<lambda>c. filter (\<lambda>f. file_bucket f = bkt_id b \<and> file_status f = FActive) (files c))) (\<lambda>fs.
     bind (collect export_file s fs) (\<lambda>(s', payload).
     ret (s', JObj [(''name'', JStr (bkt_name b)), (''versioning_enabled'', JBool (versioning_enabled b)),
       (''files'', JList payload)])))"

section \<open>The tree of the organization\<close>

text \<open>The writer, \<open>content_hash_to_arcname\<close> and \<open>databases_manifest\<close>.\<close>

record export_state =
  xs_writer :: archive_writer
  xs_refs :: content_refs
  xs_databases :: "(string \<times> json) list"

definition export_database :: "(pg_value \<Rightarrow> string) \<Rightarrow> export_state \<Rightarrow> tenant_database \<Rightarrow> (export_state \<times> json) app" where
  "export_database str s d =
     bind (export_tenant_database str (xs_writer s) d) (\<lambda>(a, entry).
     ret (s\<lparr>xs_writer := a, xs_databases := AList.update (uuid_hex (tdb_id d)) entry (xs_databases s)\<rparr>,
       JStr (uuid_hex (tdb_id d))))"

definition export_project_bucket :: "export_state \<Rightarrow> bucket \<Rightarrow> (export_state \<times> json) app" where
  "export_project_bucket s b =
     bind (export_bucket (xs_writer s, xs_refs s) b) (\<lambda>((a, refs), j).
     ret (s\<lparr>xs_writer := a, xs_refs := refs\<rparr>, j))"

definition export_project :: "(pg_value \<Rightarrow> string) \<Rightarrow> export_state \<Rightarrow> project \<Rightarrow> (export_state \<times> json) app" where
  "export_project str s p =
     bind (by_text tdb_name (\<lambda>c. filter (\<lambda>d. tdb_project d = proj_id p) (tenant_databases c))) (\<lambda>ds.
     bind (collect (export_database str) s ds) (\<lambda>(s', db_refs).
     bind (by_text bkt_name (\<lambda>c. filter (\<lambda>b. bkt_project b = proj_id p) (buckets c))) (\<lambda>bs.
     bind (collect export_project_bucket s' bs) (\<lambda>(s'', bucket_payload).
     ret (s'', JObj [(''name'', JStr (proj_name p)), (''tenant_databases'', JList db_refs),
       (''buckets'', JList bucket_payload)])))))"

definition export_workspace :: "(pg_value \<Rightarrow> string) \<Rightarrow> export_state \<Rightarrow> workspace \<Rightarrow> (export_state \<times> json) app" where
  "export_workspace str s ws =
     bind (by_text proj_name (\<lambda>c. filter (\<lambda>p. proj_workspace p = ws_id ws) (projects c))) (\<lambda>ps.
     bind (collect (export_project str) s ps) (\<lambda>(s', payload).
     ret (s', JObj [(''name'', JStr (ws_name ws)), (''projects'', JList payload)])))"

text \<open>The slugs of the system roles a user holds in the organization.\<close>

definition system_role_slugs :: "control \<Rightarrow> uuid \<Rightarrow> uuid \<Rightarrow> string list" where
  "system_role_slugs c user org = concat (map (\<lambda>a.
     map role_slug (filter (\<lambda>r. role_id r = ra_role a \<and> role_slug r \<in> fst ` set SYSTEM_ROLES) (roles c)))
     (filter (\<lambda>a. ra_user a = user \<and> ra_organization a = Some org) (role_assignments c)))"

definition export_membership :: "organization \<Rightarrow> user \<times> membership \<Rightarrow> json app" where
  "export_membership org entry = (case entry of (user, m) \<Rightarrow>
     bind (query (\<lambda>c. system_role_slugs c (user_id user) (org_id org))) (\<lambda>slugs.
     bind (case mem_team m of None \<Rightarrow> ret JNull
       | Some i \<Rightarrow> bind (get_one (\<lambda>c. filter (\<lambda>t. team_id t = i) (teams c))) (\<lambda>t. ret (JStr (team_name t)))) (\<lambda>team.
     ret (JObj [(''email'', JStr (email user)), (''team'', team), (''role_slugs'', JList (map JStr slugs))]))))"

text \<open>The active memberships with their users, in the order of the model: by the user, that is by e-mail.\<close>

definition active_members :: "control \<Rightarrow> organization \<Rightarrow> (user \<times> membership) list" where
  "active_members c org = concat (map (\<lambda>m. map (\<lambda>u. (u, m)) (filter (\<lambda>u. user_id u = mem_user m) (users c)))
     (filter (\<lambda>m. mem_organization m = org_id org \<and> mem_status m = MActive) (memberships c)))"

definition collect_export :: "(pg_value \<Rightarrow> string) \<Rightarrow> organization \<Rightarrow> (archive_writer \<times> json) app" where
  "collect_export str org =
     bind uuid4 (\<lambda>export_id.
     bind (gets (\<lambda>w. product_version (env w))) (\<lambda>version.
     bind (by_text ws_name (\<lambda>c. filter (\<lambda>v. ws_organization v = org_id org) (workspaces c))) (\<lambda>wss.
     bind (collect (export_workspace str)
       \<lparr>xs_writer = \<lparr>aw_members = [], aw_checksums = []\<rparr>, xs_refs = (\<lambda>_. None), xs_databases = []\<rparr> wss) (\<lambda>(s, workspaces_payload).
     bind (by_text (email \<circ> fst) (\<lambda>c. active_members c org)) (\<lambda>members.
     bind (for_map (export_membership org) members) (\<lambda>memberships_payload.
     bind (by_text team_name (\<lambda>c. filter (\<lambda>t. team_organization t = org_id org) (teams c))) (\<lambda>teams_payload.
     ret (xs_writer s, manifest_json version (uuid_str export_id)
       (JObj [(''name'', JStr (org_name org)), (''slug'', JStr (org_slug org)), (''workspaces'', JList workspaces_payload),
         (''teams'', JList (map (JStr \<circ> team_name) teams_payload)), (''memberships'', JList memberships_payload)])
       (xs_databases s) (aw_checksums (xs_writer s))))))))))"

definition pack_export :: "archive_writer \<Rightarrow> json \<Rightarrow> string option \<Rightarrow> (bytes \<times> string) app" where
  "pack_export a manifest passphrase =
     bind (gets (\<lambda>w. lib (env w))) (\<lambda>L.
     let zip_bytes = zip_pack L (aw_members a @ [(''manifest.json'', encode (json_dumps_pretty L manifest))]) in
     bind (write_container zip_bytes passphrase) (\<lambda>container_bytes.
     bind (gets (\<lambda>w. sha256 (env w) container_bytes)) (\<lambda>checksum.
     ret (container_bytes, checksum))))"

definition build_export :: "(pg_value \<Rightarrow> string) \<Rightarrow> organization \<Rightarrow> string option \<Rightarrow> (bytes \<times> string) app" where
  "build_export str org passphrase =
     bind (collect_export str org) (\<lambda>(a, manifest). pack_export a manifest passphrase)"

section \<open>What the archive records\<close>

text \<open>An export changes nothing, and every checksum is that of the member of its name.\<close>

definition recorded :: "(bytes \<Rightarrow> string) \<Rightarrow> archive_writer \<Rightarrow> bool" where
  "recorded hash a \<longleftrightarrow> distinct (map fst (aw_checksums a)) \<and> (\<forall>(n, d) \<in> set (aw_checksums a).
     n \<noteq> ''manifest.json'' \<and> (\<exists>b. map_of (rev (aw_members a)) n = Some b \<and> d = hash b))"

definition unchanged :: "world \<Rightarrow> world \<Rightarrow> bool" where
  "unchanged v w \<longleftrightarrow> ctl w = ctl v \<and> tnt w = tnt v \<and> objects w = objects v \<and> tasks w = tasks v
     \<and> disk w = disk v \<and> env w = env v"

lemma unchanged_refl [simp]: "unchanged w w"
  by (simp add: unchanged_def)

lemma recorded_empty: "recorded hash \<lparr>aw_members = [], aw_checksums = []\<rparr>"
  by (simp add: recorded_def)

lemma recorded_member:
  assumes "recorded hash a" and "n \<noteq> ''manifest.json''"
  shows "recorded hash (a\<lparr>aw_checksums := AList.update n (hash b) (aw_checksums a), aw_members := aw_members a @ [(n, b)]\<rparr>)"
proof -
  have "(m, d) \<in> set (AList.update n (hash b) xs) \<Longrightarrow> distinct (map fst xs) \<Longrightarrow> (m = n \<and> d = hash b) \<or> (m \<noteq> n \<and> (m, d) \<in> set xs)" for m d xs
    by (induction xs) (auto split: if_splits simp: image_iff)
  with assms show ?thesis by (fastforce simp: recorded_def distinct_update)
qed

lemma keeps_env [keeps]:
  "preserves (unchanged v) (by_text key f)" "preserves (unchanged v) (query g)" "preserves (unchanged v) (get_one h)"
  "preserves (unchanged v) (s3_get k)" "preserves (unchanged v) uuid4" "preserves (unchanged v) (iter_export_rows str t n)"
  by (auto simp: preserves_def unchanged_def by_text_def query_def get_one_def s3_get_def s3_call_def Let_def iter_export_rows_def
      column_names_def table_sql_def table_database_def tenant_select_def bind_def split: prod.splits sum.splits list.splits option.splits)

lemma gives_write_bytes:
  "recorded (sha256 (env v)) a \<Longrightarrow> n \<noteq> ''manifest.json'' \<Longrightarrow> gives (unchanged v) (recorded (sha256 (env v))) (write_bytes n b a)"
  by (auto simp: gives_def write_bytes_def unchanged_def recorded_member)

lemma keeps_s3_read [keeps]: "preserves (unchanged v) (s3_read key)"
  unfolding s3_read_def by (intro keeps)

lemma gives_write_stream:
  "recorded (sha256 (env v)) a \<Longrightarrow> n \<noteq> ''manifest.json'' \<Longrightarrow> gives (unchanged v) (\<lambda>(a, d). recorded (sha256 (env v)) a) (write_stream n key a)"
  unfolding write_stream_def
  by ((rule gives_bind_anything, intro keeps)+, rule gives_bind [OF gives_write_bytes], assumption+,
      rule gives_bind_anything, intro keeps) (simp add: gives_ret)

lemma gives_export_table:
  "recorded (sha256 (env v)) a \<Longrightarrow> gives (unchanged v) (\<lambda>(a, j). recorded (sha256 (env v)) a) (export_table str d a t)"
  unfolding export_table_def foreign_key_dict_def
  by ((rule gives_bind_anything, intro keeps)+, rule gives_bind [OF gives_write_bytes], assumption)
    (simp_all add: rows_arcname_def gives_ret)

lemma gives_export_tenant_database:
  assumes "recorded (sha256 (env v)) a"
  shows "gives (unchanged v) (\<lambda>(a, j). recorded (sha256 (env v)) a) (export_tenant_database str a d)"
  unfolding export_tenant_database_def
  apply (rule gives_bind_anything, intro keeps)
  apply (rule gives_bind [OF gives_collect [where P = "recorded (sha256 (env v))"]])
    apply (erule gives_export_table)
   apply (rule assms)
  apply clarify
  apply (rule gives_bind_anything, intro keeps)
  apply (rule gives_bind [OF gives_write_bytes])
    apply (simp_all add: schema_arcname_def gives_ret)
  done

lemma preserves_folder_path [keeps]: "preserves (unchanged v) (folder_path fuel folder)"
proof (induction fuel arbitrary: folder)
  case (Suc fuel)
  show ?case unfolding folder_path.simps by (intro keeps Suc)
qed (unfold folder_path.simps, intro keeps)

lemma gives_export_content:
  assumes "recorded (sha256 (env v)) (fst s)"
  shows "gives (unchanged v) (\<lambda>(t, c). recorded (sha256 (env v)) (fst t)) (export_content f s)"
proof -
  obtain a refs where s: "s = (a, refs)" by (cases s)
  have stream: "gives (unchanged v) (\<lambda>(a, d). recorded (sha256 (env v)) a)
      (write_stream (content_arcname (checksum_sha256 f)) (object_key f) a)"
    using assms by (intro gives_write_stream) (simp_all add: s content_arcname_def)
  show ?thesis
    using assms unfolding export_content_def s Let_def prod.case
    by (intro giving) (simp_all, rule gives_bind [OF stream], clarify,
      rule gives_bind_anything, intro keeps, simp add: gives_ret)
qed

lemma gives_export_file:
  "recorded (sha256 (env v)) (fst s) \<Longrightarrow> gives (unchanged v) (\<lambda>(t, j). recorded (sha256 (env v)) (fst t)) (export_file s f)"
  unfolding export_file_def
  by (rule gives_bind [OF gives_export_content], assumption, clarify, (rule gives_bind_anything, intro keeps)+)
    (simp add: gives_ret)

lemma gives_export_bucket:
  assumes "recorded (sha256 (env v)) (fst s)"
  shows "gives (unchanged v) (\<lambda>(t, j). recorded (sha256 (env v)) (fst t)) (export_bucket s b)"
  unfolding export_bucket_def
  apply (rule gives_bind_anything, intro keeps)
  apply (rule gives_bind [OF gives_collect [where P = "\<lambda>t. recorded (sha256 (env v)) (fst t)"]])
    apply (erule gives_export_file)
   apply (rule assms)
  apply (clarsimp simp: gives_ret)
  done

lemma gives_export_database:
  "recorded (sha256 (env v)) (xs_writer s) \<Longrightarrow>
     gives (unchanged v) (\<lambda>(t, j). recorded (sha256 (env v)) (xs_writer t)) (export_database str s d)"
  unfolding export_database_def
  by (rule gives_bind [OF gives_export_tenant_database], assumption) (clarsimp simp: gives_ret)

lemma gives_export_project_bucket:
  "recorded (sha256 (env v)) (xs_writer s) \<Longrightarrow>
     gives (unchanged v) (\<lambda>(t, j). recorded (sha256 (env v)) (xs_writer t)) (export_project_bucket s b)"
  unfolding export_project_bucket_def
  by (rule gives_bind [OF gives_export_bucket]) (simp, clarsimp simp: gives_ret)

lemma gives_export_project:
  assumes "recorded (sha256 (env v)) (xs_writer s)"
  shows "gives (unchanged v) (\<lambda>(t, j). recorded (sha256 (env v)) (xs_writer t)) (export_project str s p)"
  unfolding export_project_def
  apply (rule gives_bind_anything, intro keeps)
  apply (rule gives_bind [OF gives_collect [where P = "\<lambda>t. recorded (sha256 (env v)) (xs_writer t)"]])
    apply (erule gives_export_database)
   apply (rule assms)
  apply clarify
  apply (rule gives_bind_anything, intro keeps)
  apply (rule gives_bind [OF gives_collect [where P = "\<lambda>t. recorded (sha256 (env v)) (xs_writer t)"]])
    apply (erule gives_export_project_bucket)
   apply assumption
  apply (clarsimp simp: gives_ret)
  done

lemma gives_export_workspace:
  assumes "recorded (sha256 (env v)) (xs_writer s)"
  shows "gives (unchanged v) (\<lambda>(t, j). recorded (sha256 (env v)) (xs_writer t)) (export_workspace str s ws)"
  unfolding export_workspace_def
  apply (rule gives_bind_anything, intro keeps)
  apply (rule gives_bind [OF gives_collect [where P = "\<lambda>t. recorded (sha256 (env v)) (xs_writer t)"]])
    apply (erule gives_export_project)
   apply (rule assms)
  apply (clarsimp simp: gives_ret)
  done

text \<open>A manifest that describes an archive.\<close>

definition describes :: "(bytes \<Rightarrow> string) \<Rightarrow> archive_writer \<times> json \<Rightarrow> bool" where
  "describes hash = (\<lambda>(a, m). recorded hash a
     \<and> (\<exists>version i org dbs. m = manifest_json version i (JObj org) dbs (aw_checksums a)))"

lemma preserves_export_membership [keeps]: "preserves (unchanged v) (export_membership org m)"
  unfolding export_membership_def by (intro keeps)

lemma gives_collect_export:
  "gives (unchanged v) (describes (sha256 (env v))) (collect_export str org)"
  unfolding collect_export_def
  apply ((rule gives_bind_anything, intro keeps)+)
  apply (rule gives_bind [OF gives_collect [where P = "\<lambda>t. recorded (sha256 (env v)) (xs_writer t)"]])
    apply (erule gives_export_workspace)
   apply (simp add: recorded_empty)
  apply clarify
  apply ((rule gives_bind_anything, intro keeps)+)
  apply (rule giving)
  apply (auto simp: describes_def)
  done

lemma preserves_write_container [keeps]: "preserves (unchanged v) (write_container z passphrase)"
proof -
  have "preserves (unchanged v) (urandom n)" for n
    by (simp add: preserves_def urandom_def unchanged_def)
  then show ?thesis unfolding write_container_def Let_def by (intro keeps)
qed

lemma preserves_build_export: "preserves (unchanged v) (build_export str org passphrase)"
  unfolding build_export_def pack_export_def Let_def
  by (rule gives_True, rule gives_bind [OF gives_collect_export], clarify) (intro gives_keeps keeps)


end
