(* ===== verification/Restorer.thy ===== *)
theory Restorer
  imports "HOL-Library.Multiset" Containers Imports
begin

text \<open>
  The restore of a portable package into a new organization (\<open>exports/restorer.py\<close>): opening and
  checking the package, and rebuilding everything it describes through the services of the other
  components, in one transaction on each of the two databases. Parsed JSON is read where the code
  reads it; a leaf of the wrong type, where the code expects text, a number or a truth value, is a
  \<open>TypeError\<close> in the model.
\<close>

section \<open>Opening a package\<close>

type_synonym archive = "string \<Rightarrow> exn + bytes"

definition CORRUPT_ARCHIVE_ERRORS :: "exn set" where
  "CORRUPT_ARCHIVE_ERRORS = {BadZipFile, ZlibError}"

definition open_package :: "library \<Rightarrow> bytes \<Rightarrow> string option \<Rightarrow> exn + archive \<times> json" where
  "open_package L data passphrase =
     (case read_container_payload L data passphrase of Inl e \<Rightarrow> Inl e
      | Inr zip_bytes \<Rightarrow> (case zip_open L zip_bytes of None \<Rightarrow> Inl PackageValidationError
      | Some zf \<Rightarrow> (case (case zf ''manifest.json'' of Inl e \<Rightarrow> Inl e | Inr b \<Rightarrow> json_loads L b) of
          Inl e \<Rightarrow> Inl (if e = KeyError \<or> e = JSONDecodeError \<or> e \<in> CORRUPT_ARCHIVE_ERRORS
            then PackageValidationError else e)
        | Inr manifest \<Rightarrow> (case validate_manifest_shape manifest of Inl e \<Rightarrow> Inl e
          | Inr _ \<Rightarrow> Inr (zf, manifest)))))"

fun check_members :: "(bytes \<Rightarrow> string) \<Rightarrow> archive \<Rightarrow> (string \<times> json) list \<Rightarrow> exn + unit" where
  "check_members hash zf [] = Inr ()"
| "check_members hash zf ((arcname, expected) # ms) = (case zf arcname of
     Inl e \<Rightarrow> Inl (if e = KeyError \<or> e \<in> CORRUPT_ARCHIVE_ERRORS then PackageValidationError else e)
   | Inr data \<Rightarrow> if JStr (hash data) \<noteq> expected then Inl PackageValidationError else check_members hash zf ms)"

definition verify_checksums :: "(bytes \<Rightarrow> string) \<Rightarrow> archive \<Rightarrow> json \<Rightarrow> exn + unit" where
  "verify_checksums hash zf manifest = (case json_get manifest ''checksums'' (JObj []) of Inl e \<Rightarrow> Inl e
     | Inr (JObj ms) \<Rightarrow> check_members hash zf ms
     | Inr _ \<Rightarrow> Inl AttributeError)"

section \<open>The order of the tables\<close>

record table_entry =
  te_name :: string
  te_refs :: "string list"
  te_data :: json

definition te_deps :: "table_entry \<Rightarrow> string set" where
  "te_deps t = {r \<in> set (te_refs t). r \<noteq> te_name t}"

text \<open>One pass over the tables that remain: those whose references are resolved, in order, those that
  still remain, and the names resolved by then.\<close>

fun topo_pass :: "string set \<Rightarrow> table_entry list \<Rightarrow> table_entry list \<times> table_entry list \<times> string set" where
  "topo_pass names [] = ([], [], names)"
| "topo_pass names (t # ts) =
    (if te_deps t \<subseteq> names
     then let (done, left, names') = topo_pass (insert (te_name t) names) ts in (t # done, left, names')
     else let (done, left, names') = topo_pass names ts in (done, t # left, names'))"

lemma topo_pass_length: "topo_pass names ts = (r, s, n) \<Longrightarrow> length r + length s = length ts"
  by (induction ts arbitrary: names r s n) (auto simp: Let_def split: if_splits prod.splits)

function topo_loop :: "string set \<Rightarrow> table_entry list \<Rightarrow> exn + table_entry list" where
  "topo_loop names remaining =
     (if remaining = [] then Inr []
      else case topo_pass names remaining of (resolved, left, names') \<Rightarrow>
        if resolved = [] then Inl RestoreError
        else case topo_loop names' left of Inl e \<Rightarrow> Inl e | Inr rest \<Rightarrow> Inr (resolved @ rest))"
  by pat_completeness auto

termination
  by (relation "measure (\<lambda>(names, remaining). length remaining)")
    (auto simp: neq_Nil_conv dest!: topo_pass_length [OF sym])

declare topo_loop.simps [simp del]

fun map_result :: "('a \<Rightarrow> exn + 'b) \<Rightarrow> 'a list \<Rightarrow> exn + 'b list" where
  "map_result f [] = Inr []"
| "map_result f (x # xs) = (case f x of Inl e \<Rightarrow> Inl e
     | Inr y \<Rightarrow> (case map_result f xs of Inl e \<Rightarrow> Inl e | Inr ys \<Rightarrow> Inr (y # ys)))"

definition and_then :: "exn + 'a \<Rightarrow> ('a \<Rightarrow> exn + 'b) \<Rightarrow> exn + 'b" where
  "and_then r f = (case r of Inl e \<Rightarrow> Inl e | Inr x \<Rightarrow> f x)"

definition json_text_item :: "json \<Rightarrow> string \<Rightarrow> exn + string" where
  "json_text_item j key = and_then (json_item j key) json_text"

definition json_list_item :: "json \<Rightarrow> string \<Rightarrow> exn + json list" where
  "json_list_item j key = and_then (json_item j key) json_iter"

definition table_entry_of :: "json \<Rightarrow> exn + table_entry" where
  "table_entry_of t = and_then (json_text_item t ''name'') (\<lambda>n.
     and_then (json_list_item t ''foreign_keys'') (\<lambda>fks.
     and_then (map_result (\<lambda>fk. json_text_item fk ''references_table'') fks) (\<lambda>refs.
     Inr \<lparr>te_name = n, te_refs = refs, te_data = t\<rparr>)))"

text \<open>\<open>by_name\<close> keeps the last table of a name.\<close>

definition last_named :: "table_entry list \<Rightarrow> string \<Rightarrow> json" where
  "last_named ts n = te_data (last (filter (\<lambda>t. te_name t = n) ts))"

definition topological_order :: "json list \<Rightarrow> exn + json list" where
  "topological_order tables =
     and_then (map_result table_entry_of tables) (\<lambda>ts.
     and_then (topo_loop {} ts) (\<lambda>resolved.
     Inr (map (\<lambda>t. last_named ts (te_name t)) resolved)))"

text \<open>An order of insertion: every table comes after the tables it references.\<close>

fun insertion_order :: "string set \<Rightarrow> table_entry list \<Rightarrow> bool" where
  "insertion_order names [] = True"
| "insertion_order names (t # ts) \<longleftrightarrow> te_deps t \<subseteq> names \<and> insertion_order (insert (te_name t) names) ts"

lemma insertion_order_mono: "insertion_order names ts \<Longrightarrow> names \<subseteq> names' \<Longrightarrow> insertion_order names' ts"
  by (induction ts arbitrary: names names') (auto, blast)

lemma insertion_order_append:
  "insertion_order names (ts @ us) \<longleftrightarrow> insertion_order names ts \<and> insertion_order (names \<union> te_name ` set ts) us"
  by (induction ts arbitrary: names) auto

lemma insertion_order_remove1: "insertion_order names ts \<Longrightarrow> insertion_order (insert (te_name t) names) (remove1 t ts)"
  by (induction ts arbitrary: names) (auto simp: insert_commute intro: insertion_order_mono)

lemma insertion_order_without:
  "insertion_order names ts \<Longrightarrow> mset rs \<subseteq># mset ts \<Longrightarrow>
     \<exists>us. insertion_order (names \<union> te_name ` set rs) us \<and> mset us = mset ts - mset rs"
proof (induction rs arbitrary: names ts)
  case (Cons t rs)
  have "mset rs \<subseteq># mset (remove1 t ts)" using Cons.prems(2) by (simp add: insert_subset_eq_iff)
  then obtain us where "insertion_order (insert (te_name t) names \<union> te_name ` set rs) us"
      "mset us = mset (remove1 t ts) - mset rs"
    using Cons.IH [OF insertion_order_remove1 [OF Cons.prems(1)]] by blast
  then show ?case by (intro exI [of _ us]) simp
qed auto

lemma topo_pass_sound:
  "topo_pass names ts = (r, s, n) \<Longrightarrow>
     insertion_order names r \<and> mset r + mset s = mset ts \<and> n = names \<union> te_name ` set r"
proof (induction ts arbitrary: names r s n)
  case (Cons t ts)
  show ?case
  proof (cases "te_deps t \<subseteq> names")
    case True
    then obtain r' where "topo_pass (insert (te_name t) names) ts = (r', s, n)" "r = t # r'"
      using Cons.prems by (auto simp: Let_def split: prod.splits)
    with Cons.IH [of "insert (te_name t) names" r' s n] True show ?thesis by simp
  next
    case False
    then obtain s' where "topo_pass names ts = (r, s', n)" "s = t # s'"
      using Cons.prems by (auto simp: Let_def split: prod.splits)
    with Cons.IH [of names r s' n] show ?thesis by simp
  qed
qed simp

lemma topo_pass_stuck: "topo_pass names ts = ([], s, n) \<Longrightarrow> t \<in> set ts \<Longrightarrow> \<not> te_deps t \<subseteq> names"
  by (induction ts arbitrary: names s n) (auto simp: Let_def split: if_splits prod.splits)

lemma topo_loop_correct:
  "case topo_loop names ts of
     Inr rs \<Rightarrow> mset rs = mset ts \<and> insertion_order names rs
   | Inl e \<Rightarrow> e = RestoreError \<and> (\<nexists>ps. mset ps = mset ts \<and> insertion_order names ps)"
proof (induction names ts rule: topo_loop.induct)
  case (1 names ts)
  obtain r s n where pass: "topo_pass names ts = (r, s, n)" by (cases "topo_pass names ts")
  note sound = topo_pass_sound [OF pass]
  consider "ts = []" | "ts \<noteq> []" "r = []" | "ts \<noteq> []" "r \<noteq> []" by blast
  then show ?case
  proof cases
    case 2
    have "\<not> insertion_order names ps" if "mset ps = mset ts" for ps
    proof (cases ps)
      case (Cons p ps')
      then have "p \<in> set ts" using that by (metis list.set_intros(1) mset_eq_setD)
      with 2 pass show ?thesis using topo_pass_stuck [of names ts s n p] by (simp add: Cons)
    qed (use 2 that in simp)
    then show ?thesis using 2 pass by (subst topo_loop.simps) simp
  next
    case 3
    note IH = 3(1) [THEN "1.IH", OF pass [symmetric] refl 3(2)]
    show ?thesis
    proof (cases "topo_loop n s")
      case (Inl e)
      have "False" if ps: "mset ps = mset ts" "insertion_order names ps" for ps
      proof -
        have "mset r \<subseteq># mset ps" "mset ps - mset r = mset s" using sound ps(1) by (metis mset_subset_eq_add_left, metis add_diff_cancel_left')
        with insertion_order_without [OF ps(2)] sound obtain us where "insertion_order n us" "mset us = mset s" by metis
        with IH Inl show False by auto
      qed
      with IH Inl 3 pass show ?thesis by (subst topo_loop.simps) auto
    next
      case (Inr rest)
      with IH sound 3 pass show ?thesis by (subst topo_loop.simps) (auto simp: insertion_order_append)
    qed
  qed (subst topo_loop.simps, simp)
qed

section \<open>The report\<close>

record restore_report =
  rp_organization_id :: "uuid option"
  rp_organization_name :: string
  rp_workspaces :: nat
  rp_projects :: nat
  rp_tenant_databases :: nat
  rp_tables :: nat
  rp_rows_imported :: nat
  rp_buckets :: nat
  rp_files_restored :: nat
  rp_files_quarantined :: nat
  rp_teams :: nat
  rp_memberships_restored :: nat
  rp_memberships_skipped :: "string list"
  rp_warnings :: "string list"

definition empty_report :: restore_report where
  "empty_report = \<lparr>rp_organization_id = None, rp_organization_name = '''', rp_workspaces = 0, rp_projects = 0,
     rp_tenant_databases = 0, rp_tables = 0, rp_rows_imported = 0, rp_buckets = 0, rp_files_restored = 0,
     rp_files_quarantined = 0, rp_teams = 0, rp_memberships_restored = 0, rp_memberships_skipped = [],
     rp_warnings = []\<rparr>"

definition count_json :: "nat \<Rightarrow> json" where "count_json n = JInt (int n)"

definition report_dict :: "restore_report \<Rightarrow> json" where
  "report_dict r = JObj [
     (''organization_id'', case rp_organization_id r of None \<Rightarrow> JNull | Some i \<Rightarrow> JStr (uuid_str i)),
     (''organization_name'', JStr (rp_organization_name r)),
     (''workspaces'', count_json (rp_workspaces r)), (''projects'', count_json (rp_projects r)),
     (''tenant_databases'', count_json (rp_tenant_databases r)), (''tables'', count_json (rp_tables r)),
     (''rows_imported'', count_json (rp_rows_imported r)), (''buckets'', count_json (rp_buckets r)),
     (''files_restored'', count_json (rp_files_restored r)),
     (''files_quarantined'', count_json (rp_files_quarantined r)), (''teams'', count_json (rp_teams r)),
     (''memberships_restored'', count_json (rp_memberships_restored r)),
     (''memberships_skipped'', JList (map JStr (rp_memberships_skipped r))),
     (''warnings'', JList (map JStr (rp_warnings r)))]"

section \<open>Reading the package\<close>

definition item :: "json \<Rightarrow> string \<Rightarrow> json app" where "item j key = lift (json_item j key)"
definition text_item :: "json \<Rightarrow> string \<Rightarrow> string app" where "text_item j key = lift (json_text_item j key)"
definition list_item :: "json \<Rightarrow> string \<Rightarrow> json list app" where "list_item j key = lift (json_list_item j key)"

text \<open>\<open>for x in obj.get(key, [])\<close>.\<close>

definition list_get :: "json \<Rightarrow> string \<Rightarrow> json list app" where
  "list_get j key = lift (and_then (json_get j key (JList [])) json_iter)"

definition read_member :: "archive \<Rightarrow> string \<Rightarrow> bytes app" where "read_member zf name = lift (zf name)"

section \<open>Rows\<close>

fun zip_strict :: "'a list \<Rightarrow> 'b list \<Rightarrow> exn + ('a \<times> 'b) list" where
  "zip_strict [] [] = Inr []"
| "zip_strict (x # xs) (y # ys) = (case zip_strict xs ys of Inl e \<Rightarrow> Inl e | Inr ps \<Rightarrow> Inr ((x, y) # ps))"
| "zip_strict _ _ = Inl ValueError"

definition restored_values :: "library \<Rightarrow> string list \<Rightarrow> string list \<Rightarrow> exn + pg_value list" where
  "restored_values L types row = and_then (zip_strict row types) (map_result (\<lambda>(raw, dtype). convert_value L raw dtype))"

text \<open>The type of a column of the table, by its name: the last of the columns named so.\<close>

definition column_types :: "db_column list \<Rightarrow> string list \<Rightarrow> exn + string list" where
  "column_types columns = map_result (\<lambda>n. case find (\<lambda>x. col_name x = n) (rev columns) of
     None \<Rightarrow> Inl KeyError | Some x \<Rightarrow> Inr (data_type x))"

definition restore_rows :: "archive \<Rightarrow> json \<Rightarrow> db_table \<Rightarrow> nat app" where
  "restore_rows zf table_data t =
     bind (text_item table_data ''rows_path'') (\<lambda>path.
     bind (read_member zf path) (\<lambda>content.
     bind (gets (\<lambda>w. lib (env w))) (\<lambda>L.
     case decode_strict L ''utf-8'' content of None \<Rightarrow> raise UnicodeError
     | Some raw \<Rightarrow> (case csv_rows CHR '','' None (text_lines raw) of
         ([], Some e) \<Rightarrow> raise e
       | ([], None) \<Rightarrow> ret 0
       | (header # rows, failure) \<Rightarrow>
           bind (query (\<lambda>c. columns_of c t)) (\<lambda>columns.
           bind (lift (column_types columns header)) (\<lambda>types.
           bind (table_database t) (\<lambda>d.
           let insert_sql = INSERT_IMPORTED (schema_name d) (tbl_name t) header in
           bind (for_each (\<lambda>row. bind (lift (restored_values L types row)) (\<lambda>values.
             bind (tenant_execute insert_sql values) (\<lambda>_. ret ()))) rows) (\<lambda>_.
           case failure of Some e \<Rightarrow> raise e | None \<Rightarrow> ret (length rows)))))))))"

section \<open>Tenant databases\<close>

definition json_int_option :: "json \<Rightarrow> exn + int option" where
  "json_int_option j = (case j of JNull \<Rightarrow> Inr None | JInt i \<Rightarrow> Inr (Some i) | _ \<Rightarrow> Inl TypeError)"

definition json_bool :: "json \<Rightarrow> exn + bool" where
  "json_bool j = (case j of JBool b \<Rightarrow> Inr b | _ \<Rightarrow> Inl TypeError)"

definition column_spec_of :: "json \<Rightarrow> exn + column_spec" where
  "column_spec_of j =
     and_then (json_text_item j ''name'') (\<lambda>n.
     and_then (json_text_item j ''data_type'') (\<lambda>t.
     and_then (and_then (json_item j ''max_length'') json_int_option) (\<lambda>m.
     and_then (and_then (json_item j ''precision'') json_int_option) (\<lambda>p.
     and_then (and_then (json_item j ''scale'') json_int_option) (\<lambda>s.
     and_then (and_then (json_item j ''is_nullable'') json_bool) (\<lambda>nullable.
     and_then (and_then (json_item j ''is_unique'') json_bool) (\<lambda>unique.
     and_then (json_item j ''default_value'') (\<lambda>d.
     Inr \<lparr>cs_name = n, cs_data_type = t, cs_max_length = m, cs_precision = p, cs_scale = s, cs_nullable = nullable,
       cs_unique = unique, cs_default = (if d = JNull then None else Some d)\<rparr>))))))))"

text \<open>\<open>tables_by_name\<close> and \<open>columns_by_ref\<close>.\<close>

record restored_schema =
  rs_tables :: "string \<Rightarrow> db_table option"
  rs_columns :: "string \<times> string \<Rightarrow> db_column option"

definition lookup :: "('k \<Rightarrow> 'v option) \<Rightarrow> 'k \<Rightarrow> 'v app" where
  "lookup m k = (case m k of None \<Rightarrow> raise KeyError | Some v \<Rightarrow> ret v)"

definition restore_column :: "user \<Rightarrow> db_table \<Rightarrow> string \<Rightarrow> restored_schema \<Rightarrow> json \<Rightarrow> restored_schema app" where
  "restore_column actor t table_name s col_data =
     bind (lift (column_spec_of col_data)) (\<lambda>spec.
     bind (add_column actor t spec '''') (\<lambda>x.
     ret (s\<lparr>rs_columns := (rs_columns s)((table_name, cs_name spec) \<mapsto> x)\<rparr>)))"

definition restore_table :: "user \<Rightarrow> tenant_database \<Rightarrow> restored_schema \<Rightarrow> json \<Rightarrow> restored_schema app" where
  "restore_table actor database s table_data =
     bind (text_item table_data ''name'') (\<lambda>name.
     bind (create_table actor database name '''') (\<lambda>t.
     bind (get_one (\<lambda>c. filter (\<lambda>x. col_table x = tbl_id t \<and> is_primary_key x) (db_columns c))) (\<lambda>key.
     bind (list_item table_data ''columns'') (\<lambda>columns.
     fold_each (restore_column actor t name)
       \<lparr>rs_tables = (rs_tables s)(name \<mapsto> t), rs_columns = (rs_columns s)((name, ''id'') \<mapsto> key)\<rparr> columns))))"

definition restore_foreign_key :: "user \<Rightarrow> restored_schema \<Rightarrow> string \<Rightarrow> json \<Rightarrow> unit app" where
  "restore_foreign_key actor s table_name fk =
     bind (text_item fk ''column'') (\<lambda>column.
     bind (lookup (rs_columns s) (table_name, column)) (\<lambda>x.
     bind (text_item fk ''references_table'') (\<lambda>ref_table.
     bind (lookup (rs_tables s) ref_table) (\<lambda>r.
     bind (text_item fk ''references_column'') (\<lambda>ref_column.
     bind (lookup (rs_columns s) (ref_table, ref_column)) (\<lambda>y.
     bind (text_item fk ''on_delete'') (\<lambda>on_delete.
     bind (add_foreign_key actor x r y on_delete '''') (\<lambda>_. ret ()))))))))"

definition restore_foreign_keys :: "user \<Rightarrow> restored_schema \<Rightarrow> json \<Rightarrow> unit app" where
  "restore_foreign_keys actor s table_data =
     bind (text_item table_data ''name'') (\<lambda>name.
     bind (lookup (rs_tables s) name) (\<lambda>_.
     bind (list_item table_data ''foreign_keys'') (\<lambda>fks.
     for_each (restore_foreign_key actor s name) fks)))"

definition restore_table_rows :: "archive \<Rightarrow> restored_schema \<Rightarrow> restore_report \<Rightarrow> json \<Rightarrow> restore_report app" where
  "restore_table_rows zf s r table_data =
     bind (text_item table_data ''name'') (\<lambda>name.
     bind (lookup (rs_tables s) name) (\<lambda>t.
     bind (restore_rows zf table_data t) (\<lambda>n.
     ret (r\<lparr>rp_rows_imported := rp_rows_imported r + n\<rparr>))))"

definition restore_tenant_database ::
  "archive \<Rightarrow> json \<Rightarrow> project \<Rightarrow> user \<Rightarrow> restore_report \<Rightarrow> restore_report app" where
  "restore_tenant_database zf entry project actor r =
     bind (text_item entry ''schema_path'') (\<lambda>path.
     bind (read_member zf path) (\<lambda>content.
     bind (gets (\<lambda>w. lib (env w))) (\<lambda>L.
     bind (lift (json_loads L content)) (\<lambda>schema.
     bind (text_item schema ''name'') (\<lambda>name.
     bind (create_tenant_database actor project name '''') (\<lambda>database.
     bind (list_item schema ''tables'') (\<lambda>tables.
     bind (fold_each (restore_table actor database) \<lparr>rs_tables = (\<lambda>_. None), rs_columns = (\<lambda>_. None)\<rparr> tables) (\<lambda>s.
     bind (for_each (restore_foreign_keys actor s) tables) (\<lambda>_.
     bind (lift (topological_order tables)) (\<lambda>ordered.
     fold_each (restore_table_rows zf s) (r\<lparr>rp_tenant_databases := Suc (rp_tenant_databases r),
       rp_tables := rp_tables r + length tables\<rparr>) ordered))))))))))"

section \<open>Buckets\<close>

text \<open>\<open>folder_cache\<close> and \<open>_get_or_create_folder\<close>, on a path in reverse.\<close>

type_synonym folder_cache = "string list \<Rightarrow> folder option option"

fun get_or_create_folder :: "bucket \<Rightarrow> user \<Rightarrow> folder_cache \<Rightarrow> string list \<Rightarrow> (folder_cache \<times> folder option) app" where
  "get_or_create_folder b actor cache [] = (case cache [] of Some f \<Rightarrow> ret (cache, f) | None \<Rightarrow> raise IndexError)"
| "get_or_create_folder b actor cache (name # up) = (case cache (name # up) of
     Some f \<Rightarrow> ret (cache, f)
   | None \<Rightarrow>
       bind (get_or_create_folder b actor cache up) (\<lambda>(cache', parent).
       bind uuid4 (\<lambda>i.
       let d = \<lparr>fld_id = i, fld_bucket = bkt_id b, fld_parent = map_option fld_id parent, fld_name = name,
             fld_created_by = user_id actor\<rparr> in
       bind (orm_create folders folders_update folder_clash d) (\<lambda>_.
       ret (cache'(name # up \<mapsto> Some d), Some d)))))"

text \<open>The warnings, the quotes of \<open>repr\<close> and the dash of the second left out.\<close>

definition too_large_warning :: "string \<Rightarrow> string" where
  "too_large_warning name = ''skipped '' @ name @ '': exceeds this installation's upload size limit''"

definition checksum_warning :: "string \<Rightarrow> string" where
  "checksum_warning name = name @ '' restored but checksum differs from the export (byte-for-byte mismatch)''"

definition restore_file :: "archive \<Rightarrow> bucket \<Rightarrow> user \<Rightarrow> folder_cache \<times> restore_report \<Rightarrow> json
    \<Rightarrow> (folder_cache \<times> restore_report) app" where
  "restore_file zf b actor state file_data = (case state of (cache, r) \<Rightarrow>
     bind (list_item file_data ''folder_path'') (\<lambda>path.
     bind (lift (map_result json_text path)) (\<lambda>names.
     bind (get_or_create_folder b actor cache (rev names)) (\<lambda>(cache', folder).
     bind (text_item file_data ''content_ref'') (\<lambda>content_ref.
     bind (read_member zf content_ref) (\<lambda>content.
     bind (text_item file_data ''original_filename'') (\<lambda>original.
     bind (text_item file_data ''display_filename'') (\<lambda>display.
     bind (attempt (upload_file b folder \<lparr>up_name = original, up_content = content\<rparr> display actor)) (\<lambda>x. case x of
         Inl e \<Rightarrow> if e = UploadTooLarge
           then ret (cache', r\<lparr>rp_warnings := rp_warnings r @ [too_large_warning display]\<rparr>) else raise e
       | Inr f \<Rightarrow>
           bind (item file_data ''checksum_sha256'') (\<lambda>checksum.
           ret (cache', r\<lparr>
             rp_files_quarantined := rp_files_quarantined r + (if file_status f = FQuarantined then 1 else 0),
             rp_files_restored := Suc (rp_files_restored r),
             rp_warnings := rp_warnings r @
               (if JStr (checksum_sha256 f) \<noteq> checksum then [checksum_warning display] else [])\<rparr>)))))))))))"

definition restore_bucket :: "archive \<Rightarrow> project \<Rightarrow> user \<Rightarrow> restore_report \<Rightarrow> json \<Rightarrow> restore_report app" where
  "restore_bucket zf project actor r bucket_data =
     bind (text_item bucket_data ''name'') (\<lambda>name.
     bind (lift (and_then (json_item bucket_data ''versioning_enabled'') json_bool)) (\<lambda>versioning.
     bind uuid4 (\<lambda>i.
     let b = \<lparr>bkt_id = i, bkt_project = proj_id project, bkt_name = name, versioning_enabled = versioning,
           bkt_created_by = user_id actor\<rparr> in
     bind (orm_create buckets buckets_update bucket_clash b) (\<lambda>_.
     bind (list_item bucket_data ''files'') (\<lambda>fs.
     bind (fold_each (restore_file zf b actor) ([[] \<mapsto> None], r\<lparr>rp_buckets := Suc (rp_buckets r)\<rparr>) fs) (\<lambda>(_, r').
     ret r'))))))"

section \<open>Memberships\<close>

text \<open>A failed query leaves the transaction unusable: the next query raises, whatever the handler caught.\<close>

definition restore_role :: "user \<Rightarrow> organization \<Rightarrow> string \<Rightarrow> restore_report \<Rightarrow> json \<Rightarrow> restore_report app" where
  "restore_role user org address r role = 
     bind (lift (json_text role)) (\<lambda>slug.
     if slug = ''organization-administrator'' then ret r
     else bind (attempt (assign_role user slug (Some (org_id org)) None)) (\<lambda>x. case x of
         Inr _ \<Rightarrow> ret r
       | Inl e \<Rightarrow> if (case e of DbError _ \<Rightarrow> True | _ \<Rightarrow> False) then raise e
           else bind (gets (\<lambda>w. exn_str (env w) e)) (\<lambda>text.
             ret (r\<lparr>rp_warnings := rp_warnings r @ [''could not restore role '' @ slug @ '' for '' @ address @ '': '' @ text]\<rparr>))))"

definition membership_or_create :: "user \<Rightarrow> organization \<Rightarrow> team option \<Rightarrow> unit app" where
  "membership_or_create user org team =
     bind (query (\<lambda>c. list_ex (\<lambda>m. mem_user m = user_id user \<and> mem_organization m = org_id org) (memberships c))) (\<lambda>exists.
     if exists then ret ()
     else bind uuid4 (\<lambda>i.
       orm_create memberships memberships_update membership_clash
         \<lparr>mem_id = i, mem_user = user_id user, mem_organization = org_id org, mem_team = map_option team_id team,
          mem_status = MActive, mem_invited_by = None\<rparr>))"

definition restore_membership :: "organization \<Rightarrow> (string \<Rightarrow> team option) \<Rightarrow> restore_report \<Rightarrow> json \<Rightarrow> restore_report app" where
  "restore_membership org team_by_name r entry =
     bind (text_item entry ''email'') (\<lambda>address.
     bind (gets (\<lambda>w. pg_upper (env w))) (\<lambda>upper.
     bind (attempt (get_one (\<lambda>c. filter (\<lambda>v. upper (email v) = upper address) (users c)))) (\<lambda>found. case found of
       Inl e \<Rightarrow> if e = DoesNotExist
         then ret (r\<lparr>rp_memberships_skipped := rp_memberships_skipped r @ [address]\<rparr>) else raise e
     | Inr user \<Rightarrow>
         bind (lift (json_get entry ''team'' JNull)) (\<lambda>t.
         bind (if truthy t then bind (lift (json_text t)) (\<lambda>n. ret (team_by_name n)) else ret None) (\<lambda>team.
         bind (membership_or_create user org team) (\<lambda>_.
         bind (list_get entry ''role_slugs'') (\<lambda>slugs.
         bind (fold_each (restore_role user org address) r slugs) (\<lambda>r'.
         ret (r'\<lparr>rp_memberships_restored := Suc (rp_memberships_restored r')\<rparr>)))))))))"

section \<open>The package\<close>

text \<open>A slug nobody has: the loop draws until the slug is free. \<open>fuel\<close> bounds the draws;
  \<open>fresh_slug_enough\<close> below says when it is enough.\<close>

definition draw_slug :: "string \<Rightarrow> string app" where
  "draw_slug name = bind uuid4 (\<lambda>u. gets (\<lambda>w. slugify (env w) name @ ''-'' @ take 8 (uuid_hex u)))"

fun fresh_slug :: "nat \<Rightarrow> string \<Rightarrow> string app" where
  "fresh_slug 0 name = raise TimeoutExpired"
| "fresh_slug (Suc fuel) name =
    bind (draw_slug name) (\<lambda>slug.
    bind (query (\<lambda>c. list_ex (\<lambda>g. org_slug g = slug) (organizations c))) (\<lambda>taken.
    if taken then fresh_slug fuel name else ret slug))"

definition restore_project :: "archive \<Rightarrow> json \<Rightarrow> workspace \<Rightarrow> user \<Rightarrow> restore_report \<Rightarrow> json \<Rightarrow> restore_report app" where
  "restore_project zf manifest ws actor r proj_data =
     bind (text_item proj_data ''name'') (\<lambda>name.
     bind uuid4 (\<lambda>i.
     let p = \<lparr>proj_id = i, proj_workspace = ws_id ws, proj_name = name, proj_created_by = user_id actor\<rparr> in
     bind (orm_create projects projects_update project_clash p) (\<lambda>_.
     bind (list_get proj_data ''tenant_databases'') (\<lambda>dbs.
     bind (fold_each (\<lambda>r db_id.
         bind (item manifest ''databases'') (\<lambda>databases.
         bind (lift (json_text db_id)) (\<lambda>key.
         bind (item databases key) (\<lambda>entry.
         restore_tenant_database zf entry p actor r)))) (r\<lparr>rp_projects := Suc (rp_projects r)\<rparr>) dbs) (\<lambda>r'.
     bind (list_get proj_data ''buckets'') (\<lambda>bs.
     fold_each (restore_bucket zf p actor) r' bs))))))"

definition restore_workspace :: "archive \<Rightarrow> json \<Rightarrow> organization \<Rightarrow> user \<Rightarrow> restore_report \<Rightarrow> json \<Rightarrow> restore_report app" where
  "restore_workspace zf manifest org actor r ws_data =
     bind (text_item ws_data ''name'') (\<lambda>name.
     bind uuid4 (\<lambda>i.
     let ws = \<lparr>ws_id = i, ws_organization = org_id org, ws_name = name, ws_created_by = user_id actor\<rparr> in
     bind (orm_create workspaces workspaces_update workspace_clash ws) (\<lambda>_.
     bind (list_get ws_data ''projects'') (\<lambda>ps.
     fold_each (restore_project zf manifest ws actor) (r\<lparr>rp_workspaces := Suc (rp_workspaces r)\<rparr>) ps))))"

definition restore_team :: "organization \<Rightarrow> (string \<Rightarrow> team option) \<times> restore_report \<Rightarrow> json
    \<Rightarrow> ((string \<Rightarrow> team option) \<times> restore_report) app" where
  "restore_team org state entry = (case state of (team_by_name, r) \<Rightarrow>
     bind (lift (json_text entry)) (\<lambda>name.
     bind uuid4 (\<lambda>i.
     let t = \<lparr>team_id = i, team_organization = org_id org, team_name = name\<rparr> in
     bind (orm_create teams teams_update team_clash t) (\<lambda>_.
     ret (team_by_name(name \<mapsto> t), r\<lparr>rp_teams := Suc (rp_teams r)\<rparr>)))))"

definition restore_package :: "nat \<Rightarrow> archive \<Rightarrow> json \<Rightarrow> user \<Rightarrow> restore_report app" where
  "restore_package fuel zf manifest actor =
     bind (item manifest ''organization'') (\<lambda>org_data.
     atomic_default (atomic_tenant (
       bind (text_item org_data ''name'') (\<lambda>name.
       bind (fresh_slug fuel name) (\<lambda>slug.
       bind (create_organization name actor (Some slug)) (\<lambda>org.
       bind (list_get org_data ''teams'') (\<lambda>ts.
       bind (fold_each (restore_team org) (\<lambda>_. None, empty_report\<lparr>rp_organization_id := Some (org_id org),
         rp_organization_name := org_name org\<rparr>) ts) (\<lambda>(team_by_name, r).
       bind (list_get org_data ''workspaces'') (\<lambda>wss.
       bind (fold_each (restore_workspace zf manifest org actor) r wss) (\<lambda>r.
       bind (list_get org_data ''memberships'') (\<lambda>ms.
       fold_each (restore_membership org team_by_name) r ms)))))))))))"

section \<open>A slug nobody has\<close>

definition slug_at :: "world \<Rightarrow> string \<Rightarrow> nat \<Rightarrow> string" where
  "slug_at w name k = slugify (env w) name @ ''-'' @ take 8 (uuid_hex (uuid_source (env w) (rng w + k)))"

lemma fresh_slug_run:
  "fresh_slug fuel name w = (case find (\<lambda>k. slug_at w name k \<notin> org_slug ` set (organizations (ctl w))) [0..<fuel] of
     Some k \<Rightarrow> (Inr (slug_at w name k), w\<lparr>rng := rng w + Suc k\<rparr>)
   | None \<Rightarrow> (Inl TimeoutExpired, w\<lparr>rng := rng w + fuel\<rparr>))"
proof (induction fuel arbitrary: w)
  case (Suc fuel)
  let ?w = "w\<lparr>rng := Suc (rng w)\<rparr>" let ?taken = "\<lambda>s. s \<in> org_slug ` set (organizations (ctl w))"
  have next_slug: "slug_at ?w name k = slug_at w name (Suc k)" for k by (simp add: slug_at_def)
  have shift: "find P [0..<Suc n] = (if P 0 then Some 0 else map_option Suc (find (\<lambda>k. P (Suc k)) [0..<n]))" for P n
  proof -
    have "find P (map Suc ks) = map_option Suc (find (\<lambda>k. P (Suc k)) ks)" for ks by (induction ks) auto
    moreover have "[0..<Suc n] = 0 # map Suc [0..<n]" by (simp only: map_Suc_upt upt_conv_Cons zero_less_Suc)
    ultimately show ?thesis by (simp only: find.simps)
  qed
  have taken: "list_ex (\<lambda>g. org_slug g = s) (organizations (ctl w)) \<longleftrightarrow> ?taken s" for s
    by (auto simp: list_ex_iff)
  have "fresh_slug (Suc fuel) name w = (if ?taken (slug_at w name 0) then fresh_slug fuel name ?w
      else (Inr (slug_at w name 0), ?w))"
    by (simp add: draw_slug_def bind_def slug_at_def taken)
  then show ?case
    by (simp only: shift Suc.IH) (auto simp: next_slug split: option.split)
qed simp


text \<open>C29. The loop that orders the tables ends for every package, and decides: it returns the tables in an
  order in which every one comes after those it references, or fails with \<open>RestoreError\<close>, and then
  there is no such order at all.\<close>

theorem topological_order_decides:
  "case topo_loop {} ts of
     Inr ordered \<Rightarrow> mset ordered = mset ts \<and> insertion_order {} ordered
   | Inl e \<Rightarrow> e = RestoreError \<and> (\<nexists>ps. mset ps = mset ts \<and> insertion_order {} ps)"
  by (rule topo_loop_correct)

lemma check_members_Inr:
  "check_members hash zf ms = Inr () \<longleftrightarrow>
     list_all (\<lambda>(arcname, expected). \<exists>data. zf arcname = Inr data \<and> JStr (hash data) = expected) ms"
  by (induction hash zf ms rule: check_members.induct) (auto split: sum.split)

text \<open>A package whose checksums are verified has, for every name its manifest lists, a member with
  exactly the recorded digest; a member the manifest does not list is not looked at.\<close>

theorem verify_checksums_exact:
  "verify_checksums hash zf (JObj ((''checksums'', JObj ms) # kvs)) = Inr () \<longleftrightarrow>
     list_all (\<lambda>(arcname, expected). \<exists>data. zf arcname = Inr data \<and> JStr (hash data) = expected) ms"
  by (simp add: verify_checksums_def json_get_def check_members_Inr)

section \<open>A restore only adds\<close>

text \<open>Every table of the control plane but the audit log is as it was, with rows added at its end.\<close>

definition adds_only :: "control \<Rightarrow> control \<Rightarrow> bool" where
  "adds_only c d \<longleftrightarrow> users d = users c \<and> permissions d = permissions c \<and> roles d = roles c
     \<and> prefix (role_assignments c) (role_assignments d) \<and> resource_grants d = resource_grants c
     \<and> prefix (organizations c) (organizations d) \<and> prefix (teams c) (teams d)
     \<and> prefix (memberships c) (memberships d) \<and> prefix (workspaces c) (workspaces d)
     \<and> prefix (projects c) (projects d) \<and> prefix (buckets c) (buckets d) \<and> prefix (folders c) (folders d)
     \<and> prefix (files c) (files d) \<and> file_versions d = file_versions c
     \<and> prefix (tenant_databases c) (tenant_databases d) \<and> prefix (db_tables c) (db_tables d)
     \<and> prefix (db_columns c) (db_columns d) \<and> prefix (db_foreign_keys c) (db_foreign_keys d)
     \<and> prefix (db_indexes c) (db_indexes d) \<and> connected_databases d = connected_databases c
     \<and> share_grants d = share_grants c \<and> applications d = applications c
     \<and> service_accounts d = service_accounts c \<and> credentials d = credentials c
     \<and> import_jobs d = import_jobs c \<and> import_job_errors d = import_job_errors c
     \<and> export_jobs d = export_jobs c \<and> restore_jobs d = restore_jobs c \<and> dashboards d = dashboards c
     \<and> backup_records d = backup_records c"

lemma adds_only_refl [simp]: "adds_only c c"
  by (simp add: adds_only_def)

definition sql_ok :: "composable \<Rightarrow> bool" where
  "sql_ok q \<longleftrightarrow> harmless (DDL_TEXTS \<union> DML_TEXTS) q"

lemma harmless_mono: "harmless texts q \<Longrightarrow> texts \<subseteq> texts' \<Longrightarrow> harmless texts' q"
  by (auto simp: harmless_def)

definition restored_catalog :: "control \<Rightarrow> control \<Rightarrow> bool" where
  "restored_catalog c d \<longleftrightarrow> well_formed_catalog d \<and> adds_only c d"

lemma added_rows [simp]:
  "restored_catalog c d \<Longrightarrow> restored_catalog c (organizations_update (\<lambda>xs. xs @ [r1]) d)"
  "restored_catalog c d \<Longrightarrow> restored_catalog c (memberships_update (\<lambda>xs. xs @ [r2]) d)"
  "restored_catalog c d \<Longrightarrow> restored_catalog c (role_assignments_update (\<lambda>xs. xs @ [r3]) d)"
  "restored_catalog c d \<Longrightarrow> restored_catalog c (teams_update (\<lambda>xs. xs @ [r4]) d)"
  "restored_catalog c d \<Longrightarrow> restored_catalog c (workspaces_update (\<lambda>xs. xs @ [r5]) d)"
  "restored_catalog c d \<Longrightarrow> restored_catalog c (projects_update (\<lambda>xs. xs @ [r6]) d)"
  "restored_catalog c d \<Longrightarrow> restored_catalog c (buckets_update (\<lambda>xs. xs @ [r7]) d)"
  "restored_catalog c d \<Longrightarrow> restored_catalog c (folders_update (\<lambda>xs. xs @ [r8]) d)"
  "restored_catalog c d \<Longrightarrow> restored_catalog c (files_update (\<lambda>xs. xs @ [r9]) d)"
  by (simp_all add: restored_catalog_def adds_only_def well_formed_catalog_def)

interpretation restored: schema_invariant "restored_catalog c" sql_ok for c
  by unfold_locales
    (auto simp: restored_catalog_def adds_only_def well_formed_catalog_def ignores_audit_def sql_ok_def
      intro: harmless_mono)

abbreviation restoring :: "control \<Rightarrow> world \<Rightarrow> bool" where
  "restoring c \<equiv> both (restored_catalog c) (sent_only sql_ok)"

lemma both_s3 [keeps]:
  "preserves (both J K) (s3_put key content)" "preserves (both J K) (s3_get key)" "preserves (both J K) (s3_delete key)"
  by (auto simp: preserves_def both_def s3_put_def s3_get_def s3_delete_def s3_call_def Let_def split: option.splits)

lemma both_atomic_tenant [keeps]:
  assumes "preserves (both J K) m"
  shows "preserves (both J K) (atomic_tenant m)"
proof (rule preservesI)
  fix w assume w: "both J K w"
  obtain r t where m: "m w = (r, t)" by (cases "m w")
  with assms w have "both J K t" by (auto dest: preservesD)
  with m w show "both J K (snd (atomic_tenant m w))"
    by (cases r) (simp_all add: atomic_tenant_def both_def)
qed

lemma both_tenant_execute:
  "ok q \<Longrightarrow> preserves (both J (sent_only ok)) (tenant_execute q ps)"
  by (auto simp: preserves_def both_def tenant_execute_def Let_def split: sum.split)

lemma restored_audit [simp]: "ignores_audit (restored_catalog c)"
  by (rule restored.audit)

lemma keeps_assign_role: "preserves (restoring c) (assign_role user slug org granted_by)"
  unfolding assign_role_def Let_def by (intro keeps both_orm_create) simp_all

lemma keeps_create_organization: "preserves (restoring c) (create_organization name actor slug)"
  unfolding create_organization_def Let_def by (intro keeps both_orm_create keeps_assign_role) simp_all

lemma keeps_upload_file: "preserves (restoring c) (upload_file b folder u display actor)"
  unfolding upload_file_def Let_def Bucket_organization_id_def new_object_key_def
  by (intro keeps both_orm_create)
    (simp_all add: preserves_def hash_and_sniff_run scan_for_malware_run split: sum.split)

lemma returns_atomic [returning]: "returns P m \<Longrightarrow> returns P (atomic_default m)"
  by (auto simp: returns_iff atomic_default_def split: prod.splits sum.splits)

lemma gives_lookup: "(\<And>v. m k = Some v \<Longrightarrow> P v) \<Longrightarrow> gives I P (lookup m k)"
  by (auto simp: lookup_def intro: giving)

lemma gives_create_tenant_database:
  "gives (restoring c) (\<lambda>d. IDENTIFIER_RE (schema_name d)) (create_tenant_database actor p name req)"
  by (rule gives_returns [OF restored.keeps_create_tenant_database], unfold create_tenant_database_def Let_def)
    (intro returning, simp)

lemma gives_create_table:
  assumes "IDENTIFIER_RE (schema_name d)"
  shows "gives (restoring c) (\<lambda>t. IDENTIFIER_RE (tbl_name t)) (create_table actor d name req)"
proof (rule gives_returns [OF restored.keeps_create_table [OF assms]], cases "IDENTIFIER_RE name")
  case True
  then show "returns (\<lambda>t. IDENTIFIER_RE (tbl_name t)) (create_table actor d name req)"
    unfolding create_table_def Let_def by (intro returning) simp
next
  case False
  then have "validating (validate_identifier name) = raise SchemaValidationError"
    by (simp add: validating_def validate_identifier_def fun_eq_iff)
  then show "returns (\<lambda>t. IDENTIFIER_RE (tbl_name t)) (create_table actor d name req)"
    unfolding create_table_def by simp (intro returning)
qed

lemma returns_write_catalog [returning]: "returns P fn \<Longrightarrow> returns P (write_catalog fn q)"
  unfolding write_catalog_def by (intro returning)

lemma gives_add_column:
  assumes "IDENTIFIER_RE (tbl_name t)"
  shows "gives (restoring c) (\<lambda>x. IDENTIFIER_RE (col_name x)) (add_column actor t spec req)"
proof (rule gives_returns [OF restored.keeps_add_column [OF assms]], cases "IDENTIFIER_RE (cs_name spec)")
  case True
  show "returns (\<lambda>x. IDENTIFIER_RE (col_name x)) (add_column actor t spec req)"
    unfolding add_column_def Let_def
    by (rule returns_bind, rule returns_bind, rule returns_bind, rule gives_case_prod, rule returns_bind, rule returns_bind,
        rule_tac P = "\<lambda>x. IDENTIFIER_RE (col_name x)" in gives_bind)
      (((intro returning)?, simp add: column_of_spec_def True)+)
next
  case False
  then have "checked_column_sql spec = raise SchemaValidationError"
    by (auto simp: checked_column_sql_def validating_def validate_column_name_def validate_identifier_def fun_eq_iff bind_def)
  then show "returns (\<lambda>x. IDENTIFIER_RE (col_name x)) (add_column actor t spec req)"
    unfolding add_column_def by simp (intro returning)
qed

text \<open>Each part of the restore keeps the invariant, and the names it hands on are identifiers.\<close>

lemma harmless_INSERT:
  "IDENTIFIER_RE s \<Longrightarrow> IDENTIFIER_RE t \<Longrightarrow> list_all IDENTIFIER_RE cs \<Longrightarrow> sql_ok (INSERT_IMPORTED s t cs)"
  unfolding sql_ok_def
  by (rule harmless_mono [of DML_TEXTS]) (simp_all add: INSERT_IMPORTED_def list.pred_map list.pred_True comp_def)

lemma restoring_catalog: "restoring c w \<Longrightarrow> well_formed_catalog (ctl w)"
  by (simp add: both_def restored_catalog_def)

lemma gives_table_database:
  "gives (restoring c) (\<lambda>d. IDENTIFIER_RE (schema_name d)) (table_database t)"
  unfolding table_database_def
  by (rule gives_result [OF preserves_get_one])
    (auto simp: get_one_eq_Inr well_formed_catalog_def dest!: restoring_catalog singleton_filter)

lemma gives_columns:
  "gives (restoring c) (list_all (\<lambda>x. IDENTIFIER_RE (col_name x))) (query (\<lambda>c. columns_of c t))"
  by (rule gives_result)
    (auto simp: query_def columns_of_def list_all_iff well_formed_catalog_def well_formed_column_def
      dest!: restoring_catalog intro: keeps)

lemma gives_primary_key:
  "gives (restoring c) (\<lambda>x. IDENTIFIER_RE (col_name x))
     (get_one (\<lambda>c. filter (\<lambda>x. col_table x = i \<and> is_primary_key x) (db_columns c)))"
  by (rule gives_result [OF preserves_get_one])
    (auto simp: get_one_eq_Inr well_formed_catalog_def well_formed_column_def dest!: restoring_catalog singleton_filter)

lemma column_types_Cons:
  "column_types xs (n # ns) = (case find (\<lambda>x. col_name x = n) (rev xs) of None \<Rightarrow> Inl KeyError
     | Some x \<Rightarrow> (case column_types xs ns of Inl e \<Rightarrow> Inl e | Inr ts \<Rightarrow> Inr (data_type x # ts)))"
  by (simp add: column_types_def split: option.split)

lemma column_types_names:
  assumes "list_all (\<lambda>x. IDENTIFIER_RE (col_name x)) xs"
  shows "column_types xs ns = Inr ts \<Longrightarrow> list_all IDENTIFIER_RE ns"
proof (induction ns arbitrary: ts)
  case (Cons n ns)
  then obtain x us where found: "find (\<lambda>x. col_name x = n) (rev xs) = Some x" and "column_types xs ns = Inr us"
    unfolding column_types_Cons by (cases "find (\<lambda>x. col_name x = n) (rev xs)"; cases "column_types xs ns") simp_all
  then have "list_all IDENTIFIER_RE ns" using Cons.IH by blast
  moreover obtain i where "i < length (rev xs)" "x = rev xs ! i" "col_name (rev xs ! i) = n"
    using found unfolding find_Some_iff by blast
  then have "col_name x = n" "x \<in> set xs" using nth_mem [of i "rev xs"] by simp_all
  ultimately show ?case using assms by (auto simp: list_all_iff)
qed simp

lemma keeps_reading [keeps]:
  "preserves I (item j k)" "preserves I (text_item j k)" "preserves I (list_item j k)"
  "preserves I (list_get j k)" "preserves I (read_member zf k)"
  by (simp_all add: item_def text_item_def list_item_def list_get_def read_member_def keeps)

lemma gives_restore_rows:
  assumes "IDENTIFIER_RE (tbl_name t)"
  shows "preserves (restoring c) (restore_rows zf table_data t)"
proof -
  have insert: "preserves (restoring c) (for_each (\<lambda>row. bind (lift (restored_values L types row)) (\<lambda>values.
      bind (tenant_execute (INSERT_IMPORTED (schema_name d) (tbl_name t) header) values) (\<lambda>_. ret ()))) rows)"
    if "IDENTIFIER_RE (schema_name d)" "list_all IDENTIFIER_RE header" for d L types header rows
    using that assms by (intro keeps both_tenant_execute harmless_INSERT)
  have types: "gives (restoring c) (\<lambda>_. list_all IDENTIFIER_RE header) (lift (column_types columns header))"
    if "list_all (\<lambda>x. IDENTIFIER_RE (col_name x)) columns" for columns header
    using that by (intro giving) (rule column_types_names)
  have filled: "gives (restoring c) (\<lambda>_. True)
      (bind (query (\<lambda>c. columns_of c t)) (\<lambda>columns. bind (lift (column_types columns header)) (\<lambda>types.
       bind (table_database t) (\<lambda>d. bind (for_each (\<lambda>row. bind (lift (restored_values L types row)) (\<lambda>values.
         bind (tenant_execute (INSERT_IMPORTED (schema_name d) (tbl_name t) header) values) (\<lambda>_. ret ()))) rows)
       (\<lambda>_. case failure of Some e \<Rightarrow> raise e | None \<Rightarrow> ret (length rows))))))" for header rows failure L
  proof (rule gives_bind [OF gives_columns], rule gives_bind [OF types], assumption,
      rule gives_bind [OF gives_table_database], rule gives_bind_anything [OF insert])
  qed (simp_all, intro giving, simp_all)
  show ?thesis
    unfolding restore_rows_def Let_def
    by (intro gives_True, (rule gives_bind_anything, intro keeps)+, intro giving filled, simp_all)
qed

text \<open>The rows a restore has created so far are named by identifiers.\<close>

definition schema_ok :: "restored_schema \<Rightarrow> bool" where
  "schema_ok s \<longleftrightarrow> (\<forall>n t. rs_tables s n = Some t \<longrightarrow> IDENTIFIER_RE (tbl_name t))
     \<and> (\<forall>k x. rs_columns s k = Some x \<longrightarrow> IDENTIFIER_RE (col_name x))"

lemma schema_ok_updates:
  "schema_ok s \<Longrightarrow> IDENTIFIER_RE (col_name x) \<Longrightarrow> schema_ok (s\<lparr>rs_columns := (rs_columns s)(k \<mapsto> x)\<rparr>)"
  "schema_ok s \<Longrightarrow> IDENTIFIER_RE (tbl_name t) \<Longrightarrow> IDENTIFIER_RE (col_name x) \<Longrightarrow>
     schema_ok \<lparr>rs_tables = (rs_tables s)(n \<mapsto> t), rs_columns = (rs_columns s)(k \<mapsto> x)\<rparr>"
  by (simp_all add: schema_ok_def)

lemma gives_restore_column:
  assumes "schema_ok s" and "IDENTIFIER_RE (tbl_name t)"
  shows "gives (restoring c) schema_ok (restore_column actor t n s j)"
  unfolding restore_column_def
  by (rule gives_bind_anything, intro keeps, rule gives_bind [OF gives_add_column [OF assms(2)]])
    (intro giving schema_ok_updates assms(1))

lemma gives_restore_table:
  assumes "schema_ok s" and "IDENTIFIER_RE (schema_name d)"
  shows "gives (restoring c) schema_ok (restore_table actor d s j)"
  unfolding restore_table_def
  by (rule gives_bind_anything, intro keeps, rule gives_bind [OF gives_create_table [OF assms(2)]],
      rule gives_bind [OF gives_primary_key], rule gives_bind_anything, intro keeps)
    (intro gives_fold gives_restore_column schema_ok_updates assms(1))

lemma keeps_restore_foreign_key:
  assumes "schema_ok s"
  shows "preserves (restoring c) (restore_foreign_key actor s n j)"
proof -
  have table: "gives (restoring c) (\<lambda>t. IDENTIFIER_RE (tbl_name t)) (lookup (rs_tables s) k)" for k
    using assms by (intro gives_lookup) (simp add: schema_ok_def)
  have column: "gives (restoring c) (\<lambda>x. IDENTIFIER_RE (col_name x)) (lookup (rs_columns s) k)" for k
    using assms by (intro gives_lookup) (unfold schema_ok_def, blast)
  show ?thesis
    unfolding restore_foreign_key_def
    by (rule gives_True, rule gives_bind_anything, intro keeps, rule gives_bind [OF column],
        rule gives_bind_anything, intro keeps, rule gives_bind [OF table],
        rule gives_bind_anything, intro keeps, rule gives_bind [OF column])
      (intro gives_keeps keeps restored.keeps_add_foreign_key)
qed

lemma keeps_restore_foreign_keys:
  "schema_ok s \<Longrightarrow> preserves (restoring c) (restore_foreign_keys actor s j)"
  unfolding restore_foreign_keys_def lookup_def
  by (intro keeps keeps_restore_foreign_key)

lemma gives_restore_table_rows:
  assumes "schema_ok s"
  shows "preserves (restoring c) (restore_table_rows zf s r j)"
proof -
  have table: "gives (restoring c) (\<lambda>t. IDENTIFIER_RE (tbl_name t)) (lookup (rs_tables s) k)" for k
    using assms by (intro gives_lookup) (simp add: schema_ok_def)
  show ?thesis
    unfolding restore_table_rows_def
    by (rule gives_True, rule gives_bind_anything, intro keeps, rule gives_bind [OF table])
      (intro gives_keeps keeps gives_restore_rows)
qed

lemma keeps_restore_tenant_database:
  "preserves (restoring c) (restore_tenant_database zf j p actor r)"
proof -
  have tables: "gives (restoring c) schema_ok
      (fold_each (restore_table actor d) \<lparr>rs_tables = (\<lambda>_. None), rs_columns = (\<lambda>_. None)\<rparr> ts)"
    if "IDENTIFIER_RE (schema_name d)" for d ts
    using that by (intro gives_fold gives_restore_table) (simp_all add: schema_ok_def)
  show ?thesis
    unfolding restore_tenant_database_def
    by (rule gives_True, (rule gives_bind_anything, intro keeps)+, rule gives_bind [OF gives_create_tenant_database],
        rule gives_bind_anything, intro keeps, rule gives_bind [OF tables], assumption)
      (intro gives_keeps keeps preserves_fold keeps_restore_foreign_keys gives_restore_table_rows)
qed

lemma keeps_get_or_create_folder: "preserves (restoring c) (get_or_create_folder b actor cache path)"
proof (induction path arbitrary: cache)
  case (Cons name up)
  then show ?case
    unfolding get_or_create_folder.simps Let_def by (intro keeps both_orm_create added_rows)
qed (unfold get_or_create_folder.simps, intro keeps)

lemma keeps_restore_file: "preserves (restoring c) (restore_file zf b actor state j)"
  unfolding restore_file_def by (intro keeps keeps_get_or_create_folder keeps_upload_file)

lemma keeps_restore_bucket: "preserves (restoring c) (restore_bucket zf p actor r j)"
  unfolding restore_bucket_def Let_def
  by (intro keeps both_orm_create added_rows preserves_fold keeps_restore_file)

lemma keeps_restore_role: "preserves (restoring c) (restore_role user org a r j)"
  unfolding restore_role_def by (intro keeps keeps_assign_role)

lemma keeps_restore_membership: "preserves (restoring c) (restore_membership org f r j)"
  unfolding restore_membership_def membership_or_create_def
  by (intro keeps both_orm_create added_rows preserves_fold keeps_restore_role preserves_get_one)

lemma keeps_restore_project: "preserves (restoring c) (restore_project zf manifest ws actor r j)"
  unfolding restore_project_def Let_def
  by (intro keeps both_orm_create added_rows preserves_fold keeps_restore_tenant_database keeps_restore_bucket)

lemma keeps_restore_workspace: "preserves (restoring c) (restore_workspace zf manifest org actor r j)"
  unfolding restore_workspace_def Let_def
  by (intro keeps both_orm_create added_rows preserves_fold keeps_restore_project)

lemma keeps_restore_team: "preserves (restoring c) (restore_team org state j)"
  unfolding restore_team_def Let_def by (intro keeps both_orm_create added_rows)

lemma keeps_fresh_slug: "preserves (both J K) (fresh_slug fuel name)"
  by (simp add: preserves_def fresh_slug_run both_def split: option.split)

lemma keeps_restore_package: "preserves (restoring c) (restore_package fuel zf manifest actor)"
  unfolding restore_package_def
  by (intro keeps keeps_fresh_slug keeps_create_organization preserves_fold keeps_restore_team
      keeps_restore_workspace keeps_restore_membership)

lemma restore_package_rolls_back:
  "restore_package fuel zf manifest actor w = (Inl e, w') \<Longrightarrow> ctl w' = ctl w \<and> tnt w' = tnt w"
  by (auto simp: restore_package_def item_def bind_def lift_def atomic_default_def atomic_tenant_def split: prod.splits sum.splits)


definition two_draws :: world where
  "two_draws = (world_of (no_rows\<lparr>organizations := [\<lparr>org_id = 7, org_name = ''a'', org_slug = ''a-00000000'', external_sharing_enabled = False,
     org_created_by = 1\<rparr>]\<rparr>))\<lparr>env := base_env\<lparr>uuid_source := (\<lambda>n. if n = 0 then 0 else push_bit 96 1)\<rparr>\<rparr>"

lemma two_draws_hex:
  "take 8 (uuid_hex 0) = ''00000000''" "take 8 (uuid_hex (push_bit 96 1)) = ''00000001''"
  by (simp_all add: uuid_hex_def hex_digit_def hexdigits_def upt_rec take_bit_drop_bit)


definition package_json :: json where
  "package_json = JObj [(''organization'', JObj [(''name'', JStr ''b''), (''teams'', JList [JStr ''t''])])]"


end
