(* ===== verification/Exports.thy ===== *)
theory Exports
  imports Builder Restorer
begin

text \<open>
  Export and restore jobs (\<open>exports/services.py\<close>, \<open>exports/tasks.py\<close>, \<open>exports/views.py\<close>): who may
  start and download an export, how a job runs in the background and where its package goes, the
  staging of an uploaded package and its restore.
\<close>

section \<open>Jobs\<close>

definition EXPORT_STORAGE_PREFIX :: string where "EXPORT_STORAGE_PREFIX = ''exports''"
definition RESTORE_STAGING_PREFIX :: string where "RESTORE_STAGING_PREFIX = ''restore-staging''"

definition export_job_clash :: "export_job \<Rightarrow> export_job \<Rightarrow> bool" where
  "export_job_clash r x \<longleftrightarrow> ej_id x = ej_id r"

definition restore_job_clash :: "restore_job \<Rightarrow> restore_job \<Rightarrow> bool" where
  "restore_job_clash r x \<longleftrightarrow> rj_id x = rj_id r"

definition get_member_export_job :: "user \<Rightarrow> uuid \<Rightarrow> export_job app" where
  "get_member_export_job user i = or_404 (get_one (
     member_rows export_jobs ej_id (\<lambda>c j. [ej_organization j]) (user_id user) i))"

interpretation export_job_lookup:
  member_lookup get_member_export_job export_jobs ej_id "\<lambda>c j. [ej_organization j]"
  by (rule member_lookup_join) (rule get_member_export_job_def)

definition save_export_job :: "uuid \<Rightarrow> (export_job \<Rightarrow> export_job) \<Rightarrow> unit app" where
  "save_export_job i f = orm_update export_jobs export_jobs_update export_job_clash ej_id i f"

definition save_restore_job :: "uuid \<Rightarrow> (restore_job \<Rightarrow> restore_job) \<Rightarrow> unit app" where
  "save_restore_job i f = orm_update restore_jobs restore_jobs_update restore_job_clash rj_id i f"

definition creator :: "uuid \<Rightarrow> user app" where
  "creator i = get_one (\<lambda>c. filter (\<lambda>u. user_id u = i) (users c))"

section \<open>Exporting\<close>

definition start_export :: "user \<Rightarrow> organization \<Rightarrow> string option \<Rightarrow> export_job app" where
  "start_export actor org passphrase =
     bind (has_permission (Some actor) ''export.manage'' (Some (org_id org)) None) (\<lambda>allowed.
     if \<not> allowed then
       bind (audit_record (Some actor) (Some (org_id org)) ''export.create'' ''organization'' (uuid_str (org_id org))
         '''' Denied []) (\<lambda>_.
       raise ExportPermissionDenied)
     else bind uuid4 (\<lambda>i.
       let job = \<lparr>ej_id = i, ej_organization = org_id org, ej_created_by = user_id actor, ej_status = Pending,
             ej_encrypted = (passphrase \<noteq> None), ej_object_key = '''', ej_size_bytes = None,
             ej_checksum_sha256 = '''', ej_error_message = '''', ej_completed_at = None\<rparr> in
       bind (orm_create export_jobs export_jobs_update export_job_clash job) (\<lambda>_.
       bind (wrap_passphrase passphrase) (\<lambda>wrapped.
       bind (enqueue (RunExportTask i wrapped)) (\<lambda>_.
       ret job)))))"

definition export_object_key :: "export_job \<Rightarrow> string" where
  "export_object_key job =
     EXPORT_STORAGE_PREFIX @ ''/'' @ uuid_str (ej_organization job) @ ''/'' @ uuid_str (ej_id job) @ ''.icp''"

text \<open>The handler of a failed build: the job is marked as failed and the exception goes on.\<close>

definition export_failed :: "export_job \<Rightarrow> exn \<Rightarrow> 'a app" where
  "export_failed job exc =
     bind (gets (\<lambda>w. exn_str (env w) exc)) (\<lambda>text.
     bind (save_export_job (ej_id job) (\<lambda>j. j\<lparr>ej_status := Failed, ej_error_message := take 2000 text\<rparr>)) (\<lambda>_.
     bind (creator (ej_created_by job)) (\<lambda>u.
     bind (audit_record (Some u) (Some (ej_organization job)) ''export.create'' ''export_job'' (uuid_str (ej_id job))
       '''' Error []) (\<lambda>_.
     raise exc))))"

definition run_export :: "(pg_value \<Rightarrow> string) \<Rightarrow> uuid \<Rightarrow> string option \<Rightarrow> unit app" where
  "run_export str job_id wrapped_passphrase =
     bind (unwrap_passphrase wrapped_passphrase) (\<lambda>passphrase.
     bind (get_one (\<lambda>c. filter (\<lambda>j. ej_id j = job_id) (export_jobs c))) (\<lambda>job.
     bind (get_one (\<lambda>c. filter (\<lambda>g. org_id g = ej_organization job) (organizations c))) (\<lambda>org.
     bind (save_export_job job_id (\<lambda>j. j\<lparr>ej_status := Running\<rparr>)) (\<lambda>_.
     bind (catch (build_export str org passphrase) (export_failed job)) (\<lambda>(container_bytes, checksum).
     bind (s3_put (export_object_key job) container_bytes) (\<lambda>_.
     bind now (\<lambda>t.
     bind (save_export_job job_id (\<lambda>j. j\<lparr>ej_status := Completed, ej_object_key := export_object_key job,
       ej_size_bytes := Some (length container_bytes), ej_checksum_sha256 := checksum, ej_completed_at := Some t\<rparr>)) (\<lambda>_.
     bind (creator (ej_created_by job)) (\<lambda>u.
     audit_record (Some u) (Some (ej_organization job)) ''export.create'' ''export_job'' (uuid_str job_id) '''' Success
       [(''size_bytes'', JInt (int (length container_bytes))), (''encrypted'', JBool (ej_encrypted job))])))))))))"

definition download_export :: "user \<Rightarrow> export_job \<Rightarrow> bytes app" where
  "download_export actor job =
     bind (has_permission (Some actor) ''export.manage'' (Some (ej_organization job)) None) (\<lambda>allowed.
     bind (ensure allowed ExportPermissionDenied) (\<lambda>_.
     bind (ensure (ej_status job = Completed) RestoreValidationError) (\<lambda>_.
     bind (audit_record (Some actor) (Some (ej_organization job)) ''export.download'' ''export_job''
       (uuid_str (ej_id job)) '''' Success []) (\<lambda>_.
     s3_get (ej_object_key job)))))"

section \<open>Restoring\<close>

definition stage_restore_upload :: "user \<Rightarrow> bytes \<Rightarrow> string option \<Rightarrow> restore_job app" where
  "stage_restore_upload actor content passphrase =
     bind (gets (\<lambda>w. max_upload_size (env w))) (\<lambda>limit.
     bind (ensure (length content \<le> limit) RestoreValidationError) (\<lambda>_.
     bind uuid4 (\<lambda>i.
     let job = \<lparr>rj_id = i, rj_organization = None, rj_created_by = user_id actor, rj_status = RPending,
           rj_source_object_key = '''', rj_report = JObj [], rj_error_message = '''', rj_completed_at = None\<rparr>;
         object_key = RESTORE_STAGING_PREFIX @ ''/'' @ uuid_str i @ ''.icp'' in
     bind (orm_create restore_jobs restore_jobs_update restore_job_clash job) (\<lambda>_.
     bind (s3_put object_key content) (\<lambda>_.
     bind (save_restore_job i (\<lambda>j. j\<lparr>rj_source_object_key := object_key\<rparr>)) (\<lambda>_.
     bind (wrap_passphrase passphrase) (\<lambda>wrapped.
     bind (enqueue (RunRestoreTask i wrapped)) (\<lambda>_.
     ret (job\<lparr>rj_source_object_key := object_key\<rparr>)))))))))"

text \<open>The body of the \<open>try\<close>, its handler and its \<open>finally\<close>. \<open>fuel\<close> bounds the search for a free slug.\<close>

definition restore_container :: "nat \<Rightarrow> restore_job \<Rightarrow> bytes \<Rightarrow> string option \<Rightarrow> restore_report app" where
  "restore_container fuel job container_bytes passphrase =
     bind (gets (\<lambda>w. open_package (lib (env w)) container_bytes passphrase)) (\<lambda>opened.
     bind (lift opened) (\<lambda>(zf, manifest).
     bind (gets (\<lambda>w. verify_checksums (sha256 (env w)) zf manifest)) (\<lambda>verified.
     bind (lift verified) (\<lambda>_.
     bind (save_restore_job (rj_id job) (\<lambda>j. j\<lparr>rj_status := RRestoring\<rparr>)) (\<lambda>_.
     bind (creator (rj_created_by job)) (\<lambda>u.
     restore_package fuel zf manifest u))))))"

definition restore_failed :: "restore_job \<Rightarrow> exn \<Rightarrow> 'a app" where
  "restore_failed job exc =
     bind (gets (\<lambda>w. exn_str (env w) exc)) (\<lambda>text.
     bind (save_restore_job (rj_id job) (\<lambda>j. j\<lparr>rj_status := RFailed, rj_error_message := take 2000 text\<rparr>)) (\<lambda>_.
     bind (creator (rj_created_by job)) (\<lambda>u.
     bind (audit_record (Some u) None ''import.restore'' ''restore_job'' (uuid_str (rj_id job)) '''' Error
       [(''error'', JStr (take 500 text))]) (\<lambda>_.
     raise exc))))"

definition restore_completed :: "restore_job \<Rightarrow> restore_report \<Rightarrow> unit app" where
  "restore_completed job report =
     bind now (\<lambda>t.
     bind (save_restore_job (rj_id job) (\<lambda>j. j\<lparr>rj_status := RCompleted, rj_organization := rp_organization_id report,
       rj_report := report_dict report, rj_completed_at := Some t\<rparr>)) (\<lambda>_.
     bind (creator (rj_created_by job)) (\<lambda>u.
     audit_record (Some u) (rp_organization_id report) ''import.restore'' ''restore_job'' (uuid_str (rj_id job)) '''' Success
       [(''report'', report_dict report)])))"

definition run_restore :: "nat \<Rightarrow> uuid \<Rightarrow> string option \<Rightarrow> unit app" where
  "run_restore fuel job_id wrapped_passphrase =
     bind (unwrap_passphrase wrapped_passphrase) (\<lambda>passphrase.
     bind (get_one (\<lambda>c. filter (\<lambda>j. rj_id j = job_id) (restore_jobs c))) (\<lambda>job.
     bind (save_restore_job job_id (\<lambda>j. j\<lparr>rj_status := RValidating\<rparr>)) (\<lambda>_.
     bind (s3_read (rj_source_object_key job)) (\<lambda>container_bytes.
     bind (attempt (catch (restore_container fuel job container_bytes passphrase) (restore_failed job))) (\<lambda>r.
     bind (catch (s3_delete (rj_source_object_key job)) (\<lambda>_. ret ())) (\<lambda>_.
     bind (lift r) (restore_completed job)))))))"

section \<open>Tasks\<close>

definition EXPORT_MAX_RETRIES :: nat where "EXPORT_MAX_RETRIES = 2"
definition RESTORE_MAX_RETRIES :: nat where "RESTORE_MAX_RETRIES = 1"

definition run_export_task :: "(pg_value \<Rightarrow> string) \<Rightarrow> nat \<Rightarrow> uuid \<Rightarrow> string option \<Rightarrow> unit app" where
  "run_export_task str retries job_id wrapped =
     catch (run_export str job_id wrapped) (\<lambda>exc.
       catch (self_retry (RunExportTask job_id wrapped) EXPORT_MAX_RETRIES retries exc) (\<lambda>x.
         if x = MaxRetriesExceeded then
           bind (gets (\<lambda>w. exn_str (env w) exc)) (\<lambda>text.
           bind (on_ctl (export_jobs_update (update_where (\<lambda>j. ej_id j = job_id)
             (\<lambda>j. j\<lparr>ej_status := Failed, ej_error_message := take 2000 text\<rparr>)))) (\<lambda>_.
           raise MaxRetriesExceeded))
         else raise x))"

definition run_restore_task :: "nat \<Rightarrow> nat \<Rightarrow> uuid \<Rightarrow> string option \<Rightarrow> unit app" where
  "run_restore_task fuel retries job_id wrapped =
     catch (run_restore fuel job_id wrapped) (\<lambda>exc.
       catch (self_retry (RunRestoreTask job_id wrapped) RESTORE_MAX_RETRIES retries exc) (\<lambda>x.
         if x = MaxRetriesExceeded then
           bind (gets (\<lambda>w. exn_str (env w) exc)) (\<lambda>text.
           bind (on_ctl (restore_jobs_update (update_where (\<lambda>j. rj_id j = job_id)
             (\<lambda>j. j\<lparr>rj_status := RFailed, rj_error_message := take 2000 text\<rparr>)))) (\<lambda>_.
           raise MaxRetriesExceeded))
         else raise x))"

section \<open>Views\<close>

text \<open>The jobs of an organization, the newest first.\<close>

definition ExportJobList_get :: "user \<Rightarrow> uuid \<Rightarrow> response app" where
  "ExportJobList_get user i =
     bind (get_member_organization user i) (\<lambda>org.
     bind (query (\<lambda>c. rev (filter (\<lambda>j. ej_organization j = org_id org) (export_jobs c)))) (\<lambda>js.
     respond 200 (ExportJobsBody js)))"

definition ExportJobList_post :: "user \<Rightarrow> uuid \<Rightarrow> string option option \<Rightarrow> response app" where
  "ExportJobList_post user i data =
     bind (get_member_organization user i) (\<lambda>org.
     bind (validated data) (\<lambda>passphrase.
     bind (attempt (start_export user org passphrase)) (\<lambda>r. case r of
         Inr job \<Rightarrow> respond 201 (ExportJobBody job)
       | Inl e \<Rightarrow> if e = ExportPermissionDenied then respond 403 NoBody else raise e)))"

definition ExportJobDetail_get :: "user \<Rightarrow> uuid \<Rightarrow> response app" where
  "ExportJobDetail_get user i =
     bind (get_member_export_job user i) (\<lambda>job. respond 200 (ExportJobBody job))"

definition ExportJobDownload_get :: "user \<Rightarrow> uuid \<Rightarrow> response app" where
  "ExportJobDownload_get user i =
     bind (get_member_export_job user i) (\<lambda>job.
     bind (attempt (download_export user job)) (\<lambda>r. case r of
         Inr content \<Rightarrow> respond 200 (FileContent content ''application/octet-stream''
           (''attachment; filename='' @ quote # uuid_str (ej_organization job) @ ''-'' @ uuid_str (ej_id job) @ ''.icp'' @ [quote]))
       | Inl e \<Rightarrow> if e = ExportPermissionDenied then respond 403 NoBody
           else if e = RestoreValidationError then detail_response 409 e
           else raise e))"

text \<open>\<open>request.data.get("passphrase") or None\<close>.\<close>

definition RestoreJobList_post :: "user \<Rightarrow> bytes option \<Rightarrow> string option \<Rightarrow> response app" where
  "RestoreJobList_post user package passphrase = (case package of
     None \<Rightarrow> respond 400 (Detail ''No package file provided.'')
   | Some uploaded \<Rightarrow>
       bind (attempt (stage_restore_upload user uploaded (if passphrase = Some '''' then None else passphrase))) (\<lambda>r. case r of
           Inr job \<Rightarrow> respond 201 (RestoreJobBody job)
         | Inl e \<Rightarrow> if e = RestoreValidationError then detail_response 413 e else raise e))"

definition RestoreJobDetail_get :: "user \<Rightarrow> uuid \<Rightarrow> response app" where
  "RestoreJobDetail_get user i =
     bind (or_404 (get_one (\<lambda>c. filter (\<lambda>j. rj_id j = i \<and> rj_created_by j = user_id user) (restore_jobs c)))) (\<lambda>job.
     respond 200 (RestoreJobBody job))"

section \<open>A package opens\<close>

text \<open>\<open>sort_keys=True\<close>: every dictionary with its keys in order.\<close>

fun json_sorted :: "json \<Rightarrow> json" where
  "json_sorted (JList xs) = JList (map json_sorted xs)"
| "json_sorted (JObj kvs) = JObj (sort_key fst (map (\<lambda>(k, v). (k, json_sorted v)) kvs))"
| "json_sorted j = j"

lemma map_of_sort_key: "distinct (map fst kvs) \<Longrightarrow> map_of (sort_key fst kvs) = map_of kvs"
proof -
  assume "distinct (map fst kvs)"
  moreover have "distinct (map fst (sort_key fst kvs))"
    using calculation by (simp add: distinct_map)
  ultimately show ?thesis by (subst map_of_inject_set) simp_all
qed

definition json_fields :: "json \<Rightarrow> (string \<times> json) list" where
  "json_fields j = (case j of JObj kvs \<Rightarrow> kvs | _ \<Rightarrow> [])"

lemma map_of_json_sorted:
  assumes "distinct (map fst kvs)"
  shows "map_of (json_fields (json_sorted (JObj kvs))) k = map_option json_sorted (map_of kvs k)"
proof -
  let ?kvs = "map (\<lambda>(k, v). (k, json_sorted v)) kvs"
  have "distinct (map fst ?kvs)" using assms by (simp add: case_prod_unfold comp_def)
  then show ?thesis by (simp add: json_fields_def map_of_sort_key map_of_map)
qed

text \<open>What the code reads of the manifest it has loaded.\<close>

lemma manifest_sorted:
  fixes v i org dbs sums
  defines "m \<equiv> manifest_json v i (JObj org) dbs sums"
  obtains kvs where "json_sorted m = JObj kvs" and "validate_manifest_shape (json_sorted m) = Inr ()"
    and "json_item (json_sorted m) ''organization'' = Inr (json_sorted (JObj org))"
    and "json_get (json_sorted m) ''checksums'' (JObj []) = Inr (JObj (sort_key fst (map (\<lambda>(n, d). (n, JStr d)) sums)))"
proof -
  obtain raw where raw: "m = JObj raw" and keys: "distinct (map fst raw)"
    by (simp add: m_def manifest_json_def)
  define kvs where "kvs = json_fields (json_sorted m)"
  have sorted: "json_sorted m = JObj kvs" by (simp add: kvs_def raw json_fields_def)
  have read: "map_of kvs k = map_option json_sorted (map_of raw k)" for k
    unfolding kvs_def raw by (rule map_of_json_sorted [OF keys])
  have fields: "map_of raw ''format'' = Some (JStr FORMAT_NAME)" "map_of raw ''format_version'' = Some (JInt FORMAT_VERSION)"
    "map_of raw ''export_type'' = Some (JStr ''organization'')" "map_of raw ''organization'' = Some (JObj org)"
    "map_of raw ''checksums'' = Some (JObj (map (\<lambda>(n, d). (n, JStr d)) sums))"
    using raw by (auto simp: m_def manifest_json_def)
  have strings: "map (\<lambda>(k, v). (k, json_sorted v)) (map (\<lambda>(n, d). (n, JStr d)) sums) = map (\<lambda>(n, d). (n, JStr d)) sums"
    by (simp add: case_prod_unfold)
  show thesis
  proof
    show "json_sorted m = JObj kvs" by (rule sorted)
    show "validate_manifest_shape (json_sorted m) = Inr ()"
      by (simp add: sorted validate_manifest_shape_def read fields)
    show "json_item (json_sorted m) ''organization'' = Inr (json_sorted (JObj org))"
      by (simp add: sorted json_item_def read fields del: json_sorted.simps)
    show "json_get (json_sorted m) ''checksums'' (JObj []) = Inr (JObj (sort_key fst (map (\<lambda>(n, d). (n, JStr d)) sums)))"
      by (simp add: sorted json_get_def read fields strings del: map_map)
  qed
qed

lemma package_opens:
  fixes a manifest u passphrase
  defines "L \<equiv> lib (env u)"
  defines "members \<equiv> aw_members a @ [(''manifest.json'', encode (json_dumps_pretty L manifest))]"
  assumes described: "describes hash (a, manifest)"
    and zip: "zip_open L (zip_pack L members)
      = Some (\<lambda>n. case map_of (rev members) n of None \<Rightarrow> Inl KeyError | Some b \<Rightarrow> Inr b)"
    and loads: "json_loads L (encode (json_dumps_pretty L manifest)) = Inr (json_sorted manifest)"
    and payload: "read_container_payload L content passphrase = Inr (zip_pack L members)"
  shows "\<exists>zf. open_package L content passphrase = Inr (zf, json_sorted manifest)
    \<and> verify_checksums hash zf (json_sorted manifest) = Inr ()"
proof -
  obtain version i org dbs where m: "manifest = manifest_json version i (JObj org) dbs (aw_checksums a)"
    and recorded: "recorded hash a"
    using described by (auto simp: describes_def)
  obtain kvs where sorted: "json_sorted manifest = JObj kvs" and shape: "validate_manifest_shape (json_sorted manifest) = Inr ()"
    and sums: "json_get (json_sorted manifest) ''checksums'' (JObj [])
      = Inr (JObj (sort_key fst (map (\<lambda>(n, d). (n, JStr d)) (aw_checksums a))))"
    by (rule manifest_sorted [of version i org dbs "aw_checksums a", folded m])
  let ?zf = "\<lambda>n. case map_of (rev members) n of None \<Rightarrow> Inl KeyError | Some b \<Rightarrow> Inr b"
  have "?zf ''manifest.json'' = Inr (encode (json_dumps_pretty L manifest))" by (simp add: members_def)
  then have opened: "open_package L content passphrase = Inr (?zf, json_sorted manifest)"
    using payload zip loads shape by (simp add: open_package_def)
  have "\<exists>b. ?zf n = Inr b \<and> d = hash b" if "(n, d) \<in> set (aw_checksums a)" for n d
    using recorded that by (fastforce simp: recorded_def members_def)
  then have "verify_checksums hash ?zf (json_sorted manifest) = Inr ()"
    using sums by (auto simp: verify_checksums_def check_members_Inr list_all_iff)
  with opened show ?thesis by blast
qed

text \<open>C32. A package the export builds opens with the passphrase it was built with, its manifest is the one the
  export made with its keys in order, and every checksum in it is that of the member of its name, so
  that the restore accepts it; the recorded checksum of the whole is that of its bytes. ZIP reads the
  last member written under a name, JSON text reads back as what was written, AES-GCM decrypts what it
  encrypted.\<close>

theorem export_opens:
  assumes "collect_export str org w = (Inr (a, manifest), u)"
    and "build_export str org passphrase w = (Inr (content, checksum), w')"
    and "L = lib (env w)" and "members = aw_members a @ [(''manifest.json'', encode (json_dumps_pretty L manifest))]"
    and "zip_open L (zip_pack L members)
      = Some (\<lambda>n. case map_of (rev members) n of None \<Rightarrow> Inl KeyError | Some b \<Rightarrow> Inr b)"
    and "json_loads L (encode (json_dumps_pretty L manifest)) = Inr (json_sorted manifest)"
    and "json_loads L (encode (json_dumps (container_header (drawn_meta u passphrase))))
      = Inr (container_header (drawn_meta u passphrase))"
    and "\<And>key nonce b. aesgcm_decrypt L key nonce (aesgcm_encrypt L key nonce b) = Inr b"
  shows "checksum = sha256 (env w) content
    \<and> (\<exists>zf. open_package L content passphrase = Inr (zf, json_sorted manifest)
       \<and> verify_checksums (sha256 (env w)) zf (json_sorted manifest) = Inr ())"
proof -
  have "describes (sha256 (env w)) (a, manifest) \<and> unchanged w u"
    using gives_collect_export [of w str org] assms(1) by (auto simp: gives_def dest: spec [of _ w])
  then have described: "describes (sha256 (env w)) (a, manifest)" and env: "env u = env w"
    by (simp_all add: unchanged_def)
  have "pack_export a manifest passphrase u = (Inr (content, checksum), w')"
    using assms(1,2) by (simp add: build_export_def)
  then obtain v where written: "write_container (zip_pack L members) passphrase u = (Inr content, v)"
    and checksum: "checksum = sha256 (env v) content"
    by (auto simp: pack_export_def bind_eq_Inr Let_def assms(3,4) env)
  have "env v = env w"
    using preservesD [OF preserves_write_container unchanged_refl written] env by (simp add: unchanged_def)
  moreover have "read_container_payload L content passphrase = Inr (zip_pack L members)"
    using container_opens [OF written, of L] assms(3,7,8) env by simp
  ultimately show ?thesis
    using package_opens [OF described, where u = w] assms(3-6) checksum by simp
qed

definition small_org :: organization where
  "small_org = \<lparr>org_id = 7, org_name = ''a'', org_slug = ''a'', external_sharing_enabled = False, org_created_by = 1\<rparr>"

definition small_manifest :: json where
  "small_manifest = manifest_json ''1'' (uuid_str 1000) (JObj [(''name'', JStr ''a''), (''slug'', JStr ''a''),
     (''workspaces'', JList [JObj [(''name'', JStr ''w''), (''projects'', JList [])]]),
     (''teams'', JList [JStr ''t'']), (''memberships'', JList [])]) [] []"

definition small_world :: world where
  "small_world = (world_of (no_rows\<lparr>organizations := [small_org], teams := [\<lparr>team_id = 8, team_organization = 7, team_name = ''t''\<rparr>],
       workspaces := [\<lparr>ws_id = 9, ws_organization = 7, ws_name = ''w'', ws_created_by = 1\<rparr>]\<rparr>))
     \<lparr>env := base_env\<lparr>lib := base_library\<lparr>json_dumps_pretty := (\<lambda>j. ''''),
       zip_open := (\<lambda>b. Some (\<lambda>n. if n = ''manifest.json'' then Inr [] else Inl KeyError)),
       json_loads := (\<lambda>b. Inr (if b = [] then json_sorted small_manifest
         else container_header (encryption_meta (replicate 16 7) (replicate 12 7))))\<rparr>\<rparr>\<rparr>"

lemma small_collect:
  "collect_export (\<lambda>v. '''') small_org small_world
    = (Inr (\<lparr>aw_members = [], aw_checksums = []\<rparr>, small_manifest), small_world\<lparr>rng := 1\<rparr>)"
  by (simp add: collect_export_def by_text_def sort_by_def export_workspace_def bind_def query_def
      small_world_def small_org_def active_members_def small_manifest_def no_rows_def world_of_def base_env_def)

lemma export_opens_witness:
  "\<exists>content checksum w' zf. build_export (\<lambda>v. '''') small_org (Some ''secret'') small_world = (Inr (content, checksum), w')
     \<and> open_package (lib (env small_world)) content (Some ''secret'') = Inr (zf, json_sorted small_manifest)
     \<and> verify_checksums (sha256 (env small_world)) zf (json_sorted small_manifest) = Inr ()"
proof -
  let ?u = "small_world\<lparr>rng := 1\<rparr>" and ?a = "\<lparr>aw_members = [], aw_checksums = []\<rparr>"
  have meta: "drawn_meta ?u (Some p) = encryption_meta (replicate 16 7) (replicate 12 7)" for p
    by (simp add: drawn_meta_def small_world_def ARGON2_SALT_BYTES_def AES_NONCE_BYTES_def)
  have key: "derive_key (lib (env ?u)) ''secret'' salt = Inr (encode ''secret'')" for salt
    by (simp add: derive_key_def small_world_def base_library_def)
  have "\<exists>content v. write_container [] (Some ''secret'') ?u = (Inr content, v)"
    by (rule write_container_runs [OF key]) (simp only: meta header_short)
  then obtain content v where written: "write_container [] (Some ''secret'') ?u = (Inr content, v)" by blast
  let ?L = "lib (env small_world)"
  have lib: "zip_pack ?L ms = []" "json_dumps_pretty ?L j = ''''"
    "zip_open ?L b = Some (\<lambda>n. if n = ''manifest.json'' then Inr [] else Inl KeyError)"
    "json_loads ?L b = Inr (if b = [] then json_sorted small_manifest
         else container_header (encryption_meta (replicate 16 7) (replicate 12 7)))"
    "aesgcm_decrypt ?L key nonce (aesgcm_encrypt ?L key nonce b) = Inr b" for ms j b key nonce
    by (simp_all add: small_world_def base_library_def)
  have run: "build_export (\<lambda>v. '''') small_org (Some ''secret'') small_world = (Inr (content, sha256 (env v) content), v)"
    using written by (simp add: build_export_def small_collect pack_export_def bind_def Let_def lib)
  have header: "encode (json_dumps (container_header m)) \<noteq> []" for m
    by (simp add: container_header_def encode_def encode_char_def Let_def)
  have "sha256 (env v) content = sha256 (env small_world) content
    \<and> (\<exists>zf. open_package ?L content (Some ''secret'') = Inr (zf, json_sorted small_manifest)
       \<and> verify_checksums (sha256 (env small_world)) zf (json_sorted small_manifest) = Inr ())"
  proof (rule export_opens [OF small_collect run refl refl _ _ _ lib(5)])
    show "zip_open ?L (zip_pack ?L (aw_members ?a @ [(''manifest.json'', encode (json_dumps_pretty ?L small_manifest))]))
      = Some (\<lambda>n. case map_of (rev (aw_members ?a @ [(''manifest.json'', encode (json_dumps_pretty ?L small_manifest))])) n of
          None \<Rightarrow> Inl KeyError | Some b \<Rightarrow> Inr b)"
      by (simp only: lib) (simp add: fun_eq_iff encode_def)
    show "json_loads ?L (encode (json_dumps_pretty ?L small_manifest)) = Inr (json_sorted small_manifest)"
      by (simp only: lib) (simp add: encode_def)
    show "json_loads ?L (encode (json_dumps (container_header (drawn_meta ?u (Some ''secret'')))))
      = Inr (container_header (drawn_meta ?u (Some ''secret'')))"
      by (simp only: lib meta header if_False)
  qed
  with run show ?thesis by blast
qed

section \<open>When object storage fails\<close>

lemma filter_update_where: "(\<And>x. P x \<Longrightarrow> P (f x)) \<Longrightarrow> filter P (update_where P f xs) = map f (filter P xs)"
  by (induction xs) auto

lemma save_export_job_run [simp]:
  "save_export_job i f w = (Inr (), w\<lparr>ctl := export_jobs_update (update_where (\<lambda>j. ej_id j = i) f) (ctl w)\<rparr>)"
  if "\<And>j. ej_id (f j) = ej_id j"
  using that by (auto simp: save_export_job_def orm_update_def export_job_clash_def list_ex_iff)

lemma save_restore_job_run [simp]:
  "save_restore_job i f w = (Inr (), w\<lparr>ctl := restore_jobs_update (update_where (\<lambda>j. rj_id j = i) f) (ctl w)\<rparr>)"
  if "\<And>j. rj_id (f j) = rj_id j"
  using that by (auto simp: save_restore_job_def orm_update_def restore_job_clash_def list_ex_iff)

text \<open>An export whose package is built but cannot be stored ends with the job still marked as running: the
  upload is outside the block whose handler marks it as failed. Nothing else is changed, and no failure
  is recorded in the audit log.\<close>

theorem upload_failure_leaves_running:
  assumes "filter (\<lambda>j. ej_id j = i) (export_jobs (ctl w)) = [job]"
    and "filter (\<lambda>g. org_id g = ej_organization job) (organizations (ctl w)) = [org]"
    and "unwrap_passphrase wrapped w = (Inr passphrase, w)"
    and "w0 = w\<lparr>ctl := export_jobs_update (update_where (\<lambda>j. ej_id j = i) (\<lambda>j. j\<lparr>ej_status := Running\<rparr>)) (ctl w)\<rparr>"
    and "build_export str org passphrase w0 = (Inr (content, checksum), v)"
    and "s3_fails (env v) (s3_calls v)"
  shows "\<exists>w'. run_export str i wrapped w = (Inl StorageError, w') \<and> ctl w' = ctl w0
    \<and> list_all (\<lambda>j. ej_status j = Running) (filter (\<lambda>j. ej_id j = i) (export_jobs (ctl w')))"
proof -
  have "ctl v = ctl w0"
    using preservesD [OF preserves_build_export unchanged_refl assms(5)] by (simp add: unchanged_def)
  moreover have "run_export str i wrapped w = (Inl StorageError, v\<lparr>s3_calls := Suc (s3_calls v)\<rparr>)"
  proof -
    have steps: "get_one (\<lambda>c. filter (\<lambda>j. ej_id j = i) (export_jobs c)) w = (Inr job, w)"
      "get_one (\<lambda>c. filter (\<lambda>g. org_id g = ej_organization job) (organizations c)) w = (Inr org, w)"
      "save_export_job i (\<lambda>j. j\<lparr>ej_status := Running\<rparr>) w = (Inr (), w0)"
      "catch (build_export str org passphrase) (export_failed job) w0 = (Inr (content, checksum), v)"
      "s3_put (export_object_key job) content v = (Inl StorageError, v\<lparr>s3_calls := Suc (s3_calls v)\<rparr>)"
      using assms(1,2,6) assms(5) by (simp_all add: get_one_def assms(4) s3_put_def s3_call_def Let_def)
    show ?thesis
      by (simp only: run_export_def bind_def assms(3) steps prod.case sum.case)
  qed
  moreover have "list_all (\<lambda>j. ej_status j = Running) (filter (\<lambda>j. ej_id j = i) (export_jobs (ctl w0)))"
    by (simp add: assms(1,4) filter_update_where)
  ultimately show ?thesis by simp
qed

definition small_job :: export_job where
  "small_job = \<lparr>ej_id = 5, ej_organization = 7, ej_created_by = 1, ej_status = Pending, ej_encrypted = False,
     ej_object_key = '''', ej_size_bytes = None, ej_checksum_sha256 = '''', ej_error_message = '''', ej_completed_at = None\<rparr>"

definition failing_world :: world where
  "failing_world = small_world\<lparr>ctl := (ctl small_world)\<lparr>export_jobs := [small_job]\<rparr>,
     env := (env small_world)\<lparr>s3_fails := (\<lambda>n. True)\<rparr>\<rparr>"
lemma upload_failure_leaves_running_witness:
  "\<exists>w'. run_export (\<lambda>v. '''') 5 (Some (CHR 0x00 # ''secret'')) failing_world = (Inl StorageError, w')
     \<and> list_all (\<lambda>j. ej_status j = Running) (filter (\<lambda>j. ej_id j = 5) (export_jobs (ctl w')))"
proof -
  define w0 where "w0 = failing_world\<lparr>ctl := export_jobs_update (update_where (\<lambda>j. ej_id j = 5)
    (\<lambda>j. j\<lparr>ej_status := Running\<rparr>)) (ctl failing_world)\<rparr>"
  have collected: "collect_export (\<lambda>v. '''') small_org w0 = (Inr (\<lparr>aw_members = [], aw_checksums = []\<rparr>, small_manifest), w0\<lparr>rng := 1\<rparr>)"
    by (simp add: collect_export_def by_text_def sort_by_def export_workspace_def bind_def query_def w0_def failing_world_def
        small_world_def small_org_def active_members_def small_manifest_def no_rows_def world_of_def base_env_def)
  have meta: "drawn_meta (w0\<lparr>rng := 1\<rparr>) (Some p) = encryption_meta (replicate 16 7) (replicate 12 7)" for p
    by (simp add: drawn_meta_def w0_def failing_world_def small_world_def ARGON2_SALT_BYTES_def AES_NONCE_BYTES_def)
  have key: "derive_key (lib (env (w0\<lparr>rng := 1\<rparr>))) ''secret'' salt = Inr (encode ''secret'')" for salt
    by (simp add: derive_key_def w0_def failing_world_def small_world_def base_library_def)
  have "\<exists>content v. write_container [] (Some ''secret'') (w0\<lparr>rng := 1\<rparr>) = (Inr content, v)"
    by (rule write_container_runs [OF key]) (simp only: meta header_short)
  then obtain content v where written: "write_container [] (Some ''secret'') (w0\<lparr>rng := 1\<rparr>) = (Inr content, v)" by blast
  have "zip_pack (lib (env w0)) ms = []" for ms by (simp add: w0_def failing_world_def small_world_def base_library_def)
  with written have built: "build_export (\<lambda>v. '''') small_org (Some ''secret'') w0 = (Inr (content, sha256 (env v) content), v)"
    by (simp add: build_export_def collected pack_export_def bind_def Let_def)
  have "env v = env w0"
    using preservesD [OF preserves_build_export unchanged_refl built] by (simp add: unchanged_def)
  then have fails: "s3_fails (env v) (s3_calls v)" by (simp add: w0_def failing_world_def)
  have unwrapped: "unwrap_passphrase (Some (CHR 0x00 # ''secret'')) failing_world = (Inr (Some ''secret''), failing_world)"
    by (simp add: unwrap_passphrase_def bind_def failing_world_def small_world_def encode_def encode_char_def Let_def) code_simp
  have "filter (\<lambda>j. ej_id j = 5) (export_jobs (ctl failing_world)) = [small_job]"
    and "filter (\<lambda>g. org_id g = ej_organization small_job) (organizations (ctl failing_world)) = [small_org]"
    by (simp_all add: failing_world_def small_world_def small_job_def small_org_def)
  from upload_failure_leaves_running [OF this unwrapped w0_def built fails] show ?thesis by blast
qed

text \<open>Through a restore, whatever its outcome, the restore jobs keep their identifiers and their staged
  packages.\<close>

definition staged_jobs :: "control \<Rightarrow> (uuid \<times> string) list" where
  "staged_jobs c = map (\<lambda>j. (rj_id j, rj_source_object_key j)) (restore_jobs c)"

definition restorable :: "(uuid \<times> string) list \<Rightarrow> world \<Rightarrow> bool" where
  "restorable xs = both (\<lambda>c. well_formed_catalog c \<and> staged_jobs c = xs) (sent_only sql_ok)"

lemma ignores_audit_restorable [simp]: "ignores_audit (\<lambda>c. well_formed_catalog c \<and> staged_jobs c = xs)"
  by (simp add: ignores_audit_def well_formed_catalog_def staged_jobs_def)

lemma preserves_restorable [keeps]:
  "preserves (restorable xs) (audit_record actor org action rt rid req res ctx)"
  "preserves (restorable xs) (restore_package fuel zf manifest u)"
  unfolding restorable_def
proof -
  show "preserves (both (\<lambda>c. well_formed_catalog c \<and> staged_jobs c = xs) (sent_only sql_ok))
      (audit_record actor org action rt rid req res ctx)"
    by (rule both_audit_record) simp
  show "preserves (both (\<lambda>c. well_formed_catalog c \<and> staged_jobs c = xs) (sent_only sql_ok)) (restore_package fuel zf manifest u)"
  proof (rule preservesI)
    fix s assume s: "both (\<lambda>c. well_formed_catalog c \<and> staged_jobs c = xs) (sent_only sql_ok) s"
    then have "restoring (ctl s) s" by (simp add: both_def restored_catalog_def)
    with keeps_restore_package have "restoring (ctl s) (snd (restore_package fuel zf manifest u s))"
      by (simp add: preserves_def)
    with s show "both (\<lambda>c. well_formed_catalog c \<and> staged_jobs c = xs) (sent_only sql_ok) (snd (restore_package fuel zf manifest u s))"
      by (simp add: both_def restored_catalog_def adds_only_def staged_jobs_def)
  qed
qed

lemma preserves_save_restore_job:
  "preserves (restorable xs) (save_restore_job i f)" if "\<And>j. rj_id (f j) = rj_id j" "\<And>j. rj_source_object_key (f j) = rj_source_object_key j"
proof -
  have "map (\<lambda>j. (rj_id j, rj_source_object_key j)) (update_where (\<lambda>j. rj_id j = i) f ys)
      = map (\<lambda>j. (rj_id j, rj_source_object_key j)) ys" for ys
    using that by (intro map_update_where) simp
  then show ?thesis
    using that by (simp add: preserves_def restorable_def both_def well_formed_catalog_def staged_jobs_def)
qed

lemma preserves_restore_failed: "preserves (restorable xs) (restore_failed job e)"
  unfolding restore_failed_def creator_def by (intro keeps preserves_save_restore_job) simp_all

lemma preserves_restore_container: "preserves (restorable xs) (restore_container fuel job b p)"
  unfolding restore_container_def creator_def by (intro keeps preserves_save_restore_job) simp_all

text \<open>The end of a restore touches neither object storage nor the staged packages.\<close>

definition storage_is :: "world \<Rightarrow> world \<Rightarrow> bool" where
  "storage_is v w \<longleftrightarrow> objects w = objects v \<and> s3_calls w = s3_calls v \<and> env w = env v"

lemma preserves_storage_is [keeps]:
  "preserves (storage_is v) (audit_record actor org action rt rid req res ctx)"
  "preserves (storage_is v) (get_one f)" "preserves (storage_is v) now" "preserves (storage_is v) (save_restore_job i g)"
  by (auto simp: preserves_def storage_is_def audit_record_def orm_create_def save_restore_job_def orm_update_def
      get_one_def bind_def now_def split: list.split)

lemma preserves_restore_completed:
  "preserves (restorable xs) (restore_completed job report)" "preserves (storage_is v) (restore_completed job report)"
  unfolding restore_completed_def creator_def by (intro keeps preserves_save_restore_job; simp)+

lemma staged_job:
  assumes "staged_jobs c = staged_jobs d" and "filter (\<lambda>j. rj_id j = i) (restore_jobs c) = [job]"
  obtains job' where "filter (\<lambda>j. rj_id j = i) (restore_jobs d) = [job']"
    and "rj_source_object_key job' = rj_source_object_key job"
proof -
  have "filter (\<lambda>p. fst p = i) (staged_jobs e) = map (\<lambda>j. (rj_id j, rj_source_object_key j)) (filter (\<lambda>j. rj_id j = i) (restore_jobs e))" for e
    by (simp add: staged_jobs_def filter_map comp_def)
  from this [of c] this [of d] assms
  have "map (\<lambda>j. (rj_id j, rj_source_object_key j)) (filter (\<lambda>j. rj_id j = i) (restore_jobs d)) = [(rj_id job, rj_source_object_key job)]"
    by simp
  then show thesis using that by (cases "filter (\<lambda>j. rj_id j = i) (restore_jobs d)") auto
qed

text \<open>Without its staged package, a restore stops there.\<close>

lemma run_restore_unstaged:
  assumes "filter (\<lambda>j. rj_id j = i) (restore_jobs (ctl w)) = [job]"
    and "unwrap_passphrase wrapped w = (Inr p, w)" and "objects w (rj_source_object_key job) = None"
  shows "\<exists>w'. run_restore fuel i wrapped w = (Inl StorageError, w')
    \<and> list_all (\<lambda>j. rj_status j = RValidating) (filter (\<lambda>j. rj_id j = i) (restore_jobs (ctl w')))"
proof -
  let ?v = "w\<lparr>ctl := restore_jobs_update (update_where (\<lambda>j. rj_id j = i) (\<lambda>j. j\<lparr>rj_status := RValidating\<rparr>)) (ctl w)\<rparr>"
  have steps: "get_one (\<lambda>c. filter (\<lambda>j. rj_id j = i) (restore_jobs c)) w = (Inr job, w)"
    "save_restore_job i (\<lambda>j. j\<lparr>rj_status := RValidating\<rparr>) w = (Inr (), ?v)"
    "s3_read (rj_source_object_key job) ?v = (Inl StorageError, ?v\<lparr>s3_calls := Suc (s3_calls w)\<rparr>)"
    using assms by (simp_all add: get_one_def s3_read_def s3_get_def s3_call_def bind_def Let_def)
  then have "run_restore fuel i wrapped w = (Inl StorageError, ?v\<lparr>s3_calls := Suc (s3_calls w)\<rparr>)"
    by (simp only: run_restore_def bind_def assms(2) steps prod.case sum.case)
  then show ?thesis by (simp add: assms(1) filter_update_where)
qed

text \<open>A restore that read its package and failed has deleted it.\<close>

lemma run_restore_consumes:
  assumes job: "filter (\<lambda>j. rj_id j = i) (restore_jobs (ctl w)) = [job]"
    and ok: "well_formed_catalog (ctl w)" "list_all (\<lambda>s. sql_ok (fst s)) (tnt w)"
    and passphrase: "unwrap_passphrase wrapped w = (Inr p, w)"
    and staged: "objects w (rj_source_object_key job) = Some content"
      "\<not> s3_fails (env w) (s3_calls w)" "stream_breaks (env w) (s3_calls w) = None"
    and run: "run_restore fuel i wrapped w = (r, w1)" and deleted: "\<not> s3_fails (env w1) (s3_calls w1 - 1)"
  shows "objects w1 (rj_source_object_key job) = None \<and> staged_jobs (ctl w1) = staged_jobs (ctl w)"
proof -
  let ?v = "w\<lparr>ctl := restore_jobs_update (update_where (\<lambda>j. rj_id j = i) (\<lambda>j. j\<lparr>rj_status := RValidating\<rparr>)) (ctl w)\<rparr>"
  let ?u = "?v\<lparr>s3_calls := Suc (s3_calls w)\<rparr>" and ?key = "rj_source_object_key job"
  have steps: "get_one (\<lambda>c. filter (\<lambda>j. rj_id j = i) (restore_jobs c)) w = (Inr job, w)"
    "save_restore_job i (\<lambda>j. j\<lparr>rj_status := RValidating\<rparr>) w = (Inr (), ?v)" "s3_read ?key ?v = (Inr content, ?u)"
    using job staged by (simp_all add: get_one_def s3_read_def s3_get_def s3_call_def bind_def Let_def)
  obtain x v where tried: "catch (restore_container fuel job content p) (restore_failed job) ?u = (x, v)"
    by (cases "catch (restore_container fuel job content p) (restore_failed job) ?u")
  define v' where "v' = snd (catch (s3_delete ?key) (\<lambda>_. ret ()) v)"
  have deletion: "catch (s3_delete ?key) (\<lambda>_. ret ()) v = (Inr (), v')" and v': "s3_calls v' = Suc (s3_calls v)" "env v' = env v"
    "ctl v' = ctl v" "tnt v' = tnt v" "\<not> s3_fails (env v) (s3_calls v) \<Longrightarrow> objects v' ?key = None"
    by (simp_all add: v'_def catch_def s3_delete_def s3_call_def Let_def)
  have ended: "bind (lift x) (restore_completed job) v' = (r, w1)"
    using run by (simp only: run_restore_def bind_def assms(4) steps prod.case sum.case attempt_def tried deletion)
  have "staged_jobs (ctl ?u) = staged_jobs (ctl w)"
    by (simp add: staged_jobs_def map_update_where)
  with ok have "restorable (staged_jobs (ctl w)) ?u"
    by (simp add: restorable_def both_def well_formed_catalog_def sent_only_def list_all_iff)
  then have "restorable (staged_jobs (ctl w)) v"
    using preservesD [OF preserves_catch [OF preserves_restore_container preserves_restore_failed] _ tried] by blast
  then have "restorable (staged_jobs (ctl w)) v'"
    using v' by (simp add: restorable_def both_def)
  then have "restorable (staged_jobs (ctl w)) w1"
    using preservesD [OF preserves_bind [OF preserves_lift preserves_restore_completed(1)] _ ended] by blast
  moreover have "storage_is v' w1"
    using preservesD [OF preserves_bind [OF preserves_lift preserves_restore_completed(2)] _ ended]
    by (simp add: storage_is_def)
  ultimately show ?thesis
    using v' deleted by (simp add: storage_is_def restorable_def both_def)
qed

text \<open>C33. The one retry of a restore cannot succeed: the staged package is deleted when the first attempt
  ends, whatever its outcome, so the second fails to read it, before the block whose handler marks the
  job as failed, and leaves the job marked as validating.\<close>

theorem restore_retry_fails:
  assumes "filter (\<lambda>j. rj_id j = i) (restore_jobs (ctl w)) = [job]"
    and "well_formed_catalog (ctl w)" and "list_all (\<lambda>s. sql_ok (fst s)) (tnt w)"
    and "unwrap_passphrase wrapped w = (Inr p, w)" and "objects w (rj_source_object_key job) = Some content"
    and "\<not> s3_fails (env w) (s3_calls w)" and "stream_breaks (env w) (s3_calls w) = None"
    and "run_restore fuel i wrapped w = (Inl e, w1)" and "\<not> s3_fails (env w1) (s3_calls w1 - 1)"
    and "unwrap_passphrase wrapped w1 = (Inr p', w1)"
  shows "objects w1 (rj_source_object_key job) = None
    \<and> (\<exists>w2. run_restore fuel' i wrapped w1 = (Inl StorageError, w2)
       \<and> list_all (\<lambda>j. rj_status j = RValidating) (filter (\<lambda>j. rj_id j = i) (restore_jobs (ctl w2))))"
proof -
  have gone: "objects w1 (rj_source_object_key job) = None" and jobs: "staged_jobs (ctl w1) = staged_jobs (ctl w)"
    using run_restore_consumes [OF assms(1-9)] by simp_all
  obtain job' where job': "filter (\<lambda>j. rj_id j = i) (restore_jobs (ctl w1)) = [job']"
      "rj_source_object_key job' = rj_source_object_key job"
    using staged_job [OF jobs [symmetric] assms(1)] by blast
  show ?thesis
    using gone run_restore_unstaged [OF job'(1) assms(10)] job'(2) by simp
qed

definition staged_job_row :: restore_job where
  "staged_job_row = \<lparr>rj_id = 5, rj_organization = None, rj_created_by = 1, rj_status = RPending,
     rj_source_object_key = ''restore-staging/5.icp'', rj_report = JObj [], rj_error_message = '''', rj_completed_at = None\<rparr>"

definition staged_world :: world where
  "staged_world = (world_of (no_rows\<lparr>users := [alice], restore_jobs := [staged_job_row]\<rparr>))
     \<lparr>objects := [''restore-staging/5.icp'' \<mapsto> [1, 2, 3]]\<rparr>"

lemma staged_run:
  "fst (run_restore 1 5 None staged_world) = Inl ContainerError"
  "env (snd (run_restore 1 5 None staged_world)) = base_env"
  by (simp_all add: run_restore_def unwrap_passphrase_def bind_def get_one_def staged_world_def staged_job_row_def no_rows_def
      s3_read_def s3_get_def s3_call_def Let_def attempt_def catch_def restore_container_def open_package_def
      read_container_payload_def read_container_header_def MAGIC_def encode_def encode_char_def
      restore_failed_def creator_def audit_record_def orm_create_def no_clash_def s3_delete_def)

lemma restore_retry_fails_witness:
  "\<exists>w1 w2. run_restore 1 5 None staged_world = (Inl ContainerError, w1) \<and> run_restore 1 5 None w1 = (Inl StorageError, w2)
     \<and> list_all (\<lambda>j. rj_status j = RValidating) (filter (\<lambda>j. rj_id j = 5) (restore_jobs (ctl w2)))"
proof -
  obtain w1 where run: "run_restore 1 5 None staged_world = (Inl ContainerError, w1)" and env: "env w1 = base_env"
    using staged_run by (cases "run_restore 1 5 None staged_world") simp
  have "objects w1 (rj_source_object_key staged_job_row) = None
    \<and> (\<exists>w2. run_restore 1 5 None w1 = (Inl StorageError, w2)
       \<and> list_all (\<lambda>j. rj_status j = RValidating) (filter (\<lambda>j. rj_id j = 5) (restore_jobs (ctl w2))))"
    by (rule restore_retry_fails [OF _ _ _ _ _ _ _ run])
      (simp_all add: staged_world_def staged_job_row_def no_rows_def unwrap_passphrase_def well_formed_catalog_def env)
  with run show ?thesis by blast
qed

end
