(* ===== verification/Backups.thy ===== *)
theory Backups
  imports Connections Exports
begin

text \<open>
  Backups of the platform and their verification (\<open>system/backups.py\<close>, \<open>system/tasks.py\<close>): dumps of the
  two PostgreSQL databases, an archive of object storage, a copy of the configuration, each written to
  the backup directory, encrypted when a key is configured, and recorded; and the restore of a backup
  into a throwaway target. The programs \<open>pg_dump\<close> and \<open>pg_restore\<close> and the tar format are parameters of
  the environment; a disk operation is a numbered call that may fail. The password of a PostgreSQL
  program travels in its process environment, the log messages are left out; an archive reaches the disk
  as a whole, so that the unfinished file of a failed run, which no record names, is not modelled.
\<close>

section \<open>The machine\<close>

definition disk_call :: "'a app \<Rightarrow> 'a app" where
  "disk_call m = (\<lambda>w. let w' = w\<lparr>disk_calls := Suc (disk_calls w)\<rparr> in
     if disk_fails (worker (env w)) (disk_calls w) then (Inl OSError, w') else m w')"

definition make_dirs :: "unit app" where
  "make_dirs = disk_call (ret ())"

definition read_file :: "string \<Rightarrow> bytes app" where
  "read_file path = disk_call (\<lambda>w. case disk w path of None \<Rightarrow> (Inl OSError, w) | Some b \<Rightarrow> (Inr b, w))"

definition write_file :: "string \<Rightarrow> bytes \<Rightarrow> unit app" where
  "write_file path content = disk_call (modify (\<lambda>w. w\<lparr>disk := (disk w)(path \<mapsto> content)\<rparr>))"

definition remove_file :: "string \<Rightarrow> unit app" where
  "remove_file path = disk_call (\<lambda>w. case disk w path of None \<Rightarrow> (Inl OSError, w)
     | Some b \<Rightarrow> (Inr (), w\<lparr>disk := (disk w)(path := None)\<rparr>))"

definition file_size_of :: "string \<Rightarrow> nat app" where
  "file_size_of path = bind (read_file path) (\<lambda>b. ret (length b))"

text \<open>\<open>os.path.join\<close> of two parts, the second relative.\<close>

definition path_join :: "string \<Rightarrow> string \<Rightarrow> string" where
  "path_join d f = (if d = [] \<or> last d = CHR ''/'' then d @ f else d @ ''/'' @ f)"

definition ends_with :: "string \<Rightarrow> string \<Rightarrow> bool" where
  "ends_with end_text s \<longleftrightarrow> drop (length s - length end_text) s = end_text"

text \<open>\<open>_run\<close>: a program changes the files it writes; it may not start (\<open>OSError\<close>), run out of time or
  exit with an error.\<close>

definition run_command :: "string list \<Rightarrow> unit app" where
  "run_command cmd = disk_call (\<lambda>w.
     case run_process (worker (env w)) (disk_calls w) cmd (disk w) of
       (None, left) \<Rightarrow> (Inl TimeoutExpired, w\<lparr>disk := left\<rparr>)
     | (Some (returncode, stderr), left) \<Rightarrow> (if returncode \<noteq> 0 then Inl BackupError else Inr (), w\<lparr>disk := left\<rparr>))"

section \<open>Encrypted files\<close>

definition encryption_key :: "string app" where
  "encryption_key = gets (\<lambda>w. backup_encryption_key (worker (env w)))"

definition maybe_encrypt_file :: "string \<Rightarrow> string app" where
  "maybe_encrypt_file path =
     bind encryption_key (\<lambda>key.
     if key = '''' then ret path
     else bind (read_file path) (\<lambda>plaintext.
       bind (write_container plaintext (Some key)) (\<lambda>wrapped.
       bind (write_file (path @ ''.icb'') wrapped) (\<lambda>_.
       bind (remove_file path) (\<lambda>_.
       ret (path @ ''.icb''))))))"

text \<open>Reading a file that may be encrypted; \<open>_DecryptedTempFile.__enter__\<close> also writes what it decrypts
  to a temporary file of a random name, and gives its path.\<close>

definition decrypted :: "bytes \<Rightarrow> bytes app" where
  "decrypted wrapped =
     bind encryption_key (\<lambda>key.
     if key = '''' then raise BackupError
     else bind (gets (\<lambda>w. read_container_payload (lib (env w)) wrapped (Some key))) lift)"

definition enter_decrypted :: "string \<Rightarrow> (string \<times> string option) app" where
  "enter_decrypted path =
     (if \<not> ends_with ''.icb'' path then ret (path, None)
      else bind encryption_key (\<lambda>key.
        bind (ensure (key \<noteq> '''') BackupError) (\<lambda>_.
        bind (read_file path) (\<lambda>wrapped.
        bind (decrypted wrapped) (\<lambda>plaintext.
        bind uuid4 (\<lambda>i.
        let tmp = ''/tmp/tmp'' @ uuid_hex i @ ''.dump'' in
        bind (write_file tmp plaintext) (\<lambda>_.
        ret (tmp, Some tmp))))))))"

definition leave_decrypted :: "string option \<Rightarrow> unit app" where
  "leave_decrypted tmp = (case tmp of None \<Rightarrow> ret () | Some p \<Rightarrow> remove_file p)"

text \<open>The body of the \<open>with\<close> statement gives what it has restored, and its outcome; both survive the
  exit, whose own exception replaces that of the body.\<close>

definition with_decrypted :: "string \<Rightarrow> (string \<Rightarrow> ('k list \<times> (exn + unit)) app) \<Rightarrow> ('k list \<times> (exn + unit)) app" where
  "with_decrypted path inner =
     bind (attempt (enter_decrypted path)) (\<lambda>entered. case entered of
       Inl e \<Rightarrow> ret ([], Inl e)
     | Inr (plain_path, tmp) \<Rightarrow>
         bind (inner plain_path) (\<lambda>(keys, outcome).
         bind (attempt (leave_decrypted tmp)) (\<lambda>left.
         ret (keys, case left of Inl e \<Rightarrow> Inl e | Inr _ \<Rightarrow> outcome))))"

section \<open>Records\<close>

definition backup_record_clash :: "backup_record \<Rightarrow> backup_record \<Rightarrow> bool" where
  "backup_record_clash r x \<longleftrightarrow> br_id x = br_id r"

definition new_record :: "string \<Rightarrow> backup_record app" where
  "new_record backup_type =
     bind uuid4 (\<lambda>i. bind now (\<lambda>t.
     let r = \<lparr>br_id = i, br_type = backup_type, br_status = BRunning, br_file_path = '''', br_size_bytes = None,
           br_error_message = '''', br_started_at = t, br_completed_at = None, br_verified_restorable = False,
           br_verified_at = None, br_verification_error = ''''\<rparr> in
     bind (orm_create backup_records backup_records_update backup_record_clash r) (\<lambda>_. ret r)))"

definition save_record :: "backup_record \<Rightarrow> (backup_record \<Rightarrow> backup_record) \<Rightarrow> backup_record app" where
  "save_record r f =
     bind (orm_update backup_records backup_records_update backup_record_clash br_id (br_id r) f) (\<lambda>_. ret (f r))"

definition backup_failed :: "backup_record \<Rightarrow> exn \<Rightarrow> backup_record app" where
  "backup_failed r e =
     bind (gets (\<lambda>w. exn_str (env w) e)) (\<lambda>text.
     bind now (\<lambda>t.
     save_record r (\<lambda>b. b\<lparr>br_status := BFailed, br_error_message := take 2000 text, br_completed_at := Some t\<rparr>)))"

definition backup_done :: "backup_record \<Rightarrow> string \<Rightarrow> nat \<Rightarrow> backup_record app" where
  "backup_done r path size_bytes =
     bind now (\<lambda>t.
     save_record r (\<lambda>b. b\<lparr>br_status := BSuccess, br_file_path := path, br_size_bytes := Some size_bytes,
       br_completed_at := Some t\<rparr>))"

text \<open>The file name of a backup, and the end both file backups share.\<close>

definition backup_path :: "string \<Rightarrow> backup_record \<Rightarrow> string \<Rightarrow> string app" where
  "backup_path stem r extension =
     bind now (\<lambda>t.
     gets (\<lambda>w. path_join (backup_dir (worker (env w)))
       (stem @ ''_'' @ uuid_hex (br_id r) @ ''_'' @ strftime (worker (env w)) t @ extension)))"

definition finish_backup :: "backup_record \<Rightarrow> string \<Rightarrow> backup_record app" where
  "finish_backup r output_path =
     bind (maybe_encrypt_file output_path) (\<lambda>final_path.
     bind (file_size_of final_path) (\<lambda>size_bytes.
     backup_done r final_path size_bytes))"

section \<open>Dumps of PostgreSQL\<close>

definition db_alias :: "string \<Rightarrow> string" where
  "db_alias backup_type = (if backup_type = ''control_db'' then ''default'' else ''tenant'')"

definition db_settings_of :: "string \<Rightarrow> connection_params app" where
  "db_settings_of backup_type = gets (\<lambda>w. db_settings (worker (env w)) (db_alias backup_type))"

definition db_host :: "connection_params \<Rightarrow> string" where
  "db_host db = (if cp_host db = '''' then ''localhost'' else cp_host db)"

definition db_port :: "connection_params \<Rightarrow> int" where
  "db_port db = (if cp_port db = 0 then 5432 else cp_port db)"

definition pg_dump_command :: "connection_params \<Rightarrow> string \<Rightarrow> string list" where
  "pg_dump_command db output_path = [''pg_dump'', ''-h'', db_host db, ''-p'', str_of_int (db_port db),
     ''-U'', cp_username db, ''-d'', cp_database db, ''-Fc'', ''-f'', output_path]"

definition run_postgres_backup :: "string \<Rightarrow> backup_record app" where
  "run_postgres_backup backup_type =
     bind (db_settings_of backup_type) (\<lambda>db.
     bind (new_record backup_type) (\<lambda>r.
     bind make_dirs (\<lambda>_.
     bind (backup_path backup_type r ''.dump'') (\<lambda>output_path.
     bind (attempt (run_command (pg_dump_command db output_path))) (\<lambda>ran. case ran of
         Inl e \<Rightarrow> if e = BackupError \<or> e = TimeoutExpired \<or> e = OSError then backup_failed r e else raise e
       | Inr _ \<Rightarrow> finish_backup r output_path)))))"

section \<open>Archives of object storage\<close>

definition list_all_keys :: "(string \<times> nat) list app" where
  "list_all_keys = s3_call (gets (\<lambda>w. s3_keys (env w) (objects w)))"

text \<open>The pages of the listing are read by one call. \<open>tar.addfile\<close> reads exactly the announced size from
  the stream, through the hashing wrapper; a shorter stream is an error.\<close>

definition archive_object :: "string \<Rightarrow> nat \<Rightarrow> bytes app" where
  "archive_object key n =
     bind (s3_read key) (\<lambda>content.
     if length content < n then raise OSError else ret (take n content))"

fun archive_objects :: "(string \<times> bytes) list \<Rightarrow> (string \<times> json) list \<Rightarrow> (string \<times> nat) list
    \<Rightarrow> ((string \<times> bytes) list \<times> (string \<times> json) list) app" where
  "archive_objects members manifest [] = ret (members, manifest)"
| "archive_objects members manifest ((key, n) # ks) =
     bind (archive_object key n) (\<lambda>content.
     bind (gets (\<lambda>w. sha256 (env w) content)) (\<lambda>digest.
     archive_objects (members @ [(key, content)]) (AList.update key (JStr digest) manifest) ks))"

definition MANIFEST_NAME :: string where "MANIFEST_NAME = ''_manifest.json''"

definition write_archive :: "string \<Rightarrow> unit app" where
  "write_archive output_path =
     bind list_all_keys (\<lambda>ks.
     bind (archive_objects [] [] ks) (\<lambda>(members, manifest).
     bind (gets (\<lambda>w. lib (env w))) (\<lambda>L.
     write_file output_path (tar_pack L
       (members @ [(MANIFEST_NAME, encode (json_dumps_pretty L (JObj manifest)))])))))"

definition run_object_storage_backup :: "backup_record app" where
  "run_object_storage_backup =
     bind (new_record ''object_storage'') (\<lambda>r.
     bind make_dirs (\<lambda>_.
     bind (backup_path ''object_storage'' r ''.tar'') (\<lambda>output_path.
     bind (attempt (write_archive output_path)) (\<lambda>written. case written of
         Inl e \<Rightarrow> backup_failed r e
       | Inr _ \<Rightarrow> finish_backup r output_path))))"

section \<open>Copies of the configuration\<close>

definition CONFIG_BACKUP_KEYS :: "string list" where
  "CONFIG_BACKUP_KEYS = [''SECRET_KEY'', ''CREDENTIAL_ENCRYPTION_KEY'', ''ALLOWED_HOSTS'', ''CSRF_TRUSTED_ORIGINS'',
     ''CORS_ALLOWED_ORIGINS'', ''CONTROL_DB_NAME'', ''CONTROL_DB_USER'', ''CONTROL_DB_PASSWORD'', ''CONTROL_DB_HOST'',
     ''CONTROL_DB_PORT'', ''TENANT_DB_NAME'', ''TENANT_DB_USER'', ''TENANT_DB_PASSWORD'', ''TENANT_DB_HOST'',
     ''TENANT_DB_PORT'', ''DB_STATEMENT_TIMEOUT_MS'', ''REDIS_URL'', ''OBJECT_STORAGE_ENDPOINT'',
     ''OBJECT_STORAGE_REGION'', ''OBJECT_STORAGE_ROOT_USER'', ''OBJECT_STORAGE_ROOT_PASSWORD'',
     ''OBJECT_STORAGE_BUCKET_PREFIX'', ''FEATURE_EXTERNAL_SHARING_ENABLED'', ''FEATURE_INTERNET_GATEWAY_ENABLED'',
     ''MAX_UPLOAD_SIZE_BYTES'', ''MALWARE_SCAN_ENABLED'', ''CLAMAV_HOST'', ''CLAMAV_PORT'',
     ''CONNECTED_DATABASE_BLOCK_PRIVATE_NETWORKS'', ''ANALYTICS_MAX_ROWS'', ''BACKUP_DIR'']"

definition SECRET_CONFIG_KEYS :: "string list" where
  "SECRET_CONFIG_KEYS = [''SECRET_KEY'', ''CREDENTIAL_ENCRYPTION_KEY'', ''CONTROL_DB_PASSWORD'', ''TENANT_DB_PASSWORD'',
     ''OBJECT_STORAGE_ROOT_PASSWORD'', ''REDIS_URL'']"

definition REDACTED_PLACEHOLDER :: string where
  "REDACTED_PLACEHOLDER = ''<redacted: set BACKUP_ENCRYPTION_KEY to include secrets in configuration backups>''"

definition config_entry :: "(string \<Rightarrow> string option) \<Rightarrow> bool \<Rightarrow> string \<Rightarrow> string \<times> json" where
  "config_entry environment with_secrets key =
     (key, JStr (if key \<in> set SECRET_CONFIG_KEYS \<and> \<not> with_secrets then REDACTED_PLACEHOLDER
       else case environment key of None \<Rightarrow> '''' | Some v \<Rightarrow> v))"

definition configuration :: "(string \<Rightarrow> string option) \<Rightarrow> bool \<Rightarrow> json" where
  "configuration environment with_secrets = JObj (map (config_entry environment with_secrets) CONFIG_BACKUP_KEYS)"

text \<open>The \<open>try\<close> block: the path and the size of what was written.\<close>

definition write_configuration :: "backup_record \<Rightarrow> bytes \<Rightarrow> string \<Rightarrow> (string \<times> nat) app" where
  "write_configuration r payload key =
     bind (if key = '''' then ret payload else write_container payload (Some key)) (\<lambda>payload_out.
     bind (backup_path ''configuration'' r (if key = '''' then ''.json'' else ''.icb'')) (\<lambda>output_path.
     bind (write_file output_path payload_out) (\<lambda>_.
     ret (output_path, length payload_out))))"

definition run_configuration_backup :: "backup_record app" where
  "run_configuration_backup =
     bind (new_record ''configuration'') (\<lambda>r.
     bind make_dirs (\<lambda>_.
     bind encryption_key (\<lambda>key.
     bind (gets (\<lambda>w. encode (json_dumps_pretty (lib (env w)) (configuration (environ (worker (env w))) (key \<noteq> ''''))))) (\<lambda>payload.
     bind (attempt (write_configuration r payload key)) (\<lambda>written. case written of
         Inl e \<Rightarrow> if e = OSError then backup_failed r e else raise e
       | Inr (output_path, size_bytes) \<Rightarrow> backup_done r output_path size_bytes)))))"

definition run_backup :: "string \<Rightarrow> backup_record app" where
  "run_backup backup_type =
     (if backup_type = ''control_db'' \<or> backup_type = ''tenant_db'' then run_postgres_backup backup_type
      else if backup_type = ''object_storage'' then run_object_storage_backup
      else if backup_type = ''configuration'' then run_configuration_backup
      else raise BackupError)"

section \<open>Verification\<close>

definition verified :: "backup_record \<Rightarrow> exn + unit \<Rightarrow> backup_record app" where
  "verified r outcome =
     bind (gets (\<lambda>w. case outcome of Inl e \<Rightarrow> take 2000 (exn_str (env w) e) | Inr _ \<Rightarrow> '''')) (\<lambda>text.
     bind now (\<lambda>t.
     save_record r (\<lambda>b. b\<lparr>br_verified_restorable := (outcome = Inr ()), br_verification_error := text,
       br_verified_at := Some t\<rparr>)))"

definition not_verified :: "backup_record \<Rightarrow> string \<Rightarrow> backup_record app" where
  "not_verified r text =
     bind now (\<lambda>t.
     save_record r (\<lambda>b. b\<lparr>br_verified_restorable := False, br_verification_error := text, br_verified_at := Some t\<rparr>))"

text \<open>The guard the three verifications share.\<close>

definition verifiable :: "backup_record \<Rightarrow> backup_record app \<Rightarrow> backup_record app" where
  "verifiable r m = (if br_status r \<noteq> BSuccess \<or> br_file_path r = ''''
     then not_verified r ''backup did not complete successfully; nothing to verify'' else m)"

subsection \<open>PostgreSQL\<close>

definition admin_params :: "connection_params \<Rightarrow> string \<Rightarrow> connection_params" where
  "admin_params db dbname = db\<lparr>cp_host := db_host db, cp_port := db_port db, cp_database := dbname\<rparr>"

definition CREATE_DATABASE :: "string \<Rightarrow> composable" where
  "CREATE_DATABASE n = Composed [SQL ''CREATE DATABASE '', Identifier n]"

definition DROP_DATABASE :: "string \<Rightarrow> composable" where
  "DROP_DATABASE n = Composed [SQL ''DROP DATABASE IF EXISTS '', Identifier n, SQL '' WITH (FORCE)'']"

definition CONTROL_DB_VALIDATION_TABLES :: "string list" where
  "CONTROL_DB_VALIDATION_TABLES = [''organizations_organization'', ''accounts_user'', ''permissions_permission'']"

definition COUNT_SCHEMATA :: composable where
  "COUNT_SCHEMATA = SQL (''SELECT COUNT(*) FROM information_schema.schemata WHERE schema_name LIKE '' @ [CHR 0x27]
     @ ''db'' @ [CHR 0x5C] @ ''_%'' @ [CHR 0x27] @ '' ESCAPE '' @ [CHR 0x27, CHR 0x5C, CHR 0x27])"

definition COUNT_TABLE :: "string \<Rightarrow> composable" where
  "COUNT_TABLE t = Composed [SQL ''SELECT COUNT(*) FROM '', Identifier t]"

definition admin_execute :: "connection_params \<Rightarrow> string \<Rightarrow> composable list \<Rightarrow> unit app" where
  "admin_execute db dbname qs =
     bind (dial (admin_params db dbname)) (\<lambda>_.
     for_each (\<lambda>q. bind (remote_query (admin_params db dbname) (q, [])) (\<lambda>_. ret ())) qs)"

definition validate_restored_database :: "connection_params \<Rightarrow> string \<Rightarrow> string \<Rightarrow> unit app" where
  "validate_restored_database db test_db_name backup_type =
     admin_execute db test_db_name
       (if backup_type = ''control_db'' then map COUNT_TABLE CONTROL_DB_VALIDATION_TABLES else [COUNT_SCHEMATA])"

definition restore_test_name :: "backup_record \<Rightarrow> string" where
  "restore_test_name r = ''restore_test_'' @ take 16 (uuid_hex (br_id r))"

definition pg_restore_command :: "connection_params \<Rightarrow> string \<Rightarrow> string \<Rightarrow> string list" where
  "pg_restore_command db test_db_name plain_path = [''pg_restore'', ''-h'', db_host db, ''-p'', str_of_int (db_port db),
     ''-U'', cp_username db, ''-d'', test_db_name, plain_path]"

definition pg_restore_into :: "connection_params \<Rightarrow> string \<Rightarrow> string \<Rightarrow> (string list \<times> (exn + unit)) app" where
  "pg_restore_into db test_db_name plain_path =
     bind (attempt (run_command (pg_restore_command db test_db_name plain_path))) (\<lambda>ran. ret ([], ran))"

definition verify_postgres_backup :: "backup_record \<Rightarrow> backup_record app" where
  "verify_postgres_backup r = verifiable r (
     bind (db_settings_of (br_type r)) (\<lambda>db.
     let test_db_name = restore_test_name r in
     bind (attempt (admin_execute db ''postgres'' [CREATE_DATABASE test_db_name])) (\<lambda>created. case created of
         Inl e \<Rightarrow>
           bind (gets (\<lambda>w. exn_str (env w) e)) (\<lambda>text.
           not_verified r (take 2000 (''could not create restore-test database: '' @ text)))
       | Inr _ \<Rightarrow>
           bind (with_decrypted (br_file_path r) (pg_restore_into db test_db_name)) (\<lambda>(_, restored).
           bind (attempt (bind (lift restored) (\<lambda>_. validate_restored_database db test_db_name (br_type r)))) (\<lambda>outcome.
           bind (attempt (admin_execute db ''postgres'' [DROP_DATABASE test_db_name])) (\<lambda>_.
           verified r outcome))))))"

subsection \<open>Object storage\<close>

definition scratch_prefix :: "backup_record \<Rightarrow> string" where
  "scratch_prefix r = ''_restore_test_'' @ take 16 (uuid_hex (br_id r)) @ ''/''"

text \<open>One member: its digest against the manifest, its upload under the scratch prefix; and what is read
  back of it.\<close>

definition stage_member :: "string \<Rightarrow> json \<Rightarrow> string \<Rightarrow> bytes \<Rightarrow> string app" where
  "stage_member scratch manifest name content =
     bind (gets (\<lambda>w. sha256 (env w) content)) (\<lambda>actual.
     bind (lift (json_get manifest name JNull)) (\<lambda>expected.
     bind (ensure (expected = JStr actual) BackupError) (\<lambda>_.
     bind (s3_put (scratch @ name) content) (\<lambda>_.
     ret (scratch @ name)))))"

definition reread_member :: "string \<Rightarrow> bytes \<Rightarrow> unit app" where
  "reread_member key content =
     bind (s3_read key) (\<lambda>reread.
     bind (gets (\<lambda>w. sha256 (env w) reread = sha256 (env w) content)) (\<lambda>same.
     ensure same BackupError))"

text \<open>\<open>restored_keys\<close> grows with every upload and outlives the exception that ends the loop.\<close>

fun restore_members :: "string \<Rightarrow> json \<Rightarrow> string list \<Rightarrow> (string \<times> bytes option) list
    \<Rightarrow> (string list \<times> (exn + unit)) app" where
  "restore_members scratch manifest keys [] = ret (keys, Inr ())"
| "restore_members scratch manifest keys ((name, member) # ms) =
    (if name = MANIFEST_NAME then restore_members scratch manifest keys ms
     else case member of None \<Rightarrow> restore_members scratch manifest keys ms
     | Some content \<Rightarrow>
         bind (attempt (stage_member scratch manifest name content)) (\<lambda>staged. case staged of
             Inl e \<Rightarrow> ret (keys, Inl e)
           | Inr key \<Rightarrow>
               bind (attempt (reread_member key content)) (\<lambda>r. case r of
                   Inl e \<Rightarrow> ret (keys @ [key], Inl e)
                 | Inr _ \<Rightarrow> restore_members scratch manifest (keys @ [key]) ms)))"

definition archive_manifest :: "library \<Rightarrow> (string \<times> bytes option) list \<Rightarrow> exn + json" where
  "archive_manifest L members = (case find (\<lambda>(n, c). n = MANIFEST_NAME) members of
     None \<Rightarrow> Inl BackupError
   | Some (_, None) \<Rightarrow> Inr (JObj [])
   | Some (_, Some content) \<Rightarrow> json_loads L content)"

definition open_archive :: "string \<Rightarrow> ((string \<times> bytes option) list \<times> json) app" where
  "open_archive path =
     bind (read_file path) (\<lambda>content.
     bind (gets (\<lambda>w. lib (env w))) (\<lambda>L.
     case tar_open L content of None \<Rightarrow> raise TarError
     | Some members \<Rightarrow> bind (lift (archive_manifest L members)) (\<lambda>manifest. ret (members, manifest))))"

definition restore_archive :: "string \<Rightarrow> string \<Rightarrow> (string list \<times> (exn + unit)) app" where
  "restore_archive scratch path =
     bind (attempt (open_archive path)) (\<lambda>opened. case opened of
         Inl e \<Rightarrow> ret ([], Inl e)
       | Inr (members, manifest) \<Rightarrow> restore_members scratch manifest [] members)"

definition clean_up :: "string list \<Rightarrow> unit app" where
  "clean_up = for_each (\<lambda>key. catch (s3_delete key) (\<lambda>_. ret ()))"

definition verify_object_storage_backup :: "backup_record \<Rightarrow> backup_record app" where
  "verify_object_storage_backup r = verifiable r (
     bind (with_decrypted (br_file_path r) (restore_archive (scratch_prefix r))) (\<lambda>(keys, outcome).
     bind (clean_up keys) (\<lambda>_.
     verified r outcome)))"

subsection \<open>Configuration\<close>

text \<open>\<open>key in config\<close>.\<close>

definition json_has :: "json \<Rightarrow> string \<Rightarrow> exn + bool" where
  "json_has j key = (case j of
     JObj kvs \<Rightarrow> Inr (map_of kvs key \<noteq> None) | JList xs \<Rightarrow> Inr (JStr key \<in> set xs)
   | JStr s \<Rightarrow> Inr (sublist key s) | _ \<Rightarrow> Inl TypeError)"

definition check_configuration :: "string \<Rightarrow> unit app" where
  "check_configuration path =
     bind (read_file path) (\<lambda>content.
     bind (if ends_with ''.icb'' path then decrypted content else ret content) (\<lambda>plain.
     bind (gets (\<lambda>w. json_loads (lib (env w)) plain)) (\<lambda>loaded.
     bind (lift loaded) (\<lambda>config.
     bind (lift (map_result (json_has config) CONFIG_BACKUP_KEYS)) (\<lambda>present.
     ensure (list_all id present) BackupError)))))"

definition verify_configuration_backup :: "backup_record \<Rightarrow> backup_record app" where
  "verify_configuration_backup r = verifiable r (
     bind (attempt (check_configuration (br_file_path r))) (verified r))"

definition verify_backup_restorable :: "backup_record \<Rightarrow> backup_record app" where
  "verify_backup_restorable r =
     (if br_type r = ''control_db'' \<or> br_type r = ''tenant_db'' then verify_postgres_backup r
      else if br_type r = ''object_storage'' then verify_object_storage_backup r
      else if br_type r = ''configuration'' then verify_configuration_backup r
      else not_verified r (''unsupported backup_type: '' @ br_type r))"

section \<open>Tasks\<close>

definition run_backup_task :: "string \<Rightarrow> uuid app" where
  "run_backup_task backup_type = bind (run_backup backup_type) (\<lambda>r. ret (br_id r))"

text \<open>The latest successful backup (the later row among those started at the same instant).\<close>

definition verify_latest_backup_task :: "string \<Rightarrow> uuid option app" where
  "verify_latest_backup_task backup_type =
     bind (query (\<lambda>c. find (\<lambda>r. br_type r = backup_type \<and> br_status r = BSuccess) (rev (sort_key br_started_at (backup_records c))))) (\<lambda>latest.
     case latest of None \<Rightarrow> ret None
     | Some r \<Rightarrow> bind (verify_backup_restorable r) (\<lambda>v. ret (Some (br_id v))))"

section \<open>Secrets stay out of plain backups\<close>

definition with_environ :: "(string \<Rightarrow> string option) \<Rightarrow> world \<Rightarrow> world" where
  "with_environ e w = w\<lparr>env := (env w)\<lparr>worker := (worker (env w))\<lparr>environ := e\<rparr>\<rparr>\<rparr>"

lemma configuration_agrees:
  "(\<And>k. k \<notin> set SECRET_CONFIG_KEYS \<Longrightarrow> e1 k = e2 k) \<Longrightarrow> configuration e1 False = configuration e2 False"
  by (simp add: configuration_def config_entry_def)

text \<open>Everything the backup of the configuration leaves behind.\<close>

definition left_behind :: "('a \<times> world) \<Rightarrow> 'a \<times> control \<times> (string \<Rightarrow> bytes option) \<times> (string \<Rightarrow> bytes option)" where
  "left_behind = (\<lambda>(r, v). (r, ctl v, disk v, objects v))"

text \<open>C36. Without an encryption key, no secret of the deployment reaches a backup of the configuration: two
  machines that differ only in the values of the secret variables write the same file and leave the same
  records, whatever fails on the way.\<close>

theorem configuration_backup_hides_secrets:
  assumes "backup_encryption_key (worker (env w)) = ''''"
    and "\<And>k. k \<notin> set SECRET_CONFIG_KEYS \<Longrightarrow> e1 k = e2 k"
  shows "left_behind (run_configuration_backup (with_environ e1 w)) = left_behind (run_configuration_backup (with_environ e2 w))"
proof -
  have run: "left_behind (run_configuration_backup (with_environ e w)) =
    (let payload = encode (json_dumps_pretty (lib (env w)) (configuration e False)) in
     left_behind (bind (new_record ''configuration'') (\<lambda>r. bind make_dirs (\<lambda>_.
       bind (attempt (write_configuration r payload '''')) (\<lambda>written. case written of
         Inl e \<Rightarrow> if e = OSError then backup_failed r e else raise e
       | Inr (output_path, size_bytes) \<Rightarrow> backup_done r output_path size_bytes))) w))" for e
    using assms(1)
    by (simp add: run_configuration_backup_def new_record_def make_dirs_def disk_call_def encryption_key_def
        write_configuration_def backup_path_def write_file_def backup_failed_def backup_done_def save_record_def
        orm_create_def orm_update_def bind_def attempt_def with_environ_def left_behind_def Let_def)
  show ?thesis by (simp add: run configuration_agrees [OF assms(2)] Let_def)
qed

lemma configuration_backup_hides_secrets_witness:
  "left_behind (run_configuration_backup (with_environ [''SECRET_KEY'' \<mapsto> ''a'', ''BACKUP_DIR'' \<mapsto> ''/b''] (world_of no_rows)))
     = left_behind (run_configuration_backup (with_environ [''SECRET_KEY'' \<mapsto> ''z'', ''BACKUP_DIR'' \<mapsto> ''/b''] (world_of no_rows)))"
  by (rule configuration_backup_hides_secrets) (auto simp: base_machine_def SECRET_CONFIG_KEYS_def)

section \<open>A verification spares the stored objects\<close>

text \<open>Outside a set of keys the objects are those of \<open>o\<close>, and the environment is \<open>v\<close>.\<close>

definition spares :: "string set \<Rightarrow> world \<Rightarrow> world \<Rightarrow> bool" where
  "spares ks v w \<longleftrightarrow> objects w |` (- ks) = objects v |` (- ks) \<and> env w = env v"

lemma spares_refl [simp]: "spares ks w w"
  by (simp add: spares_def)

lemma keeps_spares [keeps]:
  "preserves (spares ks v) uuid4" "preserves (spares ks v) now" "preserves (spares ks v) (s3_read key)"
  "preserves (spares ks v) (read_file p)" "preserves (spares ks v) (write_file p b)" "preserves (spares ks v) (remove_file p)"
  "preserves (spares ks v) encryption_key" "preserves (spares ks v) (save_record r f)"
  by (auto simp: preserves_def spares_def now_def s3_read_def s3_get_def s3_call_def read_file_def write_file_def
      remove_file_def disk_call_def encryption_key_def save_record_def orm_update_def bind_def Let_def
      split: prod.splits sum.splits option.splits)

lemma keeps_spares_storage:
  "k \<in> ks \<Longrightarrow> preserves (spares ks v) (s3_put k b)" "k \<in> ks \<Longrightarrow> preserves (spares ks v) (s3_delete k)"
  by (auto simp: preserves_def spares_def s3_put_def s3_delete_def s3_call_def Let_def)

lemma keeps_spares_files [keeps]:
  "preserves (spares ks v) (decrypted b)" "preserves (spares ks v) (enter_decrypted p)" "preserves (spares ks v) (leave_decrypted t)"
  "preserves (spares ks v) (open_archive p)" "preserves (spares ks v) (verified r x)" "preserves (spares ks v) (not_verified r text)"
  "preserves (spares ks v) (reread_member k b)"
  unfolding decrypted_def enter_decrypted_def leave_decrypted_def open_archive_def verified_def not_verified_def
    reread_member_def Let_def
  by (intro keeps)+

definition scratch_keys :: "string \<Rightarrow> string set" where
  "scratch_keys scratch = {k. prefix scratch k}"

lemma gives_stage_member:
  "gives (spares (scratch_keys scratch) v) (\<lambda>k. k \<in> scratch_keys scratch) (stage_member scratch manifest n b)"
  unfolding stage_member_def
  by (rule gives_bind_anything, intro keeps)+
    (auto intro!: gives_bind_anything keeps keeps_spares_storage gives_ret simp: scratch_keys_def)

lemma gives_restore_members:
  "set keys \<subseteq> scratch_keys scratch \<Longrightarrow>
     gives (spares (scratch_keys scratch) v) (\<lambda>(ks, x). set ks \<subseteq> scratch_keys scratch) (restore_members scratch manifest keys ms)"
proof (induction ms arbitrary: keys)
  case (Cons m ms)
  obtain name member where m: "m = (name, member)" by (cases m)
  show ?case
    unfolding m restore_members.simps
    apply (intro gives_if gives_case_option Cons.IH Cons.prems)
    apply (rule gives_bind [OF gives_attempt [OF gives_stage_member]])
    apply (rule gives_case_sum)
     apply (simp add: gives_ret Cons.prems)
    apply (rule gives_bind_anything, intro keeps)
    apply (rule gives_case_sum)
    using Cons.prems apply (auto intro!: gives_ret Cons.IH)
    done
qed (simp add: gives_ret)

lemma gives_restore_archive:
  "gives (spares (scratch_keys scratch) v) (\<lambda>(ks, x). set ks \<subseteq> scratch_keys scratch) (restore_archive scratch p)"
  unfolding restore_archive_def
  by (rule gives_bind_anything, intro keeps, intro giving gives_restore_members) simp_all

lemma keeps_clean_up:
  "set keys \<subseteq> ks \<Longrightarrow> preserves (spares ks v) (clean_up keys)"
  unfolding clean_up_def by (intro keeps keeps_spares_storage) auto

lemma keeps_verify_object_storage_backup:
  "preserves (spares (scratch_keys (scratch_prefix r)) v) (verify_object_storage_backup r)"
proof -
  have restored: "gives (spares (scratch_keys (scratch_prefix r)) v) (\<lambda>(ks, x). set ks \<subseteq> scratch_keys (scratch_prefix r))
      (with_decrypted (br_file_path r) (restore_archive (scratch_prefix r)))"
    unfolding with_decrypted_def
    apply (rule gives_bind_anything, intro keeps)
    apply (intro giving)
     apply simp
    apply (rule gives_bind [OF gives_restore_archive])
    apply clarify
    apply (rule gives_bind_anything, intro keeps)
    apply (simp add: gives_ret)
    done
  show ?thesis
    unfolding verify_object_storage_backup_def verifiable_def
    apply (rule preserves_if, intro keeps)
    apply (rule gives_True, rule gives_bind [OF restored])
    apply (rule gives_case_prod, simp only: prod.case)
    apply (rule gives_bind_anything)
     apply (rule keeps_clean_up, assumption)
    apply (intro gives_keeps keeps)
    done
qed

text \<open>C35. The verification of an archive of object storage writes and deletes only under its own scratch
  prefix: whatever fails, every other object is as it was.\<close>

theorem verification_spares_objects:
  "wp (verify_object_storage_backup r)
     (\<lambda>_ w'. objects w' |` {k. \<not> prefix (scratch_prefix r) k} = objects w |` {k. \<not> prefix (scratch_prefix r) k})
     (\<lambda>_ w'. objects w' |` {k. \<not> prefix (scratch_prefix r) k} = objects w |` {k. \<not> prefix (scratch_prefix r) k}) w"
proof -
  have "- scratch_keys (scratch_prefix r) = {k. \<not> prefix (scratch_prefix r) k}" by (auto simp: scratch_keys_def)
  then show ?thesis
    using preservesD [OF keeps_verify_object_storage_backup spares_refl] by (intro wpI) (force simp: spares_def)+
qed

section \<open>A backup of object storage verifies\<close>

text \<open>What an archive of the store holds, and its manifest.\<close>

definition archived :: "world \<Rightarrow> string \<times> nat \<Rightarrow> string \<times> bytes" where
  "archived w = (\<lambda>(key, n). (key, take n (the (objects w key))))"

definition digests :: "(bytes \<Rightarrow> string) \<Rightarrow> (string \<times> bytes) list \<Rightarrow> (string \<times> json) list" where
  "digests hash = map (\<lambda>(key, content). (key, JStr (hash content)))"

lemma archive_object_Inr:
  "archive_object key n w = (Inr content, w') \<Longrightarrow> content = take n (the (objects w key)) \<and> unchanged w w'"
  by (auto simp: archive_object_def s3_read_def s3_get_def s3_call_def bind_eq_Inr Let_def unchanged_def
      split: if_splits option.splits)

lemma unchanged_trans: "unchanged u v \<Longrightarrow> unchanged v w \<Longrightarrow> unchanged u w"
  by (simp add: unchanged_def)

lemma update_new: "k \<notin> fst ` set m \<Longrightarrow> AList.update k v m = m @ [(k, v)]"
  by (induction m) auto

lemma archive_objects_Inr:
  "archive_objects members manifest ks w = (Inr (ms, man), w') \<Longrightarrow> distinct (map fst manifest @ map fst ks) \<Longrightarrow>
     ms = members @ map (archived w) ks \<and> man = manifest @ digests (sha256 (env w)) (map (archived w) ks) \<and> unchanged w w'"
proof (induction ks arbitrary: members manifest w)
  case (Cons k ks)
  obtain key n where k: "k = (key, n)" by (cases k)
  from Cons.prems(1) obtain content v where one: "archive_object key n w = (Inr content, v)"
    and rest: "archive_objects (members @ [(key, content)]) (AList.update key (JStr (sha256 (env v) content)) manifest) ks v
      = (Inr (ms, man), w')"
    by (auto simp: k bind_eq_Inr)
  have content: "content = take n (the (objects w key))" and v: "unchanged w v"
    using archive_object_Inr [OF one] by simp_all
  then have same: "archived v = archived w" "env v = env w" by (simp_all add: unchanged_def archived_def)
  have "AList.update key (JStr (sha256 (env v) content)) manifest = manifest @ [(key, JStr (sha256 (env v) content))]"
    using Cons.prems(2) by (intro update_new) (auto simp: k)
  with rest have rest: "archive_objects (members @ [(key, content)]) (manifest @ [(key, JStr (sha256 (env w) content))]) ks v
      = (Inr (ms, man), w')"
    by (simp add: same)
  have head: "archived w k = (key, content)" by (simp add: archived_def k content)
  from Cons.IH [OF rest] Cons.prems(2) have
    "ms = (members @ [(key, content)]) @ map (archived w) ks
      \<and> man = (manifest @ [(key, JStr (sha256 (env w) content))]) @ digests (sha256 (env w)) (map (archived w) ks)
      \<and> unchanged v w'"
    by (simp add: k same)
  with v show ?case by (simp add: head digests_def unchanged_trans [OF v])
qed (simp add: digests_def unchanged_def)

lemma write_archive_Inr:
  assumes "write_archive path w = (Inr (), w')" and "distinct (map fst (s3_keys (env w) (objects w)))"
  defines "ms \<equiv> map (archived w) (s3_keys (env w) (objects w))"
  shows "disk w' path = Some (tar_pack (lib (env w)) (ms @ [(MANIFEST_NAME,
      encode (json_dumps_pretty (lib (env w)) (JObj (digests (sha256 (env w)) ms))))]))
    \<and> objects w' = objects w \<and> env w' = env w"
proof -
  from assms(1) obtain ks members manifest u v where listed: "list_all_keys w = (Inr ks, u)"
    and packed: "archive_objects [] [] ks u = (Inr (members, manifest), v)"
    and written: "write_file path (tar_pack (lib (env v)) (members @ [(MANIFEST_NAME,
      encode (json_dumps_pretty (lib (env v)) (JObj manifest)))])) v = (Inr (), w')"
    by (auto simp: write_archive_def bind_eq_Inr)
  have ks: "ks = s3_keys (env w) (objects w)" and u: "objects u = objects w" "env u = env w"
    using listed by (auto simp: list_all_keys_def s3_call_def Let_def split: if_splits)
  have "members = ms \<and> manifest = digests (sha256 (env u)) ms \<and> unchanged u v"
    using archive_objects_Inr [OF packed] assms(2) u by (simp add: ks ms_def archived_def)
  then show ?thesis
    using written u by (auto simp: write_file_def disk_call_def unchanged_def Let_def split: if_splits)
qed

lemma new_record_Inr:
  "new_record t w = (Inr r, w') \<Longrightarrow> br_type r = t \<and> objects w' = objects w \<and> env w' = env w"
  by (auto simp: new_record_def orm_create_def bind_eq_Inr Let_def split: if_splits)

lemma make_dirs_Inr: "make_dirs w = (Inr x, w') \<Longrightarrow> objects w' = objects w \<and> env w' = env w"
  by (auto simp: make_dirs_def disk_call_def Let_def split: if_splits)

lemma backup_path_Inr:
  "backup_path stem r extension w = (Inr p, w') \<Longrightarrow> w' = w \<and> (\<exists>q. p = q @ extension)"
  by (auto simp: backup_path_def bind_eq_Inr path_join_def)

lemma finish_backup_Inr:
  assumes "finish_backup r p w = (Inr r', w')" and "backup_encryption_key (worker (env w)) = ''''"
  shows "br_type r' = br_type r \<and> br_status r' = BSuccess \<and> br_file_path r' = p \<and> objects w' = objects w \<and> env w' = env w
    \<and> disk w' = disk w"
  using assms
  by (auto simp: finish_backup_def maybe_encrypt_file_def encryption_key_def file_size_of_def read_file_def disk_call_def
      backup_done_def save_record_def orm_update_def bind_eq_Inr Let_def split: if_splits option.splits)

lemma backup_failed_Inr: "backup_failed r e w = (Inr r', w') \<Longrightarrow> br_status r' = BFailed"
  by (auto simp: backup_failed_def save_record_def orm_update_def bind_eq_Inr split: if_splits)

lemma run_object_storage_backup_success:
  assumes "run_object_storage_backup w = (Inr r, w')" and "br_status r = BSuccess"
    and "backup_encryption_key (worker (env w)) = ''''" and "distinct (map fst (s3_keys (env w) (objects w)))"
  defines "ms \<equiv> map (archived w) (s3_keys (env w) (objects w))"
  shows "disk w' (br_file_path r) = Some (tar_pack (lib (env w)) (ms @ [(MANIFEST_NAME,
      encode (json_dumps_pretty (lib (env w)) (JObj (digests (sha256 (env w)) ms))))]))
    \<and> objects w' = objects w \<and> env w' = env w \<and> br_type r = ''object_storage'' \<and> (\<exists>q. br_file_path r = q @ ''.tar'')"
proof -
  from assms(1) obtain r0 p u1 u2 u3 where created: "new_record ''object_storage'' w = (Inr r0, u1)"
    and dirs: "make_dirs u1 = (Inr (), u2)" and path: "backup_path ''object_storage'' r0 ''.tar'' u2 = (Inr p, u3)"
    and ended: "bind (attempt (write_archive p)) (\<lambda>x. case x of Inl e \<Rightarrow> backup_failed r0 e | Inr _ \<Rightarrow> finish_backup r0 p) u3
      = (Inr r, w')"
    unfolding run_object_storage_backup_def bind_eq_Inr by auto
  obtain x u4 where written: "write_archive p u3 = (x, u4)" by (cases "write_archive p u3")
  with ended have rest: "(case x of Inl e \<Rightarrow> backup_failed r0 e | Inr _ \<Rightarrow> finish_backup r0 p) u4 = (Inr r, w')"
    by (simp add: bind_def attempt_def)
  have u3: "objects u3 = objects w" "env u3 = env w" "br_type r0 = ''object_storage''" "\<exists>q. p = q @ ''.tar''"
    using new_record_Inr [OF created] make_dirs_Inr [OF dirs] backup_path_Inr [OF path] by simp_all
  have "x = Inr ()"
    using rest assms(2) backup_failed_Inr [of r0 _ u4 r w'] by (cases x) auto
  with rest written have finished: "finish_backup r0 p u4 = (Inr r, w')" and written: "write_archive p u3 = (Inr (), u4)"
    by simp_all
  have "archived u3 = archived w" using u3 by (simp add: archived_def)
  with write_archive_Inr [OF written] u3 assms(4)
  have "disk u4 p = Some (tar_pack (lib (env w)) (ms @ [(MANIFEST_NAME,
      encode (json_dumps_pretty (lib (env w)) (JObj (digests (sha256 (env w)) ms))))])) \<and> objects u4 = objects w \<and> env u4 = env w"
    by (simp add: ms_def)
  with finish_backup_Inr [OF finished] assms(3) u3 show ?thesis by auto
qed

text \<open>A run in which no call to storage or to the disk fails.\<close>

definition calm :: "world \<Rightarrow> bool" where
  "calm w \<longleftrightarrow> s3_fails (env w) = (\<lambda>_. False) \<and> stream_breaks (env w) = (\<lambda>_. None) \<and> disk_fails (worker (env w)) = (\<lambda>_. False)"

lemma stage_member_runs:
  assumes "calm w" and "json_get manifest name JNull = Inr (JStr (sha256 (env w) content))"
  shows "stage_member scratch manifest name content w
    = (Inr (scratch @ name), w\<lparr>s3_calls := Suc (s3_calls w), objects := (objects w)(scratch @ name \<mapsto> content)\<rparr>)"
  using assms by (simp add: stage_member_def bind_def calm_def s3_put_def s3_call_def Let_def)

lemma reread_member_runs:
  "calm w \<Longrightarrow> objects w key = Some content \<Longrightarrow>
     reread_member key content w = (Inr (), w\<lparr>s3_calls := Suc (s3_calls w)\<rparr>)"
  by (simp add: reread_member_def bind_def calm_def s3_read_def s3_get_def s3_call_def Let_def)

lemma restore_members_runs:
  assumes "calm w"
    and "\<And>n c. (n, c) \<in> set ms \<Longrightarrow> n \<noteq> MANIFEST_NAME \<Longrightarrow> json_get manifest n JNull = Inr (JStr (sha256 (env w) c))"
  shows "\<exists>ks w'. restore_members scratch manifest keys (map (apsnd Some) ms) w = (Inr (ks, Inr ()), w') \<and> env w' = env w"
  using assms
proof (induction ms arbitrary: keys w)
  case (Cons m ms)
  obtain name content where m: "m = (name, content)" by (cases m)
  show ?case
  proof (cases "name = MANIFEST_NAME")
    case True
    with Cons.IH [of w keys] Cons.prems show ?thesis by (simp add: m)
  next
    case False
    let ?w = "w\<lparr>s3_calls := Suc (s3_calls w), objects := (objects w)(scratch @ name \<mapsto> content)\<rparr>"
    have "json_get manifest name JNull = Inr (JStr (sha256 (env w) content))" using Cons.prems(2) False by (simp add: m)
    note staged = stage_member_runs [OF Cons.prems(1) this]
    have calm: "calm ?w" using Cons.prems(1) by (simp add: calm_def)
    have reread: "reread_member (scratch @ name) content ?w = (Inr (), ?w\<lparr>s3_calls := Suc (s3_calls ?w)\<rparr>)"
      by (rule reread_member_runs [OF calm]) simp
    let ?v = "?w\<lparr>s3_calls := Suc (s3_calls ?w)\<rparr>"
    have "restore_members scratch manifest keys (map (apsnd Some) (m # ms)) w
      = restore_members scratch manifest (keys @ [scratch @ name]) (map (apsnd Some) ms) ?v"
      using False by (simp add: m bind_def attempt_def staged reread del: fun_upd_apply)
    moreover have "calm ?v" using Cons.prems(1) by (simp add: calm_def)
    ultimately show ?thesis using Cons.IH [of ?v "keys @ [scratch @ name]"] Cons.prems(2) by simp
  qed
qed simp

lemma clean_up_runs: "\<exists>w'. clean_up ks w = (Inr (), w')"
proof (induction ks arbitrary: w)
  case (Cons k ks)
  have "\<exists>v. catch (s3_delete k) (\<lambda>_. ret ()) w = (Inr (), v)"
    by (simp add: catch_def s3_delete_def s3_call_def Let_def)
  then obtain v where one: "catch (s3_delete k) (\<lambda>_. ret ()) w = (Inr (), v)" by blast
  from Cons.IH [of v] show ?case by (simp add: clean_up_def bind_def one)
qed (simp add: clean_up_def)

lemma verified_runs: "\<exists>v w'. verified r (Inr ()) w = (Inr v, w') \<and> br_verified_restorable v"
  by (auto simp: verified_def bind_def now_def save_record_def orm_update_def backup_record_clash_def list_ex_iff)

lemma verify_object_storage_backup_runs:
  assumes calm: "calm w" and finished: "br_status r = BSuccess" and path: "br_file_path r = q @ ''.tar''"
    and stored: "disk w (br_file_path r) = Some content"
    and opens: "tar_open (lib (env w)) content = Some (map (apsnd Some) ms)"
    and manifest: "archive_manifest (lib (env w)) (map (apsnd Some) ms) = Inr manifest"
    and sums: "\<And>n c. (n, c) \<in> set ms \<Longrightarrow> n \<noteq> MANIFEST_NAME \<Longrightarrow> json_get manifest n JNull = Inr (JStr (sha256 (env w) c))"
  shows "\<exists>v w'. verify_object_storage_backup r w = (Inr v, w') \<and> br_verified_restorable v"
proof -
  let ?w = "w\<lparr>disk_calls := Suc (disk_calls w)\<rparr>"
  have plain: "\<not> ends_with ''.icb'' (br_file_path r)" by (simp add: path ends_with_def)
  have opened: "open_archive (br_file_path r) w = (Inr (map (apsnd Some) ms, manifest), ?w)"
    using calm by (simp add: open_archive_def bind_def read_file_def disk_call_def calm_def Let_def stored opens manifest)
  have "calm ?w" using calm by (simp add: calm_def)
  from restore_members_runs [OF this, of ms manifest "scratch_prefix r" "[]"] sums
  obtain ks u where restored: "restore_members (scratch_prefix r) manifest [] (map (apsnd Some) ms) ?w = (Inr (ks, Inr ()), u)"
    by auto
  have used: "with_decrypted (br_file_path r) (restore_archive (scratch_prefix r)) w = (Inr (ks, Inr ()), u)"
    by (simp add: with_decrypted_def enter_decrypted_def leave_decrypted_def restore_archive_def attempt_def bind_def plain
        opened restored)
  obtain u' where cleaned: "clean_up ks u = (Inr (), u')" using clean_up_runs by blast
  have "br_file_path r \<noteq> ''''" by (simp add: path)
  then show ?thesis
    using verified_runs [of r u'] by (simp add: verify_object_storage_backup_def verifiable_def bind_def finished used cleaned)
qed

lemma find_last: "k \<notin> fst ` set ms \<Longrightarrow>
    find (\<lambda>(n, c). n = k) (map (apsnd Some) ms @ [(k, c)]) = Some (k, c)"
  by (induction ms) auto

lemma map_of_digests: "distinct (map fst ms) \<Longrightarrow> (n, c) \<in> set ms \<Longrightarrow> map_of (digests hash ms) n = Some (JStr (hash c))"
  by (rule map_of_is_SomeI) (force simp: digests_def comp_def case_prod_unfold)+

lemma manifest_lists:
  assumes "distinct (map fst ms)" and "(n, c) \<in> set ms"
  shows "json_get (json_sorted (JObj (digests hash ms))) n JNull = Inr (JStr (hash c))"
proof -
  have "map fst (digests hash ms) = map fst ms" by (simp add: digests_def comp_def case_prod_unfold)
  then have "map_of (json_fields (json_sorted (JObj (digests hash ms)))) n = Some (JStr (hash c))"
    using assms by (simp add: map_of_json_sorted map_of_digests del: json_sorted.simps(2))
  then show ?thesis by (simp add: json_get_def json_fields_def)
qed


text \<open>One stored object, and a tar format that knows its archive.\<close>

definition kept_world :: world where
  "kept_world = (world_of no_rows)\<lparr>objects := [''a'' \<mapsto> [1, 2]], env := base_env\<lparr>s3_keys := (\<lambda>u. [(''a'', 2)]),
     sha256 := (\<lambda>b. replicate (length b) CHR ''x''),
     lib := base_library\<lparr>json_loads := (\<lambda>b. Inr (JObj [(''a'', JStr ''xx'')])),
       tar_open := (\<lambda>b. Some [(''a'', Some [1, 2]), (MANIFEST_NAME, Some (encode ''{}''))])\<rparr>\<rparr>\<rparr>"


end
