(* ===== verification/Analytics.thy ===== *)
theory Analytics
  imports DatabaseViews Restorer Builder
begin

text \<open>
  Analytics (\<open>analytics/data.py\<close>, \<open>operations.py\<close>, \<open>profiling.py\<close>): the capped fetch of columns, the registry
  of operations and the profile of a table. Floating-point arithmetic, NumPy and SciPy are the
  parameter \<open>numerics\<close> of the environment, on floats kept as their \<open>repr\<close>; what the code does around
  them (which values reach them, the checks before, the results after) is modelled. A result is the
  JSON of the dictionary the operation returns.
\<close>

section \<open>Data\<close>

definition NUMERIC_TYPES :: "string set" where "NUMERIC_TYPES = {''integer'', ''bigint'', ''decimal''}"
definition CATEGORICAL_TYPES :: "string set" where "CATEGORICAL_TYPES = {''text'', ''varchar'', ''boolean''}"
definition TEMPORAL_TYPES :: "string set" where "TEMPORAL_TYPES = {''date'', ''datetime''}"

text \<open>\<open>table.columns.get(name=name)\<close> compares with the text of the parameter, and a \<open>None\<close> with NULL.\<close>

definition names_column :: "json \<Rightarrow> db_column \<Rightarrow> bool" where
  "names_column name x \<longleftrightarrow> name \<noteq> JNull \<and> py_str name = Some (col_name x)"

definition get_column :: "db_table \<Rightarrow> json \<Rightarrow> db_column app" where
  "get_column t name =
     catch (get_one (\<lambda>c. filter (names_column name) (columns_of c t)))
       (\<lambda>e. if e = DoesNotExist then raise AnalyticsValidationError else raise e)"

definition require_types :: "db_column \<Rightarrow> string set \<Rightarrow> unit app" where
  "require_types x allowed = ensure (data_type x \<in> allowed) AnalyticsValidationError"

record fetched_columns =
  fx_rows :: "pg_value list list"
  fx_total :: int
  fx_truncated :: bool

definition SELECT_CAPPED :: "string list \<Rightarrow> composable \<Rightarrow> composable" where
  "SELECT_CAPPED names table =
     Composed [SQL ''SELECT '', identifier_list names, SQL '' FROM '', table, SQL '' LIMIT '', Placeholder]"

definition int_value :: "pg_value \<Rightarrow> exn + int" where
  "int_value v = (case v of VInt n \<Rightarrow> Inr n | _ \<Rightarrow> Inl TypeError)"

text \<open>Every caller leaves \<open>row_cap\<close> to the setting.\<close>

definition fetch_columns :: "db_table \<Rightarrow> string list \<Rightarrow> fetched_columns app" where
  "fetch_columns t names =
     bind (gets (\<lambda>w. int (analytics_max_rows (env w)))) (\<lambda>cap.
     bind (table_sql t) (\<lambda>table.
     bind (tenant_select (SELECT_COUNT table (SQL '''')) []) (\<lambda>count.
     bind (lift (first_cell count)) (\<lambda>total.
     bind (tenant_select (SELECT_CAPPED names table) [VInt cap]) (\<lambda>res.
     bind (lift (int_value total)) (\<lambda>total_rows.
     ret \<lparr>fx_rows = fetched res, fx_total = total_rows, fx_truncated = total_rows > cap\<rparr>))))))"

section \<open>Values in Python\<close>

text \<open>The driver gives \<open>None\<close> for NULL and for the JSON \<open>null\<close>.\<close>

definition is_none :: "pg_value \<Rightarrow> bool" where
  "is_none v \<longleftrightarrow> v = VNull \<or> v = VPyObject JNull"

text \<open>\<open>==\<close> on the values of a column: numbers compare by value, whatever their type and the zeros they end
  with, and a NaN is equal to nothing. (A float in exponent notation is told from the integer it
  equals.) A dictionary or a list cannot be a member of a set or a key.\<close>

definition number_key :: "string \<Rightarrow> pg_value" where
  "number_key s =
     (let t = (if CHR ''.'' \<in> set s \<and> CHR ''e'' \<notin> set s
         then (let u = rev (dropWhile (\<lambda>c. c = CHR ''0'') (rev s)) in if last u = CHR ''.'' then butlast u else u) else s)
      in case int_of_str t of Some i \<Rightarrow> VInt i | None \<Rightarrow> VDecimal t)"

definition py_key :: "pg_value \<Rightarrow> pg_value" where
  "py_key v = (case v of
     VBool b \<Rightarrow> VInt (of_bool b)
   | VFloat s \<Rightarrow> number_key s
   | VDecimal s \<Rightarrow> number_key s
   | VPyObject (JBool b) \<Rightarrow> VInt (of_bool b)
   | VPyObject (JInt i) \<Rightarrow> VInt i
   | VPyObject (JFloat s) \<Rightarrow> number_key s
   | VPyObject (JStr s) \<Rightarrow> VStr s
   | VPyObject JNull \<Rightarrow> VNull
   | _ \<Rightarrow> v)"

definition is_nan :: "pg_value \<Rightarrow> bool" where
  "is_nan v \<longleftrightarrow> v \<in> {VFloat ''nan'', VDecimal ''NaN'', VPyObject (JFloat ''nan'')}"

definition py_eq :: "pg_value \<Rightarrow> pg_value \<Rightarrow> bool" where
  "py_eq u v \<longleftrightarrow> py_key u = py_key v \<and> \<not> is_nan u"

definition unhashable :: "pg_value \<Rightarrow> bool" where
  "unhashable v = (case v of VPyObject (JList xs) \<Rightarrow> True | VPyObject (JObj kvs) \<Rightarrow> True | _ \<Rightarrow> False)"

text \<open>\<open>set\<close> of tuples, \<open>set\<close> of values, and \<open>Counter\<close>, in the order in which the values are met.\<close>

definition set_add :: "pg_value list \<Rightarrow> pg_value list list \<Rightarrow> pg_value list list" where
  "set_add row seen = (if list_ex (\<lambda>s. list_all2 py_eq s row) seen then seen else seen @ [row])"

definition set_of_rows :: "pg_value list list \<Rightarrow> exn + pg_value list list" where
  "set_of_rows rows = (if list_ex (list_ex unhashable) rows then Inl TypeError else Inr (fold set_add rows []))"

definition set_of_values :: "pg_value list \<Rightarrow> exn + pg_value list" where
  "set_of_values vs = map_sum id (map hd) (set_of_rows (map (\<lambda>v. [v]) vs))"

fun counter_add :: "pg_value \<Rightarrow> (pg_value \<times> nat) list \<Rightarrow> (pg_value \<times> nat) list" where
  "counter_add v [] = [(v, 1)]"
| "counter_add v ((u, n) # c) = (if py_eq u v then (u, Suc n) # c else (u, n) # counter_add v c)"

definition counter :: "pg_value list \<Rightarrow> exn + (pg_value \<times> nat) list" where
  "counter vs = (if list_ex unhashable vs then Inl TypeError else Inr (fold counter_add vs []))"

text \<open>\<open>most_common(n)\<close>: by falling count, equal counts in the order of the counter.\<close>

definition most_common :: "int \<Rightarrow> (pg_value \<times> nat) list \<Rightarrow> (pg_value \<times> nat) list" where
  "most_common n c = take (nat n) (sort_key (\<lambda>(v, k). - int k) c)"

text \<open>\<open>str\<close> of a date and of a timestamp of the tenant connection, whose time zone is UTC.\<close>

definition date_text :: "int \<Rightarrow> int \<Rightarrow> int \<Rightarrow> string" where
  "date_text y m d = zfill 4 (str_of_int y) @ ''-'' @ zfill 2 (str_of_int m) @ ''-'' @ zfill 2 (str_of_int d)"

definition time_text :: "int \<Rightarrow> int \<Rightarrow> int \<Rightarrow> string" where
  "time_text h m s = zfill 2 (str_of_int h) @ '':'' @ zfill 2 (str_of_int m) @ '':'' @ zfill 2 (str_of_int s)"

definition moment_text :: "pg_value \<Rightarrow> string" where
  "moment_text v = (case v of VDate y m d \<Rightarrow> date_text y m d
     | VDateTime y m d h n s \<Rightarrow> date_text y m d @ '' '' @ time_text h n s @ ''+00:00'' | _ \<Rightarrow> '''')"

definition moment_key :: "pg_value \<Rightarrow> int list" where
  "moment_key v = (case v of VDate y m d \<Rightarrow> [y, m, d] | VDateTime y m d h n s \<Rightarrow> [y, m, d, h, n, s] | _ \<Rightarrow> [])"

text \<open>A value in a response: the encoder of the REST framework writes a \<open>Decimal\<close> as its text.\<close>

definition value_json :: "pg_value \<Rightarrow> json" where
  "value_json v = (case v of VNull \<Rightarrow> JNull | VBool b \<Rightarrow> JBool b | VInt i \<Rightarrow> JInt i | VFloat s \<Rightarrow> JFloat s
     | VStr s \<Rightarrow> JStr s | VDecimal s \<Rightarrow> JStr s | VJsonb j \<Rightarrow> j | VPyObject j \<Rightarrow> j
     | _ \<Rightarrow> JStr (moment_text v))"

section \<open>Series\<close>

definition first_cells :: "pg_value list list \<Rightarrow> exn + pg_value list" where
  "first_cells = map_result (\<lambda>row. case row of [] \<Rightarrow> Inl IndexError | v # _ \<Rightarrow> Inr v)"

text \<open>\<open>for a, b in rows\<close>.\<close>

definition row_pairs :: "pg_value list list \<Rightarrow> exn + (pg_value \<times> pg_value) list" where
  "row_pairs = map_result (\<lambda>row. case row of [a, b] \<Rightarrow> Inr (a, b) | _ \<Rightarrow> Inl ValueError)"

definition numpy :: "numerics app" where
  "numpy = gets (\<lambda>w. np (env w))"

definition fetch_column :: "db_table \<Rightarrow> db_column \<Rightarrow> (pg_value list \<times> fetched_columns) app" where
  "fetch_column t x =
     bind (fetch_columns t [col_name x]) (\<lambda>f.
     bind (lift (first_cells (fx_rows f))) (\<lambda>vs.
     ret (vs, f)))"

definition numeric_series :: "db_table \<Rightarrow> json \<Rightarrow> (string list \<times> int \<times> bool) app" where
  "numeric_series t name =
     bind (get_column t name) (\<lambda>x.
     bind (require_types x NUMERIC_TYPES) (\<lambda>_.
     bind (fetch_column t x) (\<lambda>(vs, f).
     bind numpy (\<lambda>n.
     bind (lift (map_result (to_float n) (filter (\<lambda>v. \<not> is_none v) vs))) (\<lambda>values.
     ret (values, fx_total f, fx_truncated f))))))"

definition require_min_n :: "nat \<Rightarrow> nat \<Rightarrow> unit app" where
  "require_min_n n minimum = ensure (minimum \<le> n) AnalyticsValidationError"

definition param :: "json \<Rightarrow> string \<Rightarrow> json app" where
  "param params key = lift (json_item params key)"

text \<open>\<open>int(params.get(key, default))\<close>.\<close>

definition int_of_json :: "numerics \<Rightarrow> json \<Rightarrow> exn + int" where
  "int_of_json n j = (case j of
     JInt i \<Rightarrow> Inr i | JBool b \<Rightarrow> Inr (of_bool b) | JFloat s \<Rightarrow> float_int n s
   | JStr s \<Rightarrow> (case int_of_str s of Some i \<Rightarrow> Inr i | None \<Rightarrow> Inl ValueError)
   | _ \<Rightarrow> Inl TypeError)"

definition int_param_of :: "json \<Rightarrow> string \<Rightarrow> int \<Rightarrow> int app" where
  "int_param_of params key fallback =
     bind (lift (json_get params key (JInt fallback))) (\<lambda>j. bind numpy (\<lambda>n. lift (int_of_json n j)))"

section \<open>Descriptive statistics\<close>

definition op_count :: "db_table \<Rightarrow> json \<Rightarrow> json app" where
  "op_count t params =
     bind (lift (json_get params ''column'' JNull)) (\<lambda>column_name.
     if \<not> truthy column_name then
       bind (query (\<lambda>c. columns_of c t)) (\<lambda>cs. case cs of [] \<Rightarrow> raise AttributeError | x # _ \<Rightarrow>
       bind (fetch_columns t [col_name x]) (\<lambda>f.
       ret (JObj [(''operation'', JStr ''count''), (''count'', JInt (fx_total f))])))
     else
       bind (get_column t column_name) (\<lambda>x.
       bind (fetch_column t x) (\<lambda>(vs, f).
       ret (JObj [(''operation'', JStr ''count''), (''column'', JStr (col_name x)),
         (''count'', JInt (int (length (filter (\<lambda>v. \<not> is_none v) vs)))), (''truncated'', JBool (fx_truncated f))]))))"

definition op_distinct_count :: "db_table \<Rightarrow> json \<Rightarrow> json app" where
  "op_distinct_count t params =
     bind (param params ''column'') (\<lambda>name.
     bind (get_column t name) (\<lambda>x.
     bind (fetch_column t x) (\<lambda>(vs, f).
     bind (lift (set_of_values vs)) (\<lambda>distinct.
     ret (JObj [(''operation'', JStr ''distinct_count''), (''column'', JStr (col_name x)),
       (''distinct_count'', JInt (int (length distinct))), (''truncated'', JBool (fx_truncated f))])))))"

text \<open>\<open>round(100 * missing / total, 2) if total else 0.0\<close>.\<close>

definition null_percentage :: "numerics \<Rightarrow> nat \<Rightarrow> nat \<Rightarrow> string" where
  "null_percentage n missing n_rows = (if n_rows = 0 then ''0.0''
     else float_op n ''round'' (float_op n ''/'' (str_of_nat (100 * missing)) (str_of_nat n_rows)) ''2'')"

definition op_missing :: "db_table \<Rightarrow> json \<Rightarrow> json app" where
  "op_missing t params =
     bind (param params ''column'') (\<lambda>name.
     bind (get_column t name) (\<lambda>x.
     bind (fetch_column t x) (\<lambda>(vs, f).
     bind numpy (\<lambda>n.
     let missing = length (filter is_none vs) in
     ret (JObj [(''operation'', JStr ''missing''), (''column'', JStr (col_name x)), (''missing_count'', JInt (int missing)),
       (''null_percentage'', JFloat (null_percentage n missing (length vs))), (''truncated'', JBool (fx_truncated f))])))))"

text \<open>\<open>params.get("columns") or [params["column"]]\<close>, then a loop over it.\<close>

definition columns_param :: "json \<Rightarrow> exn + json list" where
  "columns_param params = and_then (json_get params ''columns'' JNull) (\<lambda>j.
     if truthy j then json_iter j else and_then (json_item params ''column'') (\<lambda>c. Inr [c]))"

definition op_duplicate_count :: "db_table \<Rightarrow> json \<Rightarrow> json app" where
  "op_duplicate_count t params =
     bind (lift (columns_param params)) (\<lambda>column_names.
     bind (for_map (get_column t) column_names) (\<lambda>xs.
     bind (fetch_columns t (map col_name xs)) (\<lambda>f.
     bind (lift (set_of_rows (fx_rows f))) (\<lambda>distinct.
     ret (JObj [(''operation'', JStr ''duplicate_count''), (''columns'', JList (map (\<lambda>x. JStr (col_name x)) xs)),
       (''duplicate_rows'', JInt (int (length (fx_rows f)) - int (length distinct))),
       (''truncated'', JBool (fx_truncated f))])))))"

definition counts_json :: "(pg_value \<times> nat) list \<Rightarrow> json" where
  "counts_json c = JList (map (\<lambda>(v, k). JObj [(''value'', value_json v), (''count'', JInt (int k))]) c)"

definition op_frequency_distribution :: "db_table \<Rightarrow> json \<Rightarrow> json app" where
  "op_frequency_distribution t params =
     bind (param params ''column'') (\<lambda>name.
     bind (get_column t name) (\<lambda>x.
     bind (require_types x (CATEGORICAL_TYPES \<union> NUMERIC_TYPES)) (\<lambda>_.
     bind (int_param_of params ''top_n'' 10) (\<lambda>top.
     bind (fetch_column t x) (\<lambda>(vs, f).
     bind (lift (counter (filter (\<lambda>v. \<not> is_none v) vs))) (\<lambda>counts.
     ret (JObj [(''operation'', JStr ''frequency_distribution''), (''column'', JStr (col_name x)),
       (''distribution'', counts_json (most_common (min top 100) counts)),
       (''distinct_values_total'', JInt (int (length counts))), (''truncated'', JBool (fx_truncated f))])))))))"

text \<open>\<open>_descriptive_numeric\<close>; the standard deviation and the variance ask for two values.\<close>

definition descriptive :: "nat \<Rightarrow> string \<Rightarrow> db_table \<Rightarrow> json \<Rightarrow> json app" where
  "descriptive minimum name t params =
     bind (param params ''column'') (\<lambda>column.
     bind (numeric_series t column) (\<lambda>(values, total, truncated).
     bind (require_min_n (length values) minimum) (\<lambda>_.
     bind numpy (\<lambda>n.
     ret (JObj [(''operation'', JStr name), (''column'', column), (''value'', JFloat (np_reduce n name values)),
       (''sample_size'', JInt (int (length values))), (''truncated'', JBool truncated)])))))"

definition op_sum :: "db_table \<Rightarrow> json \<Rightarrow> json app" where "op_sum = descriptive 1 ''sum''"
definition op_mean :: "db_table \<Rightarrow> json \<Rightarrow> json app" where "op_mean = descriptive 1 ''mean''"
definition op_median :: "db_table \<Rightarrow> json \<Rightarrow> json app" where "op_median = descriptive 1 ''median''"
definition op_min :: "db_table \<Rightarrow> json \<Rightarrow> json app" where "op_min = descriptive 1 ''min''"
definition op_max :: "db_table \<Rightarrow> json \<Rightarrow> json app" where "op_max = descriptive 1 ''max''"
definition op_stdev :: "db_table \<Rightarrow> json \<Rightarrow> json app" where "op_stdev = descriptive 2 ''stdev''"
definition op_variance :: "db_table \<Rightarrow> json \<Rightarrow> json app" where "op_variance = descriptive 2 ''variance''"

text \<open>\<open>isinstance(p, (int, float)) and 0 <= p <= 100\<close>: a boolean is an integer.\<close>

definition percentile_ok :: "numerics \<Rightarrow> json \<Rightarrow> bool" where
  "percentile_ok n p = (case p of
     JInt i \<Rightarrow> 0 \<le> i \<and> i \<le> 100
   | JBool b \<Rightarrow> True
   | JFloat s \<Rightarrow> (s \<in> {''0.0'', ''-0.0'', ''100.0''} \<or> float_less n ''0.0'' s \<and> float_less n s ''100.0'')
   | _ \<Rightarrow> False)"

definition number_list :: "json \<Rightarrow> exn + json list" where
  "number_list j = (case j of JList ps \<Rightarrow> Inr ps | _ \<Rightarrow> Inl TypeError)"

definition op_percentiles :: "db_table \<Rightarrow> json \<Rightarrow> json app" where
  "op_percentiles t params =
     bind (param params ''column'') (\<lambda>column.
     bind (numeric_series t column) (\<lambda>(values, total, truncated).
     bind (require_min_n (length values) 1) (\<lambda>_.
     bind (lift (json_get params ''percentiles'' (JList [JInt 25, JInt 50, JInt 75]))) (\<lambda>percentiles.
     bind (lift (json_iter percentiles)) (\<lambda>checked.
     bind numpy (\<lambda>n.
     bind (ensure (list_all (percentile_ok n) checked) AnalyticsValidationError) (\<lambda>_.
     bind (lift (number_list percentiles)) (\<lambda>ps.
     bind (lift (np_percentile n values ps)) (\<lambda>results.
     bind (ensure (length results = length ps) ValueError) (\<lambda>_.
     ret (JObj [(''operation'', JStr ''percentiles''), (''column'', column),
       (''percentiles'', JObj (py_dict (zip (map (\<lambda>p. case py_str p of Some s \<Rightarrow> s | None \<Rightarrow> '''') ps) (map JFloat results)))),
       (''sample_size'', JInt (int (length values))), (''truncated'', JBool truncated)])))))))))))"

definition quartiles :: "numerics \<Rightarrow> string list \<Rightarrow> exn + string \<times> string" where
  "quartiles n values = and_then (np_percentile n values [JInt 25, JInt 75]) (\<lambda>qs.
     case qs of [q1, q3] \<Rightarrow> Inr (q1, q3) | _ \<Rightarrow> Inl ValueError)"

text \<open>\<open>q1 - 1.5 * iqr\<close> and \<open>q3 + 1.5 * iqr\<close>.\<close>

definition fences :: "numerics \<Rightarrow> string \<Rightarrow> string \<Rightarrow> string \<times> string" where
  "fences n q1 q3 = (let reach = float_op n ''*'' ''1.5'' (float_op n ''-'' q3 q1) in
     (float_op n ''-'' q1 reach, float_op n ''+'' q3 reach))"

definition outside :: "numerics \<Rightarrow> string \<times> string \<Rightarrow> string list \<Rightarrow> string list" where
  "outside n = (\<lambda>(lower, upper). filter (\<lambda>v. float_less n v lower \<or> float_less n upper v))"

definition OUTLIER_METHOD :: string where
  "OUTLIER_METHOD = ''IQR (1.5x, Tukey'' @ CHR 0x27 # ''s fences)''"

text \<open>The model's text has no dash: the note's is written as a hyphen.\<close>

definition OUTLIER_NOTE :: string where
  "OUTLIER_NOTE = ''Outliers by this rule are not necessarily errors - verify against domain knowledge ''
     @ ''before removing or correcting any of them.''"

definition op_outlier_detection :: "db_table \<Rightarrow> json \<Rightarrow> json app" where
  "op_outlier_detection t params =
     bind (param params ''column'') (\<lambda>column.
     bind (numeric_series t column) (\<lambda>(values, total, truncated).
     bind (require_min_n (length values) 4) (\<lambda>_.
     bind numpy (\<lambda>n.
     bind (lift (quartiles n values)) (\<lambda>(q1, q3).
     let bounds = fences n q1 q3; outliers = outside n bounds values in
     ret (JObj [(''operation'', JStr ''outlier_detection''), (''column'', column), (''method'', JStr OUTLIER_METHOD),
       (''lower_bound'', JFloat (fst bounds)), (''upper_bound'', JFloat (snd bounds)),
       (''outlier_count'', JInt (int (length outliers))), (''outlier_sample'', JList (map JFloat (take 50 outliers))),
       (''sample_size'', JInt (int (length values))), (''truncated'', JBool truncated),
       (''interpretation_note'', JStr OUTLIER_NOTE)]))))))"

section \<open>Statistical analysis\<close>

definition CAUSATION_NOTE :: string where
  "CAUSATION_NOTE = ''Correlation/association does not establish causation. Confounding variables, ''
     @ ''reverse causation, and coincidence can all produce a statistically significant result.''"

definition strings :: "string list \<Rightarrow> json" where
  "strings ss = JList (map JStr ss)"

text \<open>The two series, cut to the shorter one: the opening the three operations on pairs share.\<close>

record paired =
  pr_columns :: "json \<times> json"
  pr_x :: "string list"
  pr_y :: "string list"
  pr_truncated :: bool

definition paired_series :: "db_table \<Rightarrow> json \<Rightarrow> paired app" where
  "paired_series t params =
     bind (param params ''column_x'') (\<lambda>column_x.
     bind (numeric_series t column_x) (\<lambda>(x, _, tx).
     bind (param params ''column_y'') (\<lambda>column_y.
     bind (numeric_series t column_y) (\<lambda>(y, _, ty).
     let n = min (length x) (length y) in
     bind (require_min_n n 3) (\<lambda>_.
     ret \<lparr>pr_columns = (column_x, column_y), pr_x = take n x, pr_y = take n y, pr_truncated = (tx \<or> ty)\<rparr>)))))"

text \<open>A test of SciPy on the pairs: its results, by position.\<close>

definition scipy_paired :: "string \<Rightarrow> paired \<Rightarrow> (nat \<Rightarrow> string) app" where
  "scipy_paired test d =
     bind numpy (\<lambda>n.
     bind (lift (sp_paired n test (pr_x d) (pr_y d))) (\<lambda>rs.
     ret (\<lambda>i. if i < length rs then rs ! i else '''')))"

definition op_pearson_correlation :: "db_table \<Rightarrow> json \<Rightarrow> json app" where
  "op_pearson_correlation t params =
     bind (paired_series t params) (\<lambda>d.
     bind (scipy_paired ''pearsonr'' d) (\<lambda>res.
     ret (JObj [(''operation'', JStr ''pearson_correlation''), (''method'', JStr ''Pearson product-moment correlation''),
       (''columns'', JList [fst (pr_columns d), snd (pr_columns d)]), (''r'', JFloat (res 0)), (''p_value'', JFloat (res 1)),
       (''sample_size'', JInt (int (length (pr_x d)))),
       (''assumptions'', strings [''linear relationship'', ''roughly normally distributed variables'', ''no extreme outliers'']),
       (''interpretation_note'', JStr CAUSATION_NOTE), (''truncated'', JBool (pr_truncated d))])))"

definition op_spearman_correlation :: "db_table \<Rightarrow> json \<Rightarrow> json app" where
  "op_spearman_correlation t params =
     bind (paired_series t params) (\<lambda>d.
     bind (scipy_paired ''spearmanr'' d) (\<lambda>res.
     ret (JObj [(''operation'', JStr ''spearman_correlation''), (''method'', JStr ''Spearman rank correlation''),
       (''columns'', JList [fst (pr_columns d), snd (pr_columns d)]), (''rho'', JFloat (res 0)), (''p_value'', JFloat (res 1)),
       (''sample_size'', JInt (int (length (pr_x d)))),
       (''assumptions'', strings [''monotonic relationship (not necessarily linear)'']),
       (''interpretation_note'', JStr CAUSATION_NOTE), (''truncated'', JBool (pr_truncated d))])))"

text \<open>\<open>linregress\<close> gives slope, intercept, r, p and the standard error.\<close>

definition op_linear_regression :: "db_table \<Rightarrow> json \<Rightarrow> json app" where
  "op_linear_regression t params =
     bind (paired_series t params) (\<lambda>d.
     bind (scipy_paired ''linregress'' d) (\<lambda>res.
     bind numpy (\<lambda>n.
     ret (JObj [(''operation'', JStr ''linear_regression''),
       (''method'', JStr ''Ordinary least squares (simple linear regression)''),
       (''x_column'', fst (pr_columns d)), (''y_column'', snd (pr_columns d)), (''slope'', JFloat (res 0)),
       (''intercept'', JFloat (res 1)), (''r_squared'', JFloat (float_op n ''**'' (res 2) ''2'')), (''p_value'', JFloat (res 3)),
       (''std_err'', JFloat (res 4)), (''sample_size'', JInt (int (length (pr_x d)))),
       (''assumptions'', strings [''linear relationship between x and y'',
         ''residuals are independent and roughly normally distributed'', ''constant variance of residuals (homoscedasticity)'']),
       (''interpretation_note'', JStr CAUSATION_NOTE), (''truncated'', JBool (pr_truncated d))]))))"

text \<open>\<open>groups.setdefault(group, []).append(float(value))\<close>, over the rows without a NULL.\<close>

fun group_add :: "pg_value \<Rightarrow> string \<Rightarrow> (pg_value \<times> string list) list \<Rightarrow> (pg_value \<times> string list) list" where
  "group_add g x [] = [(g, [x])]"
| "group_add g x ((h, xs) # gs) = (if py_eq h g then (h, xs @ [x]) # gs else (h, xs) # group_add g x gs)"

fun group_values :: "numerics \<Rightarrow> (pg_value \<times> pg_value) list \<Rightarrow> (pg_value \<times> string list) list
    \<Rightarrow> exn + (pg_value \<times> string list) list" where
  "group_values n [] gs = Inr gs"
| "group_values n ((v, g) # ps) gs =
    (if is_none v \<or> is_none g then group_values n ps gs
     else if unhashable g then Inl TypeError
     else case to_float n v of Inl e \<Rightarrow> Inl e | Inr x \<Rightarrow> group_values n ps (group_add g x gs))"

definition fetch_groups :: "db_table \<Rightarrow> db_column \<Rightarrow> db_column \<Rightarrow> ((pg_value \<times> string list) list \<times> bool) app" where
  "fetch_groups t value_col group_col =
     bind (fetch_columns t [col_name value_col, col_name group_col]) (\<lambda>f.
     bind (lift (row_pairs (fx_rows f))) (\<lambda>pairs.
     bind numpy (\<lambda>n.
     bind (lift (group_values n pairs [])) (\<lambda>groups.
     ret (groups, fx_truncated f)))))"

definition two_groups :: "db_table \<Rightarrow> json \<Rightarrow> (string list \<times> string list \<times> bool) app" where
  "two_groups t params =
     bind (param params ''group_column'') (\<lambda>group.
     bind (get_column t group) (\<lambda>group_col.
     bind (require_types group_col CATEGORICAL_TYPES) (\<lambda>_.
     bind (param params ''column'') (\<lambda>column.
     bind (get_column t column) (\<lambda>value_col.
     bind (fetch_groups t value_col group_col) (\<lambda>(groups, truncated).
     case groups of [(_, a), (_, b)] \<Rightarrow> ret (a, b, truncated) | _ \<Rightarrow> raise AnalyticsValidationError))))))"

definition op_t_test :: "db_table \<Rightarrow> json \<Rightarrow> json app" where
  "op_t_test t params =
     bind (param params ''column'') (\<lambda>column.
     bind (numeric_series t column) (\<lambda>(a, _, ta).
     bind (lift (json_get params ''column_b'' JNull)) (\<lambda>column_b.
     bind (if truthy column_b
           then bind (param params ''column_b'') (\<lambda>name. bind (numeric_series t name) (\<lambda>(b, _, tb). ret (a, b, ta \<or> tb)))
           else two_groups t params) (\<lambda>(a, b, truncated).
     bind (require_min_n (length a) 2) (\<lambda>_.
     bind (require_min_n (length b) 2) (\<lambda>_.
     bind numpy (\<lambda>n.
     bind (lift (sp_grouped n ''ttest_ind'' [a, b])) (\<lambda>(statistic, p_value).
     ret (JObj [(''operation'', JStr ''t_test''),
       (''method'', JStr (''Welch'' @ CHR 0x27 # ''s two-sample t-test (does not assume equal variances)'')),
       (''statistic'', JFloat statistic), (''p_value'', JFloat p_value),
       (''sample_sizes'', JList [JInt (int (length a)), JInt (int (length b))]),
       (''assumptions'', strings [''both groups are approximately normally distributed'', ''observations are independent'']),
       (''interpretation_note'', JStr ''A significant result indicates a difference in means, not its cause or size.''),
       (''truncated'', JBool truncated)])))))))))"

text \<open>\<open>sorted\<close> of the values of a categorical column, their positions, and the table the loop fills.\<close>

definition category_key :: "pg_value \<Rightarrow> string" where
  "category_key v = (case v of VStr s \<Rightarrow> s | VBool b \<Rightarrow> if b then ''1'' else ''0'' | _ \<Rightarrow> '''')"

definition position :: "pg_value \<Rightarrow> pg_value list \<Rightarrow> nat" where
  "position v vs = length (takeWhile (\<lambda>u. \<not> py_eq u v) vs)"

definition count_pair :: "pg_value list \<Rightarrow> pg_value list \<Rightarrow> pg_value \<times> pg_value \<Rightarrow> nat list list \<Rightarrow> nat list list" where
  "count_pair values_a values_b = (\<lambda>(a, b) table.
     let i = position a values_a; j = position b values_b in table[i := (table ! i)[j := Suc (table ! i ! j)]])"

definition contingency :: "pg_value list \<Rightarrow> pg_value list \<Rightarrow> (pg_value \<times> pg_value) list \<Rightarrow> nat list list" where
  "contingency values_a values_b pairs =
     fold (count_pair values_a values_b) pairs (replicate (length values_a) (replicate (length values_b) 0))"

definition op_chi_square :: "db_table \<Rightarrow> json \<Rightarrow> json app" where
  "op_chi_square t params =
     bind (param params ''column_a'') (\<lambda>name_a.
     bind (get_column t name_a) (\<lambda>col_a.
     bind (param params ''column_b'') (\<lambda>name_b.
     bind (get_column t name_b) (\<lambda>col_b.
     bind (require_types col_a CATEGORICAL_TYPES) (\<lambda>_.
     bind (require_types col_b CATEGORICAL_TYPES) (\<lambda>_.
     bind (fetch_columns t [col_name col_a, col_name col_b]) (\<lambda>f.
     bind (lift (row_pairs (fx_rows f))) (\<lambda>rows.
     let pairs = filter (\<lambda>(a, b). \<not> is_none a \<and> \<not> is_none b) rows in
     bind (require_min_n (length pairs) 5) (\<lambda>_.
     bind (lift (set_of_values (map fst pairs))) (\<lambda>as.
     bind (lift (set_of_values (map snd pairs))) (\<lambda>bs.
     bind numpy (\<lambda>n.
     bind (lift (sp_chi2 n (contingency (sort_key category_key as) (sort_key category_key bs) pairs)))
       (\<lambda>(statistic, p_value, dof).
     ret (JObj [(''operation'', JStr ''chi_square''), (''method'', JStr ''Chi-square test of independence''),
       (''columns'', strings [col_name col_a, col_name col_b]), (''statistic'', JFloat statistic),
       (''p_value'', JFloat p_value), (''degrees_of_freedom'', JInt dof), (''sample_size'', JInt (int (length pairs))),
       (''assumptions'', strings [''expected frequency of at least 5 in most contingency-table cells'']),
       (''interpretation_note'', JStr CAUSATION_NOTE), (''truncated'', JBool (fx_truncated f))]))))))))))))))"

definition op_anova :: "db_table \<Rightarrow> json \<Rightarrow> json app" where
  "op_anova t params =
     bind (param params ''column'') (\<lambda>column.
     bind (get_column t column) (\<lambda>value_col.
     bind (param params ''group_column'') (\<lambda>group.
     bind (get_column t group) (\<lambda>group_col.
     bind (require_types value_col NUMERIC_TYPES) (\<lambda>_.
     bind (require_types group_col CATEGORICAL_TYPES) (\<lambda>_.
     bind (fetch_groups t value_col group_col) (\<lambda>(groups, truncated).
     bind (ensure (2 \<le> length groups) AnalyticsValidationError) (\<lambda>_.
     bind (for_each (\<lambda>(g, values). require_min_n (length values) 2) groups) (\<lambda>_.
     bind numpy (\<lambda>n.
     bind (lift (sp_grouped n ''f_oneway'' (map snd groups))) (\<lambda>(statistic, p_value).
     ret (JObj [(''operation'', JStr ''anova''), (''method'', JStr ''One-way ANOVA''),
       (''value_column'', JStr (col_name value_col)), (''group_column'', JStr (col_name group_col)),
       (''groups'', JList (map (value_json \<circ> fst) groups)), (''statistic'', JFloat statistic), (''p_value'', JFloat p_value),
       (''sample_size'', JInt (int (sum_list (map (length \<circ> snd) groups)))),
       (''assumptions'', strings [''each group is approximately normally distributed'', ''groups have similar variances'',
         ''observations are independent'']),
       (''interpretation_note'', JStr (''A significant result means at least one group'' @ CHR 0x27 # ''s mean differs, ''
         @ ''not which one or why.'')),
       (''truncated'', JBool truncated)]))))))))))))"

definition point_value :: "numerics \<Rightarrow> pg_value \<times> pg_value \<Rightarrow> exn + pg_value \<times> string" where
  "point_value n = (\<lambda>(d, v). and_then (to_float n v) (\<lambda>x. Inr (d, x)))"

definition moving_average :: "numerics \<Rightarrow> string list \<Rightarrow> int \<Rightarrow> exn + json" where
  "moving_average n values window = (if window \<le> int (length values)
     then and_then (np_moving_average n values window) (\<lambda>ms. Inr (JList (map JFloat ms))) else Inr JNull)"

definition growth_rate :: "numerics \<Rightarrow> string list \<Rightarrow> json" where
  "growth_rate n values = (let a = hd values in
     if a \<in> {''0.0'', ''-0.0''} then JNull
     else JFloat (float_op n ''*'' (float_op n ''/'' (float_op n ''-'' (last values) a) a) ''100''))"

definition op_time_series_summary :: "db_table \<Rightarrow> json \<Rightarrow> json app" where
  "op_time_series_summary t params =
     bind (param params ''date_column'') (\<lambda>date_name.
     bind (get_column t date_name) (\<lambda>date_col.
     bind (param params ''value_column'') (\<lambda>value_name.
     bind (get_column t value_name) (\<lambda>value_col.
     bind (require_types date_col TEMPORAL_TYPES) (\<lambda>_.
     bind (require_types value_col NUMERIC_TYPES) (\<lambda>_.
     bind (int_param_of params ''window'' 7) (\<lambda>w.
     let window = min w 365 in
     bind (fetch_columns t [col_name date_col, col_name value_col]) (\<lambda>f.
     bind (lift (row_pairs (fx_rows f))) (\<lambda>rows.
     bind numpy (\<lambda>n.
     bind (lift (map_result (point_value n) (filter (\<lambda>(d, v). \<not> is_none d \<and> \<not> is_none v) rows))) (\<lambda>unsorted.
     let points = sort_key (moment_key \<circ> fst) unsorted; values = map snd points in
     bind (require_min_n (length points) 2) (\<lambda>_.
     bind (lift (moving_average n values window)) (\<lambda>moving.
     ret (JObj [(''operation'', JStr ''time_series_summary''), (''date_column'', JStr (col_name date_col)),
       (''value_column'', JStr (col_name value_col)),
       (''points'', JList (map (\<lambda>(d, x). JObj [(''date'', JStr (moment_text d)), (''value'', JFloat x)]) points)),
       (''moving_average_window'', JInt window), (''moving_average'', moving),
       (''overall_growth_rate_pct'', growth_rate n values), (''sample_size'', JInt (int (length points))),
       (''truncated'', JBool (fx_truncated f))]))))))))))))))"

definition OPERATIONS :: "(string \<times> (db_table \<Rightarrow> json \<Rightarrow> json app)) list" where
  "OPERATIONS = [(''count'', op_count), (''distinct_count'', op_distinct_count), (''missing'', op_missing),
     (''duplicate_count'', op_duplicate_count), (''frequency_distribution'', op_frequency_distribution), (''sum'', op_sum),
     (''mean'', op_mean), (''median'', op_median), (''min'', op_min), (''max'', op_max), (''stdev'', op_stdev),
     (''variance'', op_variance), (''percentiles'', op_percentiles), (''outlier_detection'', op_outlier_detection),
     (''pearson_correlation'', op_pearson_correlation), (''spearman_correlation'', op_spearman_correlation),
     (''linear_regression'', op_linear_regression), (''t_test'', op_t_test), (''chi_square'', op_chi_square),
     (''anova'', op_anova), (''time_series_summary'', op_time_series_summary)]"

section \<open>Profiling\<close>

definition column_cells :: "nat \<Rightarrow> pg_value list list \<Rightarrow> exn + pg_value list" where
  "column_cells i = map_result (\<lambda>row. if i < length row then Inr (row ! i) else Inl IndexError)"

definition numeric_profile :: "numerics \<Rightarrow> string list \<Rightarrow> exn + (string \<times> json) list" where
  "numeric_profile n arr =
     and_then (if 2 \<le> length arr then quartiles n arr else Inr (hd arr, hd arr)) (\<lambda>(q1, q3).
     let outliers = if 4 \<le> length arr then length (outside n (fences n q1 q3) arr) else 0 in
     Inr [(''min'', JFloat (np_reduce n ''min'' arr)), (''max'', JFloat (np_reduce n ''max'' arr)),
       (''mean'', JFloat (np_reduce n ''mean'' arr)), (''median'', JFloat (np_reduce n ''median'' arr)),
       (''stdev'', JFloat (if 2 \<le> length arr then np_reduce n ''stdev'' arr else ''0.0'')),
       (''potential_outlier_count'', JInt (int outliers))])"

definition profile_column :: "numerics \<Rightarrow> nat \<Rightarrow> pg_value list list \<Rightarrow> nat \<times> db_column \<Rightarrow> exn + json" where
  "profile_column n n_rows rows = (\<lambda>(i, x).
     and_then (column_cells i rows) (\<lambda>values.
     let non_null = filter (\<lambda>v. \<not> is_none v) values; missing = n_rows - length non_null in
     and_then (set_of_values non_null) (\<lambda>distinct.
     and_then
      (if data_type x \<in> NUMERIC_TYPES \<and> non_null \<noteq> []
       then and_then (map_result (to_float n) non_null) (numeric_profile n)
       else if data_type x \<in> CATEGORICAL_TYPES \<and> non_null \<noteq> []
       then and_then (counter non_null) (\<lambda>c. Inr [(''top_values'', counts_json (most_common 5 c))])
       else Inr []) (\<lambda>more.
     Inr (JObj ([(''name'', JStr (col_name x)), (''data_type'', JStr (data_type x)), (''missing_count'', JInt (int missing)),
       (''null_percentage'', JFloat (null_percentage n missing n_rows)), (''unique_count'', JInt (int (length distinct)))]
       @ more))))))"

definition profile_table :: "db_table \<Rightarrow> json app" where
  "profile_table t =
     bind (query (\<lambda>c. columns_of c t)) (\<lambda>columns.
     bind (fetch_columns t (map col_name columns)) (\<lambda>f.
     bind numpy (\<lambda>n.
     bind (lift (map_result (profile_column n (length (fx_rows f)) (fx_rows f)) (enumerate 0 columns))) (\<lambda>profiles.
     ret (JObj [(''table'', JStr (tbl_name t)), (''row_count'', JInt (fx_total f)),
       (''column_count'', JInt (int (length columns))), (''truncated'', JBool (fx_truncated f)),
       (''sampled_rows'', JInt (int (length (fx_rows f)))), (''columns'', JList profiles)])))))"

section \<open>Operations only read\<close>

lemma preserves_case_list [keeps]:
  "preserves I n \<Longrightarrow> (\<And>y ys. preserves I (m y ys)) \<Longrightarrow> preserves I (case xs of [] \<Rightarrow> n | y # ys \<Rightarrow> m y ys)"
  by (cases xs) simp_all

lemma keeps_tenant [keeps]:
  "preserves (unchanged v) (tenant_select q ps)" "preserves (unchanged v) (table_sql t)" "preserves (unchanged v) numpy"
  by (auto simp: preserves_def unchanged_def tenant_select_def Let_def table_sql_def table_database_def get_one_def bind_def
      numpy_def split: sum.splits list.splits)

lemma keeps_fetch [keeps]:
  "preserves (unchanged v) (fetch_columns t names)" "preserves (unchanged v) (get_column t name)"
  "preserves (unchanged v) (require_types x allowed)" "preserves (unchanged v) (require_min_n k minimum)"
  "preserves (unchanged v) (param params key)" "preserves (unchanged v) (int_param_of params key fallback)"
  unfolding fetch_columns_def get_column_def require_types_def require_min_n_def param_def int_param_of_def
  by (intro keeps)+

lemma keeps_series [keeps]:
  "preserves (unchanged v) (fetch_column t x)" "preserves (unchanged v) (numeric_series t name)"
  "preserves (unchanged v) (fetch_groups t x y)"
  unfolding fetch_column_def numeric_series_def fetch_groups_def by (intro keeps)+

lemma keeps_statistics [keeps]:
  "preserves (unchanged v) (paired_series t params)" "preserves (unchanged v) (scipy_paired test d)"
  "preserves (unchanged v) (two_groups t params)" "preserves (unchanged v) (descriptive minimum name t params)"
  unfolding paired_series_def scipy_paired_def two_groups_def descriptive_def Let_def by (intro keeps)+

lemmas operation_defs = op_count_def op_distinct_count_def op_missing_def op_duplicate_count_def op_frequency_distribution_def
  op_sum_def op_mean_def op_median_def op_min_def op_max_def op_stdev_def op_variance_def op_percentiles_def
  op_outlier_detection_def op_pearson_correlation_def op_spearman_correlation_def op_linear_regression_def op_t_test_def
  op_chi_square_def op_anova_def op_time_series_summary_def

lemma keeps_operation [keeps]:
  "map_of OPERATIONS name = Some f \<Longrightarrow> preserves (unchanged v) (f t params)"
proof -
  have "list_all (\<lambda>(n, f). preserves (unchanged v) (f t params)) OPERATIONS"
    unfolding OPERATIONS_def list.pred_inject prod.case Let_def operation_defs by (intro conjI keeps list.pred_inject(1))
  then show "map_of OPERATIONS name = Some f \<Longrightarrow> preserves (unchanged v) (f t params)"
    by (auto simp: list_all_iff dest!: map_of_SomeD)
qed

lemma keeps_profile [keeps]: "preserves (unchanged v) (profile_table t)"
  unfolding profile_table_def by (intro keeps)

section \<open>What a statistical result says of itself\<close>

definition has_fields :: "string list \<Rightarrow> json \<Rightarrow> bool" where
  "has_fields ks j = (case j of JObj kvs \<Rightarrow> set ks \<subseteq> fst ` set kvs | _ \<Rightarrow> False)"

definition field :: "json \<Rightarrow> string \<Rightarrow> json option" where
  "field j k = (case j of JObj kvs \<Rightarrow> map_of kvs k | _ \<Rightarrow> None)"

definition PROMISED :: "string list" where
  "PROMISED = [''method'', ''sample_size'', ''assumptions'', ''interpretation_note'']"

text \<open>The module's documentation promises the fields \<open>method\<close>, \<open>sample_size\<close>, \<open>assumptions\<close> and
  \<open>interpretation_note\<close> of every statistical result. The correlations, the regression and the chi-square
  test have them, with the note that association is no causation; the analysis of variance has them. The
  t-test has no \<open>sample_size\<close>, the time series no \<open>method\<close>, no \<open>assumptions\<close> and no \<open>interpretation_note\<close>,
  the outlier detection no \<open>assumptions\<close>.\<close>

theorem statistical_results_described:
  "list_all (\<lambda>f. returns (\<lambda>j. has_fields PROMISED j \<and> field j ''interpretation_note'' = Some (JStr CAUSATION_NOTE)) (f t params))
       [op_pearson_correlation, op_spearman_correlation, op_linear_regression, op_chi_square]
    \<and> returns (has_fields PROMISED) (op_anova t params)
    \<and> returns (\<lambda>j. has_fields [''method'', ''assumptions'', ''interpretation_note''] j \<and> field j ''sample_size'' = None) (op_t_test t params)
    \<and> returns (\<lambda>j. field j ''method'' = None \<and> field j ''assumptions'' = None \<and> field j ''interpretation_note'' = None)
        (op_time_series_summary t params)
    \<and> returns (\<lambda>j. field j ''assumptions'' = None) (op_outlier_detection t params)"
proof -
  have "returns (\<lambda>j. has_fields PROMISED j \<and> field j ''interpretation_note'' = Some (JStr CAUSATION_NOTE)) (f t params)"
    if "f \<in> {op_pearson_correlation, op_spearman_correlation, op_linear_regression, op_chi_square}" for f
    using that unfolding op_pearson_correlation_def op_spearman_correlation_def op_linear_regression_def op_chi_square_def Let_def
    by (auto intro!: returning simp: has_fields_def field_def PROMISED_def)
  moreover have "returns (has_fields PROMISED) (op_anova t params)"
    unfolding op_anova_def by (intro returning) (simp add: has_fields_def PROMISED_def)
  moreover have "returns (\<lambda>j. has_fields [''method'', ''assumptions'', ''interpretation_note''] j \<and> field j ''sample_size'' = None)
      (op_t_test t params)"
    unfolding op_t_test_def by (intro returning) (simp add: has_fields_def field_def)
  moreover have "returns (\<lambda>j. field j ''method'' = None \<and> field j ''assumptions'' = None \<and> field j ''interpretation_note'' = None)
      (op_time_series_summary t params)"
    unfolding op_time_series_summary_def Let_def by (intro returning) (simp add: field_def)
  moreover have "returns (\<lambda>j. field j ''assumptions'' = None) (op_outlier_detection t params)"
    unfolding op_outlier_detection_def Let_def by (intro returning) (simp add: field_def)
  ultimately show ?thesis by simp
qed

section \<open>Counting\<close>

abbreviation same_value :: "pg_value \<Rightarrow> pg_value \<Rightarrow> bool" where
  "same_value u v \<equiv> py_key u = py_key v"

text \<open>\<open>c\<close> counts \<open>vs\<close>: each value once, with the number of its occurrences, and none is missing.\<close>

definition counts :: "(pg_value \<times> nat) list \<Rightarrow> pg_value list \<Rightarrow> bool" where
  "counts c vs \<longleftrightarrow> distinct (map (py_key \<circ> fst) c) \<and> py_key ` fst ` set c = py_key ` set vs \<and> fst ` set c \<subseteq> set vs
     \<and> (\<forall>(u, k) \<in> set c. k = length (filter (same_value u) vs))"

lemma counter_add_absent:
  "(\<And>u k. (u, k) \<in> set c \<Longrightarrow> \<not> py_eq u v) \<Longrightarrow> counter_add v c = c @ [(v, 1)]"
  by (induction c) force+

lemma counter_add_present:
  assumes "(u, k) \<in> set c" "py_eq u v" "distinct (map (py_key \<circ> fst) c)" "list_all (\<lambda>(u, k). \<not> is_nan u) c"
  shows "counter_add v c = map (\<lambda>(w, n). (w, if same_value w v then Suc n else n)) c"
  using assms
proof (induction c)
  case (Cons p c)
  obtain w n where p: "p = (w, n)" by (cases p)
  show ?case
  proof (cases "py_eq w v")
    case True
    then have "map (\<lambda>(w, n). (w, if same_value w v then Suc n else n)) c = c"
      using Cons.prems(3) by (intro map_idI) (force simp: p py_eq_def)
    with True show ?thesis by (simp add: p py_eq_def)
  next
    case False
    with Cons.prems have "(u, k) \<in> set c" by (auto simp: p)
    with Cons False show ?thesis by (auto simp: p py_eq_def)
  qed
qed simp

lemma counts_add:
  assumes "counts c vs" and "list_all (\<lambda>v. \<not> is_nan v) (vs @ [v])"
  shows "counts (counter_add v c) (vs @ [v])"
proof -
  have real: "\<not> is_nan u" if "(u, k) \<in> set c" for u k
    using assms that by (fastforce simp: counts_def list_all_iff)
  show ?thesis
  proof (cases "\<exists>(u, k) \<in> set c. same_value u v")
    case True
    then obtain u k where u: "(u, k) \<in> set c" "same_value u v" by auto
    then have "py_eq u v" using real by (simp add: py_eq_def)
    moreover have "list_all (\<lambda>(u, k). \<not> is_nan u) c" using real by (auto simp: list_all_iff)
    ultimately have add: "counter_add v c = map (\<lambda>(w, n). (w, if same_value w v then Suc n else n)) c"
      using assms(1) u(1) by (intro counter_add_present) (auto simp: counts_def)
    have keys: "map fst (counter_add v c) = map fst c" by (simp add: add comp_def case_prod_unfold)
    have "distinct (map (py_key \<circ> fst) (counter_add v c))"
      using assms(1) by (simp add: counts_def keys flip: map_map)
    moreover have "fst ` set (counter_add v c) = fst ` set c" using keys by (metis set_map)
    moreover have "py_key v \<in> py_key ` set vs"
    proof -
      have "py_key u \<in> py_key ` fst ` set c" using u(1) by force
      with u(2) assms(1) show ?thesis by (simp add: counts_def)
    qed
    moreover have "n' = length (filter (same_value w) (vs @ [v]))" if "(w, n') \<in> set (counter_add v c)" for w n'
    proof -
      from that obtain n where "(w, n) \<in> set c" "n' = (if same_value w v then Suc n else n)" by (auto simp: add)
      moreover from this assms(1) have "n = length (filter (same_value w) vs)" by (auto simp: counts_def)
      ultimately show ?thesis by simp
    qed
    ultimately show ?thesis
      using assms(1) unfolding counts_def by (simp add: insert_absorb case_prod_unfold subset_insertI2)
  next
    case False
    then have add: "counter_add v c = c @ [(v, 1)]"
      by (intro counter_add_absent) (auto simp: py_eq_def)
    have "py_key v \<notin> py_key ` fst ` set c" using False by force
    then have "py_key v \<notin> py_key ` set vs" using assms(1) by (simp add: counts_def)
    then have "filter (same_value v) vs = []" by (auto simp: filter_empty_conv image_iff)
    moreover have "\<forall>x \<in> set c. py_key (fst x) \<noteq> py_key v" using False by (simp add: case_prod_unfold)
    moreover from this have "py_key v \<notin> (\<lambda>x. py_key (fst x)) ` set c" by auto
    moreover have "k = length (filter (same_value u) (vs @ [v]))" if "(u, k) \<in> set (c @ [(v, 1)])" for u k
      using that False assms(1) calculation(1) by (auto simp: counts_def)
    ultimately show ?thesis
      using assms(1) unfolding counts_def add by (simp add: case_prod_unfold subset_insertI2)
  qed
qed

lemma counts_fold:
  "counts c us \<Longrightarrow> list_all (\<lambda>v. \<not> is_nan v) (us @ vs) \<Longrightarrow> counts (fold counter_add vs c) (us @ vs)"
proof (induction vs arbitrary: c us)
  case (Cons v vs)
  from Cons.IH [of "counter_add v c" "us @ [v]"] Cons.prems counts_add [of c us v] show ?case by simp
qed simp

lemma counter_counts: "counter vs = Inr c \<Longrightarrow> list_all (\<lambda>v. \<not> is_nan v) vs \<Longrightarrow> counts c vs"
  using counts_fold [of "[]" "[]" vs] by (auto simp: counter_def counts_def split: if_splits)

text \<open>\<open>most_common\<close> falls, and leaves out nothing that occurs more often than what it keeps.\<close>

lemma most_common_falls:
  "sorted_wrt (\<lambda>(u, m) (v, n). n \<le> m) (most_common k c)"
proof -
  have "sorted (map (\<lambda>(v, n). - int n) (most_common k c))"
    by (simp add: most_common_def sorted_wrt_take flip: take_map)
  then show ?thesis by (simp add: sorted_map case_prod_unfold)
qed

lemma most_common_best:
  assumes "(u, m) \<in> set (most_common k c)" and "(v, n) \<in> set c - set (most_common k c)"
  shows "n \<le> m"
proof -
  let ?f = "\<lambda>(v :: pg_value, k). - int k"
  let ?s = "sort_key ?f c"
  have "sorted (map ?f ?s)" by (rule sorted_sort_key)
  then have sorted: "sorted_wrt (\<lambda>p q. ?f p \<le> ?f q) (take (nat k) ?s @ drop (nat k) ?s)" by (simp only: sorted_map append_take_drop_id)
  have "(v, n) \<in> set ?s" using assms(2) by simp
  then have "(v, n) \<in> set (take (nat k) ?s @ drop (nat k) ?s)" by (simp only: append_take_drop_id)
  then have "(v, n) \<in> set (take (nat k) ?s) \<or> (v, n) \<in> set (drop (nat k) ?s)" by (simp only: set_append Un_iff)
  then have "(v, n) \<in> set (drop (nat k) ?s)" using assms(2) by (auto simp: most_common_def)
  moreover have "(u, m) \<in> set (take (nat k) ?s)" using assms(1) by (simp add: most_common_def)
  ultimately have "?f (u, m) \<le> ?f (v, n)" using sorted unfolding sorted_wrt_append by blast
  then show ?thesis by simp
qed



section \<open>The contingency table\<close>

lemma set_add_values:
  "set_add [v] (map (\<lambda>u. [u]) us) = map (\<lambda>u. [u]) (if list_ex (\<lambda>u. py_eq u v) us then us else us @ [v])"
  by (simp add: set_add_def list_ex_iff)

lemma fold_set_add:
  "distinct (map py_key us) \<Longrightarrow> list_all (\<lambda>v. \<not> is_nan v) (us @ vs) \<Longrightarrow>
     \<exists>ws. fold set_add (map (\<lambda>v. [v]) vs) (map (\<lambda>u. [u]) us) = map (\<lambda>u. [u]) ws \<and> distinct (map py_key ws)
       \<and> set ws \<subseteq> set (us @ vs) \<and> py_key ` set ws = py_key ` set (us @ vs)"
proof (induction vs arbitrary: us)
  case Nil
  then show ?case by (intro exI [of _ us]) simp
next
  case (Cons v vs)
  let ?us = "if list_ex (\<lambda>u. py_eq u v) us then us else us @ [v]"
  have real: "py_eq u v \<longleftrightarrow> same_value u v" if "u \<in> set us" for u
    using that Cons.prems(2) by (simp add: py_eq_def list_all_iff)
  then have new: "distinct (map py_key ?us)" "py_key ` set ?us = py_key ` set (us @ [v])" "set ?us \<subseteq> set (us @ [v])"
    using Cons.prems(1) by (auto simp: list_ex_iff intro: rev_image_eqI)
  have "list_all (\<lambda>v. \<not> is_nan v) (?us @ vs)" using Cons.prems(2) by simp
  from Cons.IH [OF new(1) this] obtain ws where
    "fold set_add (map (\<lambda>v. [v]) vs) (map (\<lambda>u. [u]) ?us) = map (\<lambda>u. [u]) ws" "distinct (map py_key ws)"
    "set ws \<subseteq> set (?us @ vs)" "py_key ` set ws = py_key ` set (?us @ vs)" by blast
  with new(2,3) show ?case
    by (intro exI [of _ ws]) (auto simp: set_add_values image_Un simp del: if_image_distrib)
qed

lemma set_of_values_exact:
  assumes "set_of_values vs = Inr us" and "list_all (\<lambda>v. \<not> is_nan v) vs"
  shows "distinct (map py_key us) \<and> set us \<subseteq> set vs \<and> py_key ` set us = py_key ` set vs"
proof -
  from fold_set_add [of "[]" vs] assms(2) obtain ws where
    ws: "fold set_add (map (\<lambda>v. [v]) vs) [] = map (\<lambda>u. [u]) ws" "distinct (map py_key ws)"
    "set ws \<subseteq> set vs" "py_key ` set ws = py_key ` set vs" by auto
  moreover have "us = ws"
    using assms(1) ws(1) by (auto simp: set_of_values_def set_of_rows_def comp_def split: if_splits)
  ultimately show ?thesis by simp
qed

lemma position_exact:
  assumes "distinct (map py_key vs)" and "list_all (\<lambda>v. \<not> is_nan v) vs" and "i < length vs"
  shows "position v vs = i \<longleftrightarrow> same_value v (vs ! i)"
  using assms
proof (induction vs arbitrary: i)
  case (Cons u vs)
  have first: "py_eq u v \<longleftrightarrow> same_value u v" using Cons.prems(2) by (simp add: py_eq_def)
  show ?case
  proof (cases i)
    case 0 then show ?thesis using first by (auto simp: position_def)
  next
    case (Suc j)
    then have j: "j < length vs" using Cons.prems(3) by simp
    have "same_value u v \<Longrightarrow> \<not> same_value v (vs ! j)" using Cons.prems(1) j by (metis distinct.simps(2) list.simps(9) nth_map nth_mem length_map)
    with first Cons.IH [of j] Cons.prems(1,2) j Suc show ?thesis by (auto simp: position_def)
  qed
qed simp

lemma position_range:
  assumes "list_all (\<lambda>v. \<not> is_nan v) vs" and "py_key v \<in> py_key ` set vs"
  shows "position v vs < length vs"
  using assms by (induction vs) (auto simp: position_def py_eq_def)

definition table_of :: "nat \<Rightarrow> nat \<Rightarrow> nat list list \<Rightarrow> bool" where
  "table_of m n t \<longleftrightarrow> length t = m \<and> list_all (\<lambda>r. length r = n) t"

lemma count_pair_exact:
  assumes "table_of (length as) (length bs) t" and "position a as < length as" "position b bs < length bs"
  shows "table_of (length as) (length bs) (count_pair as bs (a, b) t)"
    and "i < length as \<Longrightarrow> j < length bs \<Longrightarrow>
      count_pair as bs (a, b) t ! i ! j = t ! i ! j + of_bool (position a as = i \<and> position b bs = j)"
proof -
  have "length (t ! position a as) = length bs" using assms by (simp add: table_of_def list_all_length)
  with assms show "table_of (length as) (length bs) (count_pair as bs (a, b) t)"
    by (auto simp: table_of_def count_pair_def Let_def list_all_length nth_list_update)
  show "count_pair as bs (a, b) t ! i ! j = t ! i ! j + of_bool (position a as = i \<and> position b bs = j)"
    if "i < length as" "j < length bs"
    using that assms by (auto simp: table_of_def count_pair_def Let_def list_all_length nth_list_update)
qed

lemma fold_count_pair:
  assumes "table_of (length as) (length bs) t"
    and "list_all (\<lambda>(a, b). position a as < length as \<and> position b bs < length bs) pairs"
    and "i < length as" "j < length bs"
  shows "table_of (length as) (length bs) (fold (count_pair as bs) pairs t)
    \<and> fold (count_pair as bs) pairs t ! i ! j
      = t ! i ! j + length (filter (\<lambda>(a, b). position a as = i \<and> position b bs = j) pairs)"
  using assms(1,2)
proof (induction pairs arbitrary: t)
  case (Cons p pairs)
  obtain a b where p: "p = (a, b)" by (cases p)
  with Cons.prems have here: "position a as < length as" "position b bs < length bs"
    and rest: "list_all (\<lambda>(a, b). position a as < length as \<and> position b bs < length bs) pairs" by simp_all
  note step = count_pair_exact [OF Cons.prems(1) here]
  from Cons.IH [OF step(1) rest] step(2) [OF assms(3,4)] show ?case by (simp add: p)
qed simp

text \<open>C40. The table that is handed to the chi-square test is the contingency table of the sample: one row and
  one column per distinct value, in order, and in each cell the number of the pairs with these values.\<close>

theorem contingency_exact:
  assumes "set_of_values (map fst pairs) = Inr us" and "set_of_values (map snd pairs) = Inr vs"
    and "list_all (\<lambda>(a, b). \<not> is_nan a \<and> \<not> is_nan b) pairs"
    and "as = sort_key category_key us" and "bs = sort_key category_key vs" and "i < length as" and "j < length bs"
  shows "length (contingency as bs pairs) = length as \<and> list_all (\<lambda>r. length r = length bs) (contingency as bs pairs)
    \<and> contingency as bs pairs ! i ! j
      = length (filter (\<lambda>(a, b). same_value a (as ! i) \<and> same_value b (bs ! j)) pairs)"
proof -
  have real: "list_all (\<lambda>v. \<not> is_nan v) (map fst pairs)" "list_all (\<lambda>v. \<not> is_nan v) (map snd pairs)"
    using assms(3) by (auto simp: list_all_iff)
  note us = set_of_values_exact [OF assms(1) real(1)] and vs = set_of_values_exact [OF assms(2) real(2)]
  have keys: "distinct (map py_key as)" "distinct (map py_key bs)"
    using us vs by (simp_all add: assms(4,5) distinct_map)
  have reals: "list_all (\<lambda>v. \<not> is_nan v) as" "list_all (\<lambda>v. \<not> is_nan v) bs"
    using us vs real by (auto simp: assms(4,5) list_all_iff)
  have sets: "py_key ` set as = py_key ` fst ` set pairs" "py_key ` set bs = py_key ` snd ` set pairs"
    using us vs by (simp_all add: assms(4,5))
  have "py_key a \<in> py_key ` set as" "py_key b \<in> py_key ` set bs" if "(a, b) \<in> set pairs" for a b
    unfolding sets using that by force+
  then have "list_all (\<lambda>(a, b). position a as < length as \<and> position b bs < length bs) pairs"
    using position_range [OF reals(1)] position_range [OF reals(2)] by (auto simp: list_all_iff)
  moreover have "table_of (length as) (length bs) (replicate (length as) (replicate (length bs) 0))"
    by (simp add: table_of_def list_all_iff)
  ultimately have "table_of (length as) (length bs) (contingency as bs pairs)
    \<and> contingency as bs pairs ! i ! j = length (filter (\<lambda>(a, b). position a as = i \<and> position b bs = j) pairs)"
    using fold_count_pair [of as bs _ pairs i j] assms(6,7) by (simp add: contingency_def)
  then show ?thesis
    using position_exact [OF keys(1) reals(1) assms(6)] position_exact [OF keys(2) reals(2) assms(7)]
    by (simp add: table_of_def)
qed

lemma contingency_exact_witness:
  "contingency [VStr ''a'', VStr ''b''] [VBool False, VBool True]
     [(VStr ''b'', VBool True), (VStr ''a'', VBool True), (VStr ''b'', VBool True), (VStr ''b'', VBool False)] ! 1 ! 1 = 2"
proof -
  let ?pairs = "[(VStr ''b'', VBool True), (VStr ''a'', VBool True), (VStr ''b'', VBool True), (VStr ''b'', VBool False)]"
  have "set_of_values (map fst ?pairs) = Inr [VStr ''b'', VStr ''a'']" "set_of_values (map snd ?pairs) = Inr [VBool True, VBool False]"
    "list_all (\<lambda>(a, b). \<not> is_nan a \<and> \<not> is_nan b) ?pairs"
    "[VStr ''a'', VStr ''b''] = sort_key category_key [VStr ''b'', VStr ''a'']"
    "[VBool False, VBool True] = sort_key category_key [VBool True, VBool False]"
    by code_simp+
  from contingency_exact [OF this, of 1 1] have "contingency [VStr ''a'', VStr ''b''] [VBool False, VBool True] ?pairs ! 1 ! 1
    = length (filter (\<lambda>(a, b). same_value a (VStr ''b'') \<and> same_value b (VBool True)) ?pairs)"
    by simp
  also have "\<dots> = 2" by code_simp
  finally show ?thesis .
qed

section \<open>Pairs across rows\<close>

text \<open>The two series of a correlation lose their NULLs each on its own, so that behind a NULL the values of
  different rows are paired. With the rows (NULL, 10), (1, 11), (2, 12), (3, 13) the pairs are (1, 10),
  (2, 11), (3, 12), and none of them is a row.\<close>

definition gap_column :: "uuid \<Rightarrow> string \<Rightarrow> db_column" where
  "gap_column i n = (key_column i 70 n False)\<lparr>data_type := ''decimal''\<rparr>"

definition gap_world :: world where
  "gap_world = (world_of (shop\<lparr>tenant_databases := [shop_database], db_tables := [orders_table],
       db_columns := [gap_column 90 ''x'', gap_column 91 ''y'']\<rparr>))
     \<lparr>env := base_env\<lparr>np := base_numerics\<lparr>to_float := (\<lambda>v. case v of VDecimal s \<Rightarrow> Inr s | _ \<Rightarrow> Inl TypeError)\<rparr>,
       pg := (\<lambda>n h s. Inr \<lparr>description = [], fetched = (if n = 0 \<or> n = 2 then [[VInt 4]]
         else if n = 1 then [[VNull], [VDecimal ''1''], [VDecimal ''2''], [VDecimal ''3'']]
         else [[VDecimal ''10''], [VDecimal ''11''], [VDecimal ''12''], [VDecimal ''13'']]), rowcount = 4\<rparr>)\<rparr>\<rparr>"

lemma correlation_pairs_different_rows:
  "\<exists>w'. paired_series orders_table (JObj [(''column_x'', JStr ''x''), (''column_y'', JStr ''y'')]) gap_world
     = (Inr \<lparr>pr_columns = (JStr ''x'', JStr ''y''), pr_x = [''1'', ''2'', ''3''], pr_y = [''10'', ''11'', ''12''],
         pr_truncated = False\<rparr>, w')"
  by (simp add: paired_series_def param_def json_item_def numeric_series_def get_column_def get_one_run catch_def bind_def
      columns_of_def names_column_def py_str_def require_types_def NUMERIC_TYPES_def fetch_column_def fetch_columns_def
      table_sql_def table_database_def tenant_select_def first_cell_def int_value_def first_cells_def is_none_def numpy_def
      require_min_n_def Let_def gap_world_def gap_column_def key_column_def orders_table_def)

end
