(* ===== verification/Dashboards.thy ===== *)
theory Dashboards
  imports Analytics
begin

text \<open>
  The services and views of analytics (\<open>analytics/services.py\<close>, \<open>views.py\<close>): running an operation or a
  profile, and dashboards, saved lists of widgets whose operations are run again, with their permission
  checks, every time the dashboard is rendered. A widget is the JSON object the client sent.
\<close>

section \<open>Analyses\<close>

definition require_read :: "user \<Rightarrow> db_table \<Rightarrow> string \<Rightarrow> unit app" where
  "require_read actor t action =
     bind (Table_organization_id t) (\<lambda>org.
     require actor ''database.read'' org (database_resource t) action ''db_table'' (uuid_str (tbl_id t)) ''''
       AnalyticsPermissionDenied)"

text \<open>\<open>OPERATIONS.get(operation)\<close>: a list or a dictionary is no key.\<close>

definition operation_named :: "json \<Rightarrow> exn + (db_table \<Rightarrow> json \<Rightarrow> json app) option" where
  "operation_named j = (case j of JStr s \<Rightarrow> Inr (map_of OPERATIONS s)
     | JList xs \<Rightarrow> Inl TypeError | JObj kvs \<Rightarrow> Inl TypeError | _ \<Rightarrow> Inr None)"

definition run_analysis :: "user \<Rightarrow> db_table \<Rightarrow> json \<Rightarrow> json \<Rightarrow> json app" where
  "run_analysis actor t operation params =
     bind (require_read actor t ''analytics.run'') (\<lambda>_.
     bind (lift (operation_named operation)) (\<lambda>fn. case fn of
       None \<Rightarrow> raise AnalyticsValidationError
     | Some f \<Rightarrow>
         bind (catch (f t (if truthy params then params else JObj []))
           (\<lambda>e. if e = KeyError \<or> e = TypeError \<or> e = ValueError then raise AnalyticsValidationError else raise e)) (\<lambda>res.
         bind (Table_organization_id t) (\<lambda>org.
         bind (audit_record (Some actor) (Some org) ''analytics.run'' ''db_table'' (uuid_str (tbl_id t)) '''' Success
           [(''operation'', operation), (''params'', params)]) (\<lambda>_.
         ret res)))))"

definition run_profile :: "user \<Rightarrow> db_table \<Rightarrow> json app" where
  "run_profile actor t =
     bind (require_read actor t ''analytics.profile'') (\<lambda>_.
     bind (profile_table t) (\<lambda>res.
     bind (Table_organization_id t) (\<lambda>org.
     bind (audit_record (Some actor) (Some org) ''analytics.profile'' ''db_table'' (uuid_str (tbl_id t)) '''' Success []) (\<lambda>_.
     ret res))))"

section \<open>Dashboards\<close>

definition dashboard_organizations :: "control \<Rightarrow> dashboard \<Rightarrow> uuid list" where
  "dashboard_organizations c b = [org. d \<leftarrow> tenant_databases c, tdb_id d = dash_database b,
     org \<leftarrow> database_organizations c d]"

definition get_member_dashboard :: "user \<Rightarrow> uuid \<Rightarrow> dashboard app" where
  "get_member_dashboard user i = or_404 (get_one (
     member_rows dashboards dash_id dashboard_organizations (user_id user) i))"

interpretation dashboard_lookup: member_lookup get_member_dashboard dashboards dash_id dashboard_organizations
  by (rule member_lookup_join) (rule get_member_dashboard_def)

definition dashboard_clash :: "dashboard \<Rightarrow> dashboard \<Rightarrow> bool" where
  "dashboard_clash r x \<longleftrightarrow> dash_id x = dash_id r \<or> (dash_database x = dash_database r \<and> dash_name x = dash_name r)"

interpretation dashboard_table: orm_table dashboards dashboards_update dashboard_clash
  by unfold_locales (auto simp: dashboard_clash_def)

definition dashboard_database :: "dashboard \<Rightarrow> tenant_database app" where
  "dashboard_database b = get_one (\<lambda>c. filter (\<lambda>d. tdb_id d = dash_database b) (tenant_databases c))"

definition Dashboard_organization_id :: "dashboard \<Rightarrow> uuid app" where
  "Dashboard_organization_id b = bind (dashboard_database b) Database_organization_id"

definition require_analyze :: "user \<Rightarrow> tenant_database \<Rightarrow> string \<Rightarrow> unit app" where
  "require_analyze actor d action =
     bind (Database_organization_id d) (\<lambda>org.
     require actor ''dataset.analyze'' org None action ''tenant_database'' (uuid_str (tdb_id d)) '''' AnalyticsPermissionDenied)"

text \<open>A JSON value in a lookup by a UUID column: text and integers are parsed, \<open>None\<close> matches nothing, what
  does not parse is a \<open>ValidationError\<close> of the model layer.\<close>

definition uuid_value :: "json \<Rightarrow> exn + uuid option" where
  "uuid_value j = (case j of
     JNull \<Rightarrow> Inr None
   | JStr s \<Rightarrow> (case uuid_parse s of Some u \<Rightarrow> Inr (Some u) | None \<Rightarrow> Inl CoreValidationError)
   | JInt i \<Rightarrow> if 0 \<le> i \<and> i < 2 ^ 128 then Inr (Some (word_of_int i)) else Inl CoreValidationError
   | JBool b \<Rightarrow> Inr (Some (if b then 1 else 0))
   | _ \<Rightarrow> Inl CoreValidationError)"

definition validate_widget :: "tenant_database \<Rightarrow> (string \<times> json) list \<Rightarrow> unit app" where
  "validate_widget d widget =
     (case (map_of widget ''table_id'', map_of widget ''operation'') of
       (Some table_id, Some operation) \<Rightarrow>
         bind (lift (operation_named operation)) (\<lambda>fn.
         bind (ensure (fn \<noteq> None) AnalyticsValidationError) (\<lambda>_.
         bind (lift (uuid_value table_id)) (\<lambda>i.
         bind (query (\<lambda>c. list_ex (\<lambda>t. Some (tbl_id t) = i \<and> tbl_database t = tdb_id d) (db_tables c))) (\<lambda>there.
         ensure there AnalyticsValidationError))))
     | _ \<Rightarrow> raise AnalyticsValidationError)"

definition validate_widgets :: "tenant_database \<Rightarrow> (string \<times> json) list list \<Rightarrow> unit app" where
  "validate_widgets d = for_each (validate_widget d)"

definition create_dashboard :: "user \<Rightarrow> tenant_database \<Rightarrow> string \<Rightarrow> (string \<times> json) list list \<Rightarrow> dashboard app" where
  "create_dashboard actor d name widgets =
     bind (require_analyze actor d ''analytics.dashboard.create'') (\<lambda>_.
     bind (validate_widgets d widgets) (\<lambda>_.
     bind uuid4 (\<lambda>i.
     let b = \<lparr>dash_id = i, dash_database = tdb_id d, dash_name = name, dash_widgets = map JObj widgets,
           dash_created_by = user_id actor\<rparr> in
     bind (orm_create dashboards dashboards_update dashboard_clash b) (\<lambda>_.
     bind (Database_organization_id d) (\<lambda>org.
     bind (audit_record (Some actor) (Some org) ''analytics.dashboard.create'' ''dashboard'' (uuid_str i) '''' Success
       [(''name'', JStr name), (''widget_count'', JInt (int (length widgets)))]) (\<lambda>_.
     ret b))))))"

definition update_dashboard ::
  "user \<Rightarrow> dashboard \<Rightarrow> string option \<Rightarrow> (string \<times> json) list list option \<Rightarrow> dashboard app" where
  "update_dashboard actor b name widgets =
     bind (dashboard_database b) (\<lambda>d.
     bind (require_analyze actor d ''analytics.dashboard.update'') (\<lambda>_.
     bind (case widgets of None \<Rightarrow> ret () | Some ws \<Rightarrow> validate_widgets d ws) (\<lambda>_.
     let ws = (case widgets of None \<Rightarrow> dash_widgets b | Some ws \<Rightarrow> map JObj ws);
       n = (case name of None \<Rightarrow> dash_name b | Some n \<Rightarrow> n) in
     bind (orm_update dashboards dashboards_update dashboard_clash dash_id (dash_id b)
       (\<lambda>x. x\<lparr>dash_name := n, dash_widgets := ws\<rparr>)) (\<lambda>_.
     bind (Dashboard_organization_id b) (\<lambda>org.
     bind (audit_record (Some actor) (Some org) ''analytics.dashboard.update'' ''dashboard'' (uuid_str (dash_id b)) '''' Success [])
       (\<lambda>_.
     ret (b\<lparr>dash_name := n, dash_widgets := ws\<rparr>)))))))"

definition delete_dashboard :: "user \<Rightarrow> dashboard \<Rightarrow> unit app" where
  "delete_dashboard actor b =
     bind (dashboard_database b) (\<lambda>d.
     bind (require_analyze actor d ''analytics.dashboard.delete'') (\<lambda>_.
     bind (Dashboard_organization_id b) (\<lambda>org.
     bind (on_ctl (dashboards_update (delete_where (\<lambda>x. dash_id x = dash_id b)))) (\<lambda>_.
     audit_record (Some actor) (Some org) ''analytics.dashboard.delete'' ''dashboard'' (uuid_str (dash_id b)) '''' Success []))))"

section \<open>Rendering\<close>

definition widget_data :: "user \<Rightarrow> json \<Rightarrow> json app" where
  "widget_data actor widget =
     bind (param widget ''table_id'') (\<lambda>table_id.
     bind (lift (uuid_value table_id)) (\<lambda>i.
     bind (case i of None \<Rightarrow> raise Http404 | Some i \<Rightarrow> get_member_table actor i) (\<lambda>t.
     bind (param widget ''operation'') (\<lambda>operation.
     bind (lift (json_get widget ''params'' (JObj []))) (\<lambda>params.
     run_analysis actor t operation params)))))"

definition WIDGET_ERRORS :: "exn set" where
  "WIDGET_ERRORS = {Http404, AnalyticsPermissionDenied, AnalyticsValidationError}"

definition render_widget :: "user \<Rightarrow> json \<Rightarrow> json app" where
  "render_widget actor widget =
     bind (lift (json_get widget ''title'' (JStr ''''))) (\<lambda>title.
     bind (lift (json_get widget ''chart_type'' (JStr ''table''))) (\<lambda>chart_type.
     bind (attempt (widget_data actor widget)) (\<lambda>r. case r of
       Inr res \<Rightarrow> ret (JObj [(''title'', title), (''chart_type'', chart_type), (''data'', res)])
     | Inl e \<Rightarrow> if e \<in> WIDGET_ERRORS
         then bind (gets (\<lambda>w. exn_str (env w) e)) (\<lambda>text.
           ret (JObj [(''title'', title), (''chart_type'', chart_type), (''error'', JStr text)]))
         else raise e)))"

definition render_dashboard :: "user \<Rightarrow> dashboard \<Rightarrow> json app" where
  "render_dashboard actor b =
     bind (for_map (render_widget actor) (dash_widgets b)) (\<lambda>results.
     ret (JObj [(''id'', JStr (uuid_str (dash_id b))), (''name'', JStr (dash_name b)), (''widgets'', JList results)]))"

section \<open>Views\<close>

definition handle_analytics :: "'a app \<Rightarrow> ('a \<Rightarrow> response app) \<Rightarrow> response app" where
  "handle_analytics fn k = bind (attempt fn) (\<lambda>r. case r of Inr x \<Rightarrow> k x
     | Inl e \<Rightarrow> if e = AnalyticsPermissionDenied then respond 403 NoBody
         else if e = AnalyticsValidationError then detail_response 400 e else raise e)"

definition TableAnalyze_post :: "user \<Rightarrow> uuid \<Rightarrow> (string \<times> json) option \<Rightarrow> response app" where
  "TableAnalyze_post user i data =
     bind (get_member_table user i) (\<lambda>t.
     bind (validated data) (\<lambda>(operation, params).
     handle_analytics (run_analysis user t (JStr operation) params) (\<lambda>res. respond 200 (Data res))))"

definition TableProfile_get :: "user \<Rightarrow> uuid \<Rightarrow> response app" where
  "TableProfile_get user i =
     bind (get_member_table user i) (\<lambda>t.
     bind (attempt (run_profile user t)) (\<lambda>r. case r of Inr res \<Rightarrow> respond 200 (Data res)
       | Inl e \<Rightarrow> if e = AnalyticsPermissionDenied then respond 403 NoBody else raise e))"

definition DashboardList_get :: "user \<Rightarrow> uuid \<Rightarrow> response app" where
  "DashboardList_get user i =
     bind (get_member_tenant_database user i) (\<lambda>d.
     bind (by_text dash_name (\<lambda>c. filter (\<lambda>b. dash_database b = tdb_id d) (dashboards c))) (\<lambda>bs.
     respond 200 (DashboardsBody bs)))"

definition DashboardList_post :: "user \<Rightarrow> uuid \<Rightarrow> (string \<times> (string \<times> json) list list) option \<Rightarrow> response app" where
  "DashboardList_post user i data =
     bind (get_member_tenant_database user i) (\<lambda>d.
     bind (validated data) (\<lambda>(name, widgets).
     handle_analytics (create_dashboard user d name widgets) (\<lambda>b. respond 201 (DashboardBody b))))"

definition DashboardDetail_get :: "user \<Rightarrow> uuid \<Rightarrow> response app" where
  "DashboardDetail_get user i = bind (get_member_dashboard user i) (\<lambda>b. respond 200 (DashboardBody b))"

definition DashboardDetail_patch ::
  "user \<Rightarrow> uuid \<Rightarrow> (string option \<times> (string \<times> json) list list option) option \<Rightarrow> response app" where
  "DashboardDetail_patch user i data =
     bind (get_member_dashboard user i) (\<lambda>b.
     bind (validated data) (\<lambda>(name, widgets).
     handle_analytics (update_dashboard user b name widgets) (\<lambda>b. respond 200 (DashboardBody b))))"



definition DashboardDetail_delete :: "user \<Rightarrow> uuid \<Rightarrow> response app" where
  "DashboardDetail_delete user i =
     bind (get_member_dashboard user i) (\<lambda>b.
     bind (attempt (delete_dashboard user b)) (\<lambda>r. case r of Inr _ \<Rightarrow> respond 204 NoBody
       | Inl e \<Rightarrow> if e = AnalyticsPermissionDenied then respond 403 NoBody else raise e))"

definition DashboardRender_get :: "user \<Rightarrow> uuid \<Rightarrow> response app" where
  "DashboardRender_get user i =
     bind (get_member_dashboard user i) (\<lambda>b.
     bind (render_dashboard user b) (\<lambda>res. respond 200 (Data res)))"

section \<open>Analytics only reads\<close>

text \<open>From \<open>v\<close> on, only the audit log has grown.\<close>

definition logged :: "world \<Rightarrow> world \<Rightarrow> bool" where
  "logged v w \<longleftrightarrow> (\<exists>es. ctl w = audit_events_update (\<lambda>as. as @ es) (ctl v)) \<and> tnt w = tnt v \<and> objects w = objects v
     \<and> tasks w = tasks v \<and> disk w = disk v \<and> env w = env v"

lemma logged_refl [simp]: "logged w w"
  by (auto simp: logged_def intro!: exI [of _ "[]"])

lemma logged_unchanged: "logged v w \<Longrightarrow> unchanged w u \<Longrightarrow> logged v u"
  by (simp add: logged_def unchanged_def)

lemma keeps_logged: "(\<And>w. preserves (unchanged w) m) \<Longrightarrow> preserves (logged v) m"
  by (rule preservesI) (metis logged_unchanged preserves_def unchanged_refl)

lemma logged_event: "logged v w \<Longrightarrow> logged v (log_event e w)"
  by (auto simp: logged_def log_event_def comp_def intro: exI [of _ "_ @ [e]"])

lemma keeps_logged_audit [keeps]:
  "preserves (logged v) (audit_record actor org action rtype rid request_id res context)"
  by (rule preservesI) (simp add: audit_record_run logged_event)

lemma keeps_logged_require [keeps]:
  "preserves (logged v) (require actor code org resource action rtype rid request_id err)"
  by (rule preservesI) (simp add: require_run logged_event)

lemma Table_organization_id_keeps [keeps]: "preserves (unchanged v) (Table_organization_id t)"
  unfolding Table_organization_id_def table_database_def Database_organization_id_def organization_of_project_def
    Project_organization_id_def by (intro keeps)

lemma get_member_table_keeps [keeps]: "preserves (unchanged v) (get_member_table u i)"
  unfolding get_member_table_def or_404_def by (intro keeps)

lemma get_member_dashboard_keeps [keeps]: "preserves (unchanged v) (get_member_dashboard u i)"
  unfolding get_member_dashboard_def or_404_def by (intro keeps)

lemma operation_keeps: "operation_named j = Inr (Some f) \<Longrightarrow> preserves (unchanged v) (f t params)"
  by (auto simp: operation_named_def split: json.splits intro: keeps_operation)

lemma keeps_logged_require_read [keeps]: "preserves (logged v) (require_read actor t action)"
  unfolding require_read_def by (intro keeps keeps_logged [OF Table_organization_id_keeps])

lemma keeps_logged_analysis [keeps]: "preserves (logged v) (run_analysis actor t operation params)"
proof -
  have named: "gives (logged v) (\<lambda>x. operation_named operation = Inr x) (lift (operation_named operation))"
    by (rule gives_lift) assumption
  show ?thesis
    unfolding run_analysis_def
    by (rule gives_True, rule gives_bind_anything, intro keeps, rule gives_bind [OF named], rule gives_case_option,
        rule gives_raise, rule gives_keeps)
      (intro keeps keeps_logged [OF Table_organization_id_keeps] keeps_logged [OF operation_keeps], simp_all)
qed

lemma keeps_logged_profile [keeps]: "preserves (logged v) (run_profile actor t)"
  unfolding run_profile_def by (intro keeps keeps_logged [OF Table_organization_id_keeps] keeps_logged [OF keeps_profile])

lemma keeps_logged_render [keeps]:
  "preserves (logged v) (widget_data actor widget)" "preserves (logged v) (render_widget actor widget)"
  "preserves (logged v) (render_dashboard actor b)"
  unfolding widget_data_def render_widget_def render_dashboard_def param_def
  by (intro keeps keeps_logged [OF get_member_table_keeps])+

lemma keeps_handle_analytics [keeps]:
  "preserves I m \<Longrightarrow> (\<And>x. preserves I (k x)) \<Longrightarrow> preserves I (handle_analytics m k)"
  unfolding handle_analytics_def detail_response_def by (intro keeps)

lemma wp_logged: "preserves (logged w) m \<Longrightarrow> wp m (\<lambda>_ w'. logged w w') (\<lambda>_ w'. logged w w') w"
  using preservesD [of "logged w" m w] by (intro wpI) simp_all


section \<open>Analytics needs the permission to read\<close>

definition unread :: "'a app \<Rightarrow> world \<Rightarrow> bool" where
  "unread m w \<longleftrightarrow> pg_calls (snd (m w)) = pg_calls w \<and> tnt (snd (m w)) = tnt w"

definition refuses :: "response app \<Rightarrow> world \<Rightarrow> bool" where
  "refuses view w \<longleftrightarrow> unread view w
     \<and> (case fst (view w) of Inl e \<Rightarrow> e \<in> {Http404, DoesNotExist, MultipleObjectsReturned, ValidationError}
        | Inr r \<Rightarrow> r = Response 403 NoBody)"

abbreviation "lookup_errors \<equiv> {Http404, DoesNotExist, MultipleObjectsReturned}"

lemma require_read_refused:
  assumes "\<not> row_access w u i ''database.read''" and "get_member_table u i w = (Inr t, v)"
  obtains e w' where "require_read u t action w = (Inl e, w')" "e \<in> insert AnalyticsPermissionDenied lookup_errors"
    "pg_calls w' = pg_calls w" "tnt w' = tnt w" "env w' = env w"
proof -
  note found = table_lookup.lookup_Inr [OF assms(2)]
  obtain s x where org: "Table_organization_id t w = (s, x)" by (cases "Table_organization_id t w")
  have "x = w" using Table_organization_id_world org by blast
  show thesis
  proof (cases s)
    case (Inl e)
    with org Table_organization_id_errors [of t w e x] \<open>x = w\<close> show thesis
      by (intro that [of e w]) (auto simp: require_read_def bind_def)
  next
    case (Inr n)
    with org Table_organization_id_Inr have "table_organizations (ctl w) t = [n]" by blast
    with found(2-4) assms(1) have "\<not> permitted w (user_id u) ''database.read'' (Some n) (database_resource t)"
      by (auto simp: row_access_def)
    with org Inr \<open>x = w\<close> show thesis
      by (intro that [of AnalyticsPermissionDenied "log_event (denied_row w u n action ''db_table'' (uuid_str (tbl_id t)) '''') w"])
        (simp_all add: require_read_def bind_def require_run)
  qed
qed

text \<open>An analysis behind the lookup of the table and the check of the permission.\<close>

lemma analysis_refused:
  assumes "\<not> row_access w u i ''database.read''"
  shows "\<exists>e w'. bind (get_member_table u i) (\<lambda>t. bind (require_read u t action) (k t)) w = (Inl e, w')
    \<and> e \<in> insert AnalyticsPermissionDenied lookup_errors \<and> pg_calls w' = pg_calls w \<and> tnt w' = tnt w"
proof -
  obtain r v where found: "get_member_table u i w = (r, v)" by (cases "get_member_table u i w")
  have "v = w" using table_lookup.lookup_keeps [of u i w] found by simp
  show ?thesis
  proof (cases r)
    case (Inl e)
    with found lookup_table_errors [of u i w e v] \<open>v = w\<close> show ?thesis by (auto simp: bind_def)
  next
    case (Inr t)
    obtain e w' where "require_read u t action w = (Inl e, w')" "e \<in> insert AnalyticsPermissionDenied lookup_errors"
      "pg_calls w' = pg_calls w" "tnt w' = tnt w"
      using require_read_refused [OF assms found [unfolded Inr], of action] by metis
    with found Inr \<open>v = w\<close> show ?thesis by (simp add: bind_def)
  qed
qed

lemma run_analysis_behind_check:
  "bind (get_member_table u i) (\<lambda>t. run_analysis u t operation params)
    = bind (get_member_table u i) (\<lambda>t. bind (require_read u t ''analytics.run'') (\<lambda>_.
        bind (lift (operation_named operation)) (\<lambda>fn. case fn of
          None \<Rightarrow> raise AnalyticsValidationError
        | Some f \<Rightarrow>
            bind (catch (f t (if truthy params then params else JObj []))
              (\<lambda>e. if e = KeyError \<or> e = TypeError \<or> e = ValueError then raise AnalyticsValidationError else raise e)) (\<lambda>res.
            bind (Table_organization_id t) (\<lambda>org.
            bind (audit_record (Some u) (Some org) ''analytics.run'' ''db_table'' (uuid_str (tbl_id t)) '''' Success
              [(''operation'', operation), (''params'', params)]) (\<lambda>_.
            ret res))))))"
  by (simp add: run_analysis_def)

lemma run_analysis_refused:
  assumes "\<not> row_access w u i ''database.read''"
  shows "\<exists>e w'. bind (get_member_table u i) (\<lambda>t. run_analysis u t operation params) w = (Inl e, w')
    \<and> e \<in> insert AnalyticsPermissionDenied lookup_errors \<and> pg_calls w' = pg_calls w \<and> tnt w' = tnt w"
  unfolding run_analysis_behind_check by (rule analysis_refused [OF assms])

lemma run_profile_refused:
  assumes "\<not> row_access w u i ''database.read''"
  shows "\<exists>e w'. bind (get_member_table u i) (\<lambda>t. run_profile u t) w = (Inl e, w')
    \<and> e \<in> insert AnalyticsPermissionDenied lookup_errors \<and> pg_calls w' = pg_calls w \<and> tnt w' = tnt w"
  unfolding run_profile_def by (rule analysis_refused [OF assms])

text \<open>What a view makes of a failure behind the lookup.\<close>

lemma refusesI:
  assumes "bind (get_member_table u i) m w = (Inl e, w')" and "e \<in> insert AnalyticsPermissionDenied lookup_errors"
    and "pg_calls w' = pg_calls w" "tnt w' = tnt w"
    and "\<And>t v. m t v = (Inl AnalyticsPermissionDenied, w') \<Longrightarrow> k t v = (Inr (Response 403 NoBody), w')"
    and "\<And>t v e. m t v = (Inl e, w') \<Longrightarrow> e \<in> lookup_errors \<Longrightarrow> k t v = (Inl e, w')"
  shows "refuses (bind (get_member_table u i) k) w"
proof (cases "get_member_table u i w")
  case (Pair r v)
  show ?thesis
  proof (cases r)
    case (Inl e')
    with Pair assms(1-4) lookup_table_errors [of u i w e' v] show ?thesis by (auto simp: bind_def refuses_def unread_def)
  next
    case (Inr t)
    with Pair assms(1) have "m t v = (Inl e, w')" by (simp add: bind_def)
    with assms(2) assms(5,6) [of t v] have "k t v = (if e = AnalyticsPermissionDenied then Inr (Response 403 NoBody) else Inl e, w')"
      by auto
    with Pair Inr assms(2-4) show ?thesis by (auto simp: bind_def refuses_def unread_def)
  qed
qed

lemma widget_refused:
  assumes "\<not> row_access w u i ''database.read''"
  shows "\<exists>e w'. widget_data u (JObj ((''table_id'', JStr (uuid_str i)) # others)) w = (Inl e, w')
    \<and> pg_calls w' = pg_calls w \<and> tnt w' = tnt w"
proof (cases "map_of others ''operation''")
  case None
  obtain r v where found: "get_member_table u i w = (r, v)" by (cases "get_member_table u i w")
  have "v = w" using table_lookup.lookup_keeps [of u i w] found by simp
  then show ?thesis
    using found None by (cases r) (simp_all add: widget_data_def param_def json_item_def uuid_value_def bind_def)
next
  case (Some operation)
  let ?params = "case map_of others ''params'' of None \<Rightarrow> JObj [] | Some p \<Rightarrow> p"
  have "widget_data u (JObj ((''table_id'', JStr (uuid_str i)) # others)) w
    = bind (get_member_table u i) (\<lambda>t. run_analysis u t operation ?params) w"
    by (simp add: widget_data_def param_def json_item_def json_get_def uuid_value_def bind_def Some)
  with run_analysis_refused [OF assms, of operation ?params] show ?thesis by auto
qed

text \<open>C38. Analysis shows nothing the reader could not read. To a user without \<open>database.read\<close> on the database of
  a table, an analysis or a profile of it answers with a 403 or a 404 and sends no query; and a widget on
  that table, in whatever dashboard, shows an error and no data, though others may have saved it.\<close>

theorem analytics_guarded:
  "if row_access w u i ''database.read'' then True
   else refuses (TableAnalyze_post u i data) w \<and> refuses (TableProfile_get u i) w
     \<and> unread (render_widget u (JObj ((''table_id'', JStr (uuid_str i)) # others))) w
     \<and> (case fst (render_widget u (JObj ((''table_id'', JStr (uuid_str i)) # others)) w) of
          Inl e \<Rightarrow> True | Inr j \<Rightarrow> field j ''data'' = None \<and> field j ''error'' \<noteq> None)"
proof (cases "row_access w u i ''database.read''")
  case False
  have "refuses (TableAnalyze_post u i data) w"
  proof (cases data)
    case None
    obtain r v where found: "get_member_table u i w = (r, v)" by (cases "get_member_table u i w")
    have "v = w" using table_lookup.lookup_keeps [of u i w] found by simp
    with found None lookup_table_errors [of u i w] show ?thesis
      by (cases r) (auto simp: refuses_def unread_def TableAnalyze_post_def bind_def)
  next
    case (Some d)
    obtain operation params where d: "d = (operation, params)" by (cases d)
    from run_analysis_refused [OF False, of "JStr operation" params] obtain e w' where
      "bind (get_member_table u i) (\<lambda>t. run_analysis u t (JStr operation) params) w = (Inl e, w')"
      "e \<in> insert AnalyticsPermissionDenied lookup_errors" "pg_calls w' = pg_calls w" "tnt w' = tnt w" by blast
    then show ?thesis
      unfolding TableAnalyze_post_def Some d validated_simps
      by (rule refusesI) (auto simp: handle_analytics_def attempt_def bind_def)
  qed
  moreover have "refuses (TableProfile_get u i) w"
  proof -
    from run_profile_refused [OF False] obtain e w' where "bind (get_member_table u i) (\<lambda>t. run_profile u t) w = (Inl e, w')"
      "e \<in> insert AnalyticsPermissionDenied lookup_errors" "pg_calls w' = pg_calls w" "tnt w' = tnt w" by blast
    then show ?thesis
      unfolding TableProfile_get_def by (rule refusesI) (auto simp: attempt_def bind_def)
  qed
  moreover obtain e w' where "widget_data u (JObj ((''table_id'', JStr (uuid_str i)) # others)) w = (Inl e, w')"
    "pg_calls w' = pg_calls w" "tnt w' = tnt w"
    using widget_refused [OF False, of others] by blast
  ultimately show ?thesis
    using False by (simp add: unread_def render_widget_def json_get_def attempt_def bind_def field_def)
qed simp

end
