(* ===== verification/System.thy ===== *)
theory System
  imports Backups Accounts
begin

text \<open>
  The rest of the \<open>system\<close> application: the least-privilege role for the tenant cluster
  (\<open>tenant_role.py\<close>), the health endpoints (\<open>views.py\<close>), the request identifier (\<open>middleware.py\<close>), the shape of
  errors (\<open>exceptions.py\<close>), the throttle an organization shares (\<open>throttling.py\<close>), and the command that makes
  the first administrator (\<open>accounts/management\<close>). What the framework
  decides (its own exception handler, the counting of requests) and whether a dependency answers are
  arguments.
\<close>

section \<open>The tenant role\<close>

definition tenant_db_settings :: "connection_params app" where
  "tenant_db_settings = gets (\<lambda>w. db_settings (worker (env w)) ''tenant'')"

definition ROLE_EXISTS :: "string \<Rightarrow> stmt" where
  "ROLE_EXISTS rname = (Composed [SQL ''SELECT 1 FROM pg_roles WHERE rolname = '', Placeholder], [VStr rname])"

definition CREATE_ROLE :: "string \<Rightarrow> string \<Rightarrow> stmt" where
  "CREATE_ROLE rname pw = (Composed [SQL ''CREATE ROLE '', Identifier rname, SQL '' WITH LOGIN PASSWORD '',
     Literal (VStr pw), SQL '' NOSUPERUSER NOCREATEDB NOCREATEROLE''], [])"

definition ALTER_ROLE :: "string \<Rightarrow> string \<Rightarrow> stmt" where
  "ALTER_ROLE rname pw = (Composed [SQL ''ALTER ROLE '', Identifier rname, SQL '' WITH LOGIN PASSWORD '',
     Literal (VStr pw)], [])"

definition GRANT_CONNECT :: "string \<Rightarrow> string \<Rightarrow> stmt" where
  "GRANT_CONNECT db rname = (Composed [SQL ''GRANT CONNECT, CREATE ON DATABASE '', Identifier db, SQL '' TO '',
     Identifier rname], [])"

definition REVOKE_PUBLIC :: "string \<Rightarrow> stmt" where
  "REVOKE_PUBLIC db = (Composed [SQL ''REVOKE CONNECT ON DATABASE '', Identifier db, SQL '' FROM PUBLIC''], [])"

text \<open>\<open>except psycopg.Error as exc: raise TenantRoleError\<close>.\<close>

definition role_errors :: "'a app \<Rightarrow> 'a app" where
  "role_errors m = catch m (\<lambda>e. case e of DbError _ \<Rightarrow> raise TenantRoleError | _ \<Rightarrow> raise e)"

definition bootstrap_connect :: "connection_params app" where
  "bootstrap_connect =
     bind tenant_db_settings (\<lambda>db.
     let params = admin_params db ''postgres'' in
     bind (dial params) (\<lambda>_. ret params))"

definition provision_role :: "string \<Rightarrow> string \<Rightarrow> unit app" where
  "provision_role rname pw =
     bind tenant_db_settings (\<lambda>db.
     role_errors (
       bind bootstrap_connect (\<lambda>conn.
       bind (remote_query conn (ROLE_EXISTS rname)) (\<lambda>found.
       bind (ensure (fetched found = []) TenantRoleError) (\<lambda>_.
       bind (remote_query conn (CREATE_ROLE rname pw)) (\<lambda>_.
       bind (remote_query conn (GRANT_CONNECT (cp_database db) rname)) (\<lambda>_.
       bind (remote_query conn (REVOKE_PUBLIC (cp_database db))) (\<lambda>_.
       ret ()))))))))"

definition ensure_role :: "string \<Rightarrow> string \<Rightarrow> unit app" where
  "ensure_role rname pw =
     bind tenant_db_settings (\<lambda>db.
     role_errors (
       bind bootstrap_connect (\<lambda>conn.
       bind (remote_query conn (ROLE_EXISTS rname)) (\<lambda>found.
       bind (if fetched found \<noteq> [] then remote_query conn (ALTER_ROLE rname pw)
             else remote_query conn (CREATE_ROLE rname pw)) (\<lambda>_.
       bind (remote_query conn (GRANT_CONNECT (cp_database db) rname)) (\<lambda>_.
       bind (remote_query conn (REVOKE_PUBLIC (cp_database db))) (\<lambda>_.
       ret ())))))))"

text \<open>No exception of the driver, whose text may hold credentials, leaves either of them.\<close>

lemma role_errors_only:
  "wp m (\<lambda>_ _. True) (\<lambda>e _. e = TenantRoleError \<or> (\<exists>d. e = DbError d)) w \<Longrightarrow>
     wp (role_errors m) (\<lambda>_ _. True) (\<lambda>e _. e = TenantRoleError) w"
  by (auto simp: wp_def role_errors_def catch_def split: prod.splits sum.splits exn.splits)

lemma wp_remote:
  "(\<And>r v. Q r v) \<Longrightarrow> (\<And>d v. E (DbError d) v) \<Longrightarrow> wp (remote_query c s) Q E w"
  "(\<And>p v. Q' p v) \<Longrightarrow> (\<And>d v. E (DbError d) v) \<Longrightarrow> wp bootstrap_connect Q' E w"
  by (auto simp: wp_def remote_query_def bootstrap_connect_def tenant_db_settings_def dial_def bind_def Let_def
      split: sum.splits option.splits)

lemma tenant_role_errors:
  "wp (provision_role rname pw) (\<lambda>_ _. True) (\<lambda>e _. e = TenantRoleError) w"
  "wp (ensure_role rname pw) (\<lambda>_ _. True) (\<lambda>e _. e = TenantRoleError) w"
  unfolding provision_role_def ensure_role_def tenant_db_settings_def
  by (auto intro!: role_errors_only wp_remote)

section \<open>Health\<close>

text \<open>\<open>probe\<close> is the error \<open>SELECT 1\<close> on a connection ends with; \<open>ping\<close> whether the broker answers.\<close>

fun database_checks :: "(string \<Rightarrow> db_error option) \<Rightarrow> string list \<Rightarrow> exn + (string \<times> bool) list" where
  "database_checks probe [] = Inr []"
| "database_checks probe (alias # aliases) =
    (case probe alias of
       None \<Rightarrow> map_sum id (\<lambda>cs. (''database:'' @ alias, True) # cs) (database_checks probe aliases)
     | Some OperationalError \<Rightarrow> map_sum id (\<lambda>cs. (''database:'' @ alias, False) # cs) (database_checks probe aliases)
     | Some e \<Rightarrow> Inl (DbError e))"

definition dependency_checks :: "(string \<Rightarrow> db_error option) \<Rightarrow> bool \<Rightarrow> exn + (string \<times> bool) list \<times> bool" where
  "dependency_checks probe ping = map_sum id (\<lambda>cs. let checks = cs @ [(''valkey'', ping)] in (checks, list_all snd checks))
     (database_checks probe [''default'', ''tenant''])"

definition Healthz_get :: "response app" where
  "Healthz_get = respond 200 (Data (JObj [(''status'', JStr ''ok'')]))"

definition Readyz_get :: "(string \<Rightarrow> db_error option) \<Rightarrow> bool \<Rightarrow> response app" where
  "Readyz_get probe ping =
     bind (lift (dependency_checks probe ping)) (\<lambda>(checks, healthy).
     respond (if healthy then 200 else 503)
       (Data (JObj [(''status'', JStr (if healthy then ''ok'' else ''unavailable'')),
         (''checks'', JObj (map (\<lambda>(name, up). (name, JStr (if up then ''ok'' else ''unreachable''))) checks))])))"

definition metrics_lines :: "(string \<times> bool) list \<Rightarrow> string list" where
  "metrics_lines checks =
     [''# HELP pdc_dependency_up Whether a backend dependency is reachable (1) or not (0).'',
      ''# TYPE pdc_dependency_up gauge'']
     @ map (\<lambda>(name, up). ''pdc_dependency_up{dependency='' @ [CHR 0x22] @ name @ [CHR 0x22] @ ''} '' @ (if up then ''1'' else ''0''))
         checks"

definition Metrics_get :: "(string \<Rightarrow> db_error option) \<Rightarrow> bool \<Rightarrow> response app" where
  "Metrics_get probe ping =
     bind (lift (dependency_checks probe ping)) (\<lambda>(checks, _).
     respond 200 (Data (JStr (join_with [CHR 0x0A] (metrics_lines checks) @ [CHR 0x0A]))))"

text \<open>Ready exactly when every dependency answers; unavailable is said, not hidden.\<close>

lemma Readyz_exact:
  assumes "\<And>a. probe a \<in> {None, Some OperationalError}"
  shows "\<exists>b. Readyz_get probe ping w
    = (Inr (Response (if probe ''default'' = None \<and> probe ''tenant'' = None \<and> ping then 200 else 503) b), w)"
  using assms [of "''default''"] assms [of "''tenant''"]
  by (auto simp: Readyz_get_def dependency_checks_def Let_def bind_def)

section \<open>Requests\<close>

text \<open>\<open>incoming or str(uuid.uuid4())\<close>; the identifier is attached to the request and to its response.\<close>

definition RequestIDMiddleware :: "string option \<Rightarrow> (string \<Rightarrow> 'r app) \<Rightarrow> ('r \<times> string) app" where
  "RequestIDMiddleware incoming get_response =
     bind (case incoming of Some s \<Rightarrow> if s = '''' then bind uuid4 (\<lambda>i. ret (uuid_str i)) else ret s
       | None \<Rightarrow> bind uuid4 (\<lambda>i. ret (uuid_str i))) (\<lambda>request_id.
     bind (get_response request_id) (\<lambda>response.
     ret (response, request_id)))"

text \<open>\<open>drf\<close> is the framework's handler, \<open>default_code\<close> the attribute of the exception class.\<close>

definition structured_exception_handler ::
  "(exn \<Rightarrow> (nat \<times> json) option) \<Rightarrow> (exn \<Rightarrow> string option) \<Rightarrow> exn \<Rightarrow> string option \<Rightarrow> (nat \<times> json) app" where
  "structured_exception_handler drf default_code e attached =
     bind (case attached of Some s \<Rightarrow> if s = '''' then bind uuid4 (\<lambda>i. ret (uuid_str i)) else ret s
       | None \<Rightarrow> bind uuid4 (\<lambda>i. ret (uuid_str i))) (\<lambda>request_id.
     ret (case drf e of
       None \<Rightarrow> (500, JObj [(''error'', JObj [(''code'', JStr ''internal_error''),
         (''message'', JStr ''An unexpected error occurred.''), (''request_id'', JStr request_id)])])
     | Some (st, data) \<Rightarrow> (st, JObj [(''error'', JObj [
         (''code'', JStr (case default_code e of Some c \<Rightarrow> c | None \<Rightarrow> ''error'')), (''message'', data),
         (''request_id'', JStr request_id)])])))"

text \<open>An exception the framework does not know is answered without a word of its text.\<close>

lemma unknown_exceptions_alike:
  "drf e = None \<Longrightarrow> drf e' = None \<Longrightarrow>
     structured_exception_handler drf code e request_id = structured_exception_handler drf code e' request_id"
  by (simp add: structured_exception_handler_def)

section \<open>Throttling\<close>

text \<open>\<open>SimpleRateThrottle\<close>: the format of its cache keys, and \<open>admits\<close>, its decision for a key and a rate.\<close>

definition throttle_key :: "string \<Rightarrow> uuid \<Rightarrow> string" where
  "throttle_key scope organization_id = ''throttle_'' @ scope @ ''_'' @ uuid_str organization_id"

definition allow_request ::
  "string option \<Rightarrow> uuid option \<Rightarrow> (string \<Rightarrow> string option) \<Rightarrow> (string \<Rightarrow> string \<Rightarrow> bool) \<Rightarrow> bool" where
  "allow_request scope organization_id rate_of admits = (case scope of None \<Rightarrow> True | Some s \<Rightarrow>
     if s = '''' then True else case organization_id of None \<Rightarrow> True | Some i \<Rightarrow>
     case rate_of s of None \<Rightarrow> True | Some rate \<Rightarrow> admits (throttle_key s i) rate)"

text \<open>Organizations do not share a budget.\<close>

lemma budgets_separate: "throttle_key scope i = throttle_key scope j \<longleftrightarrow> i = j"
  using uuid_parse_str by (auto simp: throttle_key_def) (metis option.inject uuid_parse_str)

text \<open>\<open>ImportJobListCreateView.initial\<close> finds the organization of the throttle from the table the path names,
  without asking who makes the request; a refused request is answered with 429.\<close>

definition throttle_organization :: "uuid \<Rightarrow> control \<Rightarrow> uuid option" where
  "throttle_organization i c = (case [org. t \<leftarrow> db_tables c, tbl_id t = i, org \<leftarrow> table_organizations c t] of
     [] \<Rightarrow> None | org # _ \<Rightarrow> Some org)"

definition ImportJobList_initial ::
  "(string \<Rightarrow> string option) \<Rightarrow> (string \<Rightarrow> string \<Rightarrow> bool) \<Rightarrow> uuid \<Rightarrow> response app \<Rightarrow> response app" where
  "ImportJobList_initial rate_of admits i view =
     bind (query (throttle_organization i)) (\<lambda>org.
     if allow_request (Some ''import'') org rate_of admits then view else respond 429 NoBody)"

text \<open>Behind the throttle, tenant isolation has a gap: while the budget of an organization is spent, a stranger
  is answered differently for its tables and for tables that do not exist (and a stranger's requests
  spend the budget).\<close>

lemma throttle_reveals_tables:
  assumes "\<not> table_lookup.visible (ctl w) u i" and "\<not> table_lookup.visible (ctl w) u j"
    and "throttle_organization i (ctl w) = Some org" and "throttle_organization j (ctl w) = None"
    and "rate_of ''import'' = Some rate" and "\<not> admits (throttle_key ''import'' org) rate"
  shows "ImportJobList_initial rate_of admits i (ImportJobList_get u i) w = (Inr (Response 429 NoBody), w)"
    and "ImportJobList_initial rate_of admits j (ImportJobList_get u j) w = (Inl Http404, w)"
  using assms by (simp_all add: ImportJobList_initial_def allow_request_def bind_def ImportJobList_get_def table_lookup.stranger_404
      table_lookup.lookup_stranger)

section \<open>The first administrator\<close>

text \<open>The command creates or reuses an account and gives it the platform-wide role, in one transaction.
  \<open>passwords\<close> are the two that are typed; when they differ the command ends with a \<open>CommandError\<close> before
  anything is written, which is \<open>None\<close> here. \<open>first()\<close> orders by the primary key.\<close>

definition bootstrap_super_administrator :: "string \<Rightarrow> string \<times> string \<Rightarrow> user option app" where
  "bootstrap_super_administrator address passwords = atomic_default (
     let mail = normalize_email address in
     bind (gets (\<lambda>w. find (\<lambda>u. pg_upper (env w) (email u) = pg_upper (env w) mail) (sort_key user_id (users (ctl w))))) (\<lambda>found.
     bind (case found of
         Some u \<Rightarrow> ret (Some u)
       | None \<Rightarrow> if fst passwords \<noteq> snd passwords then ret None
           else bind (create_user mail (Some (fst passwords)) '''' '''') (\<lambda>u. ret (Some u))) (\<lambda>user. case user of
       None \<Rightarrow> ret None
     | Some u \<Rightarrow> bind (assign_role u ''super-administrator'' None None) (\<lambda>_. ret (Some u)))))"

text \<open>It fails as a whole: an account is not left behind without its role.\<close>

lemma bootstrap_atomic:
  "bootstrap_super_administrator address passwords w = (Inl e, w') \<Longrightarrow> ctl w' = ctl w"
  by (auto simp: bootstrap_super_administrator_def atomic_default_def split: prod.splits sum.splits)

end
